(* ===== verification/Prelude.thy ===== *)
theory Prelude
  imports
    Main
    "HOL-Library.Word"
    "HOL-Library.AList"
    "HOL-Library.Char_ord"
    "HOL-Library.List_Lexorder"
    "HOL-Library.Multiset"
begin

text \<open>
  Shared vocabulary of the development: the fixed-width integers of Go (\<open>int32\<close> and
  \<open>int64\<close> as \<open>int\<close> with the wrap-around written out), Go's truncating division,
  panics as values, Go maps as association lists with distinct keys (the list order is
  the iteration order, which Go leaves unspecified, so that a theorem about every list is a
  theorem about every iteration order), and the list lemmas the components share.
\<close>

named_theorems in_range \<open>facts that identify a wrapped value with the unwrapped one\<close>
named_theorems go_map \<open>rewrite rules for association-list maps\<close>

section \<open>Panics\<close>

text \<open>
  A Go function that can panic returns an \<open>exec\<close>: a panic ends the computation with its
  message, as an unrecovered panic ends the goroutine. \<open>sanityCheckFailed\<close> of
  zc_storage_error.go is \<open>sanityCheckFailed\<close> here.
\<close>

datatype 'a exec = Return 'a | Panic string

fun bind_exec :: "'a exec \<Rightarrow> ('a \<Rightarrow> 'b exec) \<Rightarrow> 'b exec" where
  "bind_exec (Return x) f = f x"
| "bind_exec (Panic m) f = Panic m"

fun is_panic :: "'a exec \<Rightarrow> bool" where
  "is_panic (Return x) = False"
| "is_panic (Panic m) = True"

definition sanityCheckFailed :: "string \<Rightarrow> 'a exec" where
  "sanityCheckFailed msg = Panic (''Sanity check failed: '' @ msg)"

text \<open>Dereferencing a nil pointer and indexing out of range.\<close>

definition nil_deref :: "'a exec" where
  "nil_deref = Panic ''runtime error: invalid memory address or nil pointer dereference''"

definition index_panic :: "'a exec" where
  "index_panic = Panic ''runtime error: index out of range''"

lemma bind_exec_eq_Return [simp]:
  "bind_exec m f = Return y \<longleftrightarrow> (\<exists>x. m = Return x \<and> f x = Return y)"
  by (cases m) auto

lemma is_panic_iff: "is_panic m \<longleftrightarrow> (\<forall>x. m \<noteq> Return x)"
  by (cases m) auto

lemma sanityCheckFailed_not_Return [simp]: "sanityCheckFailed msg \<noteq> Return x"
  by (simp add: sanityCheckFailed_def)

lemma runtime_panic_not_Return [simp]: "nil_deref \<noteq> Return x" "index_panic \<noteq> Return x"
  by (simp_all add: nil_deref_def index_panic_def)

section \<open>Fixed-width integers\<close>

definition wrap64 :: "int \<Rightarrow> int" where
  "wrap64 x = (x + 2 ^ 63) mod 2 ^ 64 - 2 ^ 63"

definition wrap32 :: "int \<Rightarrow> int" where
  "wrap32 x = (x + 2 ^ 31) mod 2 ^ 32 - 2 ^ 31"

definition is_int64 :: "int \<Rightarrow> bool" where
  "is_int64 x \<longleftrightarrow> - (2 ^ 63) \<le> x \<and> x < 2 ^ 63"

definition is_int32 :: "int \<Rightarrow> bool" where
  "is_int32 x \<longleftrightarrow> - (2 ^ 31) \<le> x \<and> x < 2 ^ 31"

lemma is_int64_wrap64 [simp]: "is_int64 (wrap64 x)"
proof -
  have "0 \<le> (x + 2 ^ 63) mod (2 ^ 64 :: int)" "(x + 2 ^ 63) mod (2 ^ 64 :: int) < 2 ^ 64"
    by simp_all
  then show ?thesis unfolding is_int64_def wrap64_def by simp
qed

lemma is_int32_wrap32 [simp]: "is_int32 (wrap32 x)"
proof -
  have "0 \<le> (x + 2 ^ 31) mod (2 ^ 32 :: int)" "(x + 2 ^ 31) mod (2 ^ 32 :: int) < 2 ^ 32"
    by simp_all
  then show ?thesis unfolding is_int32_def wrap32_def by simp
qed

lemma wrap64_id [in_range]: "is_int64 x \<Longrightarrow> wrap64 x = x"
  by (simp add: is_int64_def wrap64_def)

lemma wrap32_id [in_range]: "is_int32 x \<Longrightarrow> wrap32 x = x"
  by (simp add: is_int32_def wrap32_def)

lemma wrap64_nonneg: "0 \<le> x \<Longrightarrow> x < 2 ^ 63 \<Longrightarrow> wrap64 x = x"
  by (rule wrap64_id) (simp add: is_int64_def)

lemma wrap32_nonneg: "0 \<le> x \<Longrightarrow> x < 2 ^ 31 \<Longrightarrow> wrap32 x = x"
  by (rule wrap32_id) (simp add: is_int32_def)

text \<open>Go's integer division truncates towards zero.\<close>

definition go_div :: "int \<Rightarrow> int \<Rightarrow> int" where
  "go_div a b = sgn a * sgn b * (\<bar>a\<bar> div \<bar>b\<bar>)"

definition go_mod :: "int \<Rightarrow> int \<Rightarrow> int" where
  "go_mod a b = a - b * go_div a b"

lemma go_div_nonneg [simp]: "0 \<le> a \<Longrightarrow> 0 < b \<Longrightarrow> go_div a b = a div b"
  by (cases "a = 0") (simp_all add: go_div_def)

lemma int_div_facts:
  assumes "0 \<le> a" and "0 < (c :: int)"
  shows "a div c * c \<le> a" "a < a div c * c + c" "0 \<le> a div c" "a div c \<le> a"
proof -
  have eq: "a div c * c + a mod c = a" by simp
  have m: "0 \<le> a mod c" "a mod c < c" using assms(2) by simp_all
  show "a div c * c \<le> a" "a < a div c * c + c" using eq m by linarith+
  show p: "0 \<le> a div c" using assms by (simp add: pos_imp_zdiv_nonneg_iff)
  have "a div c * 1 \<le> a div c * c" using p assms(2) by (intro mult_left_mono) simp_all
  with eq m show "a div c \<le> a" by linarith
qed

section \<open>Go maps as association lists\<close>

text \<open>
  \<open>m[k] = v\<close> is \<^const>\<open>AList.update\<close>, \<open>delete(m, k)\<close> is \<^const>\<open>AList.delete\<close>, and a
  lookup is \<^const>\<open>map_of\<close>. A Go map never holds a key twice, which is \<open>go_map_ok\<close>.
\<close>

type_synonym ('k, 'v) go_map = "('k \<times> 'v) list"

definition go_map_ok :: "('k, 'v) go_map \<Rightarrow> bool" where
  "go_map_ok m \<longleftrightarrow> distinct (map fst m)"

lemma go_map_ok_Nil [simp]: "go_map_ok []"
  by (simp add: go_map_ok_def)

lemma go_map_ok_Cons [simp]: "go_map_ok ((k, v) # m) \<longleftrightarrow> k \<notin> fst ` set m \<and> go_map_ok m"
  by (simp add: go_map_ok_def)

lemma go_map_ok_update [simp]: "go_map_ok m \<Longrightarrow> go_map_ok (AList.update k v m)"
  by (simp add: go_map_ok_def distinct_update)

lemma go_map_ok_delete [simp]: "go_map_ok m \<Longrightarrow> go_map_ok (AList.delete k m)"
  by (simp add: go_map_ok_def distinct_delete)

lemma go_map_ok_filter [simp]: "go_map_ok m \<Longrightarrow> go_map_ok (filter P m)"
  by (simp add: go_map_ok_def distinct_map_filter)

lemma map_of_update_alist [go_map]:
  "map_of (AList.update k v m) k' = (if k' = k then Some v else map_of m k')"
  by (auto simp: update_conv' update_Some_unfold fun_upd_def)

lemma map_of_delete_alist [go_map]:
  "map_of (AList.delete k m) k' = (if k' = k then None else map_of m k')"
  by (simp add: delete_conv')

lemma update_fresh: "k \<notin> fst ` set m \<Longrightarrow> AList.update k v m = m @ [(k, v)]"
  by (induction m) auto

lemma go_map_ok_map_of: "go_map_ok m \<Longrightarrow> map_of m k = Some v \<longleftrightarrow> (k, v) \<in> set m"
  by (simp add: go_map_ok_def)

text \<open>Two representations of the same Go map differ only in their order.\<close>

lemma go_map_ok_mset_eq:
  assumes "go_map_ok m" and "mset m = mset m'"
  shows "go_map_ok m'"
proof -
  from assms(2) have "mset (map fst m) = mset (map fst m')"
    by (simp only: mset_map)
  with assms(1) show ?thesis
    unfolding go_map_ok_def by (metis mset_eq_imp_distinct_iff)
qed

lemma go_map_mset_eq_map_of:
  assumes "go_map_ok m" and "mset m = mset m'"
  shows "map_of m = map_of m'"
proof
  fix k
  have "set m = set m'" using assms(2) by (rule mset_eq_setD)
  then show "map_of m k = map_of m' k"
    using go_map_ok_map_of [OF assms(1)] go_map_ok_map_of [OF go_map_ok_mset_eq [OF assms]]
    by (metis not_Some_eq)
qed

section \<open>Codecs\<close>

text \<open>
  The contract several components offer: what one operation writes, another reads back.
  \<open>dec\<close> returns \<open>None\<close> where the source's parser reports an error or panics.
\<close>

locale codec =
  fixes valid :: "'a \<Rightarrow> bool" and enc :: "'a \<Rightarrow> 'b" and dec :: "'b \<Rightarrow> 'a option"
  assumes dec_enc: "valid x \<Longrightarrow> dec (enc x) = Some x"
begin

lemma enc_inj: "valid x \<Longrightarrow> valid y \<Longrightarrow> enc x = enc y \<longleftrightarrow> x = y"
  by (metis dec_enc option.inject)

lemma enc_range: "valid x \<Longrightarrow> \<exists>y. dec (enc x) = Some y \<and> enc y = enc x"
  by (simp add: dec_enc)

end

section \<open>Systems that run down\<close>

text \<open>
  A step relation with an invariant and a measure that every step decreases: no run is
  longer than the measure of its start.
\<close>

locale descending =
  fixes step :: "'s \<Rightarrow> 's \<Rightarrow> bool" and inv :: "'s \<Rightarrow> bool" and weight :: "'s \<Rightarrow> nat"
  assumes inv_step: "step s s' \<Longrightarrow> inv s \<Longrightarrow> inv s'"
    and weight_step: "step s s' \<Longrightarrow> inv s \<Longrightarrow> weight s' < weight s"
begin

lemma run_bounded:
  assumes "(step ^^ n) s s'" and "inv s"
  shows "inv s' \<and> n + weight s' \<le> weight s"
  using assms(1)
proof (induction n arbitrary: s')
  case (Suc n)
  from Suc.prems obtain t where "(step ^^ n) s t" and t: "step t s'" by auto
  with Suc.IH have "inv t" "n + weight t \<le> weight s" by auto
  with inv_step [OF t] weight_step [OF t] show ?case by auto
qed (use assms(2) in simp)

text \<open>If moreover every unfinished state can move, every run can be completed.\<close>

lemma completes:
  assumes "inv s" and progress: "\<And>t. inv t \<Longrightarrow> \<not> fin t \<Longrightarrow> \<exists>t'. step t t'"
  shows "\<exists>n s'. (step ^^ n) s s' \<and> fin s'"
  using assms(1)
proof (induction "weight s" arbitrary: s rule: less_induct)
  case less
  show ?case
  proof (cases "fin s")
    case True
    then have "(step ^^ 0) s s \<and> fin s" by simp
    then show ?thesis by blast
  next
    case False
    with progress less.prems obtain t where t: "step s t" by blast
    with less inv_step weight_step obtain n s' where "(step ^^ n) t s'" "fin s'" by meson
    with t have "(step ^^ Suc n) s s' \<and> fin s'" by (meson relpowp_Suc_I2)
    then show ?thesis by blast
  qed
qed

end

section \<open>Lists\<close>

lemma sort_mset_cong: "mset xs = mset ys \<Longrightarrow> sort xs = sort ys"
  by (rule properties_for_sort) simp_all

lemma takeWhile_append_stop:
  "(\<And>x. x \<in> set xs \<Longrightarrow> P x) \<Longrightarrow> \<not> P y \<Longrightarrow> takeWhile P (xs @ y # ys) = xs"
  by (induction xs) auto

lemma dropWhile_append_stop:
  "(\<And>x. x \<in> set xs \<Longrightarrow> P x) \<Longrightarrow> \<not> P y \<Longrightarrow> dropWhile P (xs @ y # ys) = y # ys"
  by (induction xs) auto

lemma fold_invariant_list:
  assumes "Q s" and "\<And>x s. x \<in> set xs \<Longrightarrow> Q s \<Longrightarrow> Q (f x s)"
  shows "Q (fold f xs s)"
  using assms by (induction xs arbitrary: s) auto

end
