(* ===== verification/Go_Strings.thy ===== *)
theory Go_Strings
  imports Prelude
begin

text \<open>
  The part of Go's string handling the package uses. A Go string is a sequence of bytes,
  which is what HOL's \<open>string\<close> (a list of 8-bit characters) is. A \<open>for range\<close> loop over a
  string visits its runes, so UTF-8 decoding is modelled as \<open>unicode/utf8\<close> does it: an
  invalid byte is the replacement rune of width one. The case tables of the Unicode
  character database are data, not code of the package: they are the fields of
  \<open>unicode_tables\<close>, used for runes above 127 only, and every function that consults them
  takes the record as its argument.
\<close>

section \<open>Bytes and runes\<close>

type_synonym rune = nat

definition byte_of :: "char \<Rightarrow> nat" where
  "byte_of c = of_char c"

lemma byte_of_less [simp]: "byte_of c < 256"
  by (simp add: byte_of_def)

lemma byte_of_eq_iff [simp]: "byte_of c = byte_of d \<longleftrightarrow> c = d"
  by (simp add: byte_of_def)

definition RuneError :: rune where
  "RuneError = 65533"

definition is_cont :: "nat \<Rightarrow> bool" where
  "is_cont b \<longleftrightarrow> 128 \<le> b \<and> b \<le> 191"

text \<open>
  \<open>utf8.DecodeRuneInString\<close> on the bytes of a string: the rune and its width.
\<close>

fun decode_rune :: "nat list \<Rightarrow> rune \<times> nat" where
  "decode_rune [] = (RuneError, 0)"
| "decode_rune (b0 # bs) =
     (if b0 < 128 then (b0, 1)
      else if 194 \<le> b0 \<and> b0 \<le> 223 then
        (case bs of
           b1 # _ \<Rightarrow> if is_cont b1 then ((b0 - 192) * 64 + (b1 - 128), 2) else (RuneError, 1)
         | [] \<Rightarrow> (RuneError, 1))
      else if 224 \<le> b0 \<and> b0 \<le> 239 then
        (case bs of
           b1 # b2 # _ \<Rightarrow>
             if is_cont b1 \<and> is_cont b2 \<and> (b0 = 224 \<longrightarrow> 160 \<le> b1) \<and> (b0 = 237 \<longrightarrow> b1 \<le> 159)
             then ((b0 - 224) * 4096 + (b1 - 128) * 64 + (b2 - 128), 3) else (RuneError, 1)
         | _ \<Rightarrow> (RuneError, 1))
      else if 240 \<le> b0 \<and> b0 \<le> 244 then
        (case bs of
           b1 # b2 # b3 # _ \<Rightarrow>
             if is_cont b1 \<and> is_cont b2 \<and> is_cont b3
                \<and> (b0 = 240 \<longrightarrow> 144 \<le> b1) \<and> (b0 = 244 \<longrightarrow> b1 \<le> 143)
             then ((b0 - 240) * 262144 + (b1 - 128) * 4096 + (b2 - 128) * 64 + (b3 - 128), 4)
             else (RuneError, 1)
         | _ \<Rightarrow> (RuneError, 1))
      else (RuneError, 1))"

text \<open>
  The pieces a \<open>for range\<close> loop visits: each rune with the bytes it was decoded from.
\<close>

fun rune_pieces :: "string \<Rightarrow> (rune \<times> string) list" where
  "rune_pieces [] = []"
| "rune_pieces (c # cs) =
     (let (r, w) = decode_rune (map byte_of (c # cs))
      in (r, c # take (w - 1) cs) # rune_pieces (drop (w - 1) cs))"

definition runes :: "string \<Rightarrow> rune list" where
  "runes s = map fst (rune_pieces s)"

text \<open>\<open>utf8.EncodeRune\<close>: surrogates and values out of range are the replacement rune.\<close>

definition encode_rune :: "rune \<Rightarrow> string" where
  "encode_rune r0 =
     (let r = (if 1114111 < r0 \<or> (55296 \<le> r0 \<and> r0 \<le> 57343) then RuneError else r0)
      in map char_of
       (if r \<le> 127 then [r]
        else if r \<le> 2047 then [192 + r div 64, 128 + r mod 64]
        else if r \<le> 65535 then [224 + r div 4096, 128 + r div 64 mod 64, 128 + r mod 64]
        else [240 + r div 262144, 128 + r div 4096 mod 64, 128 + r div 64 mod 64, 128 + r mod 64]))"

definition ascii :: "string \<Rightarrow> bool" where
  "ascii s \<longleftrightarrow> list_all (\<lambda>c. byte_of c < 128) s"

lemma ascii_simps [simp]:
  "ascii []"
  "ascii (c # s) \<longleftrightarrow> byte_of c < 128 \<and> ascii s"
  "ascii (s @ t) \<longleftrightarrow> ascii s \<and> ascii t"
  by (simp_all add: ascii_def)

lemma rune_pieces_ascii_Cons:
  "byte_of c < 128 \<Longrightarrow> rune_pieces (c # s) = (byte_of c, [c]) # rune_pieces s"
  by simp

lemma runes_ascii: "ascii s \<Longrightarrow> runes s = map byte_of s"
  by (induction s) (simp_all add: runes_def)

text \<open>A \<open>for range\<close> loop loses no byte: the pieces concatenate to the string.\<close>

lemma concat_rune_pieces: "concat (map snd (rune_pieces s)) = s"
  by (induction s rule: rune_pieces.induct)
     (auto simp: Let_def split: prod.splits simp del: decode_rune.simps)

text \<open>Only one-byte runes are below 128.\<close>

lemma decode_rune_small:
  "fst (decode_rune (b0 # bs)) < 128 \<Longrightarrow> b0 < 128"
  by (auto simp: RuneError_def is_cont_def split: if_splits list.splits)

lemma rune_pieces_Cons:
  "rune_pieces (c # cs) = (fst (decode_rune (map byte_of (c # cs))),
      c # take (snd (decode_rune (map byte_of (c # cs))) - 1) cs)
      # rune_pieces (drop (snd (decode_rune (map byte_of (c # cs))) - 1) cs)"
  by (simp only: rune_pieces.simps Let_def case_prod_unfold)

lemma runes_small_ascii: "(\<forall>r \<in> set (runes s). r < 128) \<Longrightarrow> ascii s"
proof (induction s)
  case (Cons c cs)
  have "fst (decode_rune (map byte_of (c # cs))) \<in> set (runes (c # cs))"
    by (simp only: runes_def rune_pieces_Cons) simp
  with Cons.prems have "fst (decode_rune (byte_of c # map byte_of cs)) < 128"
    by (simp only: list.map)
  then have b: "byte_of c < 128" by (rule decode_rune_small)
  then have "runes (c # cs) = byte_of c # runes cs" by (simp add: runes_def rune_pieces_ascii_Cons del: rune_pieces.simps)
  with Cons b show ?case by simp
qed simp

section \<open>Case\<close>

record unicode_tables =
  uni_lower :: "rune \<Rightarrow> rune"           \<comment> \<open>simple lower-case mapping\<close>
  uni_folds :: "rune \<Rightarrow> rune \<Rightarrow> bool"   \<comment> \<open>in one \<open>unicode.SimpleFold\<close> orbit\<close>

text \<open>Tables that leave every rune above 127 alone, for concrete evaluations.\<close>

definition ascii_tables :: unicode_tables where
  "ascii_tables = \<lparr>uni_lower = (\<lambda>r. r), uni_folds = (\<lambda>r s. False)\<rparr>"

definition lower_byte :: "nat \<Rightarrow> nat" where
  "lower_byte b = (if 65 \<le> b \<and> b \<le> 90 then b + 32 else b)"

definition lower_char :: "char \<Rightarrow> char" where
  "lower_char c = char_of (lower_byte (byte_of c))"

text \<open>\<open>unicode.ToLower\<close> and \<open>strings.ToLower\<close>.\<close>

definition rune_lower :: "unicode_tables \<Rightarrow> rune \<Rightarrow> rune" where
  "rune_lower u r = (if r < 128 then lower_byte r else uni_lower u r)"

definition ToLower :: "unicode_tables \<Rightarrow> string \<Rightarrow> string" where
  "ToLower u s =
     (if ascii s then map lower_char s
      else concat (map (\<lambda>r. encode_rune (rune_lower u r)) (runes s)))"

text \<open>\<open>strings.EqualFold\<close>.\<close>

definition rune_fold :: "unicode_tables \<Rightarrow> rune \<Rightarrow> rune \<Rightarrow> bool" where
  "rune_fold u r1 r2 =
     (r1 = r2 \<or>
      (let sr = min r1 r2; tr = max r1 r2
       in if tr < 128 then 65 \<le> sr \<and> sr \<le> 90 \<and> tr = sr + 32 else uni_folds u sr tr))"

definition EqualFold :: "unicode_tables \<Rightarrow> string \<Rightarrow> string \<Rightarrow> bool" where
  "EqualFold u s t = list_all2 (rune_fold u) (runes s) (runes t)"

lemma byte_of_lower_char [simp]: "byte_of (lower_char c) = lower_byte (byte_of c)"
proof -
  have "lower_byte (byte_of c) < 256"
    using byte_of_less [of c] by (simp add: lower_byte_def)
  then show ?thesis by (simp add: lower_char_def byte_of_def)
qed

lemma lower_byte_idem [simp]: "lower_byte (lower_byte b) = lower_byte b"
  by (simp add: lower_byte_def)

lemma lower_byte_less_128 [simp]: "lower_byte b < 128 \<longleftrightarrow> b < 128"
  by (auto simp: lower_byte_def)

lemma lower_char_idem [simp]: "lower_char (lower_char c) = lower_char c"
  by (simp flip: byte_of_eq_iff)

lemma ToLower_ascii: "ascii s \<Longrightarrow> ToLower u s = map lower_char s"
  by (simp add: ToLower_def)

lemma ascii_map_lower [simp]: "ascii (map lower_char s) \<longleftrightarrow> ascii s"
  by (simp add: ascii_def list.pred_map comp_def)

lemma ToLower_idem_ascii: "ascii s \<Longrightarrow> ToLower u (ToLower u s) = ToLower u s"
  by (simp add: ToLower_def comp_def)

lemma EqualFold_refl [simp]: "EqualFold u s s"
  by (simp add: EqualFold_def rune_fold_def list.rel_refl)

section \<open>Searching and joining\<close>

definition HasPrefix :: "string \<Rightarrow> string \<Rightarrow> bool" where
  "HasPrefix s p = (take (length p) s = p)"

definition HasSuffix :: "string \<Rightarrow> string \<Rightarrow> bool" where
  "HasSuffix s p = (length p \<le> length s \<and> drop (length s - length p) s = p)"

fun Contains :: "string \<Rightarrow> string \<Rightarrow> bool" where
  "Contains [] p = (p = [])"
| "Contains (c # cs) p = (HasPrefix (c # cs) p \<or> Contains cs p)"

text \<open>\<open>strings.Index\<close> for a one-byte separator; \<open>None\<close> is \<open>-1\<close>.\<close>

fun IndexByte :: "string \<Rightarrow> char \<Rightarrow> nat option" where
  "IndexByte [] x = None"
| "IndexByte (c # cs) x = (if c = x then Some 0 else map_option Suc (IndexByte cs x))"

text \<open>\<open>strings.Join\<close>.\<close>

fun Join :: "string list \<Rightarrow> string \<Rightarrow> string" where
  "Join [] sep = []"
| "Join [s] sep = s"
| "Join (s # t # ss) sep = s @ sep @ Join (t # ss) sep"

text \<open>\<open>strings.ContainsRune\<close> for a one-byte rune.\<close>

definition ContainsRune :: "string \<Rightarrow> char \<Rightarrow> bool" where
  "ContainsRune s c = list_ex (\<lambda>r. r = byte_of c) (runes s)"

lemma HasPrefix_iff: "HasPrefix s p \<longleftrightarrow> (\<exists>t. s = p @ t)"
  by (auto simp: HasPrefix_def) (metis append_take_drop_id)

lemma HasSuffix_iff: "HasSuffix s p \<longleftrightarrow> (\<exists>t. s = t @ p)"
  by (auto simp: HasSuffix_def) (metis append_take_drop_id)

lemma Contains_iff: "Contains s p \<longleftrightarrow> (\<exists>a b. s = a @ p @ b)"
proof (induction s)
  case Nil
  show ?case by auto
next
  case (Cons c s)
  show ?case
    by (auto simp: HasPrefix_iff Cons.IH Cons_eq_append_conv)
qed

lemma IndexByte_None_iff: "IndexByte s c = None \<longleftrightarrow> c \<notin> set s"
  by (induction s) auto

lemma IndexByte_SomeD:
  "IndexByte s c = Some i \<Longrightarrow>
     i < length s \<and> s = take i s @ c # drop (Suc i) s \<and> c \<notin> set (take i s)"
  by (induction s arbitrary: i) (auto split: if_splits)

lemma IndexByte_append: "c \<notin> set s \<Longrightarrow> IndexByte (s @ c # t) c = Some (length s)"
  by (induction s) auto

lemma Join_Cons: "Join (s # ss) sep = s @ concat (map (\<lambda>t. sep @ t) ss)"
  by (induction ss arbitrary: s) auto

section \<open>Numbers as text\<close>

text \<open>\<open>strconv.FormatInt(i, 10)\<close>, \<open>strconv.Itoa\<close> and the \<open>%d\<close> verb.\<close>

definition digit_char :: "nat \<Rightarrow> char" where
  "digit_char n = char_of (48 + n)"

fun dec_nat :: "nat \<Rightarrow> string" where
  "dec_nat n = (if n < 10 then [digit_char n] else dec_nat (n div 10) @ [digit_char (n mod 10)])"

declare dec_nat.simps [simp del]

definition FormatInt :: "int \<Rightarrow> string" where
  "FormatInt i = (if i < 0 then CHR ''-'' # dec_nat (nat (- i)) else dec_nat (nat i))"

definition FormatBool :: "bool \<Rightarrow> string" where
  "FormatBool b = (if b then ''true'' else ''false'')"

text \<open>The value of a string of decimal digits, as the service reads it.\<close>

definition digit_val :: "char \<Rightarrow> nat" where
  "digit_val c = byte_of c - 48"

definition is_digit :: "char \<Rightarrow> bool" where
  "is_digit c \<longleftrightarrow> 48 \<le> byte_of c \<and> byte_of c \<le> 57"

definition dec_val :: "string \<Rightarrow> nat" where
  "dec_val s = foldl (\<lambda>n c. 10 * n + digit_val c) 0 s"

lemma digit_char_props [simp]:
  "n < 10 \<Longrightarrow> byte_of (digit_char n) = 48 + n"
  "n < 10 \<Longrightarrow> digit_val (digit_char n) = n"
  "n < 10 \<Longrightarrow> is_digit (digit_char n)"
  by (simp_all add: digit_char_def byte_of_def digit_val_def is_digit_def)

lemma dec_nat_digits: "list_all is_digit (dec_nat n)"
  by (induction n rule: dec_nat.induct) (simp add: dec_nat.simps)

lemma dec_nat_nonempty [simp]: "dec_nat n \<noteq> []"
  by (subst dec_nat.simps) simp

lemma dec_val_append: "dec_val (s @ [c]) = 10 * dec_val s + digit_val c"
  by (simp add: dec_val_def)

lemma dec_val_dec_nat [simp]: "dec_val (dec_nat n) = n"
proof (induction n rule: dec_nat.induct)
  case (1 n)
  show ?case
  proof (cases "n < 10")
    case True
    then show ?thesis by (subst dec_nat.simps) (simp add: dec_val_def)
  next
    case False
    with 1 show ?thesis by (subst dec_nat.simps) (simp add: dec_val_append)
  qed
qed

lemma dec_nat_inj: "dec_nat m = dec_nat n \<Longrightarrow> m = n"
  by (metis dec_val_dec_nat)

lemma dec_nat_no_dash: "CHR ''-'' \<notin> set (dec_nat n)"
proof
  assume "CHR ''-'' \<in> set (dec_nat n)"
  with dec_nat_digits [of n] have "is_digit (CHR ''-'')" by (auto simp: list_all_iff)
  then show False by (simp add: is_digit_def byte_of_def)
qed

lemma FormatInt_inj: "FormatInt i = FormatInt j \<longleftrightarrow> i = j"
proof
  assume eq: "FormatInt i = FormatInt j"
  have neg: "FormatInt k = CHR ''-'' # s \<Longrightarrow> k < 0" for k s
    using dec_nat_no_dash [of "nat k"] by (auto simp: FormatInt_def split: if_splits)
  have "i < 0 \<longleftrightarrow> j < 0"
    using eq neg [of j] neg [of i] by (metis FormatInt_def)
  with eq show "i = j"
    by (auto simp: FormatInt_def split: if_splits dest!: dec_nat_inj)
qed simp

definition newline :: string where
  "newline = [CHR 0x0A]"

section \<open>Trimming\<close>

text \<open>\<open>unicode.IsSpace\<close> (the White\_Space property) and \<open>strings.TrimSpace\<close>.\<close>

definition IsSpace :: "rune \<Rightarrow> bool" where
  "IsSpace r \<longleftrightarrow> (9 \<le> r \<and> r \<le> 13) \<or> r = 32 \<or> r = 133 \<or> r = 160 \<or> r = 5760
     \<or> (8192 \<le> r \<and> r \<le> 8202) \<or> r = 8232 \<or> r = 8233 \<or> r = 8239 \<or> r = 8287 \<or> r = 12288"

definition TrimSpace :: "string \<Rightarrow> string" where
  "TrimSpace s =
     concat (map snd (rev (dropWhile (\<lambda>p. IsSpace (fst p))
       (rev (dropWhile (\<lambda>p. IsSpace (fst p)) (rune_pieces s))))))"

section \<open>Hexadecimal digits\<close>

definition upperhex :: "nat \<Rightarrow> char" where
  "upperhex n = char_of (if n < 10 then 48 + n else 55 + n)"

definition lowerhex :: "nat \<Rightarrow> char" where
  "lowerhex n = char_of (if n < 10 then 48 + n else 87 + n)"

definition ishex :: "char \<Rightarrow> bool" where
  "ishex c \<longleftrightarrow> (48 \<le> byte_of c \<and> byte_of c \<le> 57) \<or> (97 \<le> byte_of c \<and> byte_of c \<le> 102)
     \<or> (65 \<le> byte_of c \<and> byte_of c \<le> 70)"

definition unhex :: "char \<Rightarrow> nat" where
  "unhex c =
     (if 48 \<le> byte_of c \<and> byte_of c \<le> 57 then byte_of c - 48
      else if 97 \<le> byte_of c \<and> byte_of c \<le> 102 then byte_of c - 87
      else if 65 \<le> byte_of c \<and> byte_of c \<le> 70 then byte_of c - 55 else 0)"

lemma byte_of_char_of [simp]: "n < 256 \<Longrightarrow> byte_of (char_of n) = n"
  by (simp add: byte_of_def)

lemma char_of_byte_of [simp]: "char_of (byte_of c) = c"
  by (simp add: byte_of_def)

lemma upperhex_props [simp]:
  "n < 16 \<Longrightarrow> ishex (upperhex n)" "n < 16 \<Longrightarrow> unhex (upperhex n) = n"
  by (auto simp: upperhex_def ishex_def unhex_def)

lemma lowerhex_props [simp]:
  "n < 16 \<Longrightarrow> ishex (lowerhex n)" "n < 16 \<Longrightarrow> unhex (lowerhex n) = n"
  by (auto simp: lowerhex_def ishex_def unhex_def)

end
