(* ===== verification/Go_Url.thy ===== *)
theory Go_Url
  imports Go_Strings
begin

text \<open>
  The part of Go's \<open>net/url\<close> (release 1.12, the one the build uses) that the package calls:
  percent encoding, \<open>ParseQuery\<close>, the \<open>Values\<close> map with \<open>Get\<close>, \<open>Set\<close>, \<open>Add\<close>, \<open>Del\<close> and
  \<open>Encode\<close>, and the \<open>URL\<close> structure with \<open>EscapedPath\<close>, \<open>Query\<close> and \<open>String\<close>. The results
  here are that decoding inverts encoding, for single components and for whole queries.
\<close>

section \<open>Percent encoding\<close>

datatype url_mode = EncodePath | EncodeHost | EncodeQueryComponent | EncodeFragment

definition is_alnum :: "char \<Rightarrow> bool" where
  "is_alnum c \<longleftrightarrow> (97 \<le> byte_of c \<and> byte_of c \<le> 122) \<or> (65 \<le> byte_of c \<and> byte_of c \<le> 90)
     \<or> (48 \<le> byte_of c \<and> byte_of c \<le> 57)"

definition shouldEscape :: "url_mode \<Rightarrow> char \<Rightarrow> bool" where
  "shouldEscape mode c =
     (if is_alnum c then False
      else if mode = EncodeHost \<and> c \<in> set (''!$&'' @ [CHR 0x27] @ ''()*+,;=:[]<>'' @ [CHR 0x22])
      then False
      else if c \<in> set ''-_.~'' then False
      else if c \<in> set ''$&+,/:;=?@'' then
        (case mode of EncodePath \<Rightarrow> c = CHR ''?'' | EncodeQueryComponent \<Rightarrow> True
         | EncodeFragment \<Rightarrow> False | EncodeHost \<Rightarrow> True)
      else if mode = EncodeFragment \<and> c \<in> set ''!()*'' then False
      else True)"

definition escape_char :: "url_mode \<Rightarrow> char \<Rightarrow> string" where
  "escape_char mode c =
     (if c = CHR '' '' \<and> mode = EncodeQueryComponent then ''+''
      else if shouldEscape mode c
      then [CHR ''%'', upperhex (byte_of c div 16), upperhex (byte_of c mod 16)]
      else [c])"

definition escape :: "url_mode \<Rightarrow> string \<Rightarrow> string" where
  "escape mode s = concat (map (escape_char mode) s)"

fun unescape :: "url_mode \<Rightarrow> string \<Rightarrow> string option" where
  "unescape mode [] = Some []"
| "unescape mode (c # cs) =
     (if c = CHR ''%'' then
        (case cs of
           a # b # rest \<Rightarrow>
             if ishex a \<and> ishex b
             then map_option (Cons (char_of (16 * unhex a + unhex b))) (unescape mode rest)
             else None
         | _ \<Rightarrow> None)
      else if c = CHR ''+'' \<and> mode = EncodeQueryComponent
      then map_option (Cons (CHR '' '')) (unescape mode cs)
      else map_option (Cons c) (unescape mode cs))"

definition QueryEscape :: "string \<Rightarrow> string" where
  "QueryEscape s = escape EncodeQueryComponent s"

definition QueryUnescape :: "string \<Rightarrow> string option" where
  "QueryUnescape s = unescape EncodeQueryComponent s"

lemma hex_pair_byte: "char_of (16 * (byte_of c div 16) + byte_of c mod 16) = c"
  by simp

lemma byte_div_16: "byte_of c div 16 < 16"
  using byte_of_less [of c] by (simp add: div_less_iff_less_mult)

lemma unescape_escape_char:
  assumes "mode = EncodeQueryComponent \<or> mode = EncodePath"
  shows "unescape mode (escape_char mode c @ s) = map_option (Cons c) (unescape mode s)"
  using assms byte_div_16 [of c]
  by (auto simp: escape_char_def hex_pair_byte shouldEscape_def is_alnum_def byte_of_def
      split: url_mode.splits)

lemma unescape_escape_append:
  assumes "mode = EncodeQueryComponent \<or> mode = EncodePath"
  shows "unescape mode (escape mode s @ t) = map_option ((@) s) (unescape mode t)"
proof (induction s)
  case Nil
  show ?case by (simp add: escape_def option.map_ident)
next
  case (Cons c s)
  then show ?case
    by (simp add: escape_def unescape_escape_char [OF assms] option.map_comp comp_def)
qed

lemma unescape_escape:
  "mode = EncodeQueryComponent \<or> mode = EncodePath \<Longrightarrow> unescape mode (escape mode s) = Some s"
  using unescape_escape_append [of mode s "[]"] by simp

lemma QueryUnescape_QueryEscape [simp]: "QueryUnescape (QueryEscape s) = Some s"
  by (simp add: QueryUnescape_def QueryEscape_def unescape_escape)

text \<open>The bytes an encoded query component can contain.\<close>

definition query_safe :: "char \<Rightarrow> bool" where
  "query_safe c \<longleftrightarrow> is_alnum c \<or> c \<in> set ''-_.~+%''"

lemma upperhex_alnum: "n < 16 \<Longrightarrow> is_alnum (upperhex n)"
  by (auto simp: upperhex_def is_alnum_def)

lemma not_shouldEscape_query:
  "\<not> shouldEscape EncodeQueryComponent c \<Longrightarrow> is_alnum c \<or> c \<in> set ''-_.~''"
  by (simp add: shouldEscape_def split: if_splits)

lemma escape_char_safe:
  assumes "c' \<in> set (escape_char EncodeQueryComponent c)"
  shows "query_safe c'"
proof (cases "shouldEscape EncodeQueryComponent c")
  case True
  with assms have "c' = CHR ''+'' \<or> c' = CHR ''%'' \<or> c' = upperhex (byte_of c div 16)
      \<or> c' = upperhex (byte_of c mod 16)"
    by (auto simp: escape_char_def split: if_splits)
  then show ?thesis
    using upperhex_alnum [OF byte_div_16] upperhex_alnum [of "byte_of c mod 16"]
    by (auto simp: query_safe_def)
next
  case False
  with assms have "c' = CHR ''+'' \<or> c' = c" by (auto simp: escape_char_def split: if_splits)
  with not_shouldEscape_query [OF False] show ?thesis by (auto simp: query_safe_def)
qed

lemma QueryEscape_safe: "c \<in> set (QueryEscape s) \<Longrightarrow> query_safe c"
  by (auto simp: QueryEscape_def escape_def dest: escape_char_safe)

lemma query_safe_not [simp]:
  "\<not> query_safe (CHR ''&'')" "\<not> query_safe (CHR '';'')" "\<not> query_safe (CHR ''='')"
  "\<not> query_safe (CHR ''?'')"
  by (simp_all add: query_safe_def is_alnum_def byte_of_def)

lemma QueryEscape_no_sep [simp]:
  "CHR ''&'' \<notin> set (QueryEscape s)" "CHR '';'' \<notin> set (QueryEscape s)"
  "CHR ''='' \<notin> set (QueryEscape s)" "CHR ''?'' \<notin> set (QueryEscape s)"
  using QueryEscape_safe query_safe_not by blast+

interpretation queryCodec: codec "\<lambda>_. True" QueryEscape QueryUnescape
  by unfold_locales simp

section \<open>Query values\<close>

type_synonym Values = "(string, string list) go_map"

definition Values_Get :: "Values \<Rightarrow> string \<Rightarrow> string" where
  "Values_Get v key = (case map_of v key of Some (x # _) \<Rightarrow> x | _ \<Rightarrow> [])"

definition Values_Set :: "Values \<Rightarrow> string \<Rightarrow> string \<Rightarrow> Values" where
  "Values_Set v key x = AList.update key [x] v"

definition Values_Add :: "Values \<Rightarrow> string \<Rightarrow> string \<Rightarrow> Values" where
  "Values_Add v key x = AList.update key (case map_of v key of Some xs \<Rightarrow> xs @ [x] | None \<Rightarrow> [x]) v"

definition Values_Del :: "Values \<Rightarrow> string \<Rightarrow> Values" where
  "Values_Del v key = AList.delete key v"

definition Values_pairs :: "Values \<Rightarrow> (string \<times> string) list" where
  "Values_pairs v =
     concat (map (\<lambda>k. map (Pair k) (case map_of v k of Some xs \<Rightarrow> xs | None \<Rightarrow> []))
       (sort (map fst v)))"

definition encode_pair :: "string \<times> string \<Rightarrow> string" where
  "encode_pair p = QueryEscape (fst p) @ ''='' @ QueryEscape (snd p)"

definition Values_Encode :: "Values \<Rightarrow> string" where
  "Values_Encode v = Join (map encode_pair (Values_pairs v)) ''&''"

section \<open>Parsing a query\<close>

definition query_sep :: "char \<Rightarrow> bool" where
  "query_sep c \<longleftrightarrow> c = CHR ''&'' \<or> c = CHR '';''"

function query_pieces :: "string \<Rightarrow> string list" where
  "query_pieces q =
     (if q = [] then []
      else takeWhile (\<lambda>c. \<not> query_sep c) q
             # query_pieces (drop 1 (dropWhile (\<lambda>c. \<not> query_sep c) q)))"
  by pat_completeness auto
termination
proof (relation "measure length", goal_cases)
  case (2 q)
  then show ?case
    using length_dropWhile_le [of "\<lambda>c. \<not> query_sep c" q] by (cases q) auto
qed simp

declare query_pieces.simps [simp del]

text \<open>
  One turn of the loop of \<open>parseQuery\<close>: an empty piece is skipped; a piece whose key or
  value does not decode is dropped and the first error is kept.
\<close>

definition split_pair :: "string \<Rightarrow> string \<times> string" where
  "split_pair piece =
     (case IndexByte piece (CHR ''='') of
        None \<Rightarrow> (piece, [])
      | Some i \<Rightarrow> (take i piece, drop (Suc i) piece))"

definition parse_piece :: "string \<Rightarrow> Values \<times> string option \<Rightarrow> Values \<times> string option" where
  "parse_piece piece acc =
     (case acc of (m, err) \<Rightarrow>
       if piece = [] then (m, err)
       else case split_pair piece of (key, val) \<Rightarrow>
         (case QueryUnescape key of
            None \<Rightarrow> (m, if err = None then Some ''invalid URL escape'' else err)
          | Some k \<Rightarrow>
              (case QueryUnescape val of
                 None \<Rightarrow> (m, if err = None then Some ''invalid URL escape'' else err)
               | Some x \<Rightarrow> (Values_Add m k x, err))))"

definition ParseQuery :: "string \<Rightarrow> Values \<times> string option" where
  "ParseQuery q = fold parse_piece (query_pieces q) ([], None)"

section \<open>Queries read back\<close>

lemma query_pieces_Nil [simp]: "query_pieces [] = []"
  by (subst query_pieces.simps) simp

lemma query_pieces_single:
  assumes "s \<noteq> []" and "\<And>c. c \<in> set s \<Longrightarrow> \<not> query_sep c"
  shows "query_pieces s = [s]"
proof -
  have "takeWhile (\<lambda>c. \<not> query_sep c) s = s" and d: "dropWhile (\<lambda>c. \<not> query_sep c) s = []"
    using assms(2) by auto
  with assms(1) show ?thesis by (subst query_pieces.simps) (simp add: d)
qed

lemma query_pieces_Cons:
  assumes "\<And>c. c \<in> set s \<Longrightarrow> \<not> query_sep c"
  shows "query_pieces (s @ CHR ''&'' # t) = s # query_pieces t"
proof -
  have sep: "query_sep (CHR ''&'')" by (simp add: query_sep_def)
  have "takeWhile (\<lambda>c. \<not> query_sep c) (s @ CHR ''&'' # t) = s"
    "dropWhile (\<lambda>c. \<not> query_sep c) (s @ CHR ''&'' # t) = CHR ''&'' # t"
    using assms sep by (simp_all add: takeWhile_append_stop dropWhile_append_stop)
  then show ?thesis by (subst query_pieces.simps) simp
qed

definition clean_piece :: "string \<Rightarrow> bool" where
  "clean_piece s \<longleftrightarrow> s \<noteq> [] \<and> (\<forall>c \<in> set s. \<not> query_sep c)"

lemma query_pieces_Join:
  "list_all clean_piece ss \<Longrightarrow> query_pieces (Join ss ''&'') = ss"
proof (induction ss rule: induct_list012)
  case (3 s t ss)
  then show ?case by (simp add: query_pieces_Cons clean_piece_def)
qed (simp_all add: query_pieces_single clean_piece_def)

lemma clean_encode_pair [simp]: "clean_piece (encode_pair p)"
  using QueryEscape_no_sep
  by (auto simp: clean_piece_def encode_pair_def query_sep_def)

lemma split_encode_pair [simp]:
  "split_pair (encode_pair p) = (QueryEscape (fst p), QueryEscape (snd p))"
  by (simp add: split_pair_def encode_pair_def IndexByte_append)

lemma parse_encode_pair:
  "parse_piece (encode_pair (k, x)) (m, err) = (Values_Add m k x, err)"
  by (simp add: parse_piece_def) (simp add: encode_pair_def)

definition add_pairs :: "(string \<times> string) list \<Rightarrow> Values \<Rightarrow> Values" where
  "add_pairs ps m = fold (\<lambda>(k, x) m. Values_Add m k x) ps m"

lemma fold_parse_encode:
  "fold parse_piece (map encode_pair ps) (m, err) = (add_pairs ps m, err)"
  by (induction ps arbitrary: m) (auto simp: parse_encode_pair add_pairs_def)

lemma ParseQuery_Encode_pairs: "ParseQuery (Values_Encode v) = (add_pairs (Values_pairs v) [], None)"
proof -
  have "query_pieces (Values_Encode v) = map encode_pair (Values_pairs v)"
    unfolding Values_Encode_def by (rule query_pieces_Join) (simp add: list_all_iff)
  then show ?thesis by (simp add: ParseQuery_def fold_parse_encode)
qed

lemma map_of_Values_Add [go_map]:
  "map_of (Values_Add m k x) k' =
     (if k' = k then Some ((case map_of m k of Some xs \<Rightarrow> xs | None \<Rightarrow> []) @ [x]) else map_of m k')"
  by (simp add: Values_Add_def map_of_update_alist split: option.splits)

lemma go_map_ok_Values_Add [simp]: "go_map_ok m \<Longrightarrow> go_map_ok (Values_Add m k x)"
  by (simp add: Values_Add_def)

lemma map_of_add_pairs:
  "map_of (add_pairs ps m) k =
     (if k \<in> fst ` set ps
      then Some ((case map_of m k of Some xs \<Rightarrow> xs | None \<Rightarrow> []) @ map snd (filter (\<lambda>p. fst p = k) ps))
      else map_of m k)"
proof (induction ps arbitrary: m)
  case (Cons p ps)
  obtain k' x where "p = (k', x)" by (cases p)
  have "filter (\<lambda>p. fst p = k) ps = []" if "k \<notin> fst ` set ps"
    using that by (force simp: filter_empty_conv)
  with Cons.IH [of "Values_Add m k' x"] \<open>p = (k', x)\<close> show ?case
    by (auto simp: add_pairs_def map_of_Values_Add split: option.splits)
qed (simp add: add_pairs_def)

lemma go_map_ok_add_pairs [simp]: "go_map_ok m \<Longrightarrow> go_map_ok (add_pairs ps m)"
  by (induction ps arbitrary: m) (auto simp: add_pairs_def)

text \<open>The values of one key, read off the sorted list of pairs.\<close>

lemma filter_pairs_other:
  "k \<notin> set ks \<Longrightarrow> filter (\<lambda>p. fst p = k) (concat (map (\<lambda>k. map (Pair k) (f k)) ks)) = []"
  by (induction ks) (auto simp: filter_empty_conv)

lemma filter_pairs_key:
  assumes "distinct ks" and "k \<in> set ks"
  shows "map snd (filter (\<lambda>p. fst p = k) (concat (map (\<lambda>k. map (Pair k) (f k)) ks))) = f k"
  using assms
proof (induction ks)
  case (Cons k' ks)
  show ?case
  proof (cases "k' = k")
    case True
    with Cons.prems filter_pairs_other [of k ks f] show ?thesis
      by (simp add: filter_map comp_def)
  next
    case False
    with Cons show ?thesis by (auto simp: filter_map comp_def)
  qed
qed simp

lemma Values_pairs_key:
  assumes "go_map_ok v"
  shows "map snd (filter (\<lambda>p. fst p = k) (Values_pairs v)) =
      (case map_of v k of Some xs \<Rightarrow> xs | None \<Rightarrow> [])"
proof (cases "k \<in> set (map fst v)")
  case True
  with assms show ?thesis
    unfolding Values_pairs_def go_map_ok_def by (intro filter_pairs_key) simp_all
next
  case False
  then have "map_of v k = None" by (simp add: map_of_eq_None_iff)
  with False show ?thesis
    unfolding Values_pairs_def by (subst filter_pairs_other) simp_all
qed

lemma fst_Values_pairs:
  "k \<in> fst ` set (Values_pairs v) \<longleftrightarrow> (\<exists>xs. map_of v k = Some xs \<and> xs \<noteq> [])"
proof -
  have "k \<in> fst ` set (concat (map (\<lambda>k. map (Pair k) (f k)) ks)) \<longleftrightarrow> k \<in> set ks \<and> f k \<noteq> []"
    for f :: "string \<Rightarrow> string list" and ks
    by (induction ks) (auto simp: image_Un image_image image_constant_conv)
  moreover have "k \<in> set (sort (map fst v)) \<longleftrightarrow> map_of v k \<noteq> None"
    by (simp add: map_of_eq_None_iff)
  ultimately have "k \<in> fst ` set (Values_pairs v) \<longleftrightarrow>
      map_of v k \<noteq> None \<and> (case map_of v k of Some xs \<Rightarrow> xs | None \<Rightarrow> []) \<noteq> []"
    unfolding Values_pairs_def by (simp only:)
  then show ?thesis by (cases "map_of v k") simp_all
qed

text \<open>
  Every key of a query map comes back with the same values in the same order, and no other
  key appears; a key with an empty list of values is not written.
\<close>

lemma ParseQuery_Encode:
  assumes "go_map_ok v"
  shows "map_of (fst (ParseQuery (Values_Encode v))) k =
      (case map_of v k of Some (x # xs) \<Rightarrow> Some (x # xs) | _ \<Rightarrow> None)"
    and "go_map_ok (fst (ParseQuery (Values_Encode v)))"
    and "snd (ParseQuery (Values_Encode v)) = None"
  using Values_pairs_key [OF assms, of k] fst_Values_pairs [of k v]
  by (auto simp: ParseQuery_Encode_pairs map_of_add_pairs split: option.splits list.splits)

lemma go_map_ok_parse_piece:
  "go_map_ok (fst acc) \<Longrightarrow> go_map_ok (fst (parse_piece piece acc))"
  by (auto simp: parse_piece_def split: prod.splits option.splits)

lemma go_map_ok_ParseQuery [simp]: "go_map_ok (fst (ParseQuery q))"
  unfolding ParseQuery_def
  by (rule fold_invariant_list) (simp_all add: go_map_ok_parse_piece)

text \<open>A parsed query never holds a key with no value.\<close>

lemma parse_piece_nonempty:
  assumes "[] \<notin> snd ` set (fst acc)"
  shows "[] \<notin> snd ` set (fst (parse_piece piece acc))"
proof -
  have upd: "[] \<notin> snd ` set (AList.update k (xs @ [x]) m)" if "[] \<notin> snd ` set m" for k xs x m
    using that by (induction m) (auto simp: image_iff)
  have "[] \<notin> snd ` set (Values_Add m k x)" if "[] \<notin> snd ` set m" for m k x
    using upd [OF that, of k "[]"] upd [OF that] by (auto simp: Values_Add_def split: option.splits)
  note add = this
  obtain m err where "acc = (m, err)" by (cases acc)
  with assms show ?thesis
    unfolding parse_piece_def by (simp add: add split: prod.split option.split)
qed

lemma ParseQuery_nonempty: "[] \<notin> snd ` set (fst (ParseQuery q))"
  unfolding ParseQuery_def
  by (rule fold_invariant_list) (simp_all add: parse_piece_nonempty)

text \<open>What is encoded depends on the map only, not on how it is stored.\<close>

lemma sort_keys_order:
  assumes "go_map_ok v" and "map_of v = map_of v'" and "go_map_ok v'"
  shows "sort (map fst v) = sort (map fst v')"
proof (rule sort_mset_cong)
  have "set (map fst v) = set (map fst v')"
    using assms(2) by (metis dom_map_of_conv_image_fst list.set_map)
  with assms(1,3) show "mset (map fst v) = mset (map fst v')"
    unfolding go_map_ok_def by (metis set_eq_iff_mset_eq_distinct)
qed

lemma Values_Encode_cong:
  assumes "go_map_ok v" and "map_of v = map_of v'" and "go_map_ok v'"
  shows "Values_Encode v = Values_Encode v'"
  using sort_keys_order [OF assms] assms(2) by (simp add: Values_Encode_def Values_pairs_def)

text \<open>Queries put together from encoded maps and single parameters.\<close>

definition join_queries :: "string list \<Rightarrow> string" where
  "join_queries qs = Join (filter (\<lambda>q. q \<noteq> []) qs) ''&''"

lemma Join_Nil_iff: "Join ss sep = [] \<Longrightarrow> list_all (\<lambda>s. s \<noteq> []) ss \<Longrightarrow> ss = []"
  by (cases "(ss, sep)" rule: Join.cases) auto

lemma Join_Join_append:
  assumes "ss \<noteq> []" and "ts \<noteq> []"
  shows "Join (ss @ ts) sep = Join ss sep @ sep @ Join ts sep"
  using assms by (induction ss rule: induct_list012) (auto simp: neq_Nil_conv)

lemma Values_Encode_eq_Join:
  "Values_Encode v = [] \<longleftrightarrow> Values_pairs v = []"
proof
  assume "Values_Encode v = []"
  then have "map encode_pair (Values_pairs v) = []"
    unfolding Values_Encode_def by (rule Join_Nil_iff) (simp add: list_all_iff encode_pair_def)
  then show "Values_pairs v = []" by simp
qed (simp add: Values_Encode_def)

text \<open>The pieces of a joined query are the pieces of its parts.\<close>

lemma query_pieces_join:
  assumes "\<And>ss. ss \<in> set sss \<Longrightarrow> list_all clean_piece ss"
  shows "query_pieces (join_queries (map (\<lambda>ss. Join ss ''&'') sss)) = concat sss"
proof -
  have ne: "Join ss ''&'' = [] \<longleftrightarrow> ss = []" if "ss \<in> set sss" for ss
  proof
    assume "Join ss ''&'' = []"
    then show "ss = []" by (rule Join_Nil_iff) (use assms [OF that] in \<open>auto simp: list_all_iff clean_piece_def\<close>)
  qed simp
  have "join_queries (map (\<lambda>ss. Join ss ''&'') sss) = Join (concat sss) ''&''"
    using ne
  proof (induction sss)
    case (Cons ss sss)
    then have IH: "join_queries (map (\<lambda>ss. Join ss ''&'') sss) = Join (concat sss) ''&''" by simp
    show ?case
    proof (cases "ss = []")
      case True
      with IH show ?thesis by (simp add: join_queries_def)
    next
      case False
      show ?thesis
      proof (cases "concat sss = []")
        case True
        then have "filter (\<lambda>q. q \<noteq> []) (map (\<lambda>ss. Join ss ''&'') sss) = []"
          using Cons.prems by (auto simp: filter_empty_conv)
        with False Cons.prems [of ss]
        have "join_queries (map (\<lambda>ss. Join ss ''&'') (ss # sss)) = Join ss ''&''"
          by (simp add: join_queries_def)
        moreover have "concat (ss # sss) = ss" using True by (simp only: concat.simps append_Nil2)
        ultimately show ?thesis by (simp only:)
      next
        case ne': False
        then have "filter (\<lambda>q. q \<noteq> []) (map (\<lambda>ss. Join ss ''&'') sss) \<noteq> []"
          using Cons.prems by (auto simp: filter_empty_conv)
        then have "Join (Join ss ''&'' # filter (\<lambda>q. q \<noteq> []) (map (\<lambda>ss. Join ss ''&'') sss)) ''&''
            = Join ss ''&'' @ ''&'' @ join_queries (map (\<lambda>ss. Join ss ''&'') sss)"
          by (cases "filter (\<lambda>q. q \<noteq> []) (map (\<lambda>ss. Join ss ''&'') sss)") (auto simp: join_queries_def)
        moreover have "Join (concat (ss # sss)) ''&'' = Join ss ''&'' @ ''&'' @ Join (concat sss) ''&''"
          using Join_Join_append [OF False ne'] by simp
        moreover have "Join ss ''&'' \<noteq> []" using Cons.prems [of ss] False by simp
        ultimately show ?thesis using IH by (simp add: join_queries_def)
      qed
    qed
  qed (simp add: join_queries_def)
  moreover have "list_all clean_piece (concat sss)" using assms by (auto simp: list_all_iff)
  ultimately show ?thesis by (simp add: query_pieces_Join)
qed

section \<open>URLs\<close>

record url =
  u_Scheme :: string
  u_Opaque :: string
  u_User :: "string option"   \<comment> \<open>user information, as written before the at sign\<close>
  u_Host :: string
  u_Path :: string
  u_RawPath :: string
  u_ForceQuery :: bool
  u_RawQuery :: string
  u_Fragment :: string

definition empty_url :: url where
  "empty_url = \<lparr>u_Scheme = [], u_Opaque = [], u_User = None, u_Host = [], u_Path = [],
     u_RawPath = [], u_ForceQuery = False, u_RawQuery = [], u_Fragment = []\<rparr>"

definition URL_Query :: "url \<Rightarrow> Values" where
  "URL_Query u = fst (ParseQuery (u_RawQuery u))"

definition validEncodedPath :: "string \<Rightarrow> bool" where
  "validEncodedPath s =
     list_all (\<lambda>c. c \<in> set (''!$&'' @ [CHR 0x27] @ ''()*+,;=:@[]%'') \<or> \<not> shouldEscape EncodePath c) s"

definition EscapedPath :: "url \<Rightarrow> string" where
  "EscapedPath u =
     (if u_RawPath u \<noteq> [] \<and> validEncodedPath (u_RawPath u)
         \<and> unescape EncodePath (u_RawPath u) = Some (u_Path u)
      then u_RawPath u
      else if u_Path u = ''*'' then ''*''
      else escape EncodePath (u_Path u))"

definition URL_String :: "url \<Rightarrow> string" where
  "URL_String u =
     (let scheme = (if u_Scheme u \<noteq> [] then u_Scheme u @ '':'' else []);
          body =
            (if u_Opaque u \<noteq> [] then scheme @ u_Opaque u
             else
               let authority =
                     (if u_Scheme u \<noteq> [] \<or> u_Host u \<noteq> [] \<or> u_User u \<noteq> None
                      then (if u_Host u \<noteq> [] \<or> u_Path u \<noteq> [] \<or> u_User u \<noteq> None then ''//'' else [])
                         @ (case u_User u of Some ui \<Rightarrow> ui @ ''@'' | None \<Rightarrow> [])
                         @ (if u_Host u \<noteq> [] then escape EncodeHost (u_Host u) else [])
                      else []);
                   path = EscapedPath u;
                   buf = scheme @ authority
                     @ (if path \<noteq> [] \<and> hd path \<noteq> CHR ''/'' \<and> u_Host u \<noteq> [] then ''/'' else []);
                   buf = (if buf = [] \<and> (case IndexByte path (CHR '':'') of
                             Some i \<Rightarrow> CHR ''/'' \<notin> set (take i path) | None \<Rightarrow> False)
                          then ''./'' else buf)
               in buf @ path)
      in body @ (if u_ForceQuery u \<or> u_RawQuery u \<noteq> [] then ''?'' @ u_RawQuery u else [])
           @ (if u_Fragment u \<noteq> [] then ''#'' @ escape EncodeFragment (u_Fragment u) else []))"

lemma go_map_ok_URL_Query [simp]: "go_map_ok (URL_Query u)"
  by (simp add: URL_Query_def)

lemma EscapedPath_decodes: "unescape EncodePath (EscapedPath u) = Some (u_Path u)"
  by (simp add: EscapedPath_def unescape_escape)

end
