(* ===== verification/Go_Time.thy ===== *)
theory Go_Time
  imports Go_Strings
begin

text \<open>
  The part of Go's \<open>time\<close> the SAS code uses: \<open>IsZero\<close>, \<open>Format\<close> and \<open>Parse\<close>. A time is kept
  as its calendar fields in its own location together with the location's offset from UTC
  in seconds. Layouts are read for the six elements the package's layouts contain (year,
  month, day, hour, minute, second); every other byte of such a layout stands for itself.
\<close>

section \<open>Times\<close>

record go_time =
  t_year :: int
  t_month :: nat
  t_day :: nat
  t_hour :: nat
  t_min :: nat
  t_sec :: nat
  t_nsec :: nat
  t_offset :: int

text \<open>\<open>time.Time{}\<close>: January 1, year 1, 00:00:00 UTC.\<close>

definition zero_time :: go_time where
  "zero_time = \<lparr>t_year = 1, t_month = 1, t_day = 1, t_hour = 0, t_min = 0, t_sec = 0,
     t_nsec = 0, t_offset = 0\<rparr>"

definition is_leap :: "int \<Rightarrow> bool" where
  "is_leap y \<longleftrightarrow> y mod 4 = 0 \<and> (y mod 100 \<noteq> 0 \<or> y mod 400 = 0)"

definition days_in_month :: "int \<Rightarrow> nat \<Rightarrow> nat" where
  "days_in_month y m =
     (if m = 2 then (if is_leap y then 29 else 28)
      else if m = 4 \<or> m = 6 \<or> m = 9 \<or> m = 11 then 30 else 31)"

definition days_before_month :: "int \<Rightarrow> nat \<Rightarrow> int" where
  "days_before_month y m = int (sum_list (map (days_in_month y) [1..<m]))"

text \<open>Seconds since the zero time, and the instant being zero.\<close>

definition days_before_year :: "int \<Rightarrow> int" where
  "days_before_year y = 365 * (y - 1) + (y - 1) div 4 - (y - 1) div 100 + (y - 1) div 400"

definition abs_seconds :: "go_time \<Rightarrow> int" where
  "abs_seconds t =
     (days_before_year (t_year t) + days_before_month (t_year t) (t_month t) + int (t_day t) - 1) * 86400
     + int (t_hour t) * 3600 + int (t_min t) * 60 + int (t_sec t) - t_offset t"

definition IsZero :: "go_time \<Rightarrow> bool" where
  "IsZero t \<longleftrightarrow> abs_seconds t = 0 \<and> t_nsec t = 0"

section \<open>Layouts\<close>

datatype chunk = StdYear | StdMonth | StdDay | StdHour | StdMin | StdSec | Lit char

fun layout_chunks :: "string \<Rightarrow> chunk list" where
  "layout_chunks [] = []"
| "layout_chunks (c # cs) =
     (if HasPrefix (c # cs) ''2006'' then StdYear # layout_chunks (drop 3 cs)
      else if HasPrefix (c # cs) ''01'' then StdMonth # layout_chunks (drop 1 cs)
      else if HasPrefix (c # cs) ''02'' then StdDay # layout_chunks (drop 1 cs)
      else if HasPrefix (c # cs) ''15'' then StdHour # layout_chunks (drop 1 cs)
      else if HasPrefix (c # cs) ''04'' then StdMin # layout_chunks (drop 1 cs)
      else if HasPrefix (c # cs) ''05'' then StdSec # layout_chunks (drop 1 cs)
      else Lit c # layout_chunks cs)"

section \<open>Formatting\<close>

text \<open>\<open>appendInt\<close>: decimal, padded with zeros to a minimum width.\<close>

definition append_int :: "nat \<Rightarrow> int \<Rightarrow> string" where
  "append_int width x =
     (let digits = dec_nat (nat \<bar>x\<bar>)
      in (if x < 0 then ''-'' else []) @ replicate (width - length digits) (CHR ''0'') @ digits)"

fun format_chunk :: "go_time \<Rightarrow> chunk \<Rightarrow> string" where
  "format_chunk t StdYear = append_int 4 (t_year t)"
| "format_chunk t StdMonth = append_int 2 (int (t_month t))"
| "format_chunk t StdDay = append_int 2 (int (t_day t))"
| "format_chunk t StdHour = append_int 2 (int (t_hour t))"
| "format_chunk t StdMin = append_int 2 (int (t_min t))"
| "format_chunk t StdSec = append_int 2 (int (t_sec t))"
| "format_chunk t (Lit c) = [c]"

definition time_Format :: "go_time \<Rightarrow> string \<Rightarrow> string" where
  "time_Format t layout = concat (map (format_chunk t) (layout_chunks layout))"

section \<open>Parsing\<close>

text \<open>\<open>getnum\<close>: one or two digits, two when \<open>fixed\<close>.\<close>

fun getnum :: "string \<Rightarrow> bool \<Rightarrow> (nat \<times> string) option" where
  "getnum [] fixed = None"
| "getnum (c # cs) fixed =
     (if \<not> is_digit c then None
      else case cs of
        d # ds \<Rightarrow> if is_digit d then Some (10 * digit_val c + digit_val d, ds)
                  else if fixed then None else Some (digit_val c, cs)
      | [] \<Rightarrow> if fixed then None else Some (digit_val c, []))"

text \<open>
  A fraction after the seconds is accepted although the layout has none: \<open>parseNanoseconds\<close>.
\<close>

definition parse_fraction :: "string \<Rightarrow> (nat \<times> string) option" where
  "parse_fraction v =
     (case v of
        c # d # _ \<Rightarrow>
          if c = CHR ''.'' \<and> is_digit d then
            let ds = takeWhile is_digit (drop 1 v); ns = dec_val ds
            in if 10 ^ 9 \<le> ns then None
               else Some (ns * 10 ^ (9 - length ds), drop (Suc (length ds)) v)
          else Some (0, v)
      | _ \<Rightarrow> Some (0, v))"

fun parse_chunk :: "chunk \<Rightarrow> go_time \<times> string \<Rightarrow> (go_time \<times> string) option" where
  "parse_chunk (Lit c) (t, v) = (case v of d # ds \<Rightarrow> if d = c then Some (t, ds) else None | [] \<Rightarrow> None)"
| "parse_chunk StdYear (t, v) =
     (if length v < 4 \<or> \<not> list_all is_digit (take 4 v) then None
      else Some (t\<lparr>t_year := int (dec_val (take 4 v))\<rparr>, drop 4 v))"
| "parse_chunk StdMonth (t, v) =
     (case getnum v True of None \<Rightarrow> None
      | Some (n, v') \<Rightarrow> if n = 0 \<or> 12 < n then None else Some (t\<lparr>t_month := n\<rparr>, v'))"
| "parse_chunk StdDay (t, v) =
     (case getnum v True of None \<Rightarrow> None | Some (n, v') \<Rightarrow> Some (t\<lparr>t_day := n\<rparr>, v'))"
| "parse_chunk StdHour (t, v) =
     (case getnum v False of None \<Rightarrow> None
      | Some (n, v') \<Rightarrow> if 24 \<le> n then None else Some (t\<lparr>t_hour := n\<rparr>, v'))"
| "parse_chunk StdMin (t, v) =
     (case getnum v True of None \<Rightarrow> None
      | Some (n, v') \<Rightarrow> if 60 \<le> n then None else Some (t\<lparr>t_min := n\<rparr>, v'))"
| "parse_chunk StdSec (t, v) =
     (case getnum v True of None \<Rightarrow> None
      | Some (n, v') \<Rightarrow>
          if 60 \<le> n then None
          else (case parse_fraction v' of None \<Rightarrow> None
                | Some (ns, v'') \<Rightarrow> Some (t\<lparr>t_sec := n, t_nsec := ns\<rparr>, v'')))"

fun parse_chunks :: "chunk list \<Rightarrow> go_time \<times> string \<Rightarrow> go_time option" where
  "parse_chunks [] (t, v) =
     (if v \<noteq> [] then None
      else if t_day t < 1 \<or> days_in_month (t_year t) (t_month t) < t_day t then None
      else Some t)"
| "parse_chunks (c # cs) (t, v) =
     (case parse_chunk c (t, v) of None \<Rightarrow> None | Some tv \<Rightarrow> parse_chunks cs tv)"

text \<open>Fields a layout does not mention: year 0, January 1, midnight, UTC.\<close>

definition time_Parse :: "string \<Rightarrow> string \<Rightarrow> go_time option" where
  "time_Parse layout value = parse_chunks (layout_chunks layout)
     (\<lparr>t_year = 0, t_month = 1, t_day = 1, t_hour = 0, t_min = 0, t_sec = 0, t_nsec = 0,
       t_offset = 0\<rparr>, value)"

section \<open>Reading back what was printed\<close>

definition date_ok :: "go_time \<Rightarrow> bool" where
  "date_ok t \<longleftrightarrow> 0 \<le> t_year t \<and> t_year t \<le> 9999 \<and> 1 \<le> t_month t \<and> t_month t \<le> 12
     \<and> 1 \<le> t_day t \<and> t_day t \<le> days_in_month (t_year t) (t_month t)
     \<and> t_hour t < 24 \<and> t_min t < 60 \<and> t_sec t < 60"

lemma dec_nat_1: "n < 10 \<Longrightarrow> dec_nat n = [digit_char n]"
  by (subst dec_nat.simps) simp

lemma dec_nat_step: "10 \<le> n \<Longrightarrow> dec_nat n = dec_nat (n div 10) @ [digit_char (n mod 10)]"
  by (subst dec_nat.simps) simp

lemma digit_char_0: "CHR ''0'' = digit_char 0"
  by code_simp

lemma append_int_2:
  "n < 100 \<Longrightarrow> append_int 2 (int n) = [digit_char (n div 10), digit_char (n mod 10)]"
  by (cases "n < 10") (simp_all add: append_int_def dec_nat_1 dec_nat_step digit_char_0)

lemma append_int_4:
  assumes "0 \<le> y" and "y \<le> 9999"
  shows "append_int 4 y =
    [digit_char (nat y div 1000), digit_char (nat y div 100 mod 10),
     digit_char (nat y div 10 mod 10), digit_char (nat y mod 10)]"
proof -
  let ?n = "nat y"
  have n: "?n \<le> 9999" "nat \<bar>y\<bar> = ?n" using assms by auto
  have z: "?n < 10 \<Longrightarrow> ?n div 10 = 0" "?n < 100 \<Longrightarrow> ?n div 100 = 0" "?n < 1000 \<Longrightarrow> ?n div 1000 = 0"
    by auto
  have dd: "?n div 10 div 10 = ?n div 100" "?n div 100 div 10 = ?n div 1000"
    by (simp_all flip: div_mult2_eq)
  consider "?n < 10" | "10 \<le> ?n" "?n < 100" | "100 \<le> ?n" "?n < 1000" | "1000 \<le> ?n" by linarith
  then show ?thesis
  proof cases
    case 1
    with assms n z show ?thesis
      by (simp add: append_int_def dec_nat_1 digit_char_0 numeral_3_eq_3)
  next
    case 2
    then have "?n div 10 < 10" by auto
    with 2 assms n z show ?thesis
      by (simp add: append_int_def dec_nat_1 dec_nat_step digit_char_0 numeral_2_eq_2)
  next
    case 3
    then have "10 \<le> ?n div 10" "?n div 100 < 10" by auto
    with 3 assms n z dd show ?thesis
      by (simp add: append_int_def dec_nat_1 dec_nat_step digit_char_0)
  next
    case 4
    with n have "10 \<le> ?n div 10" "10 \<le> ?n div 100" "?n div 1000 < 10" by auto
    with 4 assms n dd show ?thesis
      by (simp add: append_int_def dec_nat_1 dec_nat_step digit_char_0)
  qed
qed

lemma getnum_append_int: "n < 100 \<Longrightarrow> getnum (append_int 2 (int n) @ v) fixed = Some (n, v)"
  by (simp add: append_int_2)

lemma dec_val_4:
  "a < 10 \<Longrightarrow> b < 10 \<Longrightarrow> c < 10 \<Longrightarrow> d < 10 \<Longrightarrow>
     dec_val [digit_char a, digit_char b, digit_char c, digit_char d] = 10 * (10 * (10 * a + b) + c) + d"
  by (simp add: dec_val_def)

lemma year_digits:
  assumes "0 \<le> y" and "y \<le> 9999"
  shows "length (append_int 4 y) = 4" and "list_all is_digit (append_int 4 y)"
    and "dec_val (append_int 4 y) = nat y"
proof -
  let ?n = "nat y"
  have b: "?n div 1000 < 10" "?n div 100 mod 10 < 10" "?n div 10 mod 10 < 10" "?n mod 10 < 10"
    using assms by auto
  have dd: "?n div 10 div 10 = ?n div 100" "?n div 100 div 10 = ?n div 1000"
    by (simp_all flip: div_mult2_eq)
  have eq: "10 * (10 * (10 * (?n div 1000) + ?n div 100 mod 10) + ?n div 10 mod 10) + ?n mod 10 = ?n"
    by (simp only: mult_div_mod_eq [of 10 "?n div 100", unfolded dd]
        mult_div_mod_eq [of 10 "?n div 10", unfolded dd] mult_div_mod_eq)
  show "dec_val (append_int 4 y) = nat y"
    unfolding append_int_4 [OF assms] by (rule trans [OF dec_val_4 [OF b] eq])
  show "list_all is_digit (append_int 4 y)"
    unfolding append_int_4 [OF assms] using digit_char_props(3) [OF b(1)] digit_char_props(3) [OF b(2)]
      digit_char_props(3) [OF b(3)] digit_char_props(3) [OF b(4)] by simp
  show "length (append_int 4 y) = 4"
    unfolding append_int_4 [OF assms] by simp
qed

lemma parse_year_append_int:
  "0 \<le> y \<Longrightarrow> y \<le> 9999 \<Longrightarrow>
    parse_chunk StdYear (t, append_int 4 y @ v) = Some (t\<lparr>t_year := y\<rparr>, v)"
  by (simp add: year_digits)

lemma days_in_month_le: "days_in_month y m \<le> 31"
  by (simp add: days_in_month_def)

lemma parse_fraction_none:
  "v = [] \<or> hd v \<noteq> CHR ''.'' \<Longrightarrow> parse_fraction v = Some (0, v)"
  by (auto simp: parse_fraction_def split: list.splits)

lemma date_ok_bounds:
  "date_ok t \<Longrightarrow> t_month t < 100 \<and> t_day t < 100 \<and> t_hour t < 100 \<and> t_min t < 100 \<and> t_sec t < 100"
  using days_in_month_le [of "t_year t" "t_month t"] by (auto simp: date_ok_def)

lemma parse_fields:
  assumes "date_ok t"
  shows "parse_chunk StdYear (s, append_int 4 (t_year t) @ v) = Some (s\<lparr>t_year := t_year t\<rparr>, v)"
    and "parse_chunk StdMonth (s, append_int 2 (int (t_month t)) @ v) = Some (s\<lparr>t_month := t_month t\<rparr>, v)"
    and "parse_chunk StdDay (s, append_int 2 (int (t_day t)) @ v) = Some (s\<lparr>t_day := t_day t\<rparr>, v)"
    and "parse_chunk StdHour (s, append_int 2 (int (t_hour t)) @ v) = Some (s\<lparr>t_hour := t_hour t\<rparr>, v)"
    and "parse_chunk StdMin (s, append_int 2 (int (t_min t)) @ v) = Some (s\<lparr>t_min := t_min t\<rparr>, v)"
    and "v = [] \<or> hd v \<noteq> CHR ''.'' \<Longrightarrow>
      parse_chunk StdSec (s, append_int 2 (int (t_sec t)) @ v) = Some (s\<lparr>t_sec := t_sec t, t_nsec := 0\<rparr>, v)"
  using assms date_ok_bounds [OF assms]
  by (simp_all add: date_ok_def getnum_append_int parse_fraction_none parse_year_append_int
      del: parse_chunk.simps(2))

end
