(* ===== verification/Go_Net.thy ===== *)
theory Go_Net
  imports Go_Strings
begin

text \<open>
  The part of Go's \<open>net\<close> that URL and SAS parsing use: \<open>SplitHostPort\<close>, \<open>ParseIP\<close> and
  \<open>IP.String\<close>. An address is a list of bytes: empty when it is not given, sixteen bytes when
  it is, an IPv4 address in its sixteen-byte form.
\<close>

type_synonym ip = "nat list"

section \<open>Numbers\<close>

text \<open>\<open>dtoi\<close> and \<open>xtoi\<close>: the number at the start of a string, how many bytes it takes.\<close>

definition big :: nat where
  "big = 16777215"

definition dtoi :: "string \<Rightarrow> (nat \<times> nat) option" where
  "dtoi s =
     (let ds = takeWhile is_digit s in
      if ds = [] \<or> big \<le> dec_val ds then None else Some (dec_val ds, length ds))"

definition hex_val :: "string \<Rightarrow> nat" where
  "hex_val s = foldl (\<lambda>n c. 16 * n + unhex c) 0 s"

definition xtoi :: "string \<Rightarrow> (nat \<times> nat) option" where
  "xtoi s =
     (let hs = takeWhile ishex s in
      if hs = [] \<or> big \<le> hex_val hs then None else Some (hex_val hs, length hs))"

section \<open>Parsing addresses\<close>

fun parse_octets :: "nat \<Rightarrow> bool \<Rightarrow> string \<Rightarrow> nat list option" where
  "parse_octets 0 first s = (if s = [] then Some [] else None)"
| "parse_octets (Suc k) first s =
     (case (if first then Some s
            else case s of c # cs \<Rightarrow> if c = CHR ''.'' then Some cs else None | [] \<Rightarrow> None) of
        None \<Rightarrow> None
      | Some s' \<Rightarrow>
          (case dtoi s' of
             None \<Rightarrow> None
           | Some (n, c) \<Rightarrow>
               if 255 < n then None
               else map_option (Cons n) (parse_octets k False (drop c s'))))"

definition v4_prefix :: ip where
  "v4_prefix = replicate 10 0 @ [255, 255]"

definition parseIPv4 :: "string \<Rightarrow> ip option" where
  "parseIPv4 s = map_option ((@) v4_prefix) (parse_octets 4 True s)"

text \<open>
  The loop of \<open>parseIPv6\<close>: \<open>k\<close> groups of two bytes still fit, \<open>acc\<close> are the bytes read, and
  \<open>ell\<close> the position of the ellipsis. The result is the bytes, the ellipsis and the rest.
\<close>

fun parse_groups ::
    "nat \<Rightarrow> string \<Rightarrow> nat list \<Rightarrow> nat option \<Rightarrow> (nat list \<times> nat option \<times> string) option" where
  "parse_groups 0 s acc ell = Some (acc, ell, s)"
| "parse_groups (Suc k) s acc ell =
     (case xtoi s of
        None \<Rightarrow> None
      | Some (n, c) \<Rightarrow>
          if 65535 < n then None
          else if c < length s \<and> s ! c = CHR ''.'' then
            (if ell = None \<and> length acc \<noteq> 12 then None
             else if 16 < length acc + 4 then None
             else case parse_octets 4 True s of
               None \<Rightarrow> None
             | Some ip4 \<Rightarrow> Some (acc @ ip4, ell, []))
          else
            let acc' = acc @ [n div 256, n mod 256]; s' = drop c s in
            (case s' of
               [] \<Rightarrow> Some (acc', ell, [])
             | d # ds \<Rightarrow>
                 if d \<noteq> CHR '':'' \<or> ds = [] then None
                 else if hd ds = CHR '':'' then
                   (if ell \<noteq> None then None
                    else if tl ds = [] then Some (acc', Some (length acc'), [])
                    else parse_groups k (tl ds) acc' (Some (length acc')))
                 else parse_groups k ds acc' ell))"

definition parseIPv6 :: "string \<Rightarrow> ip option" where
  "parseIPv6 s0 =
     (let lead = HasPrefix s0 ''::''; s = (if lead then drop 2 s0 else s0) in
      if lead \<and> s = [] then Some (replicate 16 0)
      else case parse_groups 8 s [] (if lead then Some 0 else None) of
        None \<Rightarrow> None
      | Some (acc, ell, rest) \<Rightarrow>
          if rest \<noteq> [] then None
          else if length acc < 16 then
            (case ell of
               None \<Rightarrow> None
             | Some e \<Rightarrow> Some (take e acc @ replicate (16 - length acc) 0 @ drop e acc))
          else if ell \<noteq> None then None
          else Some acc)"

definition ParseIP :: "string \<Rightarrow> ip" where
  "ParseIP s =
     (case find (\<lambda>c. c = CHR ''.'' \<or> c = CHR '':'') s of
        None \<Rightarrow> []
      | Some c \<Rightarrow> (case (if c = CHR ''.'' then parseIPv4 s else parseIPv6 s) of
                    None \<Rightarrow> [] | Some a \<Rightarrow> a))"

section \<open>Printing addresses\<close>

definition To4 :: "ip \<Rightarrow> nat list option" where
  "To4 a =
     (if length a = 4 then Some a
      else if length a = 16 \<and> take 12 a = v4_prefix then Some (drop 12 a) else None)"

fun hex_nat :: "nat \<Rightarrow> string" where
  "hex_nat n = (if n < 16 then [lowerhex n] else hex_nat (n div 16) @ [lowerhex (n mod 16)])"

declare hex_nat.simps [simp del]

fun groups :: "nat list \<Rightarrow> nat list" where
  "groups (a # b # r) = (256 * a + b) # groups r"
| "groups _ = []"

text \<open>
  The first longest run of zero groups, when it has at least two: its start and end.
\<close>

fun zero_run :: "nat list \<Rightarrow> nat" where
  "zero_run (0 # gs) = Suc (zero_run gs)"
| "zero_run _ = 0"

definition longest_zeros :: "nat list \<Rightarrow> (nat \<times> nat) option" where
  "longest_zeros gs =
     (let best = fold (\<lambda>i (b, l). let r = zero_run (drop i gs) in if l < r then (i, r) else (b, l))
                   [0..<length gs] (0, 0)
      in if 1 < snd best then Some best else None)"

definition IP_String :: "ip \<Rightarrow> string" where
  "IP_String a =
     (if a = [] then ''<nil>''
      else case To4 a of
        Some p4 \<Rightarrow> Join (map dec_nat p4) ''.''
      | None \<Rightarrow>
          if length a \<noteq> 16
          then ''?'' @ concat (map (\<lambda>b. [lowerhex (b div 16), lowerhex (b mod 16)]) a)
          else
            let gs = groups a in
            (case longest_zeros gs of
               None \<Rightarrow> Join (map hex_nat gs) '':''
             | Some (b, l) \<Rightarrow>
                 Join (map hex_nat (take b gs)) '':'' @ ''::'' @ Join (map hex_nat (drop (b + l) gs)) '':''))"

section \<open>Hosts and ports\<close>

fun last_index :: "string \<Rightarrow> char \<Rightarrow> nat option" where
  "last_index [] x = None"
| "last_index (c # cs) x =
     (case last_index cs x of Some i \<Rightarrow> Some (Suc i) | None \<Rightarrow> if c = x then Some 0 else None)"

text \<open>The host of \<open>net.SplitHostPort\<close>, \<open>None\<close> where it returns an error.\<close>

definition SplitHostPort :: "string \<Rightarrow> (string \<times> string) option" where
  "SplitHostPort hostport =
     (case last_index hostport (CHR '':'') of
        None \<Rightarrow> None
      | Some i \<Rightarrow>
          if hd hostport = CHR ''['' then
            (case IndexByte hostport (CHR '']'') of
               None \<Rightarrow> None
             | Some e \<Rightarrow>
                 if Suc e \<noteq> i then None
                 else if CHR ''['' \<in> set (drop 1 hostport) \<or> CHR '']'' \<in> set (drop (Suc e) hostport) then None
                 else Some (take (e - 1) (drop 1 hostport), drop (Suc i) hostport))
          else
            let host = take i hostport in
            if CHR '':'' \<in> set host then None
            else if CHR ''['' \<in> set hostport \<or> CHR '']'' \<in> set hostport then None
            else Some (host, drop (Suc i) hostport))"

section \<open>IPv4 addresses read back\<close>

definition ipv4_ok :: "ip \<Rightarrow> bool" where
  "ipv4_ok a \<longleftrightarrow> length a = 16 \<and> take 12 a = v4_prefix \<and> list_all (\<lambda>b. b < 256) a"

lemma takeWhile_dec_nat:
  "s = [] \<or> \<not> is_digit (hd s) \<Longrightarrow> takeWhile is_digit (dec_nat n @ s) = dec_nat n"
  using dec_nat_digits [of n]
  by (cases s) (auto simp: list_all_iff takeWhile_append_stop takeWhile_append2)

lemma dtoi_dec_nat:
  "n < 256 \<Longrightarrow> s = [] \<or> \<not> is_digit (hd s) \<Longrightarrow> dtoi (dec_nat n @ s) = Some (n, length (dec_nat n))"
  by (simp add: dtoi_def takeWhile_dec_nat big_def)

lemma not_digit_dot [simp]: "\<not> is_digit (CHR ''.'')"
  by (simp add: is_digit_def byte_of_def)

lemma parse_octets_dotted:
  assumes "a < 256" "b < 256" "c < 256" "d < 256"
  shows "parse_octets 4 True (dec_nat a @ ''.'' @ dec_nat b @ ''.'' @ dec_nat c @ ''.'' @ dec_nat d) =
     Some [a, b, c, d]"
  using assms dtoi_dec_nat [OF assms(4), of "[]"]
  by (simp add: eval_nat_numeral dtoi_dec_nat del: dec_nat.simps)

lemma find_dot_dec_nat:
  "find (\<lambda>c. c = CHR ''.'' \<or> c = CHR '':'') (dec_nat n @ CHR ''.'' # s) = Some (CHR ''.'')"
proof -
  have digit: "\<not> (c = CHR ''.'' \<or> c = CHR '':'')" if "is_digit c" for c
    using that by (auto simp: is_digit_def byte_of_def)
  have "find (\<lambda>c. c = CHR ''.'' \<or> c = CHR '':'') (ds @ CHR ''.'' # s) = Some (CHR ''.'')"
    if "list_all is_digit ds" for ds
    using that digit by (induction ds) auto
  then show ?thesis using dec_nat_digits by blast
qed

lemma length_4_cases: "length xs = 4 \<Longrightarrow> \<exists>a b c d. xs = [a, b, c, d]"
  by (auto simp: length_Suc_conv eval_nat_numeral)

lemma ipv4_ok_To4: "ipv4_ok x \<Longrightarrow> To4 x = Some (drop 12 x) \<and> x \<noteq> []"
  by (auto simp: To4_def ipv4_ok_def)

lemma ParseIP_String_v4:
  assumes "ipv4_ok x"
  shows "ParseIP (IP_String x) = x"
proof -
  from assms have len: "length (drop 12 x) = 4" and x: "x = v4_prefix @ drop 12 x"
    and bytes: "list_all (\<lambda>b. b < 256) (drop 12 x)"
    by (auto simp: ipv4_ok_def list_all_iff dest: in_set_dropD) (metis append_take_drop_id)
  from len obtain a b c d where abcd: "drop 12 x = [a, b, c, d]"
    using length_4_cases by blast
  with bytes have lt: "a < 256" "b < 256" "c < 256" "d < 256" by auto
  from ipv4_ok_To4 [OF assms] abcd have "To4 x = Some [a, b, c, d]" and "x \<noteq> []"
    by simp_all
  then have s: "IP_String x = dec_nat a @ ''.'' @ dec_nat b @ ''.'' @ dec_nat c @ ''.'' @ dec_nat d"
    by (simp add: IP_String_def)
  show ?thesis
    unfolding ParseIP_def s parseIPv4_def
    using parse_octets_dotted [OF lt] find_dot_dec_nat [of a] x abcd by simp
qed

lemma IP_String_v4_no_dash: "ipv4_ok x \<Longrightarrow> CHR ''-'' \<notin> set (IP_String x)"
proof -
  assume "ipv4_ok x"
  then have p: "To4 x = Some (drop 12 x)" "x \<noteq> []" by (simp_all add: ipv4_ok_To4)
  have "CHR ''-'' \<notin> set (Join (map dec_nat qs) ''.'')" for qs
    by (induction qs rule: induct_list012) (simp_all add: dec_nat_no_dash)
  with p show ?thesis by (simp add: IP_String_def)
qed

end
