(* ===== verification/Sas_Query.thy ===== *)
theory Sas_Query
  imports Go_Url Go_Time Go_Net
begin

text \<open>
  zc\_sas\_query\_params.go: SAS times, IP ranges, the \<open>SASQueryParameters\<close> structure, its
  construction from the query parameters of a URL and its encoding into them.
\<close>

section \<open>Times\<close>

definition SASTimeFormats :: "string list" where
  "SASTimeFormats = [''2006-01-02T15:04:05Z'', ''2006-01-02T15:04Z'', ''2006-01-02'']"

definition formatSASTime :: "go_time \<Rightarrow> string \<Rightarrow> string" where
  "formatSASTime t format =
     (if format \<noteq> [] then time_Format t format else time_Format t (SASTimeFormats ! 0))"

definition formatSASTimeWithDefaultFormat :: "go_time \<Rightarrow> string" where
  "formatSASTimeWithDefaultFormat t = formatSASTime t (SASTimeFormats ! 0)"

definition FormatTimesForSASSigning :: "go_time \<Rightarrow> go_time \<Rightarrow> string \<times> string" where
  "FormatTimesForSASSigning startTime expiryTime =
     (let ss = (if \<not> IsZero startTime then formatSASTimeWithDefaultFormat startTime else []);
          se = (if \<not> IsZero expiryTime then formatSASTimeWithDefaultFormat expiryTime else [])
      in (ss, se))"

text \<open>
  The loop over the formats stops at the first that fits; after a failure the time is the
  zero time, which is what \<open>time.Parse\<close> returns beside its error.
\<close>

fun parseSASTime_loop :: "string list \<Rightarrow> string \<Rightarrow> go_time \<times> string \<times> string option" where
  "parseSASTime_loop [] val =
     (zero_time, [], Some ''fail to parse time with IOS 8601 formats, please refer to https://docs.microsoft.com/en-us/rest/api/storageservices/constructing-a-service-sas for more details'')"
| "parseSASTime_loop (f # fs) val =
     (case time_Parse f val of Some t \<Rightarrow> (t, f, None) | None \<Rightarrow> parseSASTime_loop fs val)"

definition parseSASTimeString :: "string \<Rightarrow> go_time \<times> string \<times> string option" where
  "parseSASTimeString val = parseSASTime_loop SASTimeFormats val"

section \<open>IP ranges\<close>

record IPRange =
  ipr_Start :: ip
  ipr_End :: ip

definition IPRange_String :: "IPRange \<Rightarrow> string" where
  "IPRange_String r =
     (if length (ipr_Start r) = 0 then []
      else let start = IP_String (ipr_Start r) in
        if length (ipr_End r) = 0 then start
        else start @ ''-'' @ IP_String (ipr_End r))"

section \<open>The parameters\<close>

record SASQueryParameters =
  sq_version :: string
  sq_services :: string
  sq_resourceTypes :: string
  sq_protocol :: string
  sq_startTime :: go_time
  sq_expiryTime :: go_time
  sq_ipRange :: IPRange
  sq_identifier :: string
  sq_resource :: string
  sq_permissions :: string
  sq_signature :: string
  sq_cacheControl :: string
  sq_contentDisposition :: string
  sq_contentEncoding :: string
  sq_contentLanguage :: string
  sq_contentType :: string
  sq_stTimeFormat :: string
  sq_seTimeFormat :: string

definition empty_SAS :: SASQueryParameters where
  "empty_SAS = \<lparr>sq_version = [], sq_services = [], sq_resourceTypes = [], sq_protocol = [],
     sq_startTime = zero_time, sq_expiryTime = zero_time,
     sq_ipRange = \<lparr>ipr_Start = [], ipr_End = []\<rparr>, sq_identifier = [], sq_resource = [],
     sq_permissions = [], sq_signature = [], sq_cacheControl = [], sq_contentDisposition = [],
     sq_contentEncoding = [], sq_contentLanguage = [], sq_contentType = [],
     sq_stTimeFormat = [], sq_seTimeFormat = []\<rparr>"

text \<open>
  The switch of \<open>newSASQueryParameters\<close> on one parameter; \<open>None\<close> is the default branch.
\<close>

definition set_start :: "string \<Rightarrow> SASQueryParameters \<Rightarrow> SASQueryParameters" where
  "set_start val p =
     (case parseSASTimeString val of (t, f, _) \<Rightarrow> p\<lparr>sq_startTime := t, sq_stTimeFormat := f\<rparr>)"

definition set_expiry :: "string \<Rightarrow> SASQueryParameters \<Rightarrow> SASQueryParameters" where
  "set_expiry val p =
     (case parseSASTimeString val of (t, f, _) \<Rightarrow> p\<lparr>sq_expiryTime := t, sq_seTimeFormat := f\<rparr>)"

definition set_ipRange :: "string \<Rightarrow> SASQueryParameters \<Rightarrow> SASQueryParameters" where
  "set_ipRange val p =
     (case IndexByte val (CHR ''-'') of
        None \<Rightarrow> p\<lparr>sq_ipRange := (sq_ipRange p)\<lparr>ipr_Start := ParseIP val\<rparr>\<rparr>
      | Some i \<Rightarrow> p\<lparr>sq_ipRange := \<lparr>ipr_Start = ParseIP (take i val), ipr_End = ParseIP (drop (Suc i) val)\<rparr>\<rparr>)"

definition sas_assign :: "string \<Rightarrow> string \<Rightarrow> SASQueryParameters \<Rightarrow> SASQueryParameters option" where
  "sas_assign key val p =
     (if key = ''sv'' then Some (p\<lparr>sq_version := val\<rparr>)
      else if key = ''ss'' then Some (p\<lparr>sq_services := val\<rparr>)
      else if key = ''srt'' then Some (p\<lparr>sq_resourceTypes := val\<rparr>)
      else if key = ''spr'' then Some (p\<lparr>sq_protocol := val\<rparr>)
      else if key = ''st'' then Some (set_start val p)
      else if key = ''se'' then Some (set_expiry val p)
      else if key = ''sip'' then Some (set_ipRange val p)
      else if key = ''si'' then Some (p\<lparr>sq_identifier := val\<rparr>)
      else if key = ''sr'' then Some (p\<lparr>sq_resource := val\<rparr>)
      else if key = ''sp'' then Some (p\<lparr>sq_permissions := val\<rparr>)
      else if key = ''sig'' then Some (p\<lparr>sq_signature := val\<rparr>)
      else if key = ''rscc'' then Some (p\<lparr>sq_cacheControl := val\<rparr>)
      else if key = ''rscd'' then Some (p\<lparr>sq_contentDisposition := val\<rparr>)
      else if key = ''rsce'' then Some (p\<lparr>sq_contentEncoding := val\<rparr>)
      else if key = ''rscl'' then Some (p\<lparr>sq_contentLanguage := val\<rparr>)
      else if key = ''rsct'' then Some (p\<lparr>sq_contentType := val\<rparr>)
      else None)"

text \<open>
  The loop over the map. Deleting the entry that is being visited is what the code does;
  \<open>v[0]\<close> panics on an entry without values.
\<close>

fun newSAS_loop ::
    "unicode_tables \<Rightarrow> bool \<Rightarrow> Values \<Rightarrow> SASQueryParameters \<times> Values
      \<Rightarrow> (SASQueryParameters \<times> Values) exec" where
  "newSAS_loop u del [] st = Return st"
| "newSAS_loop u del ((k, []) # rest) st = index_panic"
| "newSAS_loop u del ((k, val # vs) # rest) (p, values) =
     (case sas_assign (ToLower u k) val p of
        Some p' \<Rightarrow> newSAS_loop u del rest (p', if del then AList.delete k values else values)
      | None \<Rightarrow> newSAS_loop u del rest (p, values))"

definition newSASQueryParameters ::
    "unicode_tables \<Rightarrow> Values \<Rightarrow> bool \<Rightarrow> (SASQueryParameters \<times> Values) exec" where
  "newSASQueryParameters u values deleteSASParametersFromValues =
     newSAS_loop u deleteSASParametersFromValues values (empty_SAS, values)"

definition add_if :: "bool \<Rightarrow> string \<Rightarrow> string \<Rightarrow> Values \<Rightarrow> Values" where
  "add_if b k x v = (if b then Values_Add v k x else v)"

definition addToValues :: "SASQueryParameters \<Rightarrow> Values \<Rightarrow> Values" where
  "addToValues p v =
     (let v = add_if (sq_version p \<noteq> []) ''sv'' (sq_version p) v;
          v = add_if (sq_services p \<noteq> []) ''ss'' (sq_services p) v;
          v = add_if (sq_resourceTypes p \<noteq> []) ''srt'' (sq_resourceTypes p) v;
          v = add_if (sq_protocol p \<noteq> []) ''spr'' (sq_protocol p) v;
          v = add_if (\<not> IsZero (sq_startTime p)) ''st''
                (formatSASTime (sq_startTime p) (sq_stTimeFormat p)) v;
          v = add_if (\<not> IsZero (sq_expiryTime p)) ''se''
                (formatSASTime (sq_expiryTime p) (sq_seTimeFormat p)) v;
          v = add_if (length (ipr_Start (sq_ipRange p)) > 0) ''sip'' (IPRange_String (sq_ipRange p)) v;
          v = add_if (sq_identifier p \<noteq> []) ''si'' (sq_identifier p) v;
          v = add_if (sq_resource p \<noteq> []) ''sr'' (sq_resource p) v;
          v = add_if (sq_permissions p \<noteq> []) ''sp'' (sq_permissions p) v;
          v = add_if (sq_signature p \<noteq> []) ''sig'' (sq_signature p) v;
          v = add_if (sq_cacheControl p \<noteq> []) ''rscc'' (sq_cacheControl p) v;
          v = add_if (sq_contentDisposition p \<noteq> []) ''rscd'' (sq_contentDisposition p) v;
          v = add_if (sq_contentEncoding p \<noteq> []) ''rsce'' (sq_contentEncoding p) v;
          v = add_if (sq_contentLanguage p \<noteq> []) ''rscl'' (sq_contentLanguage p) v;
          v = add_if (sq_contentType p \<noteq> []) ''rsct'' (sq_contentType p) v
      in v)"

definition SAS_Encode :: "SASQueryParameters \<Rightarrow> string" where
  "SAS_Encode p = Values_Encode (addToValues p [])"

section \<open>Accessors\<close>

definition SASProtocolHTTPS :: string where
  "SASProtocolHTTPS = ''https''"

definition SASProtocolHTTPSandHTTP :: string where
  "SASProtocolHTTPSandHTTP = ''https,http''"

definition SASQueryParameters_Version :: "SASQueryParameters \<Rightarrow> string" where
  "SASQueryParameters_Version p = sq_version p"

definition SASQueryParameters_Services :: "SASQueryParameters \<Rightarrow> string" where
  "SASQueryParameters_Services p = sq_services p"

definition SASQueryParameters_ResourceTypes :: "SASQueryParameters \<Rightarrow> string" where
  "SASQueryParameters_ResourceTypes p = sq_resourceTypes p"

definition SASQueryParameters_Protocol :: "SASQueryParameters \<Rightarrow> string" where
  "SASQueryParameters_Protocol p = sq_protocol p"

definition SASQueryParameters_StartTime :: "SASQueryParameters \<Rightarrow> go_time" where
  "SASQueryParameters_StartTime p = sq_startTime p"

definition SASQueryParameters_ExpiryTime :: "SASQueryParameters \<Rightarrow> go_time" where
  "SASQueryParameters_ExpiryTime p = sq_expiryTime p"

definition SASQueryParameters_IPRange :: "SASQueryParameters \<Rightarrow> IPRange" where
  "SASQueryParameters_IPRange p = sq_ipRange p"

definition SASQueryParameters_Identifier :: "SASQueryParameters \<Rightarrow> string" where
  "SASQueryParameters_Identifier p = sq_identifier p"

definition SASQueryParameters_Resource :: "SASQueryParameters \<Rightarrow> string" where
  "SASQueryParameters_Resource p = sq_resource p"

definition SASQueryParameters_Permissions :: "SASQueryParameters \<Rightarrow> string" where
  "SASQueryParameters_Permissions p = sq_permissions p"

definition SASQueryParameters_Signature :: "SASQueryParameters \<Rightarrow> string" where
  "SASQueryParameters_Signature p = sq_signature p"

definition SASQueryParameters_CacheControl :: "SASQueryParameters \<Rightarrow> string" where
  "SASQueryParameters_CacheControl p = sq_cacheControl p"

definition SASQueryParameters_ContentDisposition :: "SASQueryParameters \<Rightarrow> string" where
  "SASQueryParameters_ContentDisposition p = sq_contentDisposition p"

definition SASQueryParameters_ContentEncoding :: "SASQueryParameters \<Rightarrow> string" where
  "SASQueryParameters_ContentEncoding p = sq_contentEncoding p"

definition SASQueryParameters_ContentLanguage :: "SASQueryParameters \<Rightarrow> string" where
  "SASQueryParameters_ContentLanguage p = sq_contentLanguage p"

definition SASQueryParameters_ContentType :: "SASQueryParameters \<Rightarrow> string" where
  "SASQueryParameters_ContentType p = sq_contentType p"

section \<open>What parsing computes\<close>

definition sas_names :: "string list" where
  "sas_names = [''sv'', ''ss'', ''srt'', ''spr'', ''st'', ''se'', ''sip'', ''si'', ''sr'', ''sp'',
     ''sig'', ''rscc'', ''rscd'', ''rsce'', ''rscl'', ''rsct'']"

text \<open>
  Parsing every parameter at once: \<open>f\<close> gives the value of each parameter that is present.
\<close>

definition or_else :: "'a option \<Rightarrow> 'a \<Rightarrow> 'a" where
  "or_else x d = (case x of Some y \<Rightarrow> y | None \<Rightarrow> d)"

definition sas_apply :: "(string \<rightharpoonup> string) \<Rightarrow> SASQueryParameters \<Rightarrow> SASQueryParameters" where
  "sas_apply f p =
     \<lparr>sq_version = or_else (f ''sv'') (sq_version p),
      sq_services = or_else (f ''ss'') (sq_services p),
      sq_resourceTypes = or_else (f ''srt'') (sq_resourceTypes p),
      sq_protocol = or_else (f ''spr'') (sq_protocol p),
      sq_startTime = or_else (map_option (\<lambda>x. fst (parseSASTimeString x)) (f ''st'')) (sq_startTime p),
      sq_expiryTime = or_else (map_option (\<lambda>x. fst (parseSASTimeString x)) (f ''se'')) (sq_expiryTime p),
      sq_ipRange = (case f ''sip'' of None \<Rightarrow> sq_ipRange p | Some x \<Rightarrow> sq_ipRange (set_ipRange x p)),
      sq_identifier = or_else (f ''si'') (sq_identifier p),
      sq_resource = or_else (f ''sr'') (sq_resource p),
      sq_permissions = or_else (f ''sp'') (sq_permissions p),
      sq_signature = or_else (f ''sig'') (sq_signature p),
      sq_cacheControl = or_else (f ''rscc'') (sq_cacheControl p),
      sq_contentDisposition = or_else (f ''rscd'') (sq_contentDisposition p),
      sq_contentEncoding = or_else (f ''rsce'') (sq_contentEncoding p),
      sq_contentLanguage = or_else (f ''rscl'') (sq_contentLanguage p),
      sq_contentType = or_else (f ''rsct'') (sq_contentType p),
      sq_stTimeFormat = or_else (map_option (\<lambda>x. fst (snd (parseSASTimeString x))) (f ''st'')) (sq_stTimeFormat p),
      sq_seTimeFormat = or_else (map_option (\<lambda>x. fst (snd (parseSASTimeString x))) (f ''se'')) (sq_seTimeFormat p)\<rparr>"

lemma or_else_simps [simp]: "or_else None d = d" "or_else (Some y) d = y"
  by (simp_all add: or_else_def)

lemma sas_apply_empty [simp]: "sas_apply Map.empty p = p"
  by (simp add: sas_apply_def)

lemma sas_assign_None_iff: "sas_assign k x p = None \<longleftrightarrow> k \<notin> set sas_names"
  by (simp add: sas_assign_def sas_names_def)

text \<open>One more parameter on top of parameters that do not include it.\<close>

lemma sas_assign_apply:
  assumes "k \<in> set sas_names" and "f k = None"
  shows "sas_assign k x (sas_apply f p) = Some (sas_apply (f(k \<mapsto> x)) p)"
  using assms
  apply (simp only: sas_names_def set_simps insert_iff empty_iff)
  apply (elim disjE FalseE)
  by (simp_all add: sas_assign_def sas_apply_def set_start_def set_expiry_def set_ipRange_def
      split: prod.splits option.splits)


section \<open>Times read back\<close>

definition fmt_sec :: string where "fmt_sec = ''2006-01-02T15:04:05Z''"
definition fmt_min :: string where "fmt_min = ''2006-01-02T15:04Z''"
definition fmt_date :: string where "fmt_date = ''2006-01-02''"

lemma layout_chunks_0: "layout_chunks fmt_sec =
   [StdYear, Lit (CHR ''-''), StdMonth, Lit (CHR ''-''), StdDay, Lit (CHR ''T''), StdHour,
    Lit (CHR '':''), StdMin, Lit (CHR '':''), StdSec, Lit (CHR ''Z'')]"
  by code_simp

lemma layout_chunks_1: "layout_chunks fmt_min =
   [StdYear, Lit (CHR ''-''), StdMonth, Lit (CHR ''-''), StdDay, Lit (CHR ''T''), StdHour,
    Lit (CHR '':''), StdMin, Lit (CHR ''Z'')]"
  by code_simp

lemma layout_chunks_2: "layout_chunks fmt_date =
   [StdYear, Lit (CHR ''-''), StdMonth, Lit (CHR ''-''), StdDay]"
  by code_simp

text \<open>
  A time a format can carry: UTC, four-digit year, and nothing below what the format prints.
\<close>

definition sas_time_ok :: "go_time \<Rightarrow> string \<Rightarrow> bool" where
  "sas_time_ok t f \<longleftrightarrow> date_ok t \<and> t_offset t = 0 \<and> t_nsec t = 0 \<and> f \<in> set SASTimeFormats
     \<and> (f = fmt_min \<longrightarrow> t_sec t = 0)
     \<and> (f = fmt_date \<longrightarrow> t_hour t = 0 \<and> t_min t = 0 \<and> t_sec t = 0)"

lemma SASTimeFormats_eq: "SASTimeFormats = [fmt_sec, fmt_min, fmt_date]"
  by (simp add: SASTimeFormats_def fmt_sec_def fmt_min_def fmt_date_def)

lemma fmt_distinct:
  "fmt_sec \<noteq> []" "fmt_min \<noteq> []" "fmt_date \<noteq> []"
  by (simp_all add: fmt_sec_def fmt_min_def fmt_date_def)

lemmas parse_steps = parse_fields(1-5) parse_chunk.simps(1)

lemma time_Parse_Format_0:
  assumes "date_ok t" and "t_offset t = 0" and "t_nsec t = 0"
  shows "time_Parse fmt_sec (time_Format t fmt_sec) = Some t"
  using assms
  by (simp add: time_Parse_def time_Format_def layout_chunks_0 parse_fields del: parse_chunk.simps(2-7))
     (simp add: date_ok_def)

lemma time_Parse_Format_1:
  assumes "date_ok t" and "t_offset t = 0" and "t_nsec t = 0" and "t_sec t = 0"
  shows "time_Parse fmt_min (time_Format t fmt_min) = Some t"
    and "time_Parse fmt_sec (time_Format t fmt_min) = None"
  using assms
  by (simp_all add: time_Parse_def time_Format_def layout_chunks_0 layout_chunks_1 parse_fields
      del: parse_chunk.simps(2-7))
     (simp add: date_ok_def)

lemma time_Parse_Format_2:
  assumes "date_ok t" and "t_offset t = 0" and "t_nsec t = 0" and "t_sec t = 0" and "t_min t = 0"
    and "t_hour t = 0"
  shows "time_Parse fmt_date (time_Format t fmt_date) = Some t"
    and "time_Parse fmt_min (time_Format t fmt_date) = None"
    and "time_Parse fmt_sec (time_Format t fmt_date) = None"
  using assms parse_fields(3) [of t _ "[]"]
  by (simp_all add: time_Parse_def time_Format_def layout_chunks_0 layout_chunks_1 layout_chunks_2
      parse_fields del: parse_chunk.simps(2-7))
     (simp add: date_ok_def)

lemma parseSASTimeString_format:
  assumes "sas_time_ok t f"
  shows "parseSASTimeString (formatSASTime t f) = (t, f, None)"
proof -
  from assms have ok: "date_ok t" "t_offset t = 0" "t_nsec t = 0" by (auto simp: sas_time_ok_def)
  from assms have "f \<in> set [fmt_sec, fmt_min, fmt_date]"
    by (simp only: sas_time_ok_def SASTimeFormats_eq)
  then consider "f = fmt_sec" | "f = fmt_min" | "f = fmt_date" by auto
  then show ?thesis
  proof cases
    case 1
    with ok time_Parse_Format_0 [OF ok] show ?thesis
      by (simp add: parseSASTimeString_def formatSASTime_def SASTimeFormats_eq fmt_distinct)
  next
    case 2
    with assms have "t_sec t = 0" by (simp add: sas_time_ok_def)
    with 2 time_Parse_Format_1 [OF ok] show ?thesis
      by (simp add: parseSASTimeString_def formatSASTime_def SASTimeFormats_eq fmt_distinct)
  next
    case 3
    with assms have "t_sec t = 0" "t_min t = 0" "t_hour t = 0" by (simp_all add: sas_time_ok_def)
    with 3 time_Parse_Format_2 [OF ok] show ?thesis
      by (simp add: parseSASTimeString_def formatSASTime_def SASTimeFormats_eq fmt_distinct)
  qed
qed


section \<open>The loop over the query map\<close>

text \<open>
  The parameters of a query by lower-case name, and the condition that no two keys of the
  query are the same SAS parameter in different case.
\<close>

definition low_params :: "unicode_tables \<Rightarrow> Values \<Rightarrow> (string \<times> string) list" where
  "low_params u vals = map (\<lambda>(k, v). (ToLower u k, hd v)) vals"

definition no_case_clash :: "unicode_tables \<Rightarrow> Values \<Rightarrow> bool" where
  "no_case_clash u vals \<longleftrightarrow>
     distinct (filter (\<lambda>n. n \<in> set sas_names) (map (\<lambda>e. ToLower u (fst e)) vals))"

definition non_sas :: "unicode_tables \<Rightarrow> Values \<Rightarrow> Values" where
  "non_sas u vals = filter (\<lambda>e. ToLower u (fst e) \<notin> set sas_names) vals"

lemma sas_apply_cong:
  assumes "\<And>n. n \<in> set sas_names \<Longrightarrow> f n = g n"
  shows "sas_apply f p = sas_apply g p"
proof -
  have "\<forall>n \<in> set sas_names. f n = g n" using assms by blast
  then show ?thesis by (simp add: sas_names_def sas_apply_def)
qed

lemma low_params_simps [simp]:
  "low_params u [] = []"
  "low_params u ((k, v) # vals) = (ToLower u k, hd v) # low_params u vals"
  by (simp_all add: low_params_def)

lemma map_of_low_params_None:
  "n \<notin> (\<lambda>e. ToLower u (fst e)) ` set vals \<Longrightarrow> map_of (low_params u vals) n = None"
  by (induction vals) auto

lemma no_case_clash_Cons:
  "no_case_clash u ((k, v) # vals) \<longleftrightarrow>
     no_case_clash u vals \<and>
     (ToLower u k \<in> set sas_names \<longrightarrow> ToLower u k \<notin> (\<lambda>e. ToLower u (fst e)) ` set vals)"
  by (auto simp: no_case_clash_def)

text \<open>What one entry contributes, and which entries a prefix of the loop leaves.\<close>

definition left_over :: "unicode_tables \<Rightarrow> Values \<Rightarrow> Values \<Rightarrow> Values" where
  "left_over u vals rem = filter (\<lambda>e. \<not> (fst e \<in> fst ` set vals \<and> ToLower u (fst e) \<in> set sas_names)) rem"

lemma left_over_Cons:
  "ToLower u k \<in> set sas_names \<Longrightarrow> left_over u vals (AList.delete k rem) = left_over u ((k, xs) # vals) rem"
  "ToLower u k \<notin> set sas_names \<Longrightarrow> left_over u vals rem = left_over u ((k, xs) # vals) rem"
  by (auto simp: left_over_def AList.delete_eq intro!: filter_cong)

lemma sas_apply_Cons:
  "ToLower u k \<notin> (\<lambda>e. ToLower u (fst e)) ` set vals \<Longrightarrow>
     sas_apply (f(ToLower u k \<mapsto> x) ++ map_of (low_params u vals)) p =
     sas_apply (f ++ map_of (low_params u ((k, x # xs) # vals))) p"
  "ToLower u k \<notin> set sas_names \<Longrightarrow>
     sas_apply (f ++ map_of (low_params u vals)) p = sas_apply (f ++ map_of (low_params u ((k, x # xs) # vals))) p"
  by (auto simp: map_add_def map_of_low_params_None intro!: sas_apply_cong split: option.split)

lemma newSAS_loop_apply:
  assumes "[] \<notin> snd ` set vals" and "no_case_clash u vals"
    and "\<And>n. n \<in> set sas_names \<Longrightarrow> n \<in> (\<lambda>e. ToLower u (fst e)) ` set vals \<Longrightarrow> f n = None"
  shows "newSAS_loop u del vals (sas_apply f p, rem) =
    Return (sas_apply (f ++ map_of (low_params u vals)) p, if del then left_over u vals rem else rem)"
  using assms
proof (induction vals arbitrary: f rem)
  case Nil
  show ?case by (simp add: left_over_def)
next
  case (Cons e vals)
  obtain k x xs where e: "e = (k, x # xs)"
    using Cons.prems(1) by (cases e; cases "snd e") auto
  let ?n = "ToLower u k"
  have ne: "[] \<notin> snd ` set vals" and clash: "no_case_clash u vals"
    using Cons.prems(1,2) by (auto simp: e no_case_clash_Cons)
  show ?case
  proof (cases "?n \<in> set sas_names")
    case True
    have fresh: "?n \<notin> (\<lambda>e. ToLower u (fst e)) ` set vals"
      using Cons.prems(2) True by (auto simp: e no_case_clash_Cons)
    have "f ?n = None" using Cons.prems(3) [OF True] by (simp add: e)
    then have step: "sas_assign ?n x (sas_apply f p) = Some (sas_apply (f(?n \<mapsto> x)) p)"
      by (rule sas_assign_apply [OF True])
    have pre: "(f(?n \<mapsto> x)) n = None"
      if "n \<in> set sas_names" "n \<in> (\<lambda>e. ToLower u (fst e)) ` set vals" for n
    proof -
      from that fresh have "n \<noteq> ?n" by blast
      with that Cons.prems(3) [of n] show ?thesis by (simp add: e)
    qed
    note IH = Cons.IH [OF ne clash, of "f(?n \<mapsto> x)", OF pre]
    show ?thesis
      using IH [of "if del then AList.delete k rem else rem"] sas_apply_Cons(1) [OF fresh, of f x p xs]
        left_over_Cons(1) [OF True, of vals rem "x # xs"]
      by (simp add: e step del: fun_upd_apply)
  next
    case False
    then have step: "sas_assign ?n x (sas_apply f p) = None" by (simp add: sas_assign_None_iff)
    have pre: "f n = None" if "n \<in> set sas_names" "n \<in> (\<lambda>e. ToLower u (fst e)) ` set vals" for n
      using that Cons.prems(3) [of n] by simp
    show ?thesis
      unfolding e sas_apply_Cons(2) [OF False, of f vals p x xs, symmetric] left_over_Cons(2) [OF False, of vals rem "x # xs", symmetric]
      by (simp add: step Cons.IH [OF ne clash, of f, OF pre])
  qed
qed

lemma newSAS_eq:
  assumes "[] \<notin> snd ` set vals" and "no_case_clash u vals"
  shows "newSASQueryParameters u vals del =
    Return (sas_apply (map_of (low_params u vals)) empty_SAS, if del then non_sas u vals else vals)"
proof -
  have "left_over u vals vals = non_sas u vals"
    unfolding left_over_def non_sas_def by (rule filter_cong) auto
  with newSAS_loop_apply [OF assms, of Map.empty del empty_SAS vals] show ?thesis
    by (simp add: newSASQueryParameters_def)
qed

section \<open>Iteration order\<close>

lemma map_of_filter_fst: "P n \<Longrightarrow> map_of (filter (\<lambda>e. P (fst e)) m) n = map_of m n"
  by (induction m) auto

lemma low_params_order:
  assumes "no_case_clash u vals" and "mset vals = mset vals'" and "n \<in> set sas_names"
  shows "map_of (low_params u vals) n = map_of (low_params u vals') n"
proof -
  let ?f = "\<lambda>vals. filter (\<lambda>e. fst e \<in> set sas_names) (low_params u vals)"
  have "map fst (?f vals) = filter (\<lambda>n. n \<in> set sas_names) (map (\<lambda>e. ToLower u (fst e)) vals)"
    by (induction vals) auto
  with assms(1) have ok: "go_map_ok (?f vals)" by (simp add: go_map_ok_def no_case_clash_def)
  have "mset (?f vals) = mset (?f vals')"
    using assms(2) by (simp add: low_params_def mset_filter)
  from go_map_mset_eq_map_of [OF ok this] have "map_of (?f vals) n = map_of (?f vals') n" by simp
  then show ?thesis
    using map_of_filter_fst [of "\<lambda>n. n \<in> set sas_names" n, OF assms(3)] by metis
qed

lemma no_case_clash_order:
  assumes "no_case_clash u vals" and "mset vals = mset vals'"
  shows "no_case_clash u vals'"
proof -
  have "mset (map (\<lambda>e. ToLower u (fst e)) vals) = mset (map (\<lambda>e. ToLower u (fst e)) vals')"
    using assms(2) by simp
  with assms(1) show ?thesis
    unfolding no_case_clash_def by (metis mset_eq_imp_distinct_iff mset_filter)
qed


text \<open>
  C35: Go visits a map in an unspecified order, but the SAS parameters read from a query do
  not depend on it, as long as no SAS parameter occurs twice in different case: every order
  of the same entries gives the same parameters, and with deletion leaves exactly the
  entries that are not SAS parameters.
\<close>

theorem newSASQueryParameters_order:
  assumes "[] \<notin> snd ` set vals" and "no_case_clash u vals" and "mset vals = mset vals'"
  shows "\<exists>p. newSASQueryParameters u vals True = Return (p, non_sas u vals)
     \<and> newSASQueryParameters u vals' True = Return (p, non_sas u vals')
     \<and> newSASQueryParameters u vals' False = Return (p, vals')
     \<and> mset (non_sas u vals') = mset (non_sas u vals)"
proof -
  have set: "set vals = set vals'" using assms(3) by (rule mset_eq_setD)
  have "sas_apply (map_of (low_params u vals)) empty_SAS = sas_apply (map_of (low_params u vals')) empty_SAS"
    using low_params_order [OF assms(2,3)] by (rule sas_apply_cong)
  with newSAS_eq [OF assms(1,2)] newSAS_eq [OF _ no_case_clash_order [OF assms(2,3)]]
    assms(1,3) set
  show ?thesis by (simp add: non_sas_def)
qed

theorem newSASQueryParameters_order_witness:
  "\<exists>p. newSASQueryParameters ascii_tables [(''SIG'', [''x'']), (''comp'', [''list'']), (''sv'', [''1''])] True
        = Return (p, [(''comp'', [''list''])])
     \<and> newSASQueryParameters ascii_tables [(''sv'', [''1'']), (''SIG'', [''x'']), (''comp'', [''list''])] True
        = Return (p, [(''comp'', [''list''])])"
proof -
  let ?v = "[(''SIG'', [''x'']), (''comp'', [''list'']), (''sv'', [''1''])]"
  let ?w = "[(''sv'', [''1'']), (''SIG'', [''x'']), (''comp'', [''list''])]"
  have "[] \<notin> snd ` set ?v" by simp
  moreover have "no_case_clash ascii_tables ?v" by code_simp
  moreover have "mset ?v = mset ?w" by simp
  ultimately have "\<exists>p. newSASQueryParameters ascii_tables ?v True = Return (p, non_sas ascii_tables ?v)
     \<and> newSASQueryParameters ascii_tables ?w True = Return (p, non_sas ascii_tables ?w)"
    using newSASQueryParameters_order [of ?v ascii_tables ?w] by blast
  moreover have "non_sas ascii_tables ?v = [(''comp'', [''list''])]"
    "non_sas ascii_tables ?w = [(''comp'', [''list''])]" by code_simp+
  ultimately show ?thesis by simp
qed

section \<open>Encoding and parsing back\<close>

definition sas_field :: "SASQueryParameters \<Rightarrow> string \<Rightarrow> string option" where
  "sas_field p n =
     (let some = (\<lambda>s. if s = [] then None else Some s) in
      if n = ''sv'' then some (sq_version p)
      else if n = ''ss'' then some (sq_services p)
      else if n = ''srt'' then some (sq_resourceTypes p)
      else if n = ''spr'' then some (sq_protocol p)
      else if n = ''st'' then
        (if IsZero (sq_startTime p) then None else Some (formatSASTime (sq_startTime p) (sq_stTimeFormat p)))
      else if n = ''se'' then
        (if IsZero (sq_expiryTime p) then None else Some (formatSASTime (sq_expiryTime p) (sq_seTimeFormat p)))
      else if n = ''sip'' then
        (if ipr_Start (sq_ipRange p) = [] then None else Some (IPRange_String (sq_ipRange p)))
      else if n = ''si'' then some (sq_identifier p)
      else if n = ''sr'' then some (sq_resource p)
      else if n = ''sp'' then some (sq_permissions p)
      else if n = ''sig'' then some (sq_signature p)
      else if n = ''rscc'' then some (sq_cacheControl p)
      else if n = ''rscd'' then some (sq_contentDisposition p)
      else if n = ''rsce'' then some (sq_contentEncoding p)
      else if n = ''rscl'' then some (sq_contentLanguage p)
      else if n = ''rsct'' then some (sq_contentType p)
      else None)"

lemma map_of_add_if:
  "map_of (add_if b k x v) k' =
     (if b \<and> k' = k then Some ((case map_of v k of Some xs \<Rightarrow> xs | None \<Rightarrow> []) @ [x]) else map_of v k')"
  by (simp add: add_if_def map_of_Values_Add)

lemma go_map_ok_add_if [simp]: "go_map_ok v \<Longrightarrow> go_map_ok (add_if b k x v)"
  by (simp add: add_if_def)

lemma go_map_ok_addToValues [simp]: "go_map_ok v \<Longrightarrow> go_map_ok (addToValues p v)"
  by (simp add: addToValues_def Let_def)

lemma map_of_addToValues_name:
  "n \<in> set sas_names \<Longrightarrow> map_of (addToValues p []) n = map_option (\<lambda>x. [x]) (sas_field p n)"
  apply (simp only: sas_names_def set_simps insert_iff empty_iff)
  apply (elim disjE FalseE)
  by (simp_all add: addToValues_def Let_def map_of_add_if sas_field_def)

lemma map_of_addToValues_other:
  "n \<notin> set sas_names \<Longrightarrow> map_of (addToValues p []) n = None"
  by (simp add: sas_names_def addToValues_def Let_def map_of_add_if)

lemma map_of_addToValues: "map_of (addToValues p []) n = map_option (\<lambda>x. [x]) (sas_field p n)"
proof (cases "n \<in> set sas_names")
  case False
  then have "sas_field p n = None" by (simp add: sas_names_def sas_field_def)
  with False show ?thesis by (simp add: map_of_addToValues_other)
qed (rule map_of_addToValues_name)

text \<open>
  Parameters a query string can carry: times in a SAS format (or absent), IPv4 addresses (or
  absent). What a value of these fields cannot express is an end address without a start.
\<close>

definition sas_time_field_ok :: "go_time \<Rightarrow> string \<Rightarrow> bool" where
  "sas_time_field_ok t f \<longleftrightarrow> (t = zero_time \<and> f = []) \<or> (\<not> IsZero t \<and> sas_time_ok t f)"

definition ip_range_ok :: "IPRange \<Rightarrow> bool" where
  "ip_range_ok r \<longleftrightarrow>
     (ipr_Start r = [] \<and> ipr_End r = []) \<or> (ipv4_ok (ipr_Start r) \<and> (ipr_End r = [] \<or> ipv4_ok (ipr_End r)))"

definition sas_ok :: "SASQueryParameters \<Rightarrow> bool" where
  "sas_ok p \<longleftrightarrow> sas_time_field_ok (sq_startTime p) (sq_stTimeFormat p)
     \<and> sas_time_field_ok (sq_expiryTime p) (sq_seTimeFormat p) \<and> ip_range_ok (sq_ipRange p)"

lemma IsZero_zero_time [simp]: "IsZero zero_time"
  by code_simp

lemma not_ipv4_ok_Nil [simp]: "\<not> ipv4_ok []"
  by (simp add: ipv4_ok_def)

lemma set_ipRange_String:
  assumes "ip_range_ok r" and "ipr_Start r \<noteq> []" and "ipr_End (sq_ipRange p) = []"
  shows "sq_ipRange (set_ipRange (IPRange_String r) p) = r"
proof -
  from assms(1,2) have st: "ipv4_ok (ipr_Start r)" by (auto simp: ip_range_ok_def)
  note dash = IP_String_v4_no_dash [OF st]
  show ?thesis
  proof (cases "ipr_End r = []")
    case True
    then have "IPRange_String r = IP_String (ipr_Start r)" using assms(2) by (simp add: IPRange_String_def)
    moreover have "IndexByte (IP_String (ipr_Start r)) (CHR ''-'') = None"
      using dash by (simp add: IndexByte_None_iff)
    ultimately show ?thesis
      using True assms(3) by (simp add: set_ipRange_def ParseIP_String_v4 [OF st])
  next
    case False
    with assms(1,2) have en: "ipv4_ok (ipr_End r)" by (auto simp: ip_range_ok_def)
    have "IPRange_String r = IP_String (ipr_Start r) @ CHR ''-'' # IP_String (ipr_End r)"
      using assms(2) False by (simp add: IPRange_String_def)
    then show ?thesis
      using dash by (simp add: set_ipRange_def IndexByte_append ParseIP_String_v4 [OF st] ParseIP_String_v4 [OF en])
  qed
qed

lemma sas_apply_field:
  assumes "sas_ok p"
  shows "sas_apply (sas_field p) empty_SAS = p"
proof (rule SASQueryParameters.equality)
  note defs = sas_apply_def sas_field_def empty_SAS_def
  show "sq_startTime (sas_apply (sas_field p) empty_SAS) = sq_startTime p"
    "sq_stTimeFormat (sas_apply (sas_field p) empty_SAS) = sq_stTimeFormat p"
    "sq_expiryTime (sas_apply (sas_field p) empty_SAS) = sq_expiryTime p"
    "sq_seTimeFormat (sas_apply (sas_field p) empty_SAS) = sq_seTimeFormat p"
    using assms
    by (auto simp: defs sas_ok_def sas_time_field_ok_def parseSASTimeString_format)
  show "sq_ipRange (sas_apply (sas_field p) empty_SAS) = sq_ipRange p"
    using assms set_ipRange_String [of "sq_ipRange p" empty_SAS]
    by (auto simp: defs sas_ok_def ip_range_ok_def split: if_splits)
qed (simp_all add: sas_apply_def sas_field_def empty_SAS_def)

lemma sas_names_lower: "list_all (\<lambda>n. ascii n \<and> map lower_char n = n) sas_names"
  by code_simp

lemma ToLower_sas_name: "n \<in> set sas_names \<Longrightarrow> ToLower u n = n"
  using sas_names_lower by (auto simp: list_all_iff ToLower_ascii)

text \<open>Any representation of the encoded parameters, in any order, reads back.\<close>

lemma newSAS_of_fields:
  assumes "sas_ok p" and "go_map_ok vals"
    and vals: "\<And>n. map_of vals n = map_option (\<lambda>x. [x]) (sas_field p n)"
  shows "newSASQueryParameters u vals True = Return (p, [])"
proof -
  have key: "n \<in> set sas_names \<and> v \<noteq> [] \<and> ToLower u n = n" if "(n, v) \<in> set vals" for n v
  proof -
    from that assms(2) have "map_of vals n = Some v" by (simp add: go_map_ok_map_of)
    with vals have "sas_field p n \<noteq> None" and "v \<noteq> []" by auto
    moreover from this(1) have "n \<in> set sas_names"
      by (rule contrapos_np) (simp add: sas_names_def sas_field_def)
    ultimately show ?thesis by (simp add: ToLower_sas_name)
  qed
  have low: "map (\<lambda>e. ToLower u (fst e)) vals = map fst vals"
    using key by (intro map_cong) auto
  have clash: "no_case_clash u vals"
    using assms(2) unfolding no_case_clash_def go_map_ok_def low by (rule distinct_filter)
  have ne: "[] \<notin> snd ` set vals" by (auto dest!: key)
  have "low_params u vals = map (\<lambda>(k, v). (k, hd v)) vals"
    unfolding low_params_def using key by (intro map_cong) auto
  then have "map_of (low_params u vals) n = sas_field p n" for n
    using vals [of n] by (simp add: map_of_map option.map_comp comp_def option.map_ident)
  then have "sas_apply (map_of (low_params u vals)) empty_SAS = p"
    using sas_apply_field [OF assms(1)] by (metis sas_apply_cong)
  moreover have "non_sas u vals = []" using key by (auto simp: non_sas_def filter_empty_conv)
  ultimately show ?thesis using newSAS_eq [OF ne clash, of True] by simp
qed

lemma SAS_Encode_reads_back:
  assumes "sas_ok p"
  shows "newSASQueryParameters u (fst (ParseQuery (SAS_Encode p))) True = Return (p, [])"
proof (rule newSAS_of_fields [OF assms])
  have ok: "go_map_ok (addToValues p [])" by simp
  show "go_map_ok (fst (ParseQuery (SAS_Encode p)))" by simp
  show "map_of (fst (ParseQuery (SAS_Encode p))) n = map_option (\<lambda>x. [x]) (sas_field p n)" for n
    unfolding SAS_Encode_def ParseQuery_Encode(1) [OF ok] map_of_addToValues
    by (cases "sas_field p n") simp_all
qed

text \<open>
  C34: Encoding SAS parameters into a query string and parsing that string gives the same
  parameters back, field by field including the time formats, and leaves no parameter over,
  for all parameters whose times have one of the three SAS formats and whose addresses are
  IPv4.
\<close>

theorem SAS_Encode_roundtrip:
  assumes "sas_ok p"
  shows "newSASQueryParameters u (fst (ParseQuery (SAS_Encode p))) True = Return (p, [])"
  using assms by (rule SAS_Encode_reads_back)

definition example_SAS :: SASQueryParameters where
  "example_SAS = empty_SAS\<lparr>sq_version := ''2018-03-28'', sq_permissions := ''rl'',
     sq_expiryTime := \<lparr>t_year = 2020, t_month = 2, t_day = 29, t_hour = 23, t_min = 5, t_sec = 0,
        t_nsec = 0, t_offset = 0\<rparr>, sq_seTimeFormat := fmt_min,
     sq_ipRange := \<lparr>ipr_Start = v4_prefix @ [10, 0, 0, 1], ipr_End = v4_prefix @ [10, 0, 0, 9]\<rparr>,
     sq_signature := ''a+b/c=''\<rparr>"

theorem SAS_Encode_roundtrip_witness:
  "sas_ok example_SAS
   \<and> newSASQueryParameters ascii_tables (fst (ParseQuery (SAS_Encode example_SAS))) True
       = Return (example_SAS, [])"
proof -
  have ok: "sas_ok example_SAS" by code_simp
  with SAS_Encode_roundtrip [OF ok, of ascii_tables] show ?thesis by simp
qed

section \<open>Parameters made without time formats\<close>

text \<open>
  Signing leaves the format fields empty, which stands for the first format; reading the
  query back fills them in.
\<close>

definition default_format :: "go_time \<Rightarrow> string" where
  "default_format t = (if IsZero t then [] else fmt_sec)"

definition default_formats :: "SASQueryParameters \<Rightarrow> SASQueryParameters" where
  "default_formats p = p\<lparr>sq_stTimeFormat := default_format (sq_startTime p),
     sq_seTimeFormat := default_format (sq_expiryTime p)\<rparr>"

lemma formatSASTime_default:
  "formatSASTime t [] = formatSASTime t fmt_sec"
  by (simp add: formatSASTime_def SASTimeFormats_eq fmt_distinct)

lemma SAS_Encode_default_formats:
  assumes "sq_stTimeFormat p = []" and "sq_seTimeFormat p = []"
  shows "SAS_Encode (default_formats p) = SAS_Encode p"
proof -
  have "add_if (\<not> IsZero t) n (formatSASTime t (default_format t)) v =
      add_if (\<not> IsZero t) n (formatSASTime t []) v" for t n v
    by (simp add: add_if_def default_format_def formatSASTime_default)
  then have "addToValues (default_formats p) [] = addToValues p []"
    using assms by (simp add: addToValues_def default_formats_def)
  then show ?thesis by (simp add: SAS_Encode_def)
qed

end
