(* ===== verification/Sas_Flags.thy ===== *)
theory Sas_Flags
  imports Go_Strings
begin

text \<open>
  The permission, service and resource-type flags of zc\_sas\_account.go, sas\_service.go and
  url\_share.go, each with its \<open>String\<close> and \<open>Parse\<close>. A \<open>Parse\<close> method stores through its
  receiver and returns an error: the model returns the flags as the method leaves them,
  also on the error path, with the error. The switch over the runes of the string is the
  recursive \<open>..._loop\<close>.

  The five types that reject unknown characters share one contract, the locale
  \<open>flag_parser\<close>; it is interpreted on each of them.
\<close>

type_synonym 'p parse_result = "'p \<times> string option"

definition quoted_rune :: "rune \<Rightarrow> string" where
  "quoted_rune r = [CHR 0x27] @ FormatInt (int r) @ [CHR 0x27]"

section \<open>Account SAS permissions\<close>

record AccountSASPermissions =
  acc_Read :: bool
  acc_Write :: bool
  acc_Delete :: bool
  acc_List :: bool
  acc_Add :: bool
  acc_Create :: bool
  acc_Update :: bool
  acc_Process :: bool

definition no_AccountSASPermissions :: AccountSASPermissions where
  "no_AccountSASPermissions = \<lparr>acc_Read = False, acc_Write = False, acc_Delete = False,
     acc_List = False, acc_Add = False, acc_Create = False, acc_Update = False,
     acc_Process = False\<rparr>"

definition AccountSASPermissions_String :: "AccountSASPermissions \<Rightarrow> string" where
  "AccountSASPermissions_String p =
     (if acc_Read p then ''r'' else []) @ (if acc_Write p then ''w'' else [])
     @ (if acc_Delete p then ''d'' else []) @ (if acc_List p then ''l'' else [])
     @ (if acc_Add p then ''a'' else []) @ (if acc_Create p then ''c'' else [])
     @ (if acc_Update p then ''u'' else []) @ (if acc_Process p then ''p'' else [])"

fun AccountSASPermissions_Parse_loop ::
    "rune list \<Rightarrow> AccountSASPermissions \<Rightarrow> AccountSASPermissions parse_result" where
  "AccountSASPermissions_Parse_loop [] p = (p, None)"
| "AccountSASPermissions_Parse_loop (r # rs) p =
     (if r = byte_of (CHR ''r'') then AccountSASPermissions_Parse_loop rs (p\<lparr>acc_Read := True\<rparr>)
      else if r = byte_of (CHR ''w'') then AccountSASPermissions_Parse_loop rs (p\<lparr>acc_Write := True\<rparr>)
      else if r = byte_of (CHR ''d'') then AccountSASPermissions_Parse_loop rs (p\<lparr>acc_Delete := True\<rparr>)
      else if r = byte_of (CHR ''l'') then AccountSASPermissions_Parse_loop rs (p\<lparr>acc_List := True\<rparr>)
      else if r = byte_of (CHR ''a'') then AccountSASPermissions_Parse_loop rs (p\<lparr>acc_Add := True\<rparr>)
      else if r = byte_of (CHR ''c'') then AccountSASPermissions_Parse_loop rs (p\<lparr>acc_Create := True\<rparr>)
      else if r = byte_of (CHR ''u'') then AccountSASPermissions_Parse_loop rs (p\<lparr>acc_Update := True\<rparr>)
      else if r = byte_of (CHR ''p'') then AccountSASPermissions_Parse_loop rs (p\<lparr>acc_Process := True\<rparr>)
      else (p, Some (''Invalid permission character: '' @ quoted_rune r)))"

definition AccountSASPermissions_Parse :: "string \<Rightarrow> AccountSASPermissions parse_result" where
  "AccountSASPermissions_Parse s = AccountSASPermissions_Parse_loop (runes s) no_AccountSASPermissions"

section \<open>Account SAS services\<close>

record AccountSASServices =
  svc_Blob :: bool
  svc_Queue :: bool
  svc_File :: bool

definition no_AccountSASServices :: AccountSASServices where
  "no_AccountSASServices = \<lparr>svc_Blob = False, svc_Queue = False, svc_File = False\<rparr>"

definition AccountSASServices_String :: "AccountSASServices \<Rightarrow> string" where
  "AccountSASServices_String s =
     (if svc_Blob s then ''b'' else []) @ (if svc_Queue s then ''q'' else [])
     @ (if svc_File s then ''f'' else [])"

fun AccountSASServices_Parse_loop ::
    "rune list \<Rightarrow> AccountSASServices \<Rightarrow> AccountSASServices parse_result" where
  "AccountSASServices_Parse_loop [] a = (a, None)"
| "AccountSASServices_Parse_loop (r # rs) a =
     (if r = byte_of (CHR ''b'') then AccountSASServices_Parse_loop rs (a\<lparr>svc_Blob := True\<rparr>)
      else if r = byte_of (CHR ''q'') then AccountSASServices_Parse_loop rs (a\<lparr>svc_Queue := True\<rparr>)
      else if r = byte_of (CHR ''f'') then AccountSASServices_Parse_loop rs (a\<lparr>svc_File := True\<rparr>)
      else (a, Some (''Invalid service character: '' @ quoted_rune r)))"

definition AccountSASServices_Parse :: "string \<Rightarrow> AccountSASServices parse_result" where
  "AccountSASServices_Parse s = AccountSASServices_Parse_loop (runes s) no_AccountSASServices"

section \<open>Account SAS resource types\<close>

record AccountSASResourceTypes =
  rt_Service :: bool
  rt_Container :: bool
  rt_Object :: bool

definition no_AccountSASResourceTypes :: AccountSASResourceTypes where
  "no_AccountSASResourceTypes = \<lparr>rt_Service = False, rt_Container = False, rt_Object = False\<rparr>"

definition AccountSASResourceTypes_String :: "AccountSASResourceTypes \<Rightarrow> string" where
  "AccountSASResourceTypes_String rt =
     (if rt_Service rt then ''s'' else []) @ (if rt_Container rt then ''c'' else [])
     @ (if rt_Object rt then ''o'' else [])"

fun AccountSASResourceTypes_Parse_loop ::
    "rune list \<Rightarrow> AccountSASResourceTypes \<Rightarrow> AccountSASResourceTypes parse_result" where
  "AccountSASResourceTypes_Parse_loop [] rt = (rt, None)"
| "AccountSASResourceTypes_Parse_loop (r # rs) rt =
     (if r = byte_of (CHR ''s'') then AccountSASResourceTypes_Parse_loop rs (rt\<lparr>rt_Service := True\<rparr>)
      else if r = byte_of (CHR ''c'') then AccountSASResourceTypes_Parse_loop rs (rt\<lparr>rt_Container := True\<rparr>)
      else if r = byte_of (CHR ''o'') then AccountSASResourceTypes_Parse_loop rs (rt\<lparr>rt_Object := True\<rparr>)
      else (rt, Some (''Invalid resource type: '' @ quoted_rune r)))"

definition AccountSASResourceTypes_Parse :: "string \<Rightarrow> AccountSASResourceTypes parse_result" where
  "AccountSASResourceTypes_Parse s =
     AccountSASResourceTypes_Parse_loop (runes s) no_AccountSASResourceTypes"

section \<open>Share SAS permissions\<close>

record ShareSASPermissions =
  sh_Read :: bool
  sh_Create :: bool
  sh_Write :: bool
  sh_Delete :: bool
  sh_List :: bool

definition no_ShareSASPermissions :: ShareSASPermissions where
  "no_ShareSASPermissions = \<lparr>sh_Read = False, sh_Create = False, sh_Write = False,
     sh_Delete = False, sh_List = False\<rparr>"

definition ShareSASPermissions_String :: "ShareSASPermissions \<Rightarrow> string" where
  "ShareSASPermissions_String p =
     (if sh_Read p then ''r'' else []) @ (if sh_Create p then ''c'' else [])
     @ (if sh_Write p then ''w'' else []) @ (if sh_Delete p then ''d'' else [])
     @ (if sh_List p then ''l'' else [])"

fun ShareSASPermissions_Parse_loop ::
    "rune list \<Rightarrow> ShareSASPermissions \<Rightarrow> ShareSASPermissions parse_result" where
  "ShareSASPermissions_Parse_loop [] p = (p, None)"
| "ShareSASPermissions_Parse_loop (r # rs) p =
     (if r = byte_of (CHR ''r'') then ShareSASPermissions_Parse_loop rs (p\<lparr>sh_Read := True\<rparr>)
      else if r = byte_of (CHR ''c'') then ShareSASPermissions_Parse_loop rs (p\<lparr>sh_Create := True\<rparr>)
      else if r = byte_of (CHR ''w'') then ShareSASPermissions_Parse_loop rs (p\<lparr>sh_Write := True\<rparr>)
      else if r = byte_of (CHR ''d'') then ShareSASPermissions_Parse_loop rs (p\<lparr>sh_Delete := True\<rparr>)
      else if r = byte_of (CHR ''l'') then ShareSASPermissions_Parse_loop rs (p\<lparr>sh_List := True\<rparr>)
      else (p, Some (''Invalid permission: '' @ quoted_rune r)))"

definition ShareSASPermissions_Parse :: "string \<Rightarrow> ShareSASPermissions parse_result" where
  "ShareSASPermissions_Parse s = ShareSASPermissions_Parse_loop (runes s) no_ShareSASPermissions"

section \<open>File SAS permissions\<close>

record FileSASPermissions =
  fi_Read :: bool
  fi_Create :: bool
  fi_Write :: bool
  fi_Delete :: bool

definition no_FileSASPermissions :: FileSASPermissions where
  "no_FileSASPermissions = \<lparr>fi_Read = False, fi_Create = False, fi_Write = False,
     fi_Delete = False\<rparr>"

definition FileSASPermissions_String :: "FileSASPermissions \<Rightarrow> string" where
  "FileSASPermissions_String p =
     (if fi_Read p then ''r'' else []) @ (if fi_Create p then ''c'' else [])
     @ (if fi_Write p then ''w'' else []) @ (if fi_Delete p then ''d'' else [])"

fun FileSASPermissions_Parse_loop ::
    "rune list \<Rightarrow> FileSASPermissions \<Rightarrow> FileSASPermissions parse_result" where
  "FileSASPermissions_Parse_loop [] p = (p, None)"
| "FileSASPermissions_Parse_loop (r # rs) p =
     (if r = byte_of (CHR ''r'') then FileSASPermissions_Parse_loop rs (p\<lparr>fi_Read := True\<rparr>)
      else if r = byte_of (CHR ''c'') then FileSASPermissions_Parse_loop rs (p\<lparr>fi_Create := True\<rparr>)
      else if r = byte_of (CHR ''w'') then FileSASPermissions_Parse_loop rs (p\<lparr>fi_Write := True\<rparr>)
      else if r = byte_of (CHR ''d'') then FileSASPermissions_Parse_loop rs (p\<lparr>fi_Delete := True\<rparr>)
      else (p, Some (''Invalid permission: '' @ quoted_rune r)))"

definition FileSASPermissions_Parse :: "string \<Rightarrow> FileSASPermissions parse_result" where
  "FileSASPermissions_Parse s = FileSASPermissions_Parse_loop (runes s) no_FileSASPermissions"

section \<open>Access policy permissions\<close>

text \<open>
  \<open>AccessPolicyPermission.Parse\<close> of url\_share.go searches the string for each letter and
  ignores everything else.
\<close>

record AccessPolicyPermission =
  ap_Read :: bool
  ap_Create :: bool
  ap_Write :: bool
  ap_Delete :: bool
  ap_List :: bool

definition AccessPolicyPermission_String :: "AccessPolicyPermission \<Rightarrow> string" where
  "AccessPolicyPermission_String p =
     (if ap_Read p then ''r'' else []) @ (if ap_Create p then ''c'' else [])
     @ (if ap_Write p then ''w'' else []) @ (if ap_Delete p then ''d'' else [])
     @ (if ap_List p then ''l'' else [])"

definition AccessPolicyPermission_Parse :: "string \<Rightarrow> AccessPolicyPermission" where
  "AccessPolicyPermission_Parse s =
     \<lparr>ap_Read = ContainsRune s (CHR ''r''), ap_Create = ContainsRune s (CHR ''c''),
      ap_Write = ContainsRune s (CHR ''w''), ap_Delete = ContainsRune s (CHR ''d''),
      ap_List = ContainsRune s (CHR ''l'')\<rparr>"

section \<open>The shared contract\<close>

lemma if_append_letter: "(if b then [c] else []) @ s = (if b then c # s else s)"
  by simp

text \<open>
  \<open>letters\<close> are the characters in the order \<open>String\<close> prints them; \<open>get\<close> and \<open>put\<close> read and
  set the flag of a letter.
\<close>

locale flag_parser =
  fixes letters :: "char list" and get :: "'p \<Rightarrow> char \<Rightarrow> bool" and put :: "char \<Rightarrow> 'p \<Rightarrow> 'p"
    and none :: 'p and loop :: "rune list \<Rightarrow> 'p \<Rightarrow> 'p parse_result"
    and str :: "'p \<Rightarrow> string" and err :: "rune \<Rightarrow> string"
  assumes letters_ascii: "ascii letters"
    and letters_distinct: "distinct letters"
    and get_ext: "\<forall>c \<in> set letters. get p c = get q c \<Longrightarrow> p = q"
    and get_none: "c \<in> set letters \<Longrightarrow> \<not> get none c"
    and get_put: "c \<in> set letters \<Longrightarrow> d \<in> set letters \<Longrightarrow> get (put c p) d = (d = c \<or> get p d)"
    and str_eq: "str p = filter (get p) letters"
    and loop_Nil: "loop [] p = (p, None)"
    and loop_letter: "c \<in> set letters \<Longrightarrow> loop (byte_of c # rs) p = loop rs (put c p)"
    and loop_other: "r \<notin> byte_of ` set letters \<Longrightarrow> loop (r # rs) p = (p, Some (err r))"
begin

lemma loop_letters:
  "set cs \<subseteq> set letters \<Longrightarrow> loop (map byte_of cs) p = (fold put cs p, None)"
  by (induction cs arbitrary: p) (auto simp: loop_Nil loop_letter)

lemma get_fold:
  "set cs \<subseteq> set letters \<Longrightarrow> d \<in> set letters \<Longrightarrow> get (fold put cs p) d = (d \<in> set cs \<or> get p d)"
  by (induction cs arbitrary: p) (auto simp: get_put)

lemma ascii_subset: "set cs \<subseteq> set letters \<Longrightarrow> ascii cs"
  using letters_ascii by (auto simp: ascii_def list_all_iff)

lemma parse_letters:
  assumes "set s \<subseteq> set letters"
  shows "loop (runes s) none = (fold put s none, None)"
  using assms by (simp add: runes_ascii ascii_subset loop_letters)

lemma str_fold:
  assumes "set s \<subseteq> set letters"
  shows "str (fold put s none) = filter (\<lambda>c. c \<in> set s) letters"
  unfolding str_eq by (rule filter_cong) (simp_all add: get_fold [OF assms] get_none)

lemma parse_str: "loop (runes (str p)) none = (p, None)"
proof -
  have sub: "set (str p) \<subseteq> set letters" by (auto simp: str_eq)
  have "c \<in> set letters \<Longrightarrow> c \<in> set (str p) \<longleftrightarrow> get p c" for c by (simp add: str_eq)
  then have "fold put (str p) none = p"
    by (intro get_ext ballI) (simp add: get_fold [OF sub] get_none)
  with parse_letters [OF sub] show ?thesis by simp
qed

text \<open>The first rune that is no letter decides the error.\<close>

lemma loop_bad:
  assumes "r \<notin> byte_of ` set letters" and "set cs \<subseteq> set letters"
  shows "loop (map byte_of cs @ r # rs) p = (fold put cs p, Some (err r))"
  using assms(2) by (induction cs arbitrary: p) (auto simp: loop_letter loop_other [OF assms(1)])

lemma runes_letters_ex:
  "set rs \<subseteq> byte_of ` set letters \<Longrightarrow> \<exists>cs. rs = map byte_of cs \<and> set cs \<subseteq> set letters"
proof (induction rs)
  case Nil
  show ?case by simp
next
  case (Cons r rs)
  then obtain cs c where "rs = map byte_of cs" "set cs \<subseteq> set letters" "r = byte_of c" "c \<in> set letters"
    by auto
  then have "r # rs = map byte_of (c # cs) \<and> set (c # cs) \<subseteq> set letters" by simp
  then show ?case by (rule exI)
qed

lemma loop_error_iff: "snd (loop rs p) = None \<longleftrightarrow> set rs \<subseteq> byte_of ` set letters"
proof (induction rs arbitrary: p)
  case Nil
  show ?case by (simp add: loop_Nil)
next
  case (Cons r rs)
  show ?case
  proof (cases "r \<in> byte_of ` set letters")
    case True
    then obtain c where "c \<in> set letters" "r = byte_of c" by auto
    with Cons.IH show ?thesis by (simp add: loop_letter)
  next
    case False
    then show ?thesis by (simp add: loop_other)
  qed
qed

text \<open>Parsing accepts exactly the strings over the letters; printing gives the canonical order.\<close>

lemma parse_ok_iff: "snd (loop (runes s) none) = None \<longleftrightarrow> set s \<subseteq> set letters"
proof
  assume "snd (loop (runes s) none) = None"
  then have sub: "set (runes s) \<subseteq> byte_of ` set letters" by (simp add: loop_error_iff)
  with letters_ascii have "\<forall>r \<in> set (runes s). r < 128" by (auto simp: ascii_def list_all_iff)
  then have "runes s = map byte_of s" by (intro runes_ascii runes_small_ascii)
  with sub show "set s \<subseteq> set letters" by auto
qed (simp add: parse_letters)

lemma parse_canonical:
  assumes "loop (runes s) none = (p, None)"
  shows "str p = filter (\<lambda>c. c \<in> set s) letters"
proof -
  from assms have sub: "set s \<subseteq> set letters" using parse_ok_iff [of s] by simp
  from assms parse_letters [OF sub] str_fold [OF sub] show ?thesis by simp
qed

lemma parse_spec:
  "if set s \<subseteq> set letters
   then \<exists>p. loop (runes s) none = (p, None) \<and> str p = filter (\<lambda>c. c \<in> set s) letters
   else snd (loop (runes s) none) \<noteq> None"
  using parse_ok_iff [of s] by (auto simp: parse_letters str_fold)

end

section \<open>The flag types satisfy the contract\<close>

definition acc_get :: "AccountSASPermissions \<Rightarrow> char \<Rightarrow> bool" where
  "acc_get p c =
     (if c = CHR ''r'' then acc_Read p else if c = CHR ''w'' then acc_Write p
      else if c = CHR ''d'' then acc_Delete p else if c = CHR ''l'' then acc_List p
      else if c = CHR ''a'' then acc_Add p else if c = CHR ''c'' then acc_Create p
      else if c = CHR ''u'' then acc_Update p else if c = CHR ''p'' then acc_Process p else False)"

definition acc_put :: "char \<Rightarrow> AccountSASPermissions \<Rightarrow> AccountSASPermissions" where
  "acc_put c p =
     (if c = CHR ''r'' then p\<lparr>acc_Read := True\<rparr> else if c = CHR ''w'' then p\<lparr>acc_Write := True\<rparr>
      else if c = CHR ''d'' then p\<lparr>acc_Delete := True\<rparr> else if c = CHR ''l'' then p\<lparr>acc_List := True\<rparr>
      else if c = CHR ''a'' then p\<lparr>acc_Add := True\<rparr> else if c = CHR ''c'' then p\<lparr>acc_Create := True\<rparr>
      else if c = CHR ''u'' then p\<lparr>acc_Update := True\<rparr> else p\<lparr>acc_Process := True\<rparr>)"

interpretation accPerms: flag_parser "''rwdlacup''" acc_get acc_put no_AccountSASPermissions
  AccountSASPermissions_Parse_loop AccountSASPermissions_String
  "\<lambda>r. ''Invalid permission character: '' @ quoted_rune r"
proof (unfold_locales, goal_cases)
  case (3 p q)
  then show ?case by (cases p; cases q) (simp add: acc_get_def)
next
  case (5 c d p)
  then show ?case
    by (simp only: set_simps insert_iff empty_iff) (elim disjE; simp add: acc_get_def acc_put_def)
next
  case (6 p)
  show ?case by (simp add: AccountSASPermissions_String_def acc_get_def if_append_letter)
next
  case (8 c rs p)
  then show ?case
    by (simp only: set_simps insert_iff empty_iff) (elim disjE; simp add: acc_put_def byte_of_def)
next
  case (9 r rs p)
  then show ?case by (simp add: byte_of_def)
qed (auto simp: acc_get_def no_AccountSASPermissions_def byte_of_def)

definition svc_get :: "AccountSASServices \<Rightarrow> char \<Rightarrow> bool" where
  "svc_get p c =
     (if c = CHR ''b'' then svc_Blob p else if c = CHR ''q'' then svc_Queue p
      else if c = CHR ''f'' then svc_File p else False)"

definition svc_put :: "char \<Rightarrow> AccountSASServices \<Rightarrow> AccountSASServices" where
  "svc_put c p =
     (if c = CHR ''b'' then p\<lparr>svc_Blob := True\<rparr> else if c = CHR ''q'' then p\<lparr>svc_Queue := True\<rparr>
      else p\<lparr>svc_File := True\<rparr>)"

interpretation svcs: flag_parser "''bqf''" svc_get svc_put no_AccountSASServices
  AccountSASServices_Parse_loop AccountSASServices_String
  "\<lambda>r. ''Invalid service character: '' @ quoted_rune r"
proof (unfold_locales, goal_cases)
  case (3 p q)
  then show ?case by (cases p; cases q) (simp add: svc_get_def)
next
  case (6 p)
  show ?case by (simp add: AccountSASServices_String_def svc_get_def if_append_letter)
next
  case (9 r rs p)
  then show ?case by (simp add: byte_of_def)
qed (auto simp: svc_get_def svc_put_def no_AccountSASServices_def byte_of_def)

definition rt_get :: "AccountSASResourceTypes \<Rightarrow> char \<Rightarrow> bool" where
  "rt_get p c =
     (if c = CHR ''s'' then rt_Service p else if c = CHR ''c'' then rt_Container p
      else if c = CHR ''o'' then rt_Object p else False)"

definition rt_put :: "char \<Rightarrow> AccountSASResourceTypes \<Rightarrow> AccountSASResourceTypes" where
  "rt_put c p =
     (if c = CHR ''s'' then p\<lparr>rt_Service := True\<rparr> else if c = CHR ''c'' then p\<lparr>rt_Container := True\<rparr>
      else p\<lparr>rt_Object := True\<rparr>)"

interpretation resTypes: flag_parser "''sco''" rt_get rt_put no_AccountSASResourceTypes
  AccountSASResourceTypes_Parse_loop AccountSASResourceTypes_String
  "\<lambda>r. ''Invalid resource type: '' @ quoted_rune r"
proof (unfold_locales, goal_cases)
  case (3 p q)
  then show ?case by (cases p; cases q) (simp add: rt_get_def)
next
  case (6 p)
  show ?case by (simp add: AccountSASResourceTypes_String_def rt_get_def if_append_letter)
next
  case (9 r rs p)
  then show ?case by (simp add: byte_of_def)
qed (auto simp: rt_get_def rt_put_def no_AccountSASResourceTypes_def byte_of_def)

definition sh_get :: "ShareSASPermissions \<Rightarrow> char \<Rightarrow> bool" where
  "sh_get p c =
     (if c = CHR ''r'' then sh_Read p else if c = CHR ''c'' then sh_Create p
      else if c = CHR ''w'' then sh_Write p else if c = CHR ''d'' then sh_Delete p
      else if c = CHR ''l'' then sh_List p else False)"

definition sh_put :: "char \<Rightarrow> ShareSASPermissions \<Rightarrow> ShareSASPermissions" where
  "sh_put c p =
     (if c = CHR ''r'' then p\<lparr>sh_Read := True\<rparr> else if c = CHR ''c'' then p\<lparr>sh_Create := True\<rparr>
      else if c = CHR ''w'' then p\<lparr>sh_Write := True\<rparr> else if c = CHR ''d'' then p\<lparr>sh_Delete := True\<rparr>
      else p\<lparr>sh_List := True\<rparr>)"

interpretation sharePerms: flag_parser "''rcwdl''" sh_get sh_put no_ShareSASPermissions
  ShareSASPermissions_Parse_loop ShareSASPermissions_String
  "\<lambda>r. ''Invalid permission: '' @ quoted_rune r"
proof (unfold_locales, goal_cases)
  case (3 p q)
  then show ?case by (cases p; cases q) (simp add: sh_get_def)
next
  case (6 p)
  show ?case by (simp add: ShareSASPermissions_String_def sh_get_def if_append_letter)
next
  case (9 r rs p)
  then show ?case by (simp add: byte_of_def)
qed (auto simp: sh_get_def sh_put_def no_ShareSASPermissions_def byte_of_def)

definition fi_get :: "FileSASPermissions \<Rightarrow> char \<Rightarrow> bool" where
  "fi_get p c =
     (if c = CHR ''r'' then fi_Read p else if c = CHR ''c'' then fi_Create p
      else if c = CHR ''w'' then fi_Write p else if c = CHR ''d'' then fi_Delete p else False)"

definition fi_put :: "char \<Rightarrow> FileSASPermissions \<Rightarrow> FileSASPermissions" where
  "fi_put c p =
     (if c = CHR ''r'' then p\<lparr>fi_Read := True\<rparr> else if c = CHR ''c'' then p\<lparr>fi_Create := True\<rparr>
      else if c = CHR ''w'' then p\<lparr>fi_Write := True\<rparr> else p\<lparr>fi_Delete := True\<rparr>)"

interpretation filePerms: flag_parser "''rcwd''" fi_get fi_put no_FileSASPermissions
  FileSASPermissions_Parse_loop FileSASPermissions_String
  "\<lambda>r. ''Invalid permission: '' @ quoted_rune r"
proof (unfold_locales, goal_cases)
  case (3 p q)
  then show ?case by (cases p; cases q) (simp add: fi_get_def)
next
  case (6 p)
  show ?case by (simp add: FileSASPermissions_String_def fi_get_def if_append_letter)
next
  case (9 r rs p)
  then show ?case by (simp add: byte_of_def)
qed (auto simp: fi_get_def fi_put_def no_FileSASPermissions_def byte_of_def)

section \<open>Properties\<close>

text \<open>
  \<open>AccountSASPermissions.Parse\<close> succeeds exactly on the strings over the eight letters,
  in any order and with repetitions, and printing what it stored gives each letter of the
  input once, in the order the service demands; every other string is rejected. Parsing what
  \<open>String\<close> prints restores every flag.
\<close>

theorem AccountSASPermissions_canonical:
  "(if set s \<subseteq> set ''rwdlacup''
    then \<exists>p. AccountSASPermissions_Parse s = (p, None)
           \<and> AccountSASPermissions_String p = filter (\<lambda>c. c \<in> set s) ''rwdlacup''
    else snd (AccountSASPermissions_Parse s) \<noteq> None)
   \<and> AccountSASPermissions_Parse (AccountSASPermissions_String q) = (q, None)"
  unfolding AccountSASPermissions_Parse_def
  using accPerms.parse_spec accPerms.parse_str by (rule conjI)

text \<open>
  The share and the file permissions are parsed the same way over their own letters; the
  list permission is valid for a share and rejected for a file.
\<close>

theorem ServiceSASPermissions_canonical:
  "(if set s \<subseteq> set ''rcwdl''
    then \<exists>p. ShareSASPermissions_Parse s = (p, None)
           \<and> ShareSASPermissions_String p = filter (\<lambda>c. c \<in> set s) ''rcwdl''
    else snd (ShareSASPermissions_Parse s) \<noteq> None)
   \<and> (if set s \<subseteq> set ''rcwd''
      then \<exists>p. FileSASPermissions_Parse s = (p, None)
             \<and> FileSASPermissions_String p = filter (\<lambda>c. c \<in> set s) ''rcwd''
      else snd (FileSASPermissions_Parse s) \<noteq> None)
   \<and> ShareSASPermissions_Parse (ShareSASPermissions_String p) = (p, None)
   \<and> FileSASPermissions_Parse (FileSASPermissions_String q) = (q, None)"
  unfolding ShareSASPermissions_Parse_def FileSASPermissions_Parse_def
  by (intro conjI sharePerms.parse_spec filePerms.parse_spec sharePerms.parse_str filePerms.parse_str)

text \<open>
  The services and the resource types of an account SAS: accepted exactly over their
  letters, printed in canonical order, and restored from what is printed.
\<close>

theorem AccountSAS_services_types_canonical:
  "(if set s \<subseteq> set ''bqf''
    then \<exists>p. AccountSASServices_Parse s = (p, None)
           \<and> AccountSASServices_String p = filter (\<lambda>c. c \<in> set s) ''bqf''
    else snd (AccountSASServices_Parse s) \<noteq> None)
   \<and> (if set s \<subseteq> set ''sco''
      then \<exists>p. AccountSASResourceTypes_Parse s = (p, None)
             \<and> AccountSASResourceTypes_String p = filter (\<lambda>c. c \<in> set s) ''sco''
      else snd (AccountSASResourceTypes_Parse s) \<noteq> None)
   \<and> AccountSASServices_Parse (AccountSASServices_String p) = (p, None)
   \<and> AccountSASResourceTypes_Parse (AccountSASResourceTypes_String q) = (q, None)"
  unfolding AccountSASServices_Parse_def AccountSASResourceTypes_Parse_def
  by (intro conjI svcs.parse_spec resTypes.parse_spec svcs.parse_str resTypes.parse_str)

lemma ContainsRune_iff: "ContainsRune s c \<longleftrightarrow> byte_of c \<in> set (runes s)"
  by (auto simp: ContainsRune_def list_ex_iff)

lemma ascii_AccessPolicyPermission_String: "ascii (AccessPolicyPermission_String p)"
  by (simp add: AccessPolicyPermission_String_def byte_of_def)

text \<open>
  An access policy's permissions survive printing and parsing, and parsing any string
  never fails: it keeps exactly the letters it knows and drops everything else.
\<close>

theorem AccessPolicyPermission_roundtrip:
  "AccessPolicyPermission_Parse (AccessPolicyPermission_String p) = p
   \<and> AccessPolicyPermission_String (AccessPolicyPermission_Parse s) =
       filter (\<lambda>c. byte_of c \<in> set (runes s)) ''rcwdl''"
proof
  have "ContainsRune (AccessPolicyPermission_String p) c \<longleftrightarrow> c \<in> set (AccessPolicyPermission_String p)" for c
    by (simp add: ContainsRune_iff runes_ascii [OF ascii_AccessPolicyPermission_String] image_iff)
  then show "AccessPolicyPermission_Parse (AccessPolicyPermission_String p) = p"
    by (cases p) (simp add: AccessPolicyPermission_Parse_def, simp add: AccessPolicyPermission_String_def)
  show "AccessPolicyPermission_String (AccessPolicyPermission_Parse s) =
       filter (\<lambda>c. byte_of c \<in> set (runes s)) ''rcwdl''"
    by (simp add: AccessPolicyPermission_String_def AccessPolicyPermission_Parse_def ContainsRune_iff)
qed

end
