(* ===== verification/Models.thy ===== *)
theory Models
  imports Go_Time
begin

text \<open>
  The data of zz\_generated\_models.go and zz\_response\_helpers.go: the structures the service's
  XML documents are decoded into, the enumerations (Go string types with named constants),
  the paging marker, and the dynamic types of responses. The \<open>rawResponse\<close> field of a
  response structure is kept beside the value, in the reply that carries it. The fields
  named \<open>XMLName\<close> only direct the XML codec and are left out.
\<close>

section \<open>Enumerations\<close>

type_synonym ETag = string

definition ETagNone :: ETag where "ETagNone = []"
definition ETagAny :: ETag where "ETagAny = ''*''"

type_synonym Metadata = "(string, string) go_map"

type_synonym CopyStatusType = string

definition CopyStatusAborted :: CopyStatusType where "CopyStatusAborted = ''aborted''"
definition CopyStatusFailed :: CopyStatusType where "CopyStatusFailed = ''failed''"
definition CopyStatusNone :: CopyStatusType where "CopyStatusNone = []"
definition CopyStatusPending :: CopyStatusType where "CopyStatusPending = ''pending''"
definition CopyStatusSuccess :: CopyStatusType where "CopyStatusSuccess = ''success''"

definition PossibleCopyStatusTypeValues :: "CopyStatusType list" where
  "PossibleCopyStatusTypeValues =
     [CopyStatusAborted, CopyStatusFailed, CopyStatusNone, CopyStatusPending, CopyStatusSuccess]"

type_synonym DeleteSnapshotsOptionType = string

definition DeleteSnapshotsOptionInclude :: DeleteSnapshotsOptionType where
  "DeleteSnapshotsOptionInclude = ''include''"
definition DeleteSnapshotsOptionNone :: DeleteSnapshotsOptionType where
  "DeleteSnapshotsOptionNone = []"

definition PossibleDeleteSnapshotsOptionTypeValues :: "DeleteSnapshotsOptionType list" where
  "PossibleDeleteSnapshotsOptionTypeValues = [DeleteSnapshotsOptionInclude, DeleteSnapshotsOptionNone]"

type_synonym FileRangeWriteType = string

definition FileRangeWriteClear :: FileRangeWriteType where "FileRangeWriteClear = ''clear''"
definition FileRangeWriteNone :: FileRangeWriteType where "FileRangeWriteNone = []"
definition FileRangeWriteUpdate :: FileRangeWriteType where "FileRangeWriteUpdate = ''update''"

definition PossibleFileRangeWriteTypeValues :: "FileRangeWriteType list" where
  "PossibleFileRangeWriteTypeValues = [FileRangeWriteClear, FileRangeWriteNone, FileRangeWriteUpdate]"

type_synonym ListSharesIncludeType = string

definition ListSharesIncludeMetadata :: ListSharesIncludeType where
  "ListSharesIncludeMetadata = ''metadata''"
definition ListSharesIncludeNone :: ListSharesIncludeType where
  "ListSharesIncludeNone = []"
definition ListSharesIncludeSnapshots :: ListSharesIncludeType where
  "ListSharesIncludeSnapshots = ''snapshots''"

definition PossibleListSharesIncludeTypeValues :: "ListSharesIncludeType list" where
  "PossibleListSharesIncludeTypeValues =
     [ListSharesIncludeMetadata, ListSharesIncludeNone, ListSharesIncludeSnapshots]"

text \<open>\<open>joinConst\<close> is only called on slices of these string types.\<close>

definition joinConst :: "string list \<Rightarrow> string \<Rightarrow> string" where
  "joinConst s sep = Join s sep"

section \<open>Structures\<close>

record AccessPolicy =
  ap_Start :: "go_time option"
  ap_Expiry :: "go_time option"
  ap_Permission :: "string option"

record SignedIdentifier =
  si_ID :: string
  si_AccessPolicy :: "AccessPolicy option"

record CorsRule =
  cr_AllowedOrigins :: string
  cr_AllowedMethods :: string
  cr_AllowedHeaders :: string
  cr_ExposedHeaders :: string
  cr_MaxAgeInSeconds :: int

record RetentionPolicy =
  rt_Enabled :: bool
  rt_Days :: "int option"

record Metrics =
  mt_Version :: string
  mt_Enabled :: bool
  mt_IncludeAPIs :: "bool option"
  mt_RetentionPolicy :: "RetentionPolicy option"

record StorageServiceProperties =
  ssp_HourMetrics :: "Metrics option"
  ssp_MinuteMetrics :: "Metrics option"
  ssp_Cors :: "CorsRule list"

record Range =
  rg_Start :: int
  rg_End :: int

record ShareProperties =
  shp_LastModified :: go_time
  shp_Etag :: ETag
  shp_Quota :: int

record ShareItem =
  shi_Name :: string
  shi_Snapshot :: "string option"
  shi_Properties :: ShareProperties
  shi_Metadata :: Metadata

record FileProperty =
  fpr_ContentLength :: int

record FileItem =
  fi_Name :: string
  fi_Properties :: "FileProperty option"

record DirectoryItem =
  di_Name :: string

section \<open>Paging\<close>

record Marker =
  mk_val :: "string option"

definition Marker_GetVal :: "Marker \<Rightarrow> string option" where
  "Marker_GetVal m = mk_val m"

definition Marker_NotDone :: "Marker \<Rightarrow> bool" where
  "Marker_NotDone m \<longleftrightarrow> (case mk_val m of None \<Rightarrow> True | Some v \<Rightarrow> v \<noteq> [])"

text \<open>
  \<open>Marker.UnmarshalXML\<close>: \<open>decode\<close> is what \<open>DecodeElement\<close> yields for the element, the text
  read so far and an error.
\<close>

definition Marker_UnmarshalXML :: "string \<times> 'e option \<Rightarrow> Marker \<times> 'e option" where
  "Marker_UnmarshalXML decode = (case decode of (out, err) \<Rightarrow> (\<lparr>mk_val = Some out\<rparr>, err))"

record ListSharesPage =
  lsp_ServiceEndpoint :: string
  lsp_Prefix :: "string option"
  lsp_Marker :: "string option"
  lsp_MaxResults :: "int option"
  lsp_ShareItems :: "ShareItem list"
  lsp_NextMarker :: Marker

record ListFilesPage =
  lfp_ServiceEndpoint :: string
  lfp_ShareName :: string
  lfp_ShareSnapshot :: "string option"
  lfp_DirectoryPath :: string
  lfp_Prefix :: string
  lfp_Marker :: "string option"
  lfp_MaxResults :: "int option"
  lfp_FileItems :: "FileItem list"
  lfp_DirectoryItems :: "DirectoryItem list"
  lfp_NextMarker :: Marker

section \<open>Dynamic types of responses\<close>

text \<open>
  What a \<open>pipeline.Response\<close> can be besides its raw response: the plain response of the
  pipeline, or one of the structures the responders build.
\<close>

datatype (discs_sels) response_value =
    HTTPResponse
  | DirectoryCreateResponse | DirectoryDeleteResponse | DirectoryGetPropertiesResponse
  | DirectorySetMetadataResponse | ListFilesAndDirectoriesSegmentResponse ListFilesPage
  | DownloadResponse | FileAbortCopyResponse | FileCreateResponse | FileDeleteResponse
  | FileGetPropertiesResponse | FileSetHTTPHeadersResponse | FileSetMetadataResponse
  | FileStartCopyResponse | FileUploadRangeResponse | Ranges "Range list"
  | ServiceSetPropertiesResponse | ListSharesResponse ListSharesPage
  | ServiceProperties StorageServiceProperties
  | ShareCreateResponse | ShareCreateSnapshotResponse | ShareDeleteResponse
  | ShareGetPropertiesResponse | ShareSetAccessPolicyResponse | ShareSetMetadataResponse
  | ShareSetQuotaResponse | ShareStats int | SignedIdentifiers "SignedIdentifier list"

end
