(* ===== verification/Go_Http.thy ===== *)
theory Go_Http
  imports Go_Url Models
begin

text \<open>
  HTTP as the package sees it: header maps with the canonical spelling of names of
  \<open>net/textproto\<close>, requests, responses, the errors a round trip can end with, and the
  shape of a pipeline policy (azure-pipeline-go): a function from the next sender to a
  sender. What lies below a policy, and the state of the outside world \<open>'w\<close>, are arguments.
\<close>

section \<open>Headers\<close>

type_synonym header = "(string, string list) go_map"

definition token_byte :: "char \<Rightarrow> bool" where
  "token_byte c \<longleftrightarrow> is_alnum c \<or> c \<in> set (''!#$%&'' @ [CHR 0x27] @ ''*+-.^_'' @ [CHR 0x60] @ ''|~'')"

fun canonical_loop :: "bool \<Rightarrow> string \<Rightarrow> string" where
  "canonical_loop upper [] = []"
| "canonical_loop upper (c # cs) =
     (let c' = (if upper \<and> 97 \<le> byte_of c \<and> byte_of c \<le> 122 then char_of (byte_of c - 32)
                else if \<not> upper \<and> 65 \<le> byte_of c \<and> byte_of c \<le> 90 then char_of (byte_of c + 32)
                else c)
      in c' # canonical_loop (c' = CHR ''-'') cs)"

definition CanonicalMIMEHeaderKey :: "string \<Rightarrow> string" where
  "CanonicalMIMEHeaderKey s = (if list_all token_byte s then canonical_loop True s else s)"

definition Header_Get :: "header \<Rightarrow> string \<Rightarrow> string" where
  "Header_Get h key =
     (case map_of h (CanonicalMIMEHeaderKey key) of Some (x # _) \<Rightarrow> x | _ \<Rightarrow> [])"

definition Header_Set :: "header \<Rightarrow> string \<Rightarrow> string \<Rightarrow> header" where
  "Header_Set h key x = AList.update (CanonicalMIMEHeaderKey key) [x] h"

lemma Header_Get_Set:
  "Header_Get (Header_Set h k x) k' =
     (if CanonicalMIMEHeaderKey k' = CanonicalMIMEHeaderKey k then x else Header_Get h k')"
  by (simp add: Header_Get_def Header_Set_def map_of_update_alist)

lemma go_map_ok_Header_Set [simp]: "go_map_ok h \<Longrightarrow> go_map_ok (Header_Set h k x)"
  by (simp add: Header_Set_def)

text \<open>A direct assignment \<open>h[key] = []string{x}\<close> does not touch other spellings.\<close>

lemma Header_Get_update_other:
  "k \<noteq> CanonicalMIMEHeaderKey k' \<Longrightarrow> Header_Get (AList.update k v h) k' = Header_Get h k'"
  by (simp add: Header_Get_def map_of_update_alist)

section \<open>Network errors\<close>

datatype err_type = AddrError | UnknownNetworkError | DNSError | InvalidAddrError | ParseError
  | DNSConfigError | OtherType

text \<open>An error value as the type switches see it: its dynamic type and its text.\<close>

record plain_error =
  pe_type :: err_type
  pe_text :: string

datatype net_kind = OpError "plain_error option" | NotOpError plain_error

record net_error =
  ne_Temporary :: bool
  ne_Timeout :: bool
  ne_kind :: net_kind

text \<open>What a read from a body can fail with, besides \<open>io.EOF\<close>.\<close>

datatype read_error = ReadNet net_error | ReadPlain string

section \<open>Requests and responses\<close>

text \<open>
  A body is what reading it to the end yields: the bytes, and the error the last read
  returns instead of \<open>io.EOF\<close>, if any.
\<close>

record body =
  b_data :: string
  b_error :: "read_error option"

record http_request =
  rq_Method :: string
  rq_URL :: url
  rq_Host :: string
  rq_Header :: header
  rq_Body :: "string option"   \<comment> \<open>the payload behind the seekable body\<close>

record http_response =
  rs_StatusCode :: int
  rs_Status :: string
  rs_Header :: header
  rs_Body :: "body option"

section \<open>Error values\<close>

text \<open>
  \<open>storageError\<close> of zc\_storage\_error.go. \<open>se_node_temporary\<close> and \<open>se_node_timeout\<close> are what
  the embedded \<open>pipeline.ErrorNode\<close> answers about the error's cause.
\<close>

record storage_error =
  se_response :: "http_response option"
  se_description :: string
  se_serviceCode :: string
  se_details :: "(string, string) go_map"
  se_node_temporary :: bool
  se_node_timeout :: bool

datatype go_error = StorageErr storage_error | NetErr net_error | PlainErr string

fun error_of_read :: "read_error \<Rightarrow> go_error" where
  "error_of_read (ReadNet e) = NetErr e"
| "error_of_read (ReadPlain m) = PlainErr m"

section \<open>Policies\<close>

text \<open>
  The result of \<open>Policy.Do\<close>: a response, which can be a nil interface (outer \<open>None\<close>) or hold
  a nil \<open>*http.Response\<close> (inner \<open>None\<close>), the dynamic type and decoded content of that
  response, and an error.
\<close>

record reply =
  rp_response :: "http_response option option"
  rp_value :: response_value
  rp_error :: "go_error option"

type_synonym 'w sender = "http_request \<Rightarrow> 'w \<Rightarrow> (reply \<times> 'w) exec"
type_synonym 'w policy = "'w sender \<Rightarrow> 'w sender"

definition reply_status :: "reply \<Rightarrow> int option" where
  "reply_status r = (case rp_response r of Some (Some resp) \<Rightarrow> Some (rs_StatusCode resp) | _ \<Rightarrow> None)"

text \<open>The factories of a pipeline, from the API towards the wire.\<close>

definition compose_policies :: "'w policy list \<Rightarrow> 'w sender \<Rightarrow> 'w sender" where
  "compose_policies ps wire = foldr (\<lambda>p next. p next) ps wire"

datatype log_level = LogNone | LogFatal | LogPanic | LogError | LogWarning | LogInfo | LogDebug

instantiation log_level :: linorder
begin

fun log_rank :: "log_level \<Rightarrow> nat" where
  "log_rank LogNone = 0"
| "log_rank LogFatal = 1"
| "log_rank LogPanic = 2"
| "log_rank LogError = 3"
| "log_rank LogWarning = 4"
| "log_rank LogInfo = 5"
| "log_rank LogDebug = 6"

definition less_eq_log_level :: "log_level \<Rightarrow> log_level \<Rightarrow> bool" where
  "less_eq_log_level a b \<longleftrightarrow> log_rank a \<le> log_rank b"

definition less_log_level :: "log_level \<Rightarrow> log_level \<Rightarrow> bool" where
  "less_log_level a b \<longleftrightarrow> log_rank a < log_rank b"

instance
proof
  fix a b :: log_level
  assume "a \<le> b" and "b \<le> a"
  then show "a = b" by (cases a; cases b) (simp_all add: less_eq_log_level_def)
qed (auto simp: less_eq_log_level_def less_log_level_def)

end

end
