(* ===== verification/Go_Base64.thy ===== *)
theory Go_Base64
  imports Go_Strings
begin

text \<open>
  \<open>base64.StdEncoding\<close>: encoding and decoding with padding. Decoding skips carriage returns
  and newlines, refuses every other byte outside the alphabet, and wants the padding and
  nothing after it.
\<close>

definition b64_char :: "nat \<Rightarrow> char" where
  "b64_char n = char_of
     (if n < 26 then 65 + n else if n < 52 then 71 + n else if n < 62 then n - 4
      else if n = 62 then 43 else 47)"

definition b64_val :: "char \<Rightarrow> nat option" where
  "b64_val c =
     (let b = byte_of c in
      if 65 \<le> b \<and> b \<le> 90 then Some (b - 65)
      else if 97 \<le> b \<and> b \<le> 122 then Some (b - 71)
      else if 48 \<le> b \<and> b \<le> 57 then Some (b + 4)
      else if b = 43 then Some 62 else if b = 47 then Some 63 else None)"

fun EncodeToString :: "string \<Rightarrow> string" where
  "EncodeToString (a # b # c # r) =
     [b64_char (byte_of a div 4), b64_char (byte_of a mod 4 * 16 + byte_of b div 16),
      b64_char (byte_of b mod 16 * 4 + byte_of c div 64), b64_char (byte_of c mod 64)]
     @ EncodeToString r"
| "EncodeToString [a, b] =
     [b64_char (byte_of a div 4), b64_char (byte_of a mod 4 * 16 + byte_of b div 16),
      b64_char (byte_of b mod 16 * 4), CHR ''='']"
| "EncodeToString [a] =
     [b64_char (byte_of a div 4), b64_char (byte_of a mod 4 * 16), CHR ''='', CHR ''='']"
| "EncodeToString [] = []"

fun decode_quanta :: "string \<Rightarrow> string option" where
  "decode_quanta [] = Some []"
| "decode_quanta (p # q # r # s # rest) =
     (case (b64_val p, b64_val q) of
        (Some x, Some y) \<Rightarrow>
          (case (b64_val r, b64_val s) of
             (Some z, Some w) \<Rightarrow>
               map_option ((@) [char_of (x * 4 + y div 16), char_of (y mod 16 * 16 + z div 4),
                                char_of (z mod 4 * 64 + w)]) (decode_quanta rest)
           | (Some z, None) \<Rightarrow>
               if s = CHR ''='' \<and> rest = []
               then Some [char_of (x * 4 + y div 16), char_of (y mod 16 * 16 + z div 4)] else None
           | (None, _) \<Rightarrow>
               if r = CHR ''='' \<and> s = CHR ''='' \<and> rest = [] then Some [char_of (x * 4 + y div 16)]
               else None)
      | _ \<Rightarrow> None)"
| "decode_quanta _ = None"

definition DecodeString :: "string \<Rightarrow> string option" where
  "DecodeString s = decode_quanta (filter (\<lambda>c. c \<noteq> CHR 0x0A \<and> c \<noteq> CHR 0x0D) s)"

lemma b64_val_char [simp]: "n < 64 \<Longrightarrow> b64_val (b64_char n) = Some n"
  by (auto simp: b64_val_def b64_char_def Let_def)

lemma b64_val_eq_sign [simp]: "b64_val (CHR ''='') = None"
  by (simp add: b64_val_def byte_of_def)

lemma b64_char_not_newline [simp]:
  assumes "n < 64"
  shows "b64_char n \<noteq> CHR 0x0A" "b64_char n \<noteq> CHR 0x0D"
proof -
  have "b64_val (CHR 0x0A) = None" "b64_val (CHR 0x0D) = None" by (simp_all add: b64_val_def byte_of_def)
  with b64_val_char [OF assms] show "b64_char n \<noteq> CHR 0x0A" "b64_char n \<noteq> CHR 0x0D" by auto
qed

lemma byte_bounds:
  "byte_of a div 4 < 64" "byte_of a mod 4 * 16 + byte_of b div 16 < 64"
  "byte_of b mod 16 * 4 + byte_of c div 64 < 64" "byte_of c mod 64 < 64"
  "byte_of a mod 4 * 16 < 64" "byte_of b mod 16 * 4 < 64"
proof -
  have "byte_of a < 256" "byte_of b < 256" "byte_of c < 256" by simp_all
  moreover have "byte_of a mod 4 < 4" "byte_of b mod 16 < 16" by simp_all
  ultimately show "byte_of a div 4 < 64" "byte_of a mod 4 * 16 + byte_of b div 16 < 64"
    "byte_of b mod 16 * 4 + byte_of c div 64 < 64" "byte_of c mod 64 < 64"
    "byte_of a mod 4 * 16 < 64" "byte_of b mod 16 * 4 < 64"
    by linarith+
qed

lemma join_bits [simp]:
  "(byte_of a mod 4 * 16 + byte_of b div 16) div 16 = byte_of a mod 4"
  "(byte_of a mod 4 * 16 + byte_of b div 16) mod 16 = byte_of b div 16"
  "(byte_of b mod 16 * 4 + byte_of c div 64) div 4 = byte_of b mod 16"
  "(byte_of b mod 16 * 4 + byte_of c div 64) mod 4 = byte_of c div 64"
  "byte_of a mod 4 * 16 div 16 = byte_of a mod 4" "byte_of b mod 16 * 4 div 4 = byte_of b mod 16"
proof -
  have "byte_of b < 256" "byte_of c < 256" by simp_all
  then have "byte_of b div 16 < 16" "byte_of c div 64 < 4" by linarith+
  then show "(byte_of a mod 4 * 16 + byte_of b div 16) div 16 = byte_of a mod 4"
    "(byte_of a mod 4 * 16 + byte_of b div 16) mod 16 = byte_of b div 16"
    "(byte_of b mod 16 * 4 + byte_of c div 64) div 4 = byte_of b mod 16"
    "(byte_of b mod 16 * 4 + byte_of c div 64) mod 4 = byte_of c div 64"
    by simp_all
qed simp_all

lemma byte_div_mod [simp]: "byte_of b div 16 mod 16 = byte_of b div 16"
  "byte_of c div 64 mod 4 = byte_of c div 64"
proof -
  have "byte_of b < 256" "byte_of c < 256" by simp_all
  then have "byte_of b div 16 < 16" "byte_of c div 64 < 4" by linarith+
  then show "byte_of b div 16 mod 16 = byte_of b div 16" "byte_of c div 64 mod 4 = byte_of c div 64"
    by simp_all
qed

lemma byte_parts [simp]:
  "char_of (byte_of a div 4 * 4 + byte_of a mod 4) = a"
  "char_of (byte_of a div 16 * 16 + byte_of a mod 16) = a"
  "char_of (byte_of a div 64 * 64 + byte_of a mod 64) = a"
  by simp_all

lemma decode_encode: "decode_quanta (EncodeToString s) = Some s"
  by (induction s rule: EncodeToString.induct) (simp_all add: byte_bounds)

lemma EncodeToString_no_newline:
  "c \<in> set (EncodeToString s) \<Longrightarrow> c \<noteq> CHR 0x0A \<and> c \<noteq> CHR 0x0D"
  by (induction s rule: EncodeToString.induct) (auto simp: byte_bounds)

lemma DecodeString_EncodeToString [simp]: "DecodeString (EncodeToString s) = Some s"
proof -
  have "filter (\<lambda>c. c \<noteq> CHR 0x0A \<and> c \<noteq> CHR 0x0D) (EncodeToString s) = EncodeToString s"
    using EncodeToString_no_newline by (simp add: filter_id_conv)
  then show ?thesis by (simp add: DecodeString_def decode_encode)
qed

interpretation base64: codec "\<lambda>_. True" EncodeToString DecodeString
  by unfold_locales simp

end
