(* ===== verification/Shared_Key.thy ===== *)
theory Shared_Key
  imports Go_Http Go_Base64
begin

text \<open>
  zc\_credential\_shared\_key.go: the shared-key credential, the canonical form of a request
  that is signed, and the policy that signs. HMAC-SHA256 of the standard library is the
  argument \<open>mac\<close> (key, message, digest), so that what is shown holds for any message
  authentication code; the clock is the argument \<open>now\<close>, the formatted current time.
\<close>

type_synonym mac = "string \<Rightarrow> string \<Rightarrow> string"

section \<open>The credential\<close>

record SharedKeyCredential =
  skc_accountName :: string
  skc_accountKey :: string

definition SharedKeyCredential_AccountName :: "SharedKeyCredential \<Rightarrow> string" where
  "SharedKeyCredential_AccountName f = skc_accountName f"

definition NewSharedKeyCredential :: "string \<Rightarrow> string \<Rightarrow> SharedKeyCredential \<times> string option" where
  "NewSharedKeyCredential accountName accountKey =
     (case DecodeString accountKey of
        None \<Rightarrow> (\<lparr>skc_accountName = [], skc_accountKey = []\<rparr>, Some ''illegal base64 data'')
      | Some bytes \<Rightarrow> (\<lparr>skc_accountName = accountName, skc_accountKey = bytes\<rparr>, None))"

definition ComputeHMACSHA256 :: "mac \<Rightarrow> SharedKeyCredential \<Rightarrow> string \<Rightarrow> string" where
  "ComputeHMACSHA256 mac f message = EncodeToString (mac (skc_accountKey f) message)"

section \<open>Canonicalized headers\<close>

text \<open>
  The map \<open>cm\<close> of the code: the lower-case, trimmed names that start with \<open>x-ms-\<close>.
\<close>

definition canonical_name :: "unicode_tables \<Rightarrow> string \<Rightarrow> string" where
  "canonical_name u k = TrimSpace (ToLower u k)"

definition xms_step :: "unicode_tables \<Rightarrow> string \<times> string list \<Rightarrow> header \<Rightarrow> header" where
  "xms_step u e cm =
     (let headerName = canonical_name u (fst e) in
      if HasPrefix headerName ''x-ms-'' then AList.update headerName (snd e) cm else cm)"

definition xms_headers :: "unicode_tables \<Rightarrow> header \<Rightarrow> header" where
  "xms_headers u headers = fold (xms_step u) headers []"

definition header_line :: "header \<Rightarrow> string \<Rightarrow> string" where
  "header_line cm key = key @ '':'' @ Join (case map_of cm key of Some v \<Rightarrow> v | None \<Rightarrow> []) '',''"

definition buildCanonicalizedHeader :: "unicode_tables \<Rightarrow> header \<Rightarrow> string" where
  "buildCanonicalizedHeader u headers =
     (let cm = xms_headers u headers in
      if cm = [] then [] else Join (map (header_line cm) (sort (map fst cm))) newline)"

section \<open>Canonicalized resource\<close>

definition param_line :: "Values \<Rightarrow> string \<Rightarrow> string" where
  "param_line params paramName =
     newline @ paramName @ '':''
       @ Join (sort (case map_of params paramName of Some v \<Rightarrow> v | None \<Rightarrow> [])) '',''"

definition buildCanonicalizedResource :: "SharedKeyCredential \<Rightarrow> url \<Rightarrow> string exec" where
  "buildCanonicalizedResource f u =
     (let cr = ''/'' @ skc_accountName f
               @ (if length (u_Path u) > 0 then EscapedPath u else ''/'') in
      case ParseQuery (u_RawQuery u) of
        (params, Some err) \<Rightarrow> sanityCheckFailed err
      | (params, None) \<Rightarrow> Return (cr @ concat (map (param_line params) (sort (map fst params)))))"

section \<open>The string to sign\<close>

definition buildStringToSign :: "unicode_tables \<Rightarrow> SharedKeyCredential \<Rightarrow> http_request \<Rightarrow> string exec" where
  "buildStringToSign u f request =
     (let headers = rq_Header request;
          contentLength = Header_Get headers ''Content-Length'';
          contentLength = (if contentLength = ''0'' then [] else contentLength) in
      bind_exec (buildCanonicalizedResource f (rq_URL request)) (\<lambda>resource.
        Return (Join
          [rq_Method request,
           Header_Get headers ''Content-Encoding'',
           Header_Get headers ''Content-Language'',
           contentLength,
           Header_Get headers ''Content-MD5'',
           Header_Get headers ''Content-Type'',
           [],
           Header_Get headers ''If-Modified-Since'',
           Header_Get headers ''If-Match'',
           Header_Get headers ''If-None-Match'',
           Header_Get headers ''If-Unmodified-Since'',
           Header_Get headers ''Range'',
           buildCanonicalizedHeader u headers,
           resource] newline)))"

section \<open>The policy\<close>

definition with_date :: "string \<Rightarrow> http_request \<Rightarrow> http_request" where
  "with_date now request =
     (if Header_Get (rq_Header request) ''x-ms-date'' = []
      then request\<lparr>rq_Header := AList.update ''x-ms-date'' [now] (rq_Header request)\<rparr>
      else request)"

definition auth_header :: "mac \<Rightarrow> SharedKeyCredential \<Rightarrow> string \<Rightarrow> string" where
  "auth_header mac f stringToSign =
     Join [''SharedKey '', skc_accountName f, '':'', ComputeHMACSHA256 mac f stringToSign] []"

text \<open>
  \<open>now\<close> reads the clock in the world, \<open>log\<close> is \<open>po.Log\<close>.
\<close>

definition SharedKeyCredential_New ::
    "unicode_tables \<Rightarrow> mac \<Rightarrow> ('w \<Rightarrow> string) \<Rightarrow> (log_level \<Rightarrow> string \<Rightarrow> 'w \<Rightarrow> 'w)
      \<Rightarrow> SharedKeyCredential \<Rightarrow> 'w policy" where
  "SharedKeyCredential_New u mac now log f next request w =
     (let request = with_date (now w) request in
      bind_exec (buildStringToSign u f request) (\<lambda>stringToSign.
        let request = request\<lparr>rq_Header :=
              AList.update ''Authorization'' [auth_header mac f stringToSign] (rq_Header request)\<rparr> in
        bind_exec (next request w) (\<lambda>(reply, w').
          let w'' = (if rp_error reply \<noteq> None \<and> reply_status reply = Some 403
                     then log LogError (''===== HTTP Forbidden status, String-to-Sign:'' @ newline
                            @ stringToSign @ newline @ ''==============================='' @ newline) w'
                     else w')
          in Return (reply, w''))))"

section \<open>The signed string does not depend on map order\<close>

lemma xms_step_fold_ok:
  "go_map_ok cm \<Longrightarrow> go_map_ok (fold (xms_step u) hs cm)"
  by (rule fold_invariant_list) (simp_all add: xms_step_def Let_def)

text \<open>The header names that survive, and that no two of them fall together.\<close>

definition xms_names :: "unicode_tables \<Rightarrow> header \<Rightarrow> string list" where
  "xms_names u hs = filter (\<lambda>n. HasPrefix n ''x-ms-'') (map (\<lambda>e. canonical_name u (fst e)) hs)"

definition xms_entries :: "unicode_tables \<Rightarrow> header \<Rightarrow> header" where
  "xms_entries u hs =
     filter (\<lambda>e. HasPrefix (fst e) ''x-ms-'') (map (\<lambda>e. (canonical_name u (fst e), snd e)) hs)"

lemma fst_xms_entries: "map fst (xms_entries u hs) = xms_names u hs"
  by (simp add: xms_entries_def xms_names_def filter_map comp_def)

lemma xms_headers_append_entries:
  assumes "distinct (xms_names u hs)"
    and "\<And>n. n \<in> set (xms_names u hs) \<Longrightarrow> n \<notin> fst ` set cm"
  shows "fold (xms_step u) hs cm = cm @ xms_entries u hs"
  using assms
proof (induction hs arbitrary: cm)
  case Nil
  show ?case by (simp add: xms_entries_def)
next
  case (Cons e hs)
  show ?case
  proof (cases "HasPrefix (canonical_name u (fst e)) ''x-ms-''")
    case True
    let ?n = "canonical_name u (fst e)"
    have upd: "AList.update ?n (snd e) cm = cm @ [(?n, snd e)]"
      using Cons.prems(2) [of ?n] True by (simp add: xms_names_def update_fresh)
    show ?thesis
      using Cons.IH [of "cm @ [(?n, snd e)]"] Cons.prems True upd
      by (auto simp: xms_step_def Let_def xms_names_def xms_entries_def)
  next
    case False
    with Cons show ?thesis by (simp add: xms_step_def Let_def xms_names_def xms_entries_def)
  qed
qed

lemma xms_headers_eq: "distinct (xms_names u hs) \<Longrightarrow> xms_headers u hs = xms_entries u hs"
  using xms_headers_append_entries [of u hs "[]"] by (simp add: xms_headers_def)


lemma buildCanonicalizedHeader_order:
  assumes "distinct (xms_names u hs)" and "mset hs = mset hs'"
  shows "buildCanonicalizedHeader u hs = buildCanonicalizedHeader u hs'"
proof -
  have names: "mset (xms_names u hs) = mset (xms_names u hs')"
    using assms(2) by (simp add: xms_names_def)
  with assms(1) have d': "distinct (xms_names u hs')" by (metis mset_eq_imp_distinct_iff)
  have ent: "mset (xms_entries u hs) = mset (xms_entries u hs')"
    using assms(2) by (simp add: xms_entries_def)
  have ok: "go_map_ok (xms_entries u hs)"
    using assms(1) by (simp add: go_map_ok_def fst_xms_entries)
  have "header_line (xms_entries u hs) = header_line (xms_entries u hs')"
    using go_map_mset_eq_map_of [OF ok ent] by (simp add: header_line_def fun_eq_iff)
  moreover have "sort (xms_names u hs) = sort (xms_names u hs')"
    using names by (rule sort_mset_cong)
  moreover have "xms_entries u hs = [] \<longleftrightarrow> xms_entries u hs' = []"
    using ent by (metis mset_zero_iff)
  ultimately show ?thesis
    by (simp add: buildCanonicalizedHeader_def Let_def xms_headers_eq [OF assms(1)]
        xms_headers_eq [OF d'] fst_xms_entries)
qed

section \<open>The signature is outside the signed string\<close>

lemma xms_headers_update_other:
  assumes "\<not> HasPrefix (canonical_name u k) ''x-ms-''"
  shows "xms_headers u (AList.update k v hs) = xms_headers u hs"
proof -
  have "fold (xms_step u) (AList.update k v hs) cm = fold (xms_step u) hs cm" for cm
    using assms by (induction hs arbitrary: cm) (auto simp: xms_step_def Let_def)
  then show ?thesis by (simp add: xms_headers_def)
qed

lemma canonical_name_Authorization: "canonical_name u ''Authorization'' = ''authorization''"
proof -
  have "ascii ''Authorization''" by code_simp
  then have "ToLower u ''Authorization'' = map lower_char ''Authorization''" by (rule ToLower_ascii)
  also have "\<dots> = ''authorization''" by code_simp
  finally have "canonical_name u ''Authorization'' = TrimSpace ''authorization''"
    by (simp add: canonical_name_def)
  also have "\<dots> = ''authorization''" by code_simp
  finally show ?thesis .
qed

lemma signed_names_canonical:
  "CanonicalMIMEHeaderKey ''Content-Encoding'' = ''Content-Encoding''"
  "CanonicalMIMEHeaderKey ''Content-Language'' = ''Content-Language''"
  "CanonicalMIMEHeaderKey ''Content-Length'' = ''Content-Length''"
  "CanonicalMIMEHeaderKey ''Content-MD5'' = ''Content-Md5''"
  "CanonicalMIMEHeaderKey ''Content-Type'' = ''Content-Type''"
  "CanonicalMIMEHeaderKey ''If-Modified-Since'' = ''If-Modified-Since''"
  "CanonicalMIMEHeaderKey ''If-Match'' = ''If-Match''"
  "CanonicalMIMEHeaderKey ''If-None-Match'' = ''If-None-Match''"
  "CanonicalMIMEHeaderKey ''If-Unmodified-Since'' = ''If-Unmodified-Since''"
  "CanonicalMIMEHeaderKey ''Range'' = ''Range''"
  "CanonicalMIMEHeaderKey ''Authorization'' = ''Authorization''"
  "CanonicalMIMEHeaderKey ''x-ms-date'' = ''X-Ms-Date''"
  by code_simp+

lemma buildStringToSign_Authorization:
  "buildStringToSign u f (r\<lparr>rq_Header := AList.update ''Authorization'' v (rq_Header r)\<rparr>) =
     buildStringToSign u f r"
proof -
  have "xms_headers u (AList.update ''Authorization'' v (rq_Header r)) = xms_headers u (rq_Header r)"
    by (rule xms_headers_update_other) (simp add: canonical_name_Authorization HasPrefix_def)
  then show ?thesis
    by (simp add: buildStringToSign_def buildCanonicalizedHeader_def Let_def
        Header_Get_update_other signed_names_canonical)
qed

text \<open>
  C14: Every request the shared-key policy hands on carries an Authorization header whose
  signature is the code's own canonical string of exactly the request that is sent: a
  receiver that recomputes the string to sign from what arrives gets the signed one.
  Method, URL, host and body are untouched, a date is present whenever the clock gives one,
  and the reply of the rest of the pipeline is returned unchanged.
\<close>

theorem shared_key_policy_signs:
  assumes "SharedKeyCredential_New u mac now log f next req w = Return (rep, w')"
  shows "\<exists>req' sts w1. next req' w = Return (rep, w1)
     \<and> buildStringToSign u f req' = Return sts
     \<and> Header_Get (rq_Header req') ''Authorization'' =
          ''SharedKey '' @ skc_accountName f @ '':'' @ EncodeToString (mac (skc_accountKey f) sts)
     \<and> rq_Method req' = rq_Method req \<and> rq_URL req' = rq_URL req
     \<and> rq_Host req' = rq_Host req \<and> rq_Body req' = rq_Body req
     \<and> (Header_Get (rq_Header req) ''x-ms-date'' = [] \<longrightarrow> map_of (rq_Header req') ''x-ms-date'' = Some [now w])
     \<and> (w' = w1 \<or> rp_error rep \<noteq> None \<and> reply_status rep = Some 403)"
proof -
  define r0 where "r0 = with_date (now w) req"
  from assms obtain sts w1 where sts: "buildStringToSign u f r0 = Return sts"
    and nxt: "next (r0\<lparr>rq_Header := AList.update ''Authorization'' [auth_header mac f sts] (rq_Header r0)\<rparr>) w
      = Return (rep, w1)"
    and w': "w' = w1 \<or> rp_error rep \<noteq> None \<and> reply_status rep = Some 403"
    by (auto simp: SharedKeyCredential_New_def Let_def r0_def split: if_splits)
  let ?r = "r0\<lparr>rq_Header := AList.update ''Authorization'' [auth_header mac f sts] (rq_Header r0)\<rparr>"
  have "Header_Get (rq_Header ?r) ''Authorization'' = auth_header mac f sts"
    by (simp add: Header_Get_def signed_names_canonical map_of_update_alist)
  moreover have "rq_Method ?r = rq_Method req \<and> rq_URL ?r = rq_URL req \<and> rq_Host ?r = rq_Host req
      \<and> rq_Body ?r = rq_Body req"
    by (simp add: r0_def with_date_def)
  moreover have "Header_Get (rq_Header req) ''x-ms-date'' = [] \<longrightarrow>
      map_of (rq_Header ?r) ''x-ms-date'' = Some [now w]"
    by (simp add: r0_def with_date_def map_of_update_alist)
  ultimately show ?thesis
    using nxt w' sts buildStringToSign_Authorization [where u = u and f = f and r = r0 and v = "[auth_header mac f sts]"]
    by (intro exI [of _ ?r] exI [of _ sts] exI [of _ w1])
       (simp add: auth_header_def ComputeHMACSHA256_def)
qed

definition example_credential :: SharedKeyCredential where
  "example_credential = \<lparr>skc_accountName = ''acct'', skc_accountKey = ''key''\<rparr>"

definition example_mac :: mac where
  "example_mac k m = k @ map (\<lambda>c. if c = CHR 0x0A then CHR ''|'' else c) m"

definition example_request :: http_request where
  "example_request = \<lparr>rq_Method = ''GET'',
     rq_URL = empty_url\<lparr>u_Scheme := ''https'', u_Host := ''acct.file.core.windows.net'',
       u_Path := ''/share/a b'', u_RawQuery := ''restype=share&comp=acl''\<rparr>,
     rq_Host = [], rq_Header = [(''X-Ms-Version'', [''2018-03-28''])], rq_Body = None\<rparr>"

definition ok_reply :: reply where
  "ok_reply = \<lparr>rp_response = Some (Some \<lparr>rs_StatusCode = 200, rs_Status = ''OK'', rs_Header = [],
     rs_Body = None\<rparr>), rp_value = HTTPResponse, rp_error = None\<rparr>"

theorem shared_key_policy_signs_witness:
  "\<exists>req' sts. buildStringToSign ascii_tables example_credential req' = Return sts
     \<and> Header_Get (rq_Header req') ''Authorization'' =
          ''SharedKey '' @ ''acct'' @ '':'' @ EncodeToString (example_mac ''key'' sts)
     \<and> map_of (rq_Header req') ''x-ms-date'' = Some [''Mon, 02 Jan 2006 15:04:05 GMT'']"
proof -
  have res: "buildCanonicalizedResource example_credential (rq_URL example_request) =
      Return (''/acct/share/a%20b'' @ newline @ ''comp:acl'' @ newline @ ''restype:share'')"
    by code_simp
  have run: "SharedKeyCredential_New ascii_tables example_mac (\<lambda>w. ''Mon, 02 Jan 2006 15:04:05 GMT'')
      (\<lambda>l m w. w) example_credential (\<lambda>r w. Return (ok_reply, w)) example_request () = Return (ok_reply, ())"
    by (simp add: SharedKeyCredential_New_def buildStringToSign_def Let_def with_date_def res ok_reply_def)
  have "Header_Get (rq_Header example_request) ''x-ms-date'' = []" by code_simp
  with shared_key_policy_signs [OF run] show ?thesis
    by (auto simp: example_credential_def)
qed

section \<open>The canonicalized resource\<close>

text \<open>
  The lines are determined by the order of the names and, for each name, of its values.
\<close>

lemma param_lines_content:
  assumes "go_map_ok v"
  shows "\<exists>ps. concat (map (param_line v) (sort (map fst v)))
       = concat (map (\<lambda>(k, xs). newline @ k @ '':'' @ Join xs '','') ps)
     \<and> sorted_wrt (<) (map fst ps) \<and> fst ` set ps = fst ` set v
     \<and> (\<forall>(k, xs) \<in> set ps. sorted xs \<and> (\<exists>ys. map_of v k = Some ys \<and> mset xs = mset ys))"
proof (intro exI conjI)
  let ?ps = "map (\<lambda>k. (k, sort (the (map_of v k)))) (sort (map fst v))"
  have some: "map_of v k = Some (the (map_of v k))" if "k \<in> fst ` set v" for k
    using that by (metis domIff dom_map_of_conv_image_fst option.collapse)
  have line: "param_line v k = newline @ k @ '':'' @ Join (sort (the (map_of v k))) '',''" if "k \<in> fst ` set v" for k
    using some [OF that] by (cases "map_of v k") (simp_all add: param_line_def)
  show "concat (map (param_line v) (sort (map fst v)))
      = concat (map (\<lambda>(k, xs). newline @ k @ '':'' @ Join xs '','') ?ps)"
    by (intro arg_cong [of _ _ concat]) (simp add: line)
  show "sorted_wrt (<) (map fst ?ps)"
    using assms by (simp add: go_map_ok_def strict_sorted_iff comp_def)
  show "fst ` set ?ps = fst ` set v" by (simp add: image_image)
  show "\<forall>(k, xs) \<in> set ?ps. sorted xs \<and> (\<exists>ys. map_of v k = Some ys \<and> mset xs = mset ys)"
    using some by auto
qed

text \<open>
  C32: For a URL whose query is the encoding of a parameter map, the canonicalized resource
  is the account, the escaped path (a slash for an empty one) and one line for each parameter:
  the lines are in strictly ascending byte order of the names, every name of the map has one,
  and a line is the name, a colon and the name's values, in ascending order, joined by commas.
  So it does not depend on the order in which the map is stored, and it never panics.
\<close>

theorem canonicalized_resource_of_encoded_query:
  assumes "go_map_ok v" and "[] \<notin> snd ` set v" and "u_RawQuery u = Values_Encode v"
  shows "\<exists>ps. buildCanonicalizedResource f u =
       Return (''/'' @ skc_accountName f @ (if u_Path u = [] then ''/'' else EscapedPath u)
         @ concat (map (\<lambda>(k, xs). newline @ k @ '':'' @ Join xs '','') ps))
     \<and> sorted_wrt (<) (map fst ps) \<and> fst ` set ps = fst ` set v
     \<and> (\<forall>(k, xs) \<in> set ps. sorted xs \<and> (\<exists>ys. map_of v k = Some ys \<and> mset xs = mset ys))"
proof -
  obtain params where p: "ParseQuery (Values_Encode v) = (params, None)"
    and ok: "go_map_ok params"
    using ParseQuery_Encode(2,3) [OF assms(1)] by (metis prod.collapse)
  have "map_of params k = map_of v k" for k
  proof (cases "map_of v k")
    case (Some xs)
    with assms(2) have "xs \<noteq> []" by (metis image_eqI map_of_SomeD snd_conv)
    with Some ParseQuery_Encode(1) [OF assms(1), of k] p show ?thesis by (cases xs) simp_all
  qed (use ParseQuery_Encode(1) [OF assms(1), of k] p in simp)
  then have eq: "map_of v = map_of params" by auto
  then have "param_line params = param_line v" by (simp add: param_line_def fun_eq_iff)
  with p sort_keys_order [OF assms(1) eq ok] assms(3)
  have "buildCanonicalizedResource f u =
     Return (''/'' @ skc_accountName f @ (if u_Path u = [] then ''/'' else EscapedPath u)
       @ concat (map (param_line v) (sort (map fst v))))"
    by (simp add: buildCanonicalizedResource_def)
  with param_lines_content [OF assms(1)] show ?thesis by simp
qed

theorem canonicalized_resource_of_encoded_query_witness:
  "buildCanonicalizedResource example_credential
     (empty_url\<lparr>u_RawQuery := Values_Encode [(''b'', [''2'', ''1'']), (''a'', [''x''])]\<rparr>)
   = Return (''/acct/'' @ newline @ ''a:x'' @ newline @ ''b:1,2'')"
proof -
  let ?v = "[(''b'', [''2'', ''1'']), (''a'', [''x''])]"
  have "go_map_ok ?v" "[] \<notin> snd ` set ?v" by simp_all
  from canonicalized_resource_of_encoded_query [OF this, of "empty_url\<lparr>u_RawQuery := Values_Encode ?v\<rparr>" example_credential]
  obtain ps where b: "buildCanonicalizedResource example_credential (empty_url\<lparr>u_RawQuery := Values_Encode ?v\<rparr>) =
        Return (''/acct/'' @ concat (map (\<lambda>(k, xs). newline @ k @ '':'' @ Join xs '','') ps))"
    and s: "sorted_wrt (<) (map fst ps)" and k: "fst ` set ps = {''a'', ''b''}"
    and xs: "\<forall>(k, xs) \<in> set ps. sorted xs \<and> (\<exists>ys. map_of ?v k = Some ys \<and> mset xs = mset ys)"
    by (auto simp: example_credential_def empty_url_def insert_commute)
  have "map fst ps = sorted_list_of_set {''a'', ''b''}"
    using s k by (metis finite.intros list.set_map sorted_list_of_set.idem_if_sorted_distinct strict_sorted_iff)
  also have "\<dots> = [''a'', ''b'']" by code_simp
  finally obtain x y where ps: "ps = [(''a'', x), (''b'', y)]" by auto
  have "sort [''x''] = x" "sort [''2'', ''1''] = y"
    using xs ps by (intro properties_for_sort; simp)+
  then have "x = [''x'']" "y = [''1'', ''2'']" by simp_all
  then show ?thesis using b ps by simp
qed

text \<open>
  C33: Go iterates over a header map in an unspecified order. Provided no two names fall
  together when lower-cased and trimmed, every order gives the same canonicalized headers:
  one line for each \<open>x-ms-\<close> header, in strictly ascending byte order of the names, with the
  values joined by commas.
\<close>

theorem canonicalized_header_spec:
  assumes "distinct (xms_names u hs)" and "mset hs = mset hs'"
  shows "buildCanonicalizedHeader u hs' =
       Join (map (\<lambda>n. n @ '':'' @ Join (the (map_of (xms_entries u hs) n)) '','')
         (sort (xms_names u hs))) newline
     \<and> sorted_wrt (<) (sort (xms_names u hs))"
proof
  have "header_line (xms_entries u hs) n = n @ '':'' @ Join (the (map_of (xms_entries u hs) n)) '',''"
    if "n \<in> set (sort (xms_names u hs))" for n
  proof -
    from that have "map_of (xms_entries u hs) n \<noteq> None"
      by (simp add: map_of_eq_None_iff flip: fst_xms_entries)
    then show ?thesis by (auto simp: header_line_def)
  qed
  then have lines: "map (header_line (xms_entries u hs)) (sort (xms_names u hs)) =
      map (\<lambda>n. n @ '':'' @ Join (the (map_of (xms_entries u hs) n)) '','') (sort (xms_names u hs))"
    by (rule map_cong [OF refl])
  have "xms_entries u hs = [] \<Longrightarrow> xms_names u hs = []"
    by (simp flip: fst_xms_entries)
  then have "buildCanonicalizedHeader u hs =
      Join (map (header_line (xms_entries u hs)) (sort (xms_names u hs))) newline"
    by (simp add: buildCanonicalizedHeader_def Let_def xms_headers_eq [OF assms(1)] fst_xms_entries)
  then show "buildCanonicalizedHeader u hs' =
       Join (map (\<lambda>n. n @ '':'' @ Join (the (map_of (xms_entries u hs) n)) '','')
         (sort (xms_names u hs))) newline"
    unfolding lines buildCanonicalizedHeader_order [OF assms, symmetric] .
  show "sorted_wrt (<) (sort (xms_names u hs))"
    using assms(1) by (simp add: strict_sorted_iff)
qed

lemmas canonical_name_eval = canonical_name_def ToLower_def ascii_tables_def ascii_def byte_of_def
  lower_char_def lower_byte_def TrimSpace_def IsSpace_def

theorem canonicalized_header_spec_witness:
  "buildCanonicalizedHeader ascii_tables
     [(''X-Ms-Version'', [''v'']), (''Accept'', [''*'']), (''x-ms-date'', [''d'', ''e''])]
   = ''x-ms-date:d,e'' @ newline @ ''x-ms-version:v''"
proof -
  let ?h = "[(''x-ms-date'', [''d'', ''e'']), (''X-Ms-Version'', [''v'']), (''Accept'', [''*''])]"
  let ?h' = "[(''X-Ms-Version'', [''v'']), (''Accept'', [''*'']), (''x-ms-date'', [''d'', ''e''])]"
  have n: "canonical_name ascii_tables ''X-Ms-Version'' = ''x-ms-version''"
    "canonical_name ascii_tables ''x-ms-date'' = ''x-ms-date''"
    "canonical_name ascii_tables ''Accept'' = ''accept''"
    by (simp_all add: canonical_name_eval) code_simp+
  have e: "xms_entries ascii_tables ?h = [(''x-ms-date'', [''d'', ''e'']), (''x-ms-version'', [''v''])]"
    by (simp add: xms_entries_def n HasPrefix_def)
  then have ns: "xms_names ascii_tables ?h = [''x-ms-date'', ''x-ms-version'']"
    by (simp flip: fst_xms_entries)
  have d: "distinct (xms_names ascii_tables ?h)" by (simp add: ns)
  have m: "mset ?h = mset ?h'" by simp
  show ?thesis using canonicalized_header_spec [OF d m] by (simp add: ns e less_char_def)
qed

end
