(* ===== verification/Sas_Sign.thy ===== *)
theory Sas_Sign
  imports Sas_Query Sas_Flags Shared_Key
begin

text \<open>
  zc\_sas\_account.go and sas\_service.go: signing an account SAS and a share or file SAS.
  The canonical order of the permission letters, the default version, the string to sign and
  the parameters handed back are those of the code.
\<close>

definition ServiceVersion :: string where
  "ServiceVersion = ''2018-03-28''"

definition SASVersion :: string where
  "SASVersion = ServiceVersion"

section \<open>Account SAS\<close>

record AccountSASSignatureValues =
  av_Version :: string
  av_Protocol :: string
  av_StartTime :: go_time
  av_ExpiryTime :: go_time
  av_Permissions :: string
  av_IPRange :: IPRange
  av_Services :: string
  av_ResourceTypes :: string

definition account_string_to_sign :: "SharedKeyCredential \<Rightarrow> AccountSASSignatureValues \<Rightarrow> string" where
  "account_string_to_sign cred v =
     (case FormatTimesForSASSigning (av_StartTime v) (av_ExpiryTime v) of (startTime, expiryTime) \<Rightarrow>
       Join [skc_accountName cred, av_Permissions v, av_Services v, av_ResourceTypes v,
             startTime, expiryTime, IPRange_String (av_IPRange v), av_Protocol v, av_Version v,
             []] newline)"

text \<open>
  The credential is a pointer that is not checked: with valid values, a nil one is
  dereferenced.
\<close>

definition AccountSAS_NewSASQueryParameters ::
    "mac \<Rightarrow> AccountSASSignatureValues \<Rightarrow> SharedKeyCredential option
      \<Rightarrow> (SASQueryParameters \<times> string option) exec" where
  "AccountSAS_NewSASQueryParameters mac v sharedKeyCredential =
     (if IsZero (av_ExpiryTime v) \<or> av_Permissions v = [] \<or> av_ResourceTypes v = [] \<or> av_Services v = []
      then Return (empty_SAS, Some ''Account SAS is missing at least one of these: ExpiryTime, Permissions, Service, or ResourceType'')
      else
        let v = (if av_Version v = [] then v\<lparr>av_Version := SASVersion\<rparr> else v) in
        (case AccountSASPermissions_Parse (av_Permissions v) of
           (perms, Some err) \<Rightarrow> Return (empty_SAS, Some err)
         | (perms, None) \<Rightarrow>
             let v = v\<lparr>av_Permissions := AccountSASPermissions_String perms\<rparr> in
             (case sharedKeyCredential of
                None \<Rightarrow> nil_deref
              | Some cred \<Rightarrow>
                  let signature = ComputeHMACSHA256 mac cred (account_string_to_sign cred v) in
                  Return (empty_SAS\<lparr>sq_version := av_Version v, sq_protocol := av_Protocol v,
                    sq_startTime := av_StartTime v, sq_expiryTime := av_ExpiryTime v,
                    sq_permissions := av_Permissions v, sq_ipRange := av_IPRange v,
                    sq_services := av_Services v, sq_resourceTypes := av_ResourceTypes v,
                    sq_signature := signature\<rparr>, None))))"

section \<open>Share and file SAS\<close>

record FileSASSignatureValues =
  fv_Version :: string
  fv_Protocol :: string
  fv_StartTime :: go_time
  fv_ExpiryTime :: go_time
  fv_Permissions :: string
  fv_IPRange :: IPRange
  fv_Identifier :: string
  fv_ShareName :: string
  fv_FilePath :: string
  fv_CacheControl :: string
  fv_ContentDisposition :: string
  fv_ContentEncoding :: string
  fv_ContentLanguage :: string
  fv_ContentType :: string

text \<open>\<open>strings.Replace(s, "\", "/", -1)\<close>.\<close>

definition slashes :: "string \<Rightarrow> string" where
  "slashes s = map (\<lambda>c. if c = CHR 0x5C then CHR ''/'' else c) s"

definition getCanonicalName :: "string \<Rightarrow> string \<Rightarrow> string \<Rightarrow> string" where
  "getCanonicalName account shareName filePath =
     (let elements = [''/file/'', account, ''/'', shareName];
          elements =
            (if filePath \<noteq> []
             then let dfp = slashes filePath;
                      dfp = (if hd dfp = CHR ''/'' then tl dfp else dfp)
                  in elements @ [''/'', dfp]
             else elements)
      in Join elements [])"

definition file_string_to_sign :: "SharedKeyCredential \<Rightarrow> FileSASSignatureValues \<Rightarrow> string" where
  "file_string_to_sign cred v =
     (case FormatTimesForSASSigning (fv_StartTime v) (fv_ExpiryTime v) of (startTime, expiryTime) \<Rightarrow>
       Join [fv_Permissions v, startTime, expiryTime,
             getCanonicalName (skc_accountName cred) (fv_ShareName v) (fv_FilePath v),
             fv_Identifier v, IPRange_String (fv_IPRange v), fv_Protocol v, fv_Version v,
             fv_CacheControl v, fv_ContentDisposition v, fv_ContentEncoding v,
             fv_ContentLanguage v, fv_ContentType v] newline)"

definition file_permissions :: "FileSASSignatureValues \<Rightarrow> string + string" where
  "file_permissions v =
     (if fv_FilePath v = []
      then (case ShareSASPermissions_Parse (fv_Permissions v) of
              (perms, Some err) \<Rightarrow> Inl err | (perms, None) \<Rightarrow> Inr (ShareSASPermissions_String perms))
      else (case FileSASPermissions_Parse (fv_Permissions v) of
              (perms, Some err) \<Rightarrow> Inl err | (perms, None) \<Rightarrow> Inr (FileSASPermissions_String perms)))"

definition FileSAS_NewSASQueryParameters ::
    "mac \<Rightarrow> FileSASSignatureValues \<Rightarrow> SharedKeyCredential option \<Rightarrow> SASQueryParameters \<times> string option" where
  "FileSAS_NewSASQueryParameters mac v sharedKeyCredential =
     (case sharedKeyCredential of
        None \<Rightarrow> (empty_SAS, Some (''sharedKeyCredential can'' @ [CHR 0x27] @ ''t be nil''))
      | Some cred \<Rightarrow>
          let resource = (if fv_FilePath v = [] then ''s'' else ''f'') in
          (case file_permissions v of
             Inl err \<Rightarrow> (empty_SAS, Some err)
           | Inr perms \<Rightarrow>
               let v = v\<lparr>fv_Permissions := perms\<rparr>;
                   v = (if fv_Version v = [] then v\<lparr>fv_Version := SASVersion\<rparr> else v);
                   signature = ComputeHMACSHA256 mac cred (file_string_to_sign cred v)
               in (empty_SAS\<lparr>sq_version := fv_Version v, sq_protocol := fv_Protocol v,
                      sq_startTime := fv_StartTime v, sq_expiryTime := fv_ExpiryTime v,
                      sq_permissions := fv_Permissions v, sq_ipRange := fv_IPRange v,
                      sq_resource := resource, sq_identifier := fv_Identifier v,
                      sq_cacheControl := fv_CacheControl v,
                      sq_contentDisposition := fv_ContentDisposition v,
                      sq_contentEncoding := fv_ContentEncoding v,
                      sq_contentLanguage := fv_ContentLanguage v,
                      sq_contentType := fv_ContentType v, sq_signature := signature\<rparr>, None)))"

section \<open>What the service recomputes\<close>

text \<open>
  The string to sign as a service builds it from the parameters of a query it received:
  for an account SAS from the parameters alone, for a service SAS also from the resource
  the request names.
\<close>

definition account_signed_string :: "string \<Rightarrow> SASQueryParameters \<Rightarrow> string" where
  "account_signed_string account p =
     (case FormatTimesForSASSigning (sq_startTime p) (sq_expiryTime p) of (startTime, expiryTime) \<Rightarrow>
       Join [account, sq_permissions p, sq_services p, sq_resourceTypes p, startTime, expiryTime,
             IPRange_String (sq_ipRange p), sq_protocol p, sq_version p, []] newline)"

definition file_signed_string :: "string \<Rightarrow> string \<Rightarrow> SASQueryParameters \<Rightarrow> string" where
  "file_signed_string account resource p =
     (case FormatTimesForSASSigning (sq_startTime p) (sq_expiryTime p) of (startTime, expiryTime) \<Rightarrow>
       Join [sq_permissions p, startTime, expiryTime, ''/file/'' @ account @ ''/'' @ resource,
             sq_identifier p, IPRange_String (sq_ipRange p), sq_protocol p, sq_version p,
             sq_cacheControl p, sq_contentDisposition p, sq_contentEncoding p,
             sq_contentLanguage p, sq_contentType p] newline)"

text \<open>Times and addresses a query can carry in the default format.\<close>

definition signable_time :: "go_time \<Rightarrow> bool" where
  "signable_time t \<longleftrightarrow> t = zero_time \<or> \<not> IsZero t \<and> sas_time_ok t fmt_sec"

lemma signable_default:
  "signable_time t \<Longrightarrow> sas_time_field_ok t (default_format t)"
  by (auto simp: signable_time_def sas_time_field_ok_def default_format_def)

lemma AccountSAS_result:
  assumes "AccountSAS_NewSASQueryParameters mac v (Some c) = Return (p, None)"
  shows "sq_signature p = EncodeToString (mac (skc_accountKey c) (account_signed_string (skc_accountName c) p))"
    and "sq_permissions p = filter (\<lambda>x. x \<in> set (av_Permissions v)) ''rwdlacup''"
    and "sq_version p = (if av_Version v = [] then SASVersion else av_Version v)"
    and "sq_stTimeFormat p = []" and "sq_seTimeFormat p = []"
    and "sq_startTime p = av_StartTime v" and "sq_expiryTime p = av_ExpiryTime v"
    and "sq_ipRange p = av_IPRange v"
proof -
  define ver where "ver = (if av_Version v = [] then SASVersion else av_Version v)"
  have upd: "(if av_Version v = [] then v\<lparr>av_Version := SASVersion\<rparr> else v) = v\<lparr>av_Version := ver\<rparr>"
    by (simp add: ver_def)
  from assms obtain q where q: "AccountSASPermissions_Parse (av_Permissions v) = (q, None)"
    and r: "p = empty_SAS\<lparr>sq_version := ver, sq_protocol := av_Protocol v,
        sq_startTime := av_StartTime v, sq_expiryTime := av_ExpiryTime v,
        sq_permissions := AccountSASPermissions_String q, sq_ipRange := av_IPRange v,
        sq_services := av_Services v, sq_resourceTypes := av_ResourceTypes v,
        sq_signature := ComputeHMACSHA256 mac c (account_string_to_sign c
          (v\<lparr>av_Version := ver, av_Permissions := AccountSASPermissions_String q\<rparr>))\<rparr>"
    unfolding AccountSAS_NewSASQueryParameters_def Let_def upd
    by (simp split: if_splits prod.splits option.splits)
  have "sq_permissions p = AccountSASPermissions_String q" by (simp add: r)
  also from q have "\<dots> = filter (\<lambda>x. x \<in> set (av_Permissions v)) ''rwdlacup''"
    unfolding AccountSASPermissions_Parse_def by (rule accPerms.parse_canonical)
  finally show "sq_permissions p = filter (\<lambda>x. x \<in> set (av_Permissions v)) ''rwdlacup''" .
  show "sq_signature p = EncodeToString (mac (skc_accountKey c) (account_signed_string (skc_accountName c) p))"
    by (simp add: r ComputeHMACSHA256_def account_string_to_sign_def account_signed_string_def)
  show "sq_version p = (if av_Version v = [] then SASVersion else av_Version v)"
    "sq_stTimeFormat p = []" "sq_seTimeFormat p = []"
    "sq_startTime p = av_StartTime v" "sq_expiryTime p = av_ExpiryTime v" "sq_ipRange p = av_IPRange v"
    by (simp_all add: r empty_SAS_def ver_def)
qed

lemma SAS_default_reads_back:
  assumes "sq_stTimeFormat p = []" and "sq_seTimeFormat p = []"
    and "signable_time (sq_startTime p)" and "signable_time (sq_expiryTime p)"
    and "ip_range_ok (sq_ipRange p)"
  shows "newSASQueryParameters u (fst (ParseQuery (SAS_Encode p))) True = Return (default_formats p, [])"
proof -
  have "sas_ok (default_formats p)"
    using assms signable_default by (simp add: sas_ok_def default_formats_def)
  from SAS_Encode_reads_back [OF this, of u] show ?thesis
    by (simp add: SAS_Encode_default_formats [OF assms(1,2)])
qed

text \<open>
  C12: An account SAS verifies at the receiver: whoever parses the query string made from the
  signed parameters and rebuilds the string to sign from nothing but the parsed parameters
  and the account name obtains a string whose code is the signature in the query. The
  permissions are the requested ones, each once, in canonical order.
\<close>

theorem account_sas_verifies:
  assumes "AccountSAS_NewSASQueryParameters mac v (Some c) = Return (p, None)"
    and "signable_time (av_StartTime v)" and "signable_time (av_ExpiryTime v)"
    and "ip_range_ok (av_IPRange v)"
  shows "\<exists>p'. newSASQueryParameters u (fst (ParseQuery (SAS_Encode p))) True = Return (p', [])
     \<and> sq_signature p' = EncodeToString (mac (skc_accountKey c) (account_signed_string (skc_accountName c) p'))
     \<and> sq_permissions p' = filter (\<lambda>x. x \<in> set (av_Permissions v)) ''rwdlacup''
     \<and> sq_version p' = (if av_Version v = [] then SASVersion else av_Version v)"
proof -
  note r = AccountSAS_result [OF assms(1)]
  have "account_signed_string a (default_formats p) = account_signed_string a p" for a
    by (simp add: account_signed_string_def default_formats_def)
  with r SAS_default_reads_back [of p u] assms(2-4) show ?thesis
    by (simp add: default_formats_def)
qed

definition example_account_values :: AccountSASSignatureValues where
  "example_account_values = \<lparr>av_Version = [], av_Protocol = ''https'', av_StartTime = zero_time,
     av_ExpiryTime = \<lparr>t_year = 2030, t_month = 1, t_day = 31, t_hour = 1, t_min = 2, t_sec = 3,
       t_nsec = 0, t_offset = 0\<rparr>,
     av_Permissions = ''lrr'', av_IPRange = \<lparr>ipr_Start = [], ipr_End = []\<rparr>,
     av_Services = ''f'', av_ResourceTypes = ''so''\<rparr>"

theorem account_sas_verifies_witness:
  "\<exists>p p'. AccountSAS_NewSASQueryParameters example_mac example_account_values (Some example_credential)
         = Return (p, None)
     \<and> newSASQueryParameters ascii_tables (fst (ParseQuery (SAS_Encode p))) True = Return (p', [])
     \<and> sq_permissions p' = ''rl''"
proof -
  have parse: "AccountSASPermissions_Parse ''lrr'' = (no_AccountSASPermissions\<lparr>acc_Read := True, acc_List := True\<rparr>, None)"
    by code_simp
  obtain p where p: "AccountSAS_NewSASQueryParameters example_mac example_account_values (Some example_credential)
      = Return (p, None)"
  proof -
    have "\<not> IsZero (av_ExpiryTime example_account_values)" by code_simp
    then show ?thesis
      using that by (simp add: AccountSAS_NewSASQueryParameters_def example_account_values_def parse Let_def)
  qed
  have ok: "signable_time (av_StartTime example_account_values)"
    "signable_time (av_ExpiryTime example_account_values)"
    "ip_range_ok (av_IPRange example_account_values)"
    by code_simp+
  have "filter (\<lambda>x. x \<in> set (av_Permissions example_account_values)) ''rwdlacup'' = ''rl''"
    by (simp add: example_account_values_def)
  with account_sas_verifies [OF p ok, of ascii_tables] p show ?thesis by auto
qed

section \<open>Share and file SAS at the receiver\<close>

text \<open>The resource a service SAS names: the share, or the share and the path with forward slashes.\<close>

definition sas_resource_path :: "FileSASSignatureValues \<Rightarrow> string" where
  "sas_resource_path v =
     fv_ShareName v @
       (case slashes (fv_FilePath v) of
          [] \<Rightarrow> []
        | c # cs \<Rightarrow> ''/'' @ (if c = CHR ''/'' then cs else c # cs))"

lemma slashes_Nil [simp]: "slashes [] = []" "slashes s = [] \<longleftrightarrow> s = []"
  by (simp_all add: slashes_def)

lemma getCanonicalName_eq:
  "getCanonicalName account (fv_ShareName v) (fv_FilePath v) =
     ''/file/'' @ account @ ''/'' @ sas_resource_path v"
  by (cases "slashes (fv_FilePath v)") (auto simp: getCanonicalName_def sas_resource_path_def Let_def)

lemma file_permissions_Inr:
  assumes "file_permissions v = Inr s"
  shows "s = filter (\<lambda>c. c \<in> set (fv_Permissions v)) (if fv_FilePath v = [] then ''rcwdl'' else ''rcwd'')"
proof (cases "fv_FilePath v = []")
  case True
  with assms obtain p where "ShareSASPermissions_Parse (fv_Permissions v) = (p, None)"
    and s: "s = ShareSASPermissions_String p"
    by (auto simp: file_permissions_def split: prod.splits option.splits)
  then show ?thesis
    unfolding s if_P [OF True] ShareSASPermissions_Parse_def by (intro sharePerms.parse_canonical)
next
  case False
  with assms obtain p where "FileSASPermissions_Parse (fv_Permissions v) = (p, None)"
    and s: "s = FileSASPermissions_String p"
    by (auto simp: file_permissions_def split: prod.splits option.splits)
  then show ?thesis
    unfolding s if_not_P [OF False] FileSASPermissions_Parse_def by (intro filePerms.parse_canonical)
qed

lemma FileSAS_result:
  assumes "FileSAS_NewSASQueryParameters mac v (Some c) = (p, None)"
  shows "sq_signature p = EncodeToString (mac (skc_accountKey c)
        (file_signed_string (skc_accountName c) (sas_resource_path v) p))"
    and "file_permissions v = Inr (sq_permissions p)"
    and "sq_resource p = (if fv_FilePath v = [] then ''s'' else ''f'')"
    and "sq_stTimeFormat p = []" and "sq_seTimeFormat p = []"
    and "sq_startTime p = fv_StartTime v" and "sq_expiryTime p = fv_ExpiryTime v"
    and "sq_ipRange p = fv_IPRange v"
proof -
  from assms obtain s where s: "file_permissions v = Inr s"
    by (auto simp: FileSAS_NewSASQueryParameters_def split: sum.splits)
  have path: "sas_resource_path (v\<lparr>fv_Permissions := s\<rparr>) = sas_resource_path v"
    "sas_resource_path (v\<lparr>fv_Permissions := s, fv_Version := ver\<rparr>) = sas_resource_path v" for ver
    by (simp_all add: sas_resource_path_def)
  note r = assms [unfolded FileSAS_NewSASQueryParameters_def Let_def s option.case sum.case prod.inject,
      THEN conjunct1, symmetric]
  show "sq_signature p = EncodeToString (mac (skc_accountKey c)
        (file_signed_string (skc_accountName c) (sas_resource_path v) p))"
    by (simp add: r ComputeHMACSHA256_def file_string_to_sign_def file_signed_string_def
        getCanonicalName_eq path)
  show "file_permissions v = Inr (sq_permissions p)" by (simp add: r s)
  show "sq_resource p = (if fv_FilePath v = [] then ''s'' else ''f'')"
    "sq_stTimeFormat p = []" "sq_seTimeFormat p = []"
    "sq_startTime p = fv_StartTime v" "sq_expiryTime p = fv_ExpiryTime v"
    "sq_ipRange p = fv_IPRange v"
    by (simp_all add: r empty_SAS_def)
qed

text \<open>
  C13: A share or file SAS verifies at the receiver: from the parsed query, the account and
  the share and path of the request (backslashes read as slashes, a leading one dropped)
  the string that was signed is rebuilt; the resource kind tells share from file; the list
  permission is only ever granted for a share.
\<close>

theorem file_sas_verifies:
  assumes "FileSAS_NewSASQueryParameters mac v (Some c) = (p, None)"
    and "signable_time (fv_StartTime v)" and "signable_time (fv_ExpiryTime v)"
    and "ip_range_ok (fv_IPRange v)"
  shows "\<exists>p'. newSASQueryParameters u (fst (ParseQuery (SAS_Encode p))) True = Return (p', [])
     \<and> sq_signature p' = EncodeToString (mac (skc_accountKey c)
          (file_signed_string (skc_accountName c) (sas_resource_path v) p'))
     \<and> sq_permissions p' = filter (\<lambda>x. x \<in> set (fv_Permissions v))
          (if fv_FilePath v = [] then ''rcwdl'' else ''rcwd'')
     \<and> sq_resource p' = (if fv_FilePath v = [] then ''s'' else ''f'')"
proof -
  note r = FileSAS_result [OF assms(1)]
  have "file_signed_string a s (default_formats p) = file_signed_string a s p" for a s
    by (simp add: file_signed_string_def default_formats_def)
  with r file_permissions_Inr [OF r(2)] SAS_default_reads_back [of p u] assms(2-4) show ?thesis
    by (simp only: default_formats_def SASQueryParameters.select_convs SASQueryParameters.update_convs) simp
qed

definition example_file_values :: FileSASSignatureValues where
  "example_file_values = \<lparr>fv_Version = [], fv_Protocol = ''https'', fv_StartTime = zero_time,
     fv_ExpiryTime = av_ExpiryTime example_account_values, fv_Permissions = ''wr'',
     fv_IPRange = \<lparr>ipr_Start = [], ipr_End = []\<rparr>, fv_Identifier = [], fv_ShareName = ''s'',
     fv_FilePath = [CHR 0x5C] @ ''dir'' @ [CHR 0x5C] @ ''f'', fv_CacheControl = [],
     fv_ContentDisposition = [], fv_ContentEncoding = [], fv_ContentLanguage = [],
     fv_ContentType = ''text/plain''\<rparr>"

theorem file_sas_verifies_witness:
  "\<exists>p p'. FileSAS_NewSASQueryParameters example_mac example_file_values (Some example_credential) = (p, None)
     \<and> newSASQueryParameters ascii_tables (fst (ParseQuery (SAS_Encode p))) True = Return (p', [])
     \<and> sq_permissions p' = ''rw'' \<and> sq_resource p' = ''f''
     \<and> sas_resource_path example_file_values = ''s/dir/f''"
proof -
  have perms: "file_permissions example_file_values = Inr ''rw''" by code_simp
  obtain p where p: "FileSAS_NewSASQueryParameters example_mac example_file_values (Some example_credential) = (p, None)"
    by (simp add: FileSAS_NewSASQueryParameters_def perms Let_def)
  have ok: "signable_time (fv_StartTime example_file_values)"
    "signable_time (fv_ExpiryTime example_file_values)"
    "ip_range_ok (fv_IPRange example_file_values)"
    "sas_resource_path example_file_values = ''s/dir/f''"
    by code_simp+
  have "filter (\<lambda>x. x \<in> set (fv_Permissions example_file_values)) ''rcwd'' = ''rw''"
    "fv_FilePath example_file_values \<noteq> []"
    by (simp_all add: example_file_values_def)
  with file_sas_verifies [OF p ok(1-3), of ascii_tables] p ok(4) show ?thesis by auto
qed

section \<open>Refused values\<close>

text \<open>
  C36: When signing is refused. An account SAS needs an expiry, permissions over the known
  letters, services and resource types; a service SAS needs a credential and permissions
  valid for its kind of resource. Every refusal returns empty parameters with an error, and
  anything else is signed; a nil credential is reported for a service SAS and dereferenced
  for an otherwise valid account SAS.
\<close>

theorem sas_refusals:
  "(if \<not> IsZero (av_ExpiryTime v) \<and> av_Permissions v \<noteq> [] \<and> av_ResourceTypes v \<noteq> [] \<and> av_Services v \<noteq> []
       \<and> set (av_Permissions v) \<subseteq> set ''rwdlacup''
    then (if cred = None then AccountSAS_NewSASQueryParameters mac v cred = nil_deref
          else \<exists>p. AccountSAS_NewSASQueryParameters mac v cred = Return (p, None))
    else \<exists>e. AccountSAS_NewSASQueryParameters mac v cred = Return (empty_SAS, Some e))
   \<and> (if cred \<noteq> None \<and> set (fv_Permissions f) \<subseteq> set (if fv_FilePath f = [] then ''rcwdl'' else ''rcwd'')
      then \<exists>p. FileSAS_NewSASQueryParameters mac f cred = (p, None)
      else \<exists>e. FileSAS_NewSASQueryParameters mac f cred = (empty_SAS, Some e))"
proof
  have acc: "snd (AccountSASPermissions_Parse s) = None \<longleftrightarrow> set s \<subseteq> set ''rwdlacup''" for s
    unfolding AccountSASPermissions_Parse_def by (rule accPerms.parse_ok_iff)
  obtain q e where q: "AccountSASPermissions_Parse (av_Permissions v) = (q, e)" by fastforce
  have perms: "av_Permissions (if b then v\<lparr>av_Version := x\<rparr> else v) = av_Permissions v" for b x by simp
  show "if \<not> IsZero (av_ExpiryTime v) \<and> av_Permissions v \<noteq> [] \<and> av_ResourceTypes v \<noteq> [] \<and> av_Services v \<noteq> []
       \<and> set (av_Permissions v) \<subseteq> set ''rwdlacup''
    then (if cred = None then AccountSAS_NewSASQueryParameters mac v cred = nil_deref
          else \<exists>p. AccountSAS_NewSASQueryParameters mac v cred = Return (p, None))
    else \<exists>e. AccountSAS_NewSASQueryParameters mac v cred = Return (empty_SAS, Some e)"
    unfolding AccountSAS_NewSASQueryParameters_def acc [symmetric] Let_def perms q
    by (cases e; cases cred) simp_all
  have sh: "snd (ShareSASPermissions_Parse s) = None \<longleftrightarrow> set s \<subseteq> set ''rcwdl''" for s
    unfolding ShareSASPermissions_Parse_def by (rule sharePerms.parse_ok_iff)
  have fi: "snd (FileSASPermissions_Parse s) = None \<longleftrightarrow> set s \<subseteq> set ''rcwd''" for s
    unfolding FileSASPermissions_Parse_def by (rule filePerms.parse_ok_iff)
  have fp: "set (fv_Permissions f) \<subseteq> set (if fv_FilePath f = [] then ''rcwdl'' else ''rcwd'')
      \<longleftrightarrow> (\<exists>s. file_permissions f = Inr s)"
    unfolding if_distrib [of set] if_distrib [of "\<lambda>S. set (fv_Permissions f) \<subseteq> S"] sh [symmetric] fi [symmetric]
    by (auto simp: file_permissions_def split: prod.splits option.splits)
  show "if cred \<noteq> None \<and> set (fv_Permissions f) \<subseteq> set (if fv_FilePath f = [] then ''rcwdl'' else ''rcwd'')
      then \<exists>p. FileSAS_NewSASQueryParameters mac f cred = (p, None)
      else \<exists>e. FileSAS_NewSASQueryParameters mac f cred = (empty_SAS, Some e)"
    unfolding fp FileSAS_NewSASQueryParameters_def
    by (cases cred; cases "file_permissions f") (simp_all add: Let_def)
qed

end
