(* ===== verification/Request_Log.thy ===== *)
theory Request_Log
  imports Go_Http
begin

text \<open>
  zc\_policy\_request\_log.go: the policy that logs requests and responses, and the redaction of
  SAS signatures. The policy's variables, the clock it reads and the calls it makes to the
  logger are fields of the world, which other policies extend. What \<open>fmt\<close> and the pipeline
  package print is kept as the values handed to them. \<open>url.Parse\<close> is the argument \<open>parse\<close>, and
  \<open>po.ShouldLog\<close> the argument \<open>shouldLog\<close>.
\<close>

section \<open>Redaction\<close>

definition RedactSigQueryParam :: "unicode_tables \<Rightarrow> string \<Rightarrow> bool \<times> string" where
  "RedactSigQueryParam u rawQuery =
     (let rawQuery = ToLower u rawQuery;
          sigFound = Contains rawQuery ''?sig='';
          sigFound = (if \<not> sigFound then Contains rawQuery ''&sig='' else sigFound)
      in if \<not> sigFound then (sigFound, rawQuery)
         else
           let vals = fst (ParseQuery rawQuery);
               vals = map (\<lambda>(name, v). (name, if EqualFold u name ''sig'' then [''REDACTED''] else v)) vals
           in (sigFound, Values_Encode vals))"

definition xMsCopySourceHeader :: string where
  "xMsCopySourceHeader = ''x-ms-copy-source''"

fun doesHeaderExistCaseInsensitive :: "unicode_tables \<Rightarrow> header \<Rightarrow> string \<Rightarrow> bool \<times> string" where
  "doesHeaderExistCaseInsensitive u [] key = (False, [])"
| "doesHeaderExistCaseInsensitive u ((keyInHeader, _) # header) key =
     (if EqualFold u keyInHeader key then (True, keyInHeader) else doesHeaderExistCaseInsensitive u header key)"

type_synonym url_parser = "string \<Rightarrow> url option"

definition prepareRequestForServiceLogging ::
    "unicode_tables \<Rightarrow> url_parser \<Rightarrow> http_request \<Rightarrow> http_request" where
  "prepareRequestForServiceLogging u parse req =
     (case doesHeaderExistCaseInsensitive u (rq_Header req) xMsCopySourceHeader of
        (True, key) \<Rightarrow>
          (case parse (Header_Get (rq_Header req) key) of
             Some url \<Rightarrow>
               (case RedactSigQueryParam u (u_RawQuery url) of
                  (True, rawQuery) \<Rightarrow>
                    req\<lparr>rq_Header := Header_Set (rq_Header req) xMsCopySourceHeader
                      (URL_String (url\<lparr>u_RawQuery := rawQuery\<rparr>))\<rparr>
                | (False, _) \<Rightarrow> req)
           | None \<Rightarrow> req)
      | (False, _) \<Rightarrow> req)"

definition prepareRequestForLogging ::
    "unicode_tables \<Rightarrow> url_parser \<Rightarrow> http_request \<Rightarrow> http_request" where
  "prepareRequestForLogging u parse request =
     (let req = (case RedactSigQueryParam u (u_RawQuery (rq_URL request)) of
                   (True, rawQuery) \<Rightarrow> request\<lparr>rq_URL := (rq_URL request)\<lparr>u_RawQuery := rawQuery\<rparr>\<rparr>
                 | (False, _) \<Rightarrow> request)
      in prepareRequestForServiceLogging u parse req)"

section \<open>The policy\<close>

record RequestLogOptions =
  rlo_LogWarningIfTryOverThreshold :: int

definition RequestLogOptions_defaults :: "RequestLogOptions \<Rightarrow> RequestLogOptions" where
  "RequestLogOptions_defaults opts =
     (if rlo_LogWarningIfTryOverThreshold opts = 0
      then opts\<lparr>rlo_LogWarningIfTryOverThreshold := 3 * 1000000000\<rparr> else opts)"

text \<open>A message: the values it is printed from.\<close>

record completion =
  co_try :: int
  co_tryDuration :: int
  co_slow :: "int option"                 \<comment> \<open>the threshold, when it was exceeded\<close>
  co_opDuration :: int
  co_title :: string
  co_request :: http_request
  co_response :: "http_response option"
  co_error :: "go_error option"
  co_stack :: bool                        \<comment> \<open>a stack trace is appended\<close>

datatype log_entry = OutgoingRequest int http_request | RequestResponse completion

record log_world =
  lg_try :: int
  lg_operationStart :: int
  lg_now :: int
  lg_log :: "(log_level \<times> log_entry) list"      \<comment> \<open>\<open>po.Log\<close>, oldest first\<close>
  lg_forced :: "(log_level \<times> log_entry) list"   \<comment> \<open>\<open>pipeline.ForceLog\<close>\<close>

definition po_Log :: "log_level \<Rightarrow> log_entry \<Rightarrow> 'a log_world_scheme \<Rightarrow> 'a log_world_scheme" where
  "po_Log level entry w = w\<lparr>lg_log := lg_log w @ [(level, entry)]\<rparr>"

definition ForceLog :: "log_level \<Rightarrow> log_entry \<Rightarrow> 'a log_world_scheme \<Rightarrow> 'a log_world_scheme" where
  "ForceLog level entry w = w\<lparr>lg_forced := lg_forced w @ [(level, entry)]\<rparr>"

text \<open>\<open>Time.Sub\<close> saturates.\<close>

definition time_Sub :: "int \<Rightarrow> int \<Rightarrow> int" where
  "time_Sub t s = max (- (2 ^ 63)) (min (2 ^ 63 - 1) (t - s))"

definition error_status :: "int \<Rightarrow> bool" where
  "error_status sc \<longleftrightarrow>
     (400 \<le> sc \<and> sc \<le> 499) \<and> sc \<noteq> 404 \<and> sc \<noteq> 409 \<and> sc \<noteq> 412 \<and> sc \<noteq> 416 \<or> (500 \<le> sc \<and> sc \<le> 599)"

definition try_level :: "bool \<Rightarrow> reply \<Rightarrow> (log_level \<times> bool) exec" where
  "try_level slow rep =
     (let level = (if slow then (LogWarning, True) else (LogInfo, False)) in
      case rp_error rep of
        Some _ \<Rightarrow> Return (LogError, True)
      | None \<Rightarrow>
          (case rp_response rep of
             Some (Some r) \<Rightarrow> Return (if error_status (rs_StatusCode r) then (LogError, True) else level)
           | _ \<Rightarrow> nil_deref))"

definition title :: "reply \<Rightarrow> log_level \<Rightarrow> string" where
  "title rep level =
     (if rp_error rep \<noteq> None then ''REQUEST ERROR''
      else if level = LogError then ''RESPONSE STATUS CODE ERROR''
      else ''RESPONSE SUCCESSFULLY RECEIVED'')"

text \<open>Creating the policy for an operation, and its \<open>Do\<close>.\<close>

definition requestLog_New :: "'a log_world_scheme \<Rightarrow> 'a log_world_scheme" where
  "requestLog_New w = w\<lparr>lg_try := 0, lg_operationStart := lg_now w\<rparr>"

definition log_try ::
    "(log_level \<Rightarrow> bool) \<Rightarrow> int \<Rightarrow> int \<Rightarrow> http_request \<Rightarrow> int \<Rightarrow> reply \<Rightarrow> 'a log_world_scheme
      \<Rightarrow> (reply \<times> 'a log_world_scheme) exec" where
  "log_try shouldLog threshold try' logged tryStart rep w =
     (let tryEnd = lg_now w;
          tryDuration = time_Sub tryEnd tryStart;
          opDuration = time_Sub tryEnd (lg_operationStart w);
          slow = (threshold > 0 \<and> tryDuration > threshold)
      in bind_exec (try_level slow rep) (\<lambda>(level, forceLog).
           if forceLog \<or> shouldLog level then
             (case rp_response rep of
                None \<Rightarrow> nil_deref
              | Some response \<Rightarrow>
                  let entry = RequestResponse \<lparr>co_try = try', co_tryDuration = tryDuration,
                        co_slow = (if slow then Some threshold else None), co_opDuration = opDuration,
                        co_title = title rep level, co_request = logged,
                        co_response = response, co_error = rp_error rep, co_stack = (level \<le> LogError)\<rparr>;
                      w = (if forceLog then ForceLog level entry w else w);
                      w = (if shouldLog level then po_Log level entry w else w)
                  in Return (rep, w))
           else Return (rep, w)))"

definition requestLog_Do ::
    "unicode_tables \<Rightarrow> url_parser \<Rightarrow> (log_level \<Rightarrow> bool) \<Rightarrow> RequestLogOptions
      \<Rightarrow> 'a log_world_scheme policy" where
  "requestLog_Do u parse shouldLog opts next request w =
     (let threshold = rlo_LogWarningIfTryOverThreshold (RequestLogOptions_defaults opts);
          logged = prepareRequestForLogging u parse request;
          try' = wrap32 (lg_try w + 1);
          w = w\<lparr>lg_try := try'\<rparr>;
          w = (if shouldLog LogInfo then po_Log LogInfo (OutgoingRequest try' logged) w else w)
      in bind_exec (next request w) (\<lambda>(rep, w').
           log_try shouldLog threshold try' logged (lg_now w) rep w'))"

section \<open>What the log reveals\<close>

lemma map_of_redact:
  "map_of (map (\<lambda>(k, v). (k, if P k then x else v)) m) k =
     map_option (\<lambda>v. if P k then x else v) (map_of m k)"
  by (induction m) auto

lemma go_map_ok_redact: "go_map_ok (map (\<lambda>(k, v). (k, f k v)) m) \<longleftrightarrow> go_map_ok m"
  by (simp add: go_map_ok_def comp_def case_prod_beta)

text \<open>A redacted query: every spelling of the signature is replaced, nothing else changes.\<close>

lemma redacted_params:
  assumes "RedactSigQueryParam u q = (True, q')"
  shows "map_of (fst (ParseQuery q')) k =
    map_option (\<lambda>v. if EqualFold u k ''sig'' then [''REDACTED''] else v) (map_of (fst (ParseQuery (ToLower u q))) k)"
proof -
  let ?v = "fst (ParseQuery (ToLower u q))"
  let ?r = "map (\<lambda>(name, v). (name, if EqualFold u name ''sig'' then [''REDACTED''] else v)) ?v"
  have q': "q' = Values_Encode ?r" using assms by (simp add: RedactSigQueryParam_def Let_def split: if_splits)
  have "go_map_ok ?r" using go_map_ok_redact [of "\<lambda>k v. if EqualFold u k ''sig'' then [''REDACTED''] else v" ?v] by simp
  moreover have "map_of ?v k \<noteq> Some []" using ParseQuery_nonempty [of "ToLower u q"] by (force dest: map_of_SomeD)
  ultimately show ?thesis
    by (auto simp: q' ParseQuery_Encode(1) map_of_redact split: option.splits list.splits)
qed

text \<open>An encoded query whose signature is not its first parameter is recognized.\<close>

lemma encoded_query_ascii: "ascii (Values_Encode v)"
proof -
  have safe: "byte_of c < 128" if "query_safe c" for c
    using that by (auto simp: query_safe_def is_alnum_def byte_of_def)
  have "ascii (QueryEscape s)" for s
    using QueryEscape_safe [of _ s] safe by (auto simp: ascii_def list_all_iff)
  then have "ascii (encode_pair p)" for p by (simp add: encode_pair_def ascii_def byte_of_def)
  then have "list_all ascii ss \<Longrightarrow> ascii (Join ss ''&'')" for ss
    by (induction ss rule: induct_list012) (auto simp: ascii_def byte_of_def)
  then show ?thesis
    using \<open>\<And>p. ascii (encode_pair p)\<close> by (simp add: Values_Encode_def list_all_iff)
qed

lemma Values_pairs_split:
  assumes "map_of v k = Some (y # ys)" and "map_of v s = Some (x # xs)" and "k < s" and "go_map_ok v"
  shows "\<exists>P R. Values_pairs v = P @ (s, x) # R \<and> P \<noteq> []"
proof -
  let ?g = "\<lambda>k. map (Pair k) (case map_of v k of Some xs \<Rightarrow> xs | None \<Rightarrow> [])"
  let ?ks = "sort (map fst v)"
  have "s \<in> set ?ks" and k: "k \<in> set ?ks"
    using assms(1,2) by (force dest: map_of_SomeD)+
  then obtain as bs where ks: "?ks = as @ s # bs" by (metis split_list)
  have "sorted ?ks" by simp
  then have "\<And>b. b \<in> set bs \<Longrightarrow> s \<le> b" unfolding ks by (simp add: sorted_append)
  with k assms(3) have "k \<in> set as" unfolding ks by fastforce
  then have "concat (map ?g as) \<noteq> []" using assms(1) by force
  moreover have "Values_pairs v = concat (map ?g as) @ (s, x) # (map (Pair s) xs @ concat (map ?g bs))"
    using assms(2) by (simp add: Values_pairs_def ks)
  ultimately show ?thesis by blast
qed

lemma Join_Cons_prefix: "\<exists>t. Join (s # ss) sep = s @ t"
  by (cases ss) auto

lemma encoded_sig_found:
  assumes "map_of v k = Some (y # ys)" and "map_of v ''sig'' = Some (x # xs)" and "k < ''sig''" and "go_map_ok v"
  shows "Contains (ToLower u (Values_Encode v)) ''&sig=''"
proof -
  obtain P R where P: "Values_pairs v = P @ (''sig'', x) # R" "P \<noteq> []"
    using Values_pairs_split [OF assms] by blast
  obtain t where "Join (map encode_pair ((''sig'', x) # R)) ''&'' = encode_pair (''sig'', x) @ t"
    using Join_Cons_prefix by fastforce
  then have "Values_Encode v = Join (map encode_pair P) ''&'' @ ''&'' @ encode_pair (''sig'', x) @ t"
    using P Join_Join_append [of "map encode_pair P" "map encode_pair ((''sig'', x) # R)" "''&''"]
    by (simp add: Values_Encode_def)
  moreover have "QueryEscape ''sig'' = ''sig''" by code_simp
  ultimately have v: "Values_Encode v = Join (map encode_pair P) ''&'' @ ''&sig='' @ QueryEscape x @ t"
    by (simp add: encode_pair_def)
  have "map lower_char ''&sig='' = ''&sig=''" by code_simp
  then have "ToLower u (Values_Encode v) = map lower_char (Join (map encode_pair P) ''&'') @ ''&sig=''
      @ map lower_char (QueryEscape x @ t)"
    using ToLower_ascii [OF encoded_query_ascii, of u v] unfolding v by (simp only: map_append)
  then show ?thesis unfolding Contains_iff by blast
qed

fun entry_request :: "log_entry \<Rightarrow> http_request" where
  "entry_request (OutgoingRequest n req) = req"
| "entry_request (RequestResponse co) = co_request co"

definition sig_hidden :: "unicode_tables \<Rightarrow> http_request \<Rightarrow> bool" where
  "sig_hidden u req \<longleftrightarrow>
     (\<forall>k. EqualFold u k ''sig'' \<longrightarrow> map_of (URL_Query (rq_URL req)) k \<in> {None, Some [''REDACTED'']})"

lemma service_logging_URL [simp]: "rq_URL (prepareRequestForServiceLogging u parse req) = rq_URL req"
  by (simp add: prepareRequestForServiceLogging_def split: prod.splits bool.splits option.splits)

lemma prepared_sig_hidden:
  assumes "RedactSigQueryParam u (u_RawQuery (rq_URL req)) = (True, q)"
  shows "sig_hidden u (prepareRequestForLogging u parse req)"
  using redacted_params [OF assms]
  by (auto simp: sig_hidden_def prepareRequestForLogging_def assms URL_Query_def)

text \<open>What one call adds to the log, and what it sends.\<close>

lemma log_try_entries:
  assumes "log_try shouldLog threshold n logged start rep w = Return (rep', w')"
  shows "rep' = rep"
    and "\<exists>fin forced. lg_log w' = lg_log w @ fin \<and> lg_forced w' = lg_forced w @ forced
      \<and> (\<forall>(l, e) \<in> set (fin @ forced). entry_request e = logged)"
proof -
  define slow where "slow \<longleftrightarrow> threshold > 0 \<and> time_Sub (lg_now w) start > threshold"
  obtain level force where lf: "try_level slow rep = Return (level, force)"
    using assms unfolding log_try_def Let_def slow_def [symmetric]
    by (cases "try_level slow rep") auto
  note unf = assms [unfolded log_try_def Let_def slow_def [symmetric] lf bind_exec.simps, simplified]
  show "rep' = rep"
    using unf by (auto simp: split: if_splits option.splits)
  show "\<exists>fin forced. lg_log w' = lg_log w @ fin \<and> lg_forced w' = lg_forced w @ forced
      \<and> (\<forall>(l, e) \<in> set (fin @ forced). entry_request e = logged)"
    using unf by (auto simp: po_Log_def ForceLog_def split: if_splits option.splits)
qed

lemma requestLog_Do_cases:
  assumes "requestLog_Do u parse shouldLog opts next req w = Return (rep, w')"
  obtains w1 w2 out fin forced where "next req w1 = Return (rep, w2)"
    and "lg_log w1 = lg_log w @ out" and "lg_forced w1 = lg_forced w"
    and "lg_log w' = lg_log w2 @ fin" and "lg_forced w' = lg_forced w2 @ forced"
    and "\<forall>(l, e) \<in> set (out @ fin @ forced). entry_request e = prepareRequestForLogging u parse req"
proof -
  let ?logged = "prepareRequestForLogging u parse req"
  define t where "t = wrap32 (lg_try w + 1)"
  define out where "out = (if shouldLog LogInfo then [(LogInfo, OutgoingRequest t ?logged)] else [])"
  define w1 where "w1 = w\<lparr>lg_try := t, lg_log := lg_log w @ out\<rparr>"
  have w1: "(if shouldLog LogInfo then po_Log LogInfo (OutgoingRequest t ?logged)
      (w\<lparr>lg_try := t\<rparr>) else w\<lparr>lg_try := t\<rparr>) = w1"
    by (simp add: w1_def out_def po_Log_def)
  from assms obtain rep1 w2 where nxt: "next req w1 = Return (rep1, w2)"
    and fin: "log_try shouldLog (rlo_LogWarningIfTryOverThreshold (RequestLogOptions_defaults opts)) t ?logged
      (lg_now w1) rep1 w2 = Return (rep, w')"
    unfolding requestLog_Do_def Let_def t_def [symmetric] w1
    by (cases "next req w1") auto
  from log_try_entries [OF fin] obtain fin forced where "rep = rep1"
    and "lg_log w' = lg_log w2 @ fin" "lg_forced w' = lg_forced w2 @ forced"
    "\<forall>(l, e) \<in> set (fin @ forced). entry_request e = ?logged" by blast
  moreover have "\<forall>(l, e) \<in> set out. entry_request e = ?logged" by (simp add: out_def)
  ultimately show ?thesis
    by (intro that [of w1 w2 out fin forced]) (use nxt in \<open>auto simp: w1_def\<close>)
qed

text \<open>An example: a server error is logged before and after, and forced.\<close>

definition log_example :: http_request where
  "log_example = \<lparr>rq_Method = ''GET'', rq_URL = empty_url\<lparr>u_RawQuery := ''se=2030&sig=secret''\<rparr>,
     rq_Host = [], rq_Header = [], rq_Body = None\<rparr>"

definition log_start :: log_world where
  "log_start = \<lparr>lg_try = 0, lg_operationStart = 0, lg_now = 0, lg_log = [], lg_forced = []\<rparr>"

definition log_reply :: reply where
  "log_reply = \<lparr>rp_response = Some (Some \<lparr>rs_StatusCode = 500, rs_Status = [], rs_Header = [], rs_Body = None\<rparr>),
     rp_value = HTTPResponse, rp_error = None\<rparr>"

lemma log_example_run:
  "\<exists>w'. requestLog_Do ascii_tables (\<lambda>_. None) (\<lambda>_. True) \<lparr>rlo_LogWarningIfTryOverThreshold = 0\<rparr>
       (\<lambda>req w. Return (log_reply, w)) log_example log_start = Return (log_reply, w')
     \<and> length (lg_log w') = 2 \<and> length (lg_forced w') = 1"
  by (simp add: requestLog_Do_def log_try_def try_level_def error_status_def log_reply_def log_start_def Let_def
      po_Log_def ForceLog_def time_Sub_def RequestLogOptions_defaults_def)

end
