(* ===== verification/Storage_Error.thy ===== *)
theory Storage_Error
  imports Go_Http
begin

text \<open>
  zc\_storage\_error.go, zz\_generated\_response\_error.go and the validation of responses in
  zz\_generated\_responder\_policy.go. The \<open>init\<close> of zc\_storage\_error.go installs
  \<open>newStorageError\<close> as the response error factory, so \<open>NewResponseError\<close> is always that
  constructor. What \<open>pipeline.ErrorNode\<close> answers about its cause is the argument \<open>node\<close>
  (temporary, timeout); the XML decoder is the argument \<open>xml\<close>.
\<close>

type_synonym error_node = "go_error option \<Rightarrow> bool \<times> bool"

definition newStorageError ::
    "error_node \<Rightarrow> go_error option \<Rightarrow> http_response option \<Rightarrow> string \<Rightarrow> storage_error exec" where
  "newStorageError node cause response description =
     (case response of
        None \<Rightarrow> nil_deref
      | Some r \<Rightarrow> Return
          \<lparr>se_response = Some r, se_description = description,
           se_serviceCode = Header_Get (rs_Header r) ''x-ms-error-code'',
           se_details = [], se_node_temporary = fst (node cause), se_node_timeout = snd (node cause)\<rparr>)"

definition NewResponseError ::
    "error_node \<Rightarrow> go_error option \<Rightarrow> http_response option \<Rightarrow> string \<Rightarrow> storage_error exec" where
  "NewResponseError node cause response description = newStorageError node cause response description"

definition storageError_Temporary :: "storage_error \<Rightarrow> bool" where
  "storageError_Temporary e =
     ((case se_response e of
         Some r \<Rightarrow> rs_StatusCode r = 500 \<or> rs_StatusCode r = 503
       | None \<Rightarrow> False)
      \<or> se_node_temporary e)"

section \<open>The body of an error response\<close>

datatype xml_token = StartElement string | EndElement string | CharData string | OtherToken

text \<open>
  One turn of the loop of \<open>UnmarshalXML\<close>; the state is the name of the element entered last
  and the error being filled.
\<close>

fun unmarshal_token :: "xml_token \<Rightarrow> string \<times> storage_error \<Rightarrow> string \<times> storage_error" where
  "unmarshal_token (StartElement n) (tokName, e) = (n, e)"
| "unmarshal_token (CharData s) (tokName, e) =
     (tokName,
      if tokName = ''Message'' then e\<lparr>se_description := s\<rparr>
      else e\<lparr>se_details := AList.update tokName s (se_details e)\<rparr>)"
| "unmarshal_token (EndElement n) (tokName, e) = (tokName, e)"
| "unmarshal_token OtherToken (tokName, e) = (tokName, e)"

definition UnmarshalXML :: "xml_token list \<Rightarrow> storage_error \<Rightarrow> storage_error" where
  "UnmarshalXML ts e = snd (fold unmarshal_token ts ([], e))"

text \<open>
  \<open>xml.Unmarshal\<close>: without a start element it fails; otherwise \<open>UnmarshalXML\<close> runs over the
  tokens inside the root element, and the call fails afterwards if the root was not closed.
\<close>

type_synonym xml_decoder = "string \<Rightarrow> (xml_token list \<times> bool) option"

definition xml_Unmarshal ::
    "xml_decoder \<Rightarrow> string \<Rightarrow> storage_error \<Rightarrow> storage_error \<times> go_error option" where
  "xml_Unmarshal xml b e =
     (case xml b of
        None \<Rightarrow> (e, Some (PlainErr ''EOF''))
      | Some (ts, closed) \<Rightarrow>
          (UnmarshalXML ts e,
           if closed then None else Some (PlainErr ''UnmarshalXML did not consume entire element'')))"

section \<open>Validation of responses\<close>

definition validateResponse ::
    "error_node \<Rightarrow> xml_decoder \<Rightarrow> http_response option option \<Rightarrow> int list \<Rightarrow> go_error option exec" where
  "validateResponse node xml resp successStatusCodes =
     (case resp of
        None \<Rightarrow> bind_exec (NewResponseError node None None ''nil response'') (\<lambda>e. Return (Some (StorageErr e)))
      | Some None \<Rightarrow> nil_deref
      | Some (Some r) \<Rightarrow>
          if rs_StatusCode r \<in> set successStatusCodes then Return None
          else case rs_Body r of
            None \<Rightarrow> nil_deref
          | Some body \<Rightarrow>
              (case b_error body of
                 Some err \<Rightarrow> Return (Some (error_of_read err))
               | None \<Rightarrow>
                   bind_exec (NewResponseError node None (Some r) (rs_Status r)) (\<lambda>responseError.
                     if b_data body \<noteq> [] then
                       (case xml_Unmarshal xml (b_data body) responseError of
                          (_, Some err) \<Rightarrow>
                            bind_exec (NewResponseError node (Some err) (Some r) ''failed to unmarshal response body'')
                              (\<lambda>e. Return (Some (StorageErr e)))
                        | (e, None) \<Rightarrow> Return (Some (StorageErr e)))
                     else Return (Some (StorageErr responseError)))))"

definition removeBOM :: "string \<Rightarrow> string" where
  "removeBOM b =
     (let bom = [CHR 0xEF, CHR 0xBB, CHR 0xBF] in if HasPrefix b bom then drop (length bom) b else b)"

text \<open>The responder policy: the responder only sees replies without an error.\<close>

definition responderPolicy_Do ::
    "(http_response option option \<Rightarrow> reply exec) \<Rightarrow> 'w policy" where
  "responderPolicy_Do responder next request w =
     bind_exec (next request w) (\<lambda>(rep, w').
       if rp_error rep \<noteq> None then Return (rep, w')
       else bind_exec (responder (rp_response rep)) (\<lambda>rep'. Return (rep', w')))"

section \<open>Properties\<close>

lemma unmarshal_keeps [simp]:
  "se_response (snd (fold unmarshal_token ts (n, e))) = se_response e"
  "se_serviceCode (snd (fold unmarshal_token ts (n, e))) = se_serviceCode e"
  "se_node_temporary (snd (fold unmarshal_token ts (n, e))) = se_node_temporary e"
proof -
  have "se_response (snd (unmarshal_token t st)) = se_response (snd st)
      \<and> se_serviceCode (snd (unmarshal_token t st)) = se_serviceCode (snd st)
      \<and> se_node_temporary (snd (unmarshal_token t st)) = se_node_temporary (snd st)" for t st
    by (cases st; cases t) auto
  then have "se_response (snd (fold unmarshal_token ts st)) = se_response (snd st)
      \<and> se_serviceCode (snd (fold unmarshal_token ts st)) = se_serviceCode (snd st)
      \<and> se_node_temporary (snd (fold unmarshal_token ts st)) = se_node_temporary (snd st)" for st
    by (induction ts arbitrary: st) auto
  then show "se_response (snd (fold unmarshal_token ts (n, e))) = se_response e"
    "se_serviceCode (snd (fold unmarshal_token ts (n, e))) = se_serviceCode e"
    "se_node_temporary (snd (fold unmarshal_token ts (n, e))) = se_node_temporary e"
    by simp_all
qed

text \<open>
  C29: What \<open>validateResponse\<close> decides on a response that was read completely: a status code
  in the list is accepted; any other gives a storage error that carries the response, the
  service code of its header, and is temporary for the statuses 500 and 503 (and, for an
  undecodable body only, when its cause is). Whatever the body contains, the call returns.
\<close>

theorem validateResponse_decides:
  assumes "rs_Body r = Some bdy" and "b_error bdy = None"
    and "\<And>c. fst (node c) \<Longrightarrow> c \<noteq> None"
  shows "if rs_StatusCode r \<in> set codes
     then validateResponse node xml (Some (Some r)) codes = Return None
     else \<exists>e. validateResponse node xml (Some (Some r)) codes = Return (Some (StorageErr e))
        \<and> se_response e = Some r
        \<and> se_serviceCode e = Header_Get (rs_Header r) ''x-ms-error-code''
        \<and> (rs_StatusCode r \<in> {500, 503} \<longrightarrow> storageError_Temporary e)
        \<and> (storageError_Temporary e \<longrightarrow> rs_StatusCode r \<in> {500, 503}
            \<or> b_data bdy \<noteq> [] \<and> (\<forall>ts. xml (b_data bdy) \<noteq> Some (ts, True)))"
proof -
  have n: "\<not> fst (node None)" using assms(3) by blast
  show ?thesis
    using assms(1,2) n
    by (auto simp: validateResponse_def NewResponseError_def newStorageError_def xml_Unmarshal_def
        storageError_Temporary_def UnmarshalXML_def split: option.splits)
qed

definition example_error_response :: http_response where
  "example_error_response = \<lparr>rs_StatusCode = 503, rs_Status = ''503 Server Busy'',
     rs_Header = [(''X-Ms-Error-Code'', [''ServerBusy''])],
     rs_Body = Some \<lparr>b_data = ''<Error><Message>busy</Message></Error>'', b_error = None\<rparr>\<rparr>"

definition example_xml :: xml_decoder where
  "example_xml b = Some ([StartElement ''Message'', CharData ''busy'', EndElement ''Message''], True)"

theorem validateResponse_decides_witness:
  "\<exists>e. validateResponse (\<lambda>c. (False, False)) example_xml (Some (Some example_error_response)) [200, 206]
       = Return (Some (StorageErr e)) \<and> storageError_Temporary e"
proof -
  have b: "rs_Body example_error_response = Some \<lparr>b_data = ''<Error><Message>busy</Message></Error>'', b_error = None\<rparr>"
    and c: "rs_StatusCode example_error_response = 503"
    by (simp_all add: example_error_response_def)
  from validateResponse_decides [OF b, of "\<lambda>c. (False, False)" "[200, 206]" example_xml] c
  show ?thesis by auto
qed

text \<open>
  A flat error document as the service sends it: the elements of the root, each with text.
\<close>

definition flat_document :: "(string \<times> string) list \<Rightarrow> xml_token list" where
  "flat_document es = concat (map (\<lambda>(n, s). [StartElement n, CharData s, EndElement n]) es)"

lemma fold_flat_document:
  assumes "distinct (map fst es)" and "\<And>n. n \<in> fst ` set es \<Longrightarrow> n \<notin> fst ` set (se_details e)"
  shows "se_details (snd (fold unmarshal_token (flat_document es) (t, e))) =
      se_details e @ filter (\<lambda>p. fst p \<noteq> ''Message'') es
    \<and> se_description (snd (fold unmarshal_token (flat_document es) (t, e))) =
      (case map_of es ''Message'' of Some s \<Rightarrow> s | None \<Rightarrow> se_description e)"
  using assms
proof (induction es arbitrary: e t)
  case (Cons p es)
  obtain n s where p: "p = (n, s)" by (cases p)
  let ?e = "if n = ''Message'' then e\<lparr>se_description := s\<rparr> else e\<lparr>se_details := AList.update n s (se_details e)\<rparr>"
  have step: "fold unmarshal_token (flat_document (p # es)) (t, e) = fold unmarshal_token (flat_document es) (n, ?e)"
    by (simp add: flat_document_def p)
  have det: "se_details ?e = se_details e @ (if n = ''Message'' then [] else [(n, s)])"
    using Cons.prems(2) [of n] by (simp add: p update_fresh)
  have "m \<notin> fst ` set (se_details ?e)" if "m \<in> fst ` set es" for m
    using that Cons.prems unfolding det by (auto simp: p)
  with Cons.prems(1) Cons.IH [of ?e n]
  have ih: "se_details (snd (fold unmarshal_token (flat_document es) (n, ?e))) =
      se_details ?e @ filter (\<lambda>p. fst p \<noteq> ''Message'') es"
    "se_description (snd (fold unmarshal_token (flat_document es) (n, ?e))) =
      (case map_of es ''Message'' of Some s \<Rightarrow> s | None \<Rightarrow> se_description ?e)"
    by (auto simp: p)
  have "n = ''Message'' \<Longrightarrow> map_of es ''Message'' = None"
    using Cons.prems(1) by (simp add: p map_of_eq_None_iff)
  then show ?case
    unfolding step ih det by (simp add: p split: option.splits)
qed (simp add: flat_document_def)

text \<open>
  C37: From an error document without white space between its elements, the description is
  the text of the message element and the details are the other elements, in order. A line
  break after the message element, as pretty-printed XML has it, replaces the description:
  the name of the last element is kept after its end tag.
\<close>

theorem UnmarshalXML_document:
  assumes "distinct (map fst es)" and "se_details e = []" and "map_of es ''Message'' = Some msg"
  shows "se_description (UnmarshalXML (flat_document es) e) = msg
    \<and> se_details (UnmarshalXML (flat_document es) e) = filter (\<lambda>p. fst p \<noteq> ''Message'') es
    \<and> se_description (UnmarshalXML [StartElement ''Message'', CharData msg, EndElement ''Message'',
          CharData [CHR 0x0A], StartElement n, CharData s, EndElement n] e)
        = (if n = ''Message'' then s else [CHR 0x0A])"
  using fold_flat_document [of es e "[]"] assms by (simp add: UnmarshalXML_def)

theorem UnmarshalXML_document_witness:
  "se_description (UnmarshalXML (flat_document [(''Code'', ''X''), (''Message'', ''boom'')])
       \<lparr>se_response = None, se_description = ''old'', se_serviceCode = [], se_details = [],
        se_node_temporary = False, se_node_timeout = False\<rparr>) = ''boom''"
  using UnmarshalXML_document [of "[(''Code'', ''X''), (''Message'', ''boom'')]"
      "\<lparr>se_response = None, se_description = ''old'', se_serviceCode = [], se_details = [],
        se_node_temporary = False, se_node_timeout = False\<rparr>" "''boom''"]
  by simp

end
