(* ===== verification/Go_Float.thy ===== *)
theory Go_Float
  imports Prelude
begin

text \<open>
  The \<open>float32\<close> arithmetic of the retry delay. The integers and scaled integers involved are
  never subnormal and never overflow the \<open>float32\<close> range, so a \<open>float32\<close> operation is the exact
  one followed by rounding to 24 significant bits, ties to even. The result of converting a
  float that is out of range to an integer type is implementation-dependent in Go: it is the
  argument \<open>ovf\<close>.
\<close>

fun bit_len :: "nat \<Rightarrow> nat" where
  "bit_len n = (if n = 0 then 0 else Suc (bit_len (n div 2)))"

declare bit_len.simps [simp del]

definition round24_nat :: "nat \<Rightarrow> nat" where
  "round24_nat n =
     (let e = bit_len n - 24 in
      if e = 0 then n
      else let q = n div 2 ^ e; r = n mod 2 ^ e; half = 2 ^ (e - 1) in
        (if half < r \<or> (r = half \<and> odd q) then q + 1 else q) * 2 ^ e)"

definition round24 :: "int \<Rightarrow> int" where
  "round24 x = sgn x * int (round24_nat (nat \<bar>x\<bar>))"

text \<open>
  \<open>time.Duration(float32(d) * f)\<close> for a float \<open>f\<close> that is \<open>j\<close> units of two to the power -24.
\<close>

definition scale_float32 :: "int \<Rightarrow> nat \<Rightarrow> int \<Rightarrow> int" where
  "scale_float32 ovf j d =
     (let x = go_div (round24 (round24 d * int j)) (2 ^ 24) in if is_int64 x then x else ovf)"

section \<open>The rounding error\<close>

lemma bit_len_upper: "n < 2 ^ bit_len n"
proof (induction n rule: bit_len.induct)
  case (1 n)
  then show ?case by (cases "n = 0") (auto simp: bit_len.simps [of n])
qed

lemma bit_len_lower: "n \<noteq> 0 \<Longrightarrow> 2 ^ (bit_len n - 1) \<le> n"
proof (induction n rule: bit_len.induct)
  case (1 n)
  show ?case
  proof (cases "n div 2 = 0")
    case True
    with 1 show ?thesis by (simp add: bit_len.simps [of n] bit_len.simps [of 0])
  next
    case False
    with 1 have "2 ^ (bit_len (n div 2) - 1) \<le> n div 2" by simp
    moreover from False have "bit_len (n div 2) \<noteq> 0" by (subst bit_len.simps) simp
    then obtain k where "bit_len (n div 2) = Suc k" by (metis not0_implies_Suc)
    ultimately show ?thesis using 1(2) by (simp add: bit_len.simps [of n])
  qed
qed

text \<open>Rounding moves a number by at most one part in two to the power 24.\<close>

lemma round24_nat_error:
  "round24_nat n * 2 ^ 24 \<le> n * (2 ^ 24 + 1)" "n * 2 ^ 24 \<le> round24_nat n * 2 ^ 24 + n"
proof -
  define e where "e = bit_len n - 24"
  have "round24_nat n * 2 ^ 24 \<le> n * (2 ^ 24 + 1) \<and> n * 2 ^ 24 \<le> round24_nat n * 2 ^ 24 + n"
  proof (cases "e = 0")
    case True
    then show ?thesis by (simp add: round24_nat_def e_def)
  next
    case False
    then obtain k where k: "e = Suc k" by (metis not0_implies_Suc)
    have "n \<noteq> 0"
    proof
      assume "n = 0"
      then have "bit_len n = 0" by (simp add: bit_len.simps [of 0])
      with False show False by (simp add: e_def)
    qed
    moreover have "bit_len n - 1 = k + 24" using k by (simp add: e_def)
    ultimately have "2 ^ (k + 24) \<le> n" using bit_len_lower [of n] by simp
    then have low: "2 ^ k * 2 ^ 24 \<le> n" by (simp only: power_add)
    define q r where "q = n div 2 ^ e" and "r = n mod 2 ^ e"
    have n: "n = q * (2 * 2 ^ k) + r" and r: "r < 2 * 2 ^ k"
      by (simp_all add: q_def r_def k div_mult_mod_eq flip: power_Suc)
    have rd: "round24_nat n = (if 2 ^ k < r \<or> (r = 2 ^ k \<and> odd q) then q + 1 else q) * (2 * 2 ^ k)"
      using False by (simp add: round24_nat_def e_def [symmetric] Let_def q_def r_def k)
    have up: "round24_nat n \<le> n + 2 ^ k" and dn: "n \<le> round24_nat n + 2 ^ k"
      unfolding rd using n r by (auto simp: algebra_simps)
    have "round24_nat n * 2 ^ 24 \<le> (n + 2 ^ k) * 2 ^ 24" using up by (rule mult_le_mono1)
    moreover have "n * 2 ^ 24 \<le> (round24_nat n + 2 ^ k) * 2 ^ 24" using dn by (rule mult_le_mono1)
    ultimately show ?thesis using low by (simp add: algebra_simps)
  qed
  then show "round24_nat n * 2 ^ 24 \<le> n * (2 ^ 24 + 1)" "n * 2 ^ 24 \<le> round24_nat n * 2 ^ 24 + n"
    by simp_all
qed

lemma round24_error:
  assumes "0 \<le> x"
  shows "0 \<le> round24 x" "round24 x * 2 ^ 24 \<le> x * (2 ^ 24 + 1)" "x * 2 ^ 24 \<le> round24 x * 2 ^ 24 + x"
proof -
  obtain n where x: "x = int n" using assms by (metis nonneg_int_cases)
  have eq: "round24 (int n) = int (round24_nat n)"
    by (cases "n = 0") (auto simp: round24_def round24_nat_def bit_len.simps [of 0])
  show "0 \<le> round24 x" by (simp add: eq x)
  have "int (round24_nat n * 2 ^ 24) \<le> int (n * (2 ^ 24 + 1))"
    "int (n * 2 ^ 24) \<le> int (round24_nat n * 2 ^ 24 + n)"
    using round24_nat_error [of n] by (simp_all only: of_nat_le_iff)
  then show "round24 x * 2 ^ 24 \<le> x * (2 ^ 24 + 1)" "x * 2 ^ 24 \<le> round24 x * 2 ^ 24 + x"
    by (simp_all add: eq x)
qed


lemma round24_0 [simp]: "round24 0 = 0"
  by (simp add: round24_def)

lemma scale_float32_0 [simp]: "scale_float32 ovf j 0 = 0"
  by (simp add: scale_float32_def is_int64_def)

text \<open>
  The factors \<open>rand.Float32()/2 + 0.8\<close> can have, in units of two to the power -24: from the
  \<open>float32\<close> nearest to 0.8 up to the largest one below 1.3.
\<close>

definition jitter_ok :: "nat \<Rightarrow> bool" where
  "jitter_ok j \<longleftrightarrow> 13421773 \<le> j \<and> j \<le> 21810380"

lemma scale_float32_bounds:
  assumes "jitter_ok j" and "0 \<le> d" and "1301 * d < 1000 * 2 ^ 63"
  shows "0 \<le> scale_float32 ovf j d"
    and "1000 * scale_float32 ovf j d \<le> 1301 * d"
    and "799 * d \<le> 1000 * (scale_float32 ovf j d + 1)"
proof -
  define a where "a = round24 d"
  define c where "c = a * int j"
  define b where "b = round24 c"
  define s where "s = b div 2 ^ 24"
  have a0: "0 \<le> a" and a1: "a * 16777216 \<le> d * 16777217" and a2: "d * 16777215 \<le> a * 16777216"
    using round24_error [OF assms(2)] by (simp_all add: a_def)
  have "a * 13421773 \<le> a * int j" "a * int j \<le> a * 21810380"
    using a0 assms(1) by (auto simp: jitter_ok_def intro!: mult_left_mono)
  then have c1: "a * 13421773 \<le> c" and c2: "c \<le> a * 21810380" and c0: "0 \<le> c"
    using a0 by (simp_all add: c_def)
  have b0: "0 \<le> b" and b1: "b * 16777216 \<le> c * 16777217" and b2: "c * 16777215 \<le> b * 16777216"
    using round24_error [OF c0] by (simp_all add: b_def)
  have s0: "0 \<le> s" using b0 by (simp add: s_def)
  have s1: "s * 16777216 \<le> b" and s2: "b < (s + 1) * 16777216"
    using div_mult_mod_eq [of b 16777216] pos_mod_bound [of 16777216 b] pos_mod_sign [of 16777216 b]
    by (simp_all add: s_def algebra_simps)
  have up: "1000 * s \<le> 1301 * d" using s1 b1 c2 a1 assms(2) by linarith
  have dn: "799 * d \<le> 1000 * (s + 1)" using s2 b2 c1 a2 assms(2) by linarith
  have "s < 2 ^ 63" using up assms(3) by simp
  with s0 have "is_int64 s" by (simp add: is_int64_def)
  moreover have "go_div b (2 ^ 24) = s" using b0 by (simp add: s_def)
  ultimately have "scale_float32 ovf j d = s"
    by (simp add: scale_float32_def flip: a_def c_def b_def)
  with s0 up dn show "0 \<le> scale_float32 ovf j d" "1000 * scale_float32 ovf j d \<le> 1301 * d"
    "799 * d \<le> 1000 * (scale_float32 ovf j d + 1)"
    by simp_all
qed

text \<open>
  The largest factor is reached when \<open>rand.Float32()\<close> gives the largest \<open>float32\<close> below one,
  and it is 1.3 up to rounding.
\<close>

lemma scale_float32_largest:
  assumes "0 \<le> d" and "1301 * d < 1000 * 2 ^ 63"
  shows "1299 * d \<le> 1000 * (scale_float32 ovf 21810380 d + 1)"
proof -
  define a where "a = round24 d"
  define b where "b = round24 (a * 21810380)"
  define s where "s = b div 16777216"
  have j: "jitter_ok 21810380" by (simp add: jitter_ok_def)
  have a0: "0 \<le> a" and a2: "d * 16777215 \<le> a * 16777216"
    using round24_error [OF assms(1)] by (simp_all add: a_def)
  then have "0 \<le> a * 21810380" by simp
  note b = round24_error [OF this, folded b_def]
  have b2: "(a * 21810380) * 16777215 \<le> b * 16777216" using b(3) by simp
  have s2: "b < (s + 1) * 16777216"
    using div_mult_mod_eq [of b 16777216] pos_mod_bound [of 16777216 b]
    by (simp add: s_def algebra_simps)
  have "scale_float32 (- 1) 21810380 d = (if is_int64 s then s else - 1)"
    using b(1) by (simp add: scale_float32_def s_def flip: a_def b_def)
  then have "is_int64 s" using scale_float32_bounds(1) [OF j assms, of "- 1"] by (auto split: if_splits)
  then have "scale_float32 ovf 21810380 d = s"
    using b(1) by (simp add: scale_float32_def s_def flip: a_def b_def)
  moreover have "1299 * d \<le> 1000 * (s + 1)" using s2 b2 a2 assms(1) by linarith
  ultimately show ?thesis by simp
qed

lemma scale_float32_minus:
  assumes "jitter_ok j" and "0 \<le> d" and "1301 * d < 1000 * 2 ^ 63"
  shows "scale_float32 ovf j (- d) = - scale_float32 ovf j d"
proof -
  let ?x = "\<lambda>d. go_div (round24 (round24 d * int j)) (2 ^ 24)"
  have r: "round24 (- x) = - round24 x" for x by (simp add: round24_def sgn_minus)
  have g: "go_div (- x) y = - go_div x y" for x y by (simp add: go_div_def)
  have pos: "0 \<le> scale_float32 0 j d" "scale_float32 0 j d < 2 ^ 63"
    using scale_float32_bounds [OF assms, of 0] assms(3) by simp_all
  have "is_int64 (?x d)"
  proof (rule ccontr)
    assume n: "\<not> is_int64 (?x d)"
    then have "scale_float32 (2 ^ 63) j d = 2 ^ 63" by (simp add: scale_float32_def Let_def)
    moreover have "1000 * scale_float32 (2 ^ 63) j d \<le> 1301 * d"
      by (rule scale_float32_bounds(2) [OF assms])
    ultimately show False using assms(3) by simp
  qed
  moreover from this have "?x d = scale_float32 0 j d" by (simp add: scale_float32_def Let_def)
  ultimately show ?thesis
    using pos by (simp add: scale_float32_def Let_def r g is_int64_def)
qed

end
