(* ===== verification/Retry_Policy.thy ===== *)
theory Retry_Policy
  imports Storage_Error Go_Float
begin

text \<open>
  zc\_policy\_retry.go: the retry options with their defaults, the back-off delay, the
  classification of outcomes, and the retry loop with what it does to every response body
  and every per-try context. The rest of the pipeline, the clock, the random numbers and the
  caller's context are the fields of \<open>retry_env\<close>. Beside the reply, the model returns the list
  of attempts: what was slept and sent, and whether the response body was drained and closed,
  the per-try context cancelled, or its cancellation attached to the body.
\<close>

section \<open>Options\<close>

record RetryOptions =
  ro_Policy :: int
  ro_MaxTries :: int
  ro_TryTimeout :: int
  ro_RetryDelay :: int
  ro_MaxRetryDelay :: int

definition RetryPolicyExponential :: int where "RetryPolicyExponential = 0"
definition RetryPolicyFixed :: int where "RetryPolicyFixed = 1"

definition second :: int where "second = 1000000000"
definition minute :: int where "minute = 60 * second"

definition retryReadsFromSecondaryHost :: "RetryOptions \<Rightarrow> string" where
  "retryReadsFromSecondaryHost opts = []"

definition IfDefault :: "int \<Rightarrow> int \<Rightarrow> int" where
  "IfDefault current desired = (if current = 0 then desired else current)"

definition RetryOptions_defaults :: "RetryOptions \<Rightarrow> RetryOptions" where
  "RetryOptions_defaults opts =
     (let opts = (if ro_MaxTries opts = 0 then opts\<lparr>ro_MaxTries := 4\<rparr> else opts) in
      if ro_Policy opts = RetryPolicyExponential then
        opts\<lparr>ro_TryTimeout := IfDefault (ro_TryTimeout opts) (1 * minute),
          ro_RetryDelay := IfDefault (ro_RetryDelay opts) (4 * second),
          ro_MaxRetryDelay := IfDefault (ro_MaxRetryDelay opts) (120 * second)\<rparr>
      else if ro_Policy opts = RetryPolicyFixed then
        opts\<lparr>ro_TryTimeout := IfDefault (ro_TryTimeout opts) (1 * minute),
          ro_RetryDelay := IfDefault (ro_RetryDelay opts) (30 * second),
          ro_MaxRetryDelay := IfDefault (ro_MaxRetryDelay opts) (120 * second)\<rparr>
      else opts)"

section \<open>The delay\<close>

fun pow_loop :: "nat \<Rightarrow> int \<Rightarrow> int \<Rightarrow> int" where
  "pow_loop 0 number result = result"
| "pow_loop (Suc n) number result = pow_loop n number (wrap64 (result * number))"

definition go_pow :: "int \<Rightarrow> int \<Rightarrow> int" where
  "go_pow number exponent = pow_loop (nat exponent) number 1"

definition base_delay :: "RetryOptions \<Rightarrow> int \<Rightarrow> int" where
  "base_delay opts try =
     (if ro_Policy opts = RetryPolicyExponential
      then wrap64 (wrap64 (go_pow 2 (wrap32 (try - 1)) - 1) * ro_RetryDelay opts)
      else if ro_Policy opts = RetryPolicyFixed
      then (if 1 < try then ro_RetryDelay opts else 0)
      else 0)"

definition calcDelay :: "int \<Rightarrow> nat \<Rightarrow> RetryOptions \<Rightarrow> int \<Rightarrow> int" where
  "calcDelay ovf jitter opts try =
     (let delay = scale_float32 ovf jitter (base_delay opts try) in
      if ro_MaxRetryDelay opts < delay then ro_MaxRetryDelay opts else delay)"

section \<open>Classification\<close>

definition errToParse_text :: "net_kind \<Rightarrow> plain_error option" where
  "errToParse_text k = (case k of OpError inner \<Rightarrow> inner | NotOpError e \<Rightarrow> Some e)"

definition isNotRetriable :: "net_error option \<Rightarrow> bool" where
  "isNotRetriable errToParse =
     (case errToParse of
        None \<Rightarrow> True
      | Some e \<Rightarrow>
          if ne_Temporary e \<or> ne_Timeout e then False
          else case errToParse_text (ne_kind e) of
            None \<Rightarrow> True
          | Some genericErr \<Rightarrow>
              if pe_type genericErr \<in> {AddrError, UnknownNetworkError, DNSError, InvalidAddrError,
                   ParseError, DNSConfigError} then True
              else if Contains (pe_text genericErr) ''invalid header field'' then True
              else False)"

definition successStatusCodes :: "int list" where
  "successStatusCodes = [200, 201, 202, 204, 206]"

definition isSuccessStatusCode :: "http_response option \<Rightarrow> bool" where
  "isSuccessStatusCode resp =
     (case resp of None \<Rightarrow> False | Some r \<Rightarrow> rs_StatusCode r \<in> set successStatusCodes)"

definition error_action :: "go_error \<Rightarrow> string" where
  "error_action err =
     (case err of
        StorageErr stErr \<Rightarrow>
          if storageError_Temporary stErr
          then ''Retry: StorageError with error service code and Temporary()''
          else if se_response stErr \<noteq> None \<and> isSuccessStatusCode (se_response stErr)
          then ''Retry: StorageError with success status code''
          else ''NoRetry: StorageError not Temporary() and without retriable status code''
      | NetErr netErr \<Rightarrow>
          if \<not> isNotRetriable (Some netErr)
          then ''Retry: net.Error and not in the non-retriable list''
          else ''NoRetry: net.Error and in the non-retriable list''
      | PlainErr _ \<Rightarrow> ''NoRetry: unrecognized error'')"

text \<open>The action, and whether the secondary is given up.\<close>

definition retry_action :: "bool \<Rightarrow> bool \<Rightarrow> reply \<Rightarrow> string \<times> bool" where
  "retry_action ctxErr tryingPrimary rep =
     (if ctxErr then (''NoRetry: Op timeout'', False)
      else if \<not> tryingPrimary \<and> reply_status rep = Some 404
      then (''Retry: Secondary URL returned 404'', True)
      else case rp_error rep of
        Some err \<Rightarrow> (error_action err, False)
      | None \<Rightarrow> (''NoRetry: successful HTTP request'', False))"

section \<open>One try\<close>

record 'w retry_env =
  env_ovf :: int                                            \<comment> \<open>float conversions out of range\<close>
  env_jitter :: "'w \<Rightarrow> nat \<times> 'w"                             \<comment> \<open>\<open>rand.Float32()/2 + 0.8\<close>\<close>
  env_sleep :: "int \<Rightarrow> 'w \<Rightarrow> 'w"                              \<comment> \<open>\<open>time.Sleep\<close>\<close>
  env_rewind :: "http_request \<Rightarrow> 'w \<Rightarrow> string option \<times> 'w"   \<comment> \<open>\<open>RewindBody\<close>\<close>
  env_deadline :: "'w \<Rightarrow> int option"                         \<comment> \<open>seconds until the caller's deadline\<close>
  env_next :: "int \<Rightarrow> 'w sender"                             \<comment> \<open>\<open>next.Do\<close> under a per-try timeout\<close>
  env_ctxErr :: "'w \<Rightarrow> bool"                                 \<comment> \<open>\<open>ctx.Err() != nil\<close>\<close>

record attempt =
  at_delay :: int
  at_timeout :: int
  at_request :: http_request
  at_reply :: reply
  at_action :: string
  at_drained :: bool
  at_cancelled :: bool
  at_wrapped :: bool

record 'w retry_state =
  rt_try :: int
  rt_primaryTry :: int
  rt_considerSecondary :: bool
  rt_reply :: reply
  rt_trace :: "attempt list"
  rt_world :: 'w

text \<open>\<open>int32(d.Seconds())\<close> for a duration in nanoseconds.\<close>

definition seconds32 :: "int \<Rightarrow> int" where
  "seconds32 d = wrap32 (go_div d second)"

definition try_timeout :: "RetryOptions \<Rightarrow> int option \<Rightarrow> int" where
  "try_timeout opts deadline =
     (let timeout = seconds32 (ro_TryTimeout opts) in
      case deadline of
        None \<Rightarrow> timeout
      | Some t \<Rightarrow>
          let timeout = (if t < timeout then t else timeout)
          in if timeout < 0 then 0 else timeout)"

definition with_timeout :: "int \<Rightarrow> http_request \<Rightarrow> http_request" where
  "with_timeout timeout request =
     (let u = rq_URL request;
          q = Values_Set (URL_Query u) ''timeout'' (FormatInt (wrap32 (timeout + 1)))
      in request\<lparr>rq_URL := u\<lparr>u_RawQuery := Values_Encode q\<rparr>\<rparr>)"

definition has_body :: "reply \<Rightarrow> bool" where
  "has_body rep = (case rp_response rep of Some (Some r) \<Rightarrow> rs_Body r \<noteq> None | _ \<Rightarrow> False)"

definition has_response :: "reply \<Rightarrow> bool" where
  "has_response rep = (case rp_response rep of Some (Some r) \<Rightarrow> True | _ \<Rightarrow> False)"

datatype 'w step_result = Again "'w retry_state" | Done "'w retry_state"

text \<open>What follows \<open>next.Do\<close>: the action, and the treatment of body and context.\<close>

definition finish_try ::
    "'w retry_env \<Rightarrow> bool \<Rightarrow> int \<Rightarrow> int \<Rightarrow> http_request \<Rightarrow> reply \<Rightarrow> 'w \<Rightarrow> 'w retry_state
      \<Rightarrow> 'w step_result exec" where
  "finish_try env tryingPrimary delay timeout req rep w st =
     (case retry_action (env_ctxErr env w) tryingPrimary rep of (action, giveUpSecondary) \<Rightarrow>
        let a = \<lparr>at_delay = delay, at_timeout = timeout, at_request = req, at_reply = rep,
                 at_action = action, at_drained = False, at_cancelled = False, at_wrapped = False\<rparr>;
            st = st\<lparr>rt_reply := rep, rt_world := w,
                   rt_considerSecondary := rt_considerSecondary st \<and> \<not> giveUpSecondary\<rparr>
        in if hd action \<noteq> CHR ''R'' then
             if rp_error rep \<noteq> None
             then Return (Done (st\<lparr>rt_trace := rt_trace st @ [a\<lparr>at_cancelled := True\<rparr>]\<rparr>))
             else if \<not> has_response rep
             then sanityCheckFailed ''invalid state, response should not be nil when the operation is executed successfully''
             else Return (Done (st\<lparr>rt_trace := rt_trace st @ [a\<lparr>at_wrapped := True\<rparr>]\<rparr>))
           else Return (Again (st\<lparr>rt_try := wrap32 (rt_try st + 1),
                  rt_trace := rt_trace st @ [a\<lparr>at_drained := has_body rep, at_cancelled := True\<rparr>]\<rparr>)))"

definition retry_step ::
    "RetryOptions \<Rightarrow> 'w retry_env \<Rightarrow> http_request \<Rightarrow> 'w retry_state \<Rightarrow> 'w step_result exec" where
  "retry_step opts env request st =
     (let tryingPrimary = (\<not> rt_considerSecondary st \<or> go_mod (rt_try st) 2 = 1) in
      case env_jitter env (rt_world st) of (jitter, w) \<Rightarrow>
        let primaryTry = (if tryingPrimary then wrap32 (rt_primaryTry st + 1) else rt_primaryTry st);
            delay = (if tryingPrimary then calcDelay (env_ovf env) jitter opts primaryTry
                     else scale_float32 (env_ovf env) jitter second);
            w = env_sleep env delay w
        in case env_rewind env request w of
          (Some err, w) \<Rightarrow> sanityCheckFailed err
        | (None, w) \<Rightarrow>
            let req = (if tryingPrimary then request
                       else request\<lparr>rq_URL := (rq_URL request)\<lparr>u_Host := retryReadsFromSecondaryHost opts\<rparr>,
                                    rq_Host := retryReadsFromSecondaryHost opts\<rparr>);
                timeout = try_timeout opts (env_deadline env w);
                req = with_timeout timeout req
            in bind_exec (env_next env timeout req w) (\<lambda>(rep, w).
                 finish_try env tryingPrimary delay timeout req rep w
                   (st\<lparr>rt_primaryTry := primaryTry\<rparr>)))"

section \<open>The loop\<close>

text \<open>
  With \<open>MaxTries\<close> the largest \<open>int32\<close>, the counter wraps around and the loop condition always
  holds; not returning is the value \<open>None\<close>.
\<close>

partial_function (option) retry_loop ::
    "RetryOptions \<Rightarrow> 'w retry_env \<Rightarrow> http_request \<Rightarrow> 'w retry_state \<Rightarrow> 'w retry_state exec option" where
  "retry_loop opts env request st =
     (if rt_try st \<le> ro_MaxTries opts then
        (case retry_step opts env request st of
           Panic m \<Rightarrow> Some (Panic m)
         | Return (Done st') \<Rightarrow> Some (Return st')
         | Return (Again st') \<Rightarrow> retry_loop opts env request st')
      else Some (Return st))"

declare retry_loop.simps [code]

definition nil_reply :: reply where
  "nil_reply = \<lparr>rp_response = None, rp_value = HTTPResponse, rp_error = None\<rparr>"

definition initial_state :: "RetryOptions \<Rightarrow> http_request \<Rightarrow> 'w \<Rightarrow> 'w retry_state" where
  "initial_state opts request w =
     \<lparr>rt_try = 1, rt_primaryTry = 0,
      rt_considerSecondary = ((rq_Method request = ''GET'' \<or> rq_Method request = ''HEAD'')
         \<and> retryReadsFromSecondaryHost opts \<noteq> []),
      rt_reply = nil_reply, rt_trace = [], rt_world = w\<rparr>"

definition retry_policy ::
    "RetryOptions \<Rightarrow> 'w retry_env \<Rightarrow> http_request \<Rightarrow> 'w \<Rightarrow> 'w retry_state exec option" where
  "retry_policy opts env request w =
     (let opts = RetryOptions_defaults opts in retry_loop opts env request (initial_state opts request w))"

section \<open>The body handed on\<close>

text \<open>
  The body of a response that is handed on keeps the cancel function of its try, so that the
  context lives until the caller closes the body. \<open>read\<close> and \<open>close\<close> are those of the body inside.
\<close>

record ('b, 'w) contextCancelReadCloser =
  cc_cf :: "('w \<Rightarrow> 'w) option"
  cc_body :: 'b

definition contextCancelReadCloser_Read ::
    "(nat \<Rightarrow> 'b \<Rightarrow> 'w \<Rightarrow> 'r \<times> 'b \<times> 'w) \<Rightarrow> nat \<Rightarrow> ('b, 'w) contextCancelReadCloser \<Rightarrow> 'w
      \<Rightarrow> 'r \<times> ('b, 'w) contextCancelReadCloser \<times> 'w" where
  "contextCancelReadCloser_Read read plen rc w =
     (case read plen (cc_body rc) w of (res, b, w) \<Rightarrow> (res, rc\<lparr>cc_body := b\<rparr>, w))"

definition contextCancelReadCloser_Close ::
    "('b \<Rightarrow> 'w \<Rightarrow> 'e \<times> 'b \<times> 'w) \<Rightarrow> ('b, 'w) contextCancelReadCloser \<Rightarrow> 'w
      \<Rightarrow> 'e \<times> ('b, 'w) contextCancelReadCloser \<times> 'w" where
  "contextCancelReadCloser_Close close rc w =
     (case close (cc_body rc) w of (err, b, w) \<Rightarrow>
        (err, rc\<lparr>cc_body := b\<rparr>, case cc_cf rc of Some cf \<Rightarrow> cf w | None \<Rightarrow> w))"

section \<open>The loop invariant\<close>

definition attempt_ok :: "RetryOptions \<Rightarrow> http_request \<Rightarrow> attempt \<Rightarrow> bool" where
  "attempt_ok opts request a \<longleftrightarrow>
     at_delay a \<le> ro_MaxRetryDelay opts \<and> at_request a = with_timeout (at_timeout a) request"

text \<open>A try that is followed by another leaves nothing open.\<close>

definition retried :: "attempt \<Rightarrow> bool" where
  "retried a \<longleftrightarrow> hd (at_action a) = CHR ''R'' \<and> at_cancelled a \<and> \<not> at_wrapped a
     \<and> at_drained a = has_body (at_reply a)"

text \<open>A try that ends the loop: an error releases the context, a success ties it to the body.\<close>

definition settled :: "attempt \<Rightarrow> bool" where
  "settled a \<longleftrightarrow> hd (at_action a) \<noteq> CHR ''R'' \<and> \<not> at_drained a
     \<and> (if rp_error (at_reply a) \<noteq> None then at_cancelled a \<and> \<not> at_wrapped a
        else has_response (at_reply a) \<and> at_wrapped a \<and> \<not> at_cancelled a)"

definition loop_inv :: "RetryOptions \<Rightarrow> http_request \<Rightarrow> 'w retry_state \<Rightarrow> bool" where
  "loop_inv opts request st \<longleftrightarrow> \<not> rt_considerSecondary st
     \<and> rt_try st = int (length (rt_trace st)) + 1 \<and> rt_primaryTry st = int (length (rt_trace st))
     \<and> (\<forall>a \<in> set (rt_trace st). attempt_ok opts request a \<and> retried a)
     \<and> rt_reply st = (if rt_trace st = [] then nil_reply else at_reply (last (rt_trace st)))"

definition done_inv :: "RetryOptions \<Rightarrow> http_request \<Rightarrow> 'w retry_state \<Rightarrow> bool" where
  "done_inv opts request st \<longleftrightarrow> rt_trace st \<noteq> []
     \<and> (\<forall>a \<in> set (butlast (rt_trace st)). retried a)
     \<and> (\<forall>a \<in> set (rt_trace st). attempt_ok opts request a)
     \<and> settled (last (rt_trace st)) \<and> rt_reply st = at_reply (last (rt_trace st))"

lemma calcDelay_le_max: "calcDelay ovf j opts try \<le> ro_MaxRetryDelay opts"
  by (simp add: calcDelay_def Let_def)

lemma finish_try_cases:
  assumes "finish_try env prim delay timeout req rep w st = Return res"
  obtains (again) a where "res = Again (st\<lparr>rt_reply := rep, rt_world := w,
        rt_considerSecondary := rt_considerSecondary st \<and> \<not> snd (retry_action (env_ctxErr env w) prim rep),
        rt_try := wrap32 (rt_try st + 1), rt_trace := rt_trace st @ [a]\<rparr>)"
      "retried a" "at_delay a = delay" "at_timeout a = timeout" "at_request a = req" "at_reply a = rep"
  | (stop) a where "res = Done (st\<lparr>rt_reply := rep, rt_world := w,
        rt_considerSecondary := rt_considerSecondary st \<and> \<not> snd (retry_action (env_ctxErr env w) prim rep),
        rt_trace := rt_trace st @ [a]\<rparr>)"
      "settled a" "at_delay a = delay" "at_timeout a = timeout" "at_request a = req" "at_reply a = rep"
  using assms
  by (auto simp: finish_try_def Let_def retried_def settled_def split: prod.splits if_splits)

lemma retry_step_inv:
  assumes inv: "loop_inv opts request st" and step: "retry_step opts env request st = Return res"
    and bound: "rt_try st \<le> ro_MaxTries opts" "ro_MaxTries opts < 2 ^ 31 - 1"
  shows "\<exists>st'. res = Again st' \<and> loop_inv opts request st'
            \<and> length (rt_trace st') = Suc (length (rt_trace st))
      \<or> res = Done st' \<and> done_inv opts request st'
            \<and> length (rt_trace st') = Suc (length (rt_trace st))"
proof -
  let ?p = "wrap32 (rt_primaryTry st + 1)"
  have prim: "\<not> rt_considerSecondary st" using inv by (simp add: loop_inv_def)
  obtain j w where j: "env_jitter env (rt_world st) = (j, w)" by fastforce
  obtain delay where delay: "delay = calcDelay (env_ovf env) j opts ?p" by simp
  obtain e w1 where e: "env_rewind env request (env_sleep env delay w) = (e, w1)" by fastforce
  define timeout where "timeout = try_timeout opts (env_deadline env w1)"
  from step obtain rep w2 where
    f: "finish_try env True delay timeout (with_timeout timeout request) rep w2 (st\<lparr>rt_primaryTry := ?p\<rparr>) = Return res"
    by (cases e) (auto simp: retry_step_def Let_def prim j e delay [symmetric] timeout_def [symmetric])
  have try1: "rt_try st = int (length (rt_trace st)) + 1" and try2: "rt_primaryTry st = int (length (rt_trace st))"
    using inv by (simp_all add: loop_inv_def)
  have n: "wrap32 (rt_try st + 1) = rt_try st + 1" "?p = rt_primaryTry st + 1"
    using bound try1 try2 by (simp_all add: wrap32_nonneg)
  have ok: "attempt_ok opts request a"
    if "at_delay a = delay" "at_timeout a = timeout" "at_request a = with_timeout timeout request" for a
    using that calcDelay_le_max by (simp add: attempt_ok_def delay)
  from f show ?thesis
  proof (cases rule: finish_try_cases)
    case (again a)
    with ok [of a] inv n show ?thesis by (auto simp: loop_inv_def)
  next
    case (stop a)
    with ok [of a] inv n show ?thesis by (auto simp: loop_inv_def done_inv_def)
  qed
qed

section \<open>The loop returns\<close>

lemma retry_loop_spec:
  assumes "loop_inv opts request st" and "rt_try st \<le> ro_MaxTries opts + 1"
    and "ro_MaxTries opts < 2 ^ 31 - 1"
  shows "(\<exists>m. retry_loop opts env request st = Some (Panic m))
     \<or> (\<exists>st'. retry_loop opts env request st = Some (Return st')
          \<and> int (length (rt_trace st')) \<le> ro_MaxTries opts
          \<and> (done_inv opts request st'
              \<or> loop_inv opts request st' \<and> int (length (rt_trace st')) = ro_MaxTries opts))"
  using assms
proof (induction "nat (ro_MaxTries opts + 1 - rt_try st)" arbitrary: st rule: less_induct)
  case less
  have len: "rt_try st = int (length (rt_trace st)) + 1" using less.prems(1) by (simp add: loop_inv_def)
  show ?case
  proof (cases "rt_try st \<le> ro_MaxTries opts")
    case False
    with less.prems len show ?thesis by (auto simp: retry_loop.simps [of opts env request st])
  next
    case True
    show ?thesis
    proof (cases "retry_step opts env request st")
      case (Panic m)
      with True show ?thesis by (simp add: retry_loop.simps [of opts env request st])
    next
      case (Return res)
      from retry_step_inv [OF less.prems(1) Return True less.prems(3)] obtain st' where
        "res = Again st' \<and> loop_inv opts request st' \<or> res = Done st' \<and> done_inv opts request st'"
        and l: "length (rt_trace st') = Suc (length (rt_trace st))"
        by auto
      then consider (again) "res = Again st'" "loop_inv opts request st'"
        | (stop) "res = Done st'" "done_inv opts request st'" by auto
      then show ?thesis
      proof cases
        case again
        have "rt_try st' = rt_try st + 1" using again(2) l len by (simp add: loop_inv_def)
        with less.hyps [of st'] less.prems again True Return show ?thesis
          by (simp add: retry_loop.simps [of opts env request st])
      next
        case stop
        with True Return l len show ?thesis by (simp add: retry_loop.simps [of opts env request st])
      qed
    qed
  qed
qed

section \<open>No panic\<close>

text \<open>
  What the loop relies on: the body can be rewound, and the rest of the pipeline returns an
  error or a response.
\<close>

definition env_regular :: "'w retry_env \<Rightarrow> bool" where
  "env_regular env \<longleftrightarrow> (\<forall>r w. fst (env_rewind env r w) = None)
     \<and> (\<forall>t r w. \<exists>rep w'. env_next env t r w = Return (rep, w') \<and> (rp_error rep \<noteq> None \<or> has_response rep))"

lemma finish_try_regular:
  "rp_error rep \<noteq> None \<or> has_response rep \<Longrightarrow>
     \<exists>res. finish_try env prim delay timeout req rep w st = Return res"
  by (auto simp: finish_try_def Let_def split: prod.splits)

lemma retry_step_regular:
  assumes "env_regular env"
  shows "\<exists>res. retry_step opts env request st = Return res"
proof -
  obtain j w where j: "env_jitter env (rt_world st) = (j, w)" by fastforce
  have rew: "env_rewind env r w = (None, snd (env_rewind env r w))" for r w
    using assms by (simp add: env_regular_def prod_eq_iff)
  have nxt: "\<exists>rep w'. env_next env t r w = Return (rep, w') \<and> (rp_error rep \<noteq> None \<or> has_response rep)"
    for t r w using assms by (simp add: env_regular_def)
  have "\<exists>res. bind_exec (env_next env t r w) (\<lambda>(rep, w). finish_try env prim delay timeout r rep w st) = Return res"
    for t r w prim delay timeout st
    using nxt [of t r w] finish_try_regular [of _ env prim delay timeout r _ st] by fastforce
  then show ?thesis
    unfolding retry_step_def j Let_def prod.case by (subst rew) simp
qed

lemma retry_loop_no_panic:
  assumes "env_regular env" and "loop_inv opts request st" and "rt_try st \<le> ro_MaxTries opts + 1"
    and "ro_MaxTries opts < 2 ^ 31 - 1"
  shows "retry_loop opts env request st \<noteq> Some (Panic m)"
  using assms(2-4)
proof (induction "nat (ro_MaxTries opts + 1 - rt_try st)" arbitrary: st rule: less_induct)
  case less
  obtain res where res: "retry_step opts env request st = Return res"
    using retry_step_regular [OF assms(1)] by blast
  show ?case
  proof (cases "rt_try st \<le> ro_MaxTries opts")
    case True
    from retry_step_inv [OF less.prems(1) res True less.prems(3)] obtain st' where
      "res = Again st' \<and> loop_inv opts request st' \<or> res = Done st'"
      and l: "length (rt_trace st') = Suc (length (rt_trace st))" by auto
    then consider "res = Again st'" "loop_inv opts request st'" | "res = Done st'" by auto
    then show ?thesis
    proof cases
      case 1
      have "rt_try st' = rt_try st + 1" using 1(2) less.prems(1) l by (simp add: loop_inv_def)
      with less.hyps [of st'] less.prems 1 True res show ?thesis
        by (simp add: retry_loop.simps [of opts env request st])
    qed (use True res in \<open>simp add: retry_loop.simps [of opts env request st]\<close>)
  qed (simp add: retry_loop.simps [of opts env request st])
qed

section \<open>Properties\<close>

lemma initial_state_inv: "loop_inv opts request (initial_state opts request w)"
  by (simp add: loop_inv_def initial_state_def retryReadsFromSecondaryHost_def)

lemma retry_policy_spec:
  assumes "0 \<le> ro_MaxTries opts" and "ro_MaxTries opts < 2 ^ 31 - 1" and "env_regular env"
  defines "n \<equiv> ro_MaxTries (RetryOptions_defaults opts)"
  shows "\<exists>st. retry_policy opts env request w = Some (Return st)
     \<and> rt_trace st \<noteq> [] \<and> int (length (rt_trace st)) \<le> n
     \<and> (\<forall>a \<in> set (rt_trace st). attempt_ok (RetryOptions_defaults opts) request a)
     \<and> (\<forall>a \<in> set (butlast (rt_trace st)). retried a)
     \<and> (settled (last (rt_trace st)) \<or> retried (last (rt_trace st)) \<and> int (length (rt_trace st)) = n)
     \<and> rt_reply st = at_reply (last (rt_trace st))"
proof -
  let ?o = "RetryOptions_defaults opts"
  have n: "n = (if ro_MaxTries opts = 0 then 4 else ro_MaxTries opts)"
    by (simp add: n_def RetryOptions_defaults_def Let_def)
  then have b: "1 \<le> ro_MaxTries ?o" "ro_MaxTries ?o < 2 ^ 31 - 1"
    using assms(1,2) by (auto simp: n_def)
  have tr: "rt_try (initial_state ?o request w) \<le> ro_MaxTries ?o + 1"
    using b by (simp add: initial_state_def)
  from retry_loop_spec [OF initial_state_inv tr b(2), of env]
    retry_loop_no_panic [OF assms(3) initial_state_inv tr b(2)]
  obtain st where st: "retry_policy opts env request w = Some (Return st)"
    and len: "int (length (rt_trace st)) \<le> n"
    and inv: "done_inv ?o request st \<or> loop_inv ?o request st \<and> int (length (rt_trace st)) = n"
    unfolding retry_policy_def Let_def n_def by blast
  from inv have "rt_trace st \<noteq> []
     \<and> (\<forall>a \<in> set (rt_trace st). attempt_ok ?o request a)
     \<and> (\<forall>a \<in> set (butlast (rt_trace st)). retried a)
     \<and> (settled (last (rt_trace st)) \<or> retried (last (rt_trace st)) \<and> int (length (rt_trace st)) = n)
     \<and> rt_reply st = at_reply (last (rt_trace st))"
  proof
    assume "loop_inv ?o request st \<and> int (length (rt_trace st)) = n"
    moreover from this b have "rt_trace st \<noteq> []" by (auto simp: n_def)
    ultimately show ?thesis by (auto simp: loop_inv_def dest: in_set_butlastD)
  qed (auto simp: done_inv_def)
  with st len show ?thesis by blast
qed

text \<open>
  C6: The retry policy always returns, after at least one and at most \<open>MaxTries\<close> tries (four
  by default), with the reply of the last try. Every try before the last was classified as
  retriable, had its response body drained and closed and its context cancelled. The last
  try either was not retriable (an error cancels its context, a success ties the
  cancellation to closing the body) or used up the tries. No context is leaked and none is
  cancelled under a body that is handed to the caller.
\<close>

theorem retry_policy_outcome:
  assumes "0 \<le> ro_MaxTries opts" and "ro_MaxTries opts < 2 ^ 31 - 1" and "env_regular env"
  shows "\<exists>st. retry_policy opts env request w = Some (Return st)
     \<and> rt_trace st \<noteq> []
     \<and> int (length (rt_trace st)) \<le> (if ro_MaxTries opts = 0 then 4 else ro_MaxTries opts)
     \<and> rt_reply st = at_reply (last (rt_trace st))
     \<and> (\<forall>a \<in> set (butlast (rt_trace st)).
          hd (at_action a) = CHR ''R'' \<and> at_cancelled a \<and> at_drained a = has_body (at_reply a))
     \<and> (hd (at_action (last (rt_trace st))) = CHR ''R'' \<longrightarrow>
          int (length (rt_trace st)) = (if ro_MaxTries opts = 0 then 4 else ro_MaxTries opts))
     \<and> (\<forall>a \<in> set (rt_trace st). at_cancelled a \<noteq> at_wrapped a)"
proof -
  have n: "ro_MaxTries (RetryOptions_defaults opts) = (if ro_MaxTries opts = 0 then 4 else ro_MaxTries opts)"
    by (simp add: RetryOptions_defaults_def Let_def)
  obtain st where st: "retry_policy opts env request w = Some (Return st)"
    "rt_trace st \<noteq> []" "int (length (rt_trace st)) \<le> (if ro_MaxTries opts = 0 then 4 else ro_MaxTries opts)"
    "rt_reply st = at_reply (last (rt_trace st))"
    and but: "\<forall>a \<in> set (butlast (rt_trace st)). retried a"
    and last: "settled (last (rt_trace st)) \<or> retried (last (rt_trace st))
      \<and> int (length (rt_trace st)) = (if ro_MaxTries opts = 0 then 4 else ro_MaxTries opts)"
    using retry_policy_spec [OF assms, of request w] unfolding n by blast
  have "at_cancelled a \<noteq> at_wrapped a" if "a \<in> set (rt_trace st)" for a
  proof -
    from that st(2) have "a \<in> set (butlast (rt_trace st)) \<or> a = last (rt_trace st)"
      by (metis append_butlast_last_id in_set_conv_decomp_last Un_iff empty_iff insert_iff list.set set_append)
    with but last show ?thesis by (auto simp: retried_def settled_def split: if_splits)
  qed
  moreover from last have "hd (at_action (last (rt_trace st))) = CHR ''R'' \<longrightarrow>
      int (length (rt_trace st)) = (if ro_MaxTries opts = 0 then 4 else ro_MaxTries opts)"
    by (auto simp: settled_def)
  ultimately show ?thesis
    using st but by (intro exI [of _ st]) (simp add: retried_def)
qed

definition busy_reply :: reply where
  "busy_reply = \<lparr>rp_response = None, rp_value = HTTPResponse, rp_error = Some (StorageErr \<lparr>se_response = Some \<lparr>rs_StatusCode = 503,
      rs_Status = [], rs_Header = [], rs_Body = None\<rparr>, se_description = [], se_serviceCode = [],
      se_details = [], se_node_temporary = False, se_node_timeout = False\<rparr>)\<rparr>"

definition created_reply :: reply where
  "created_reply = \<lparr>rp_response = Some (Some \<lparr>rs_StatusCode = 201, rs_Status = [], rs_Header = [],
      rs_Body = Some \<lparr>b_data = [], b_error = None\<rparr>\<rparr>), rp_value = HTTPResponse, rp_error = None\<rparr>"

text \<open>A service that is busy for the first two requests; the world counts them.\<close>

definition example_env :: "nat retry_env" where
  "example_env = \<lparr>env_ovf = 0, env_jitter = (\<lambda>w. (16777216, w)), env_sleep = (\<lambda>d w. w),
     env_rewind = (\<lambda>r w. (None, w)), env_deadline = (\<lambda>w. None),
     env_next = (\<lambda>t r w. Return (if w < 2 then busy_reply else created_reply, Suc w)),
     env_ctxErr = (\<lambda>w. False)\<rparr>"

definition example_options :: RetryOptions where
  "example_options = \<lparr>ro_Policy = 0, ro_MaxTries = 0, ro_TryTimeout = 0, ro_RetryDelay = 0,
     ro_MaxRetryDelay = 0\<rparr>"

definition put_request :: http_request where
  "put_request = \<lparr>rq_Method = ''PUT'', rq_URL = empty_url\<lparr>u_Path := ''/s/f'', u_RawQuery := ''comp=range''\<rparr>,
     rq_Host = [], rq_Header = [(''X-Ms-Range'', [''bytes=0-3''])], rq_Body = Some ''data''\<rparr>"

lemma example_env_regular: "env_regular example_env"
  by (simp add: env_regular_def example_env_def busy_reply_def created_reply_def has_response_def)

theorem retry_policy_outcome_witness:
  "\<exists>st. retry_policy example_options example_env put_request 0 = Some (Return st)
     \<and> int (length (rt_trace st)) \<le> 4 \<and> rt_reply st = at_reply (last (rt_trace st))"
proof -
  have "0 \<le> ro_MaxTries example_options" "ro_MaxTries example_options < 2 ^ 31 - 1"
    by (simp_all add: example_options_def)
  from retry_policy_outcome [OF this example_env_regular, of put_request 0] show ?thesis
    by (auto simp: example_options_def)
qed

section \<open>What is sent\<close>

lemma with_timeout_fields [simp]:
  "rq_Method (with_timeout t r) = rq_Method r" "rq_Header (with_timeout t r) = rq_Header r"
  "rq_Body (with_timeout t r) = rq_Body r" "rq_Host (with_timeout t r) = rq_Host r"
  by (simp_all add: with_timeout_def Let_def)

lemma with_timeout_query:
  "map_of (URL_Query (rq_URL (with_timeout t r))) k =
     (if k = ''timeout'' then Some [FormatInt (wrap32 (t + 1))] else map_of (URL_Query (rq_URL r)) k)"
proof -
  let ?q = "Values_Set (URL_Query (rq_URL r)) ''timeout'' (FormatInt (wrap32 (t + 1)))"
  have ok: "go_map_ok ?q" by (simp add: Values_Set_def)
  have ne: "map_of (URL_Query (rq_URL r)) k \<noteq> Some []"
    using ParseQuery_nonempty [of "u_RawQuery (rq_URL r)"]
    by (metis URL_Query_def image_eqI map_of_SomeD snd_conv)
  have "URL_Query (rq_URL (with_timeout t r)) = fst (ParseQuery (Values_Encode ?q))"
    by (simp add: with_timeout_def Let_def URL_Query_def)
  then show ?thesis
    using ParseQuery_Encode(1) [OF ok, of k] ne
    by (auto simp: Values_Set_def map_of_update_alist split: option.splits list.splits)
qed



section \<open>When it retries\<close>

lemma hd_action:
  "hd (fst (retry_action ctxErr tryingPrimary rep)) = CHR ''R'' \<longleftrightarrow>
     \<not> ctxErr \<and> (\<not> tryingPrimary \<and> reply_status rep = Some 404
       \<or> (case rp_error rep of Some e \<Rightarrow> hd (error_action e) = CHR ''R'' | None \<Rightarrow> False))"
  by (simp add: retry_action_def split: option.splits)

text \<open>
  C27: The policy retries a primary request exactly when the caller's context is still alive
  and the error is a storage error that is temporary (status 500 or 503 among them) or
  carries a success status, or a network error that is temporary, a timeout, or neither of
  the listed address and configuration errors nor about an invalid header field. Success and
  unrecognized errors are never retried.
\<close>

theorem retry_exactly_when:
  "hd (fst (retry_action ctxErr True rep)) = CHR ''R'' \<longleftrightarrow>
     \<not> ctxErr \<and>
     (case rp_error rep of
        Some (StorageErr e) \<Rightarrow>
          (\<exists>r. se_response e = Some r \<and> rs_StatusCode r \<in> {500, 503, 200, 201, 202, 204, 206})
          \<or> se_node_temporary e
      | Some (NetErr e) \<Rightarrow>
          ne_Temporary e \<or> ne_Timeout e \<or>
          (\<exists>g. ne_kind e \<in> {OpError (Some g), NotOpError g} \<and> pe_type g = OtherType
             \<and> (\<nexists>a b. pe_text g = a @ ''invalid header field'' @ b))
      | _ \<Rightarrow> False)"
proof -
  have net: "\<not> isNotRetriable (Some e) \<longleftrightarrow>
      ne_Temporary e \<or> ne_Timeout e \<or>
          (\<exists>g. ne_kind e \<in> {OpError (Some g), NotOpError g} \<and> pe_type g = OtherType
             \<and> (\<nexists>a b. pe_text g = a @ ''invalid header field'' @ b))" for e
  proof -
    have ty: "pe_type g \<in> {AddrError, UnknownNetworkError, DNSError, InvalidAddrError,
                   ParseError, DNSConfigError} \<longleftrightarrow> pe_type g \<noteq> OtherType" for g :: plain_error
      by (cases "pe_type g") auto
    have kind: "(\<exists>g. ne_kind e \<in> {OpError (Some g), NotOpError g} \<and> P g) \<longleftrightarrow>
        (\<exists>g. errToParse_text (ne_kind e) = Some g \<and> P g)" for P
      by (cases "ne_kind e") (auto simp: errToParse_text_def)
    show ?thesis
      unfolding kind isNotRetriable_def ty Contains_iff by (auto split: option.splits)
  qed
  have st: "hd (error_action (StorageErr e)) = CHR ''R'' \<longleftrightarrow>
      (\<exists>r. se_response e = Some r \<and> rs_StatusCode r \<in> {500, 503, 200, 201, 202, 204, 206})
          \<or> se_node_temporary e" for e
    by (auto simp: error_action_def storageError_Temporary_def isSuccessStatusCode_def
        successStatusCodes_def split: option.splits)
  have ne: "hd (error_action (NetErr e)) = CHR ''R'' \<longleftrightarrow> \<not> isNotRetriable (Some e)" for e
    by (simp add: error_action_def)
  have pl: "hd (error_action (PlainErr m)) \<noteq> CHR ''R''" for m
    by (simp add: error_action_def)
  show ?thesis
  proof (cases "rp_error rep")
    case (Some err)
    show ?thesis
      unfolding hd_action Some option.case
      by (cases err) (simp_all only: go_error.case st ne net pl simp_thms)
  qed (simp add: hd_action)
qed

section \<open>The delay is bounded and grows\<close>

lemma pow_loop_2:
  "2 ^ (k + n) < (2 ^ 63 :: int) \<Longrightarrow> pow_loop n 2 (2 ^ k) = 2 ^ (k + n)"
proof (induction n arbitrary: k)
  case (Suc n)
  have "(2 :: int) ^ Suc k \<le> 2 ^ (Suc k + n)" by (intro power_increasing) simp_all
  with Suc.prems have "(2 :: int) ^ Suc k < 2 ^ 63" by (simp only: add_Suc_right add_Suc)
  then have "wrap64 (2 ^ Suc k) = 2 ^ Suc k" by (intro wrap64_nonneg) simp_all
  then have "wrap64 (2 ^ k * 2) = 2 ^ Suc k" by (simp add: mult.commute)
  with Suc.IH [of "Suc k"] Suc.prems show ?case by simp
qed simp

lemma go_pow_2: "0 \<le> n \<Longrightarrow> n \<le> 62 \<Longrightarrow> go_pow 2 n = 2 ^ nat n"
proof -
  assume n: "0 \<le> n" "n \<le> 62"
  have "(2 :: int) ^ (0 + nat n) < 2 ^ 63" using n by (intro power_strict_increasing) simp_all
  from pow_loop_2 [OF this] show ?thesis by (simp add: go_pow_def)
qed

lemma base_delay_exponential:
  assumes "ro_Policy opts = RetryPolicyExponential" and "1 \<le> n" and "n \<le> 63"
    and "0 \<le> ro_RetryDelay opts" and "(2 ^ nat (n - 1) - 1) * ro_RetryDelay opts < 2 ^ 63"
  shows "base_delay opts n = (2 ^ nat (n - 1) - 1) * ro_RetryDelay opts"
proof -
  have "wrap32 (n - 1) = n - 1" using assms(2,3) by (simp add: wrap32_nonneg)
  moreover have "go_pow 2 (n - 1) = 2 ^ nat (n - 1)" using assms(2,3) by (intro go_pow_2) simp_all
  moreover have "(2 :: int) ^ nat (n - 1) < 2 ^ 63"
    using assms(2,3) by (intro power_strict_increasing) simp_all
  ultimately have "base_delay opts n = wrap64 (wrap64 (2 ^ nat (n - 1) - 1) * ro_RetryDelay opts)"
    "wrap64 (2 ^ nat (n - 1) - 1) = 2 ^ nat (n - 1) - 1"
    using assms(1) by (simp_all add: base_delay_def wrap64_nonneg)
  moreover have "0 \<le> (2 ^ nat (n - 1) - 1) * ro_RetryDelay opts" using assms(4) by simp
  ultimately show ?thesis using assms(5) by (simp add: wrap64_nonneg)
qed



section \<open>What happens when the product overflows\<close>

lemma wrap64_mod [simp]: "wrap64 x mod 2 ^ 64 = x mod 2 ^ 64"
  unfolding wrap64_def by (simp add: mod_simps)

lemma wrap64_eq: "x mod 2 ^ 64 = y mod 2 ^ 64 \<Longrightarrow> wrap64 x = wrap64 y"
  unfolding wrap64_def by (metis mod_add_left_eq)

lemma wrap64_mult [simp]: "wrap64 (wrap64 x * y) = wrap64 (x * y)"
  by (rule wrap64_eq) (metis mod_mult_left_eq wrap64_mod)

lemma pow_loop_wrap: "pow_loop n b (wrap64 r) = wrap64 (r * b ^ n)"
proof (induction n arbitrary: r)
  case (Suc n)
  then show ?case using Suc [of "r * b"] by (simp add: mult.assoc)
qed simp

lemma go_pow_wrap: "go_pow b n = wrap64 (b ^ nat n)"
proof -
  have "pow_loop (nat n) b (wrap64 1) = wrap64 (1 * b ^ nat n)" by (rule pow_loop_wrap)
  then show ?thesis by (simp add: go_pow_def wrap64_nonneg)
qed

lemma base_delay_wrap:
  assumes "ro_Policy opts = RetryPolicyExponential" and "1 \<le> n" and "n < 2 ^ 31"
  shows "base_delay opts n = wrap64 ((2 ^ nat (n - 1) - 1) * ro_RetryDelay opts)"
proof -
  have w: "wrap32 (n - 1) = n - 1" using assms(2,3) by (simp add: wrap32_nonneg)
  have "wrap64 (go_pow 2 (n - 1) - 1) = wrap64 (2 ^ nat (n - 1) - 1)"
    unfolding go_pow_wrap by (rule wrap64_eq) (metis mod_diff_left_eq wrap64_mod)
  then show ?thesis using assms(1) w by (simp add: base_delay_def)
qed

text \<open>Once the power of two shifts \<open>RetryDelay\<close> out of 64 bits, only the -1 is left of the factor.\<close>

lemma base_delay_shifted_out:
  assumes "ro_Policy opts = RetryPolicyExponential" and "1 \<le> n" and "n < 2 ^ 31"
    and "2 ^ 64 dvd 2 ^ nat (n - 1) * ro_RetryDelay opts"
    and "0 \<le> ro_RetryDelay opts" and "ro_RetryDelay opts < 2 ^ 63"
  shows "base_delay opts n = - ro_RetryDelay opts"
proof -
  let ?r = "ro_RetryDelay opts"
  from assms(4) obtain c where c: "2 ^ nat (n - 1) * ?r = 2 ^ 64 * c" by (auto elim: dvdE)
  have "base_delay opts n = wrap64 (2 ^ 64 * c - ?r)"
    unfolding base_delay_wrap [OF assms(1-3)] c [symmetric] by (simp add: algebra_simps)
  also have "\<dots> = wrap64 (- ?r)" by (rule wrap64_eq) (metis diff_0 mod_diff_left_eq mod_mult_self1_is_0)
  also have "\<dots> = - ?r" using assms(5,6) by (intro wrap64_id) (simp add: is_int64_def)
  finally show ?thesis .
qed

lemma calcDelay_negative:
  assumes "jitter_ok j" and "base_delay opts n = - d" and "2 \<le> d" and "1301 * d < 1000 * 2 ^ 63"
  shows "calcDelay ovf j opts n < 0"
proof -
  have d0: "0 \<le> d" using assms(3) by simp
  have "scale_float32 ovf j (- d) = - scale_float32 ovf j d"
    using assms(1) d0 assms(4) by (rule scale_float32_minus)
  moreover have "799 * d \<le> 1000 * (scale_float32 ovf j d + 1)"
    using assms(1) d0 assms(4) by (rule scale_float32_bounds(3))
  ultimately show ?thesis using assms(2,3) by (simp add: calcDelay_def Let_def)
qed

lemma default_backoff:
  assumes "ro_Policy opts = RetryPolicyExponential" and "ro_RetryDelay opts = 0"
    and "ro_MaxRetryDelay opts = 0"
  shows "ro_Policy (RetryOptions_defaults opts) = RetryPolicyExponential"
    "ro_RetryDelay (RetryOptions_defaults opts) = 4 * second"
    "ro_MaxRetryDelay (RetryOptions_defaults opts) = 120 * second"
  using assms
  by (simp_all add: RetryOptions_defaults_def RetryPolicyExponential_def IfDefault_def second_def Let_def)

lemma default_shifted_out:
  assumes "54 \<le> n"
  shows "2 ^ 64 dvd 2 ^ nat (n - 1) * (4 * second)"
proof -
  have "nat (n - 1) = 53 + nat (n - 54)" using assms by (simp add: nat_eq_iff)
  then have "2 ^ nat (n - 1) * (4 * second) = 2 ^ 64 * (2 ^ nat (n - 54) * 1953125)"
    by (simp only: power_add) (simp add: second_def)
  then show ?thesis by (rule dvdI)
qed

text \<open>
  C39: The back-off arithmetic overflows for large try numbers. From the 65th try on, whatever
  the retry delay (of at least 2 ns), the power of two is zero modulo two to the power 64 and the
  product is minus the retry delay, so the computed delay is negative and the policy does not
  wait at all, instead of for \<open>MaxRetryDelay\<close>. With the default delays of 4 and 120 seconds this
  is so from the 54th try on, and once already at the 33rd. (In between the sign of the wrapped
  product changes from try to try, and a positive one is cut to \<open>MaxRetryDelay\<close>.)
\<close>

theorem backoff_overflow:
  assumes "jitter_ok j" and "ro_Policy opts = RetryPolicyExponential"
  shows "(2 \<le> ro_RetryDelay opts \<and> 1301 * ro_RetryDelay opts < 1000 * 2 ^ 63 \<longrightarrow>
       (\<forall>n. 65 \<le> n \<and> n < 2 ^ 31 \<longrightarrow>
         base_delay opts n = - ro_RetryDelay opts \<and> calcDelay ovf j opts n < 0))
     \<and> (ro_RetryDelay opts = 0 \<and> ro_MaxRetryDelay opts = 0 \<longrightarrow>
       ro_MaxRetryDelay (RetryOptions_defaults opts) = 120 * second
       \<and> (\<forall>n. n = 33 \<or> 54 \<le> n \<and> n < 2 ^ 31 \<longrightarrow> calcDelay ovf j (RetryOptions_defaults opts) n < 0))"
proof (intro conjI impI allI)
  fix n :: int
  let ?r = "ro_RetryDelay opts"
  assume r: "2 \<le> ?r \<and> 1301 * ?r < 1000 * 2 ^ 63" and n: "65 \<le> n \<and> n < 2 ^ 31"
  have "(2 :: int) ^ 64 dvd 2 ^ nat (n - 1)" using n by (intro le_imp_power_dvd) linarith
  then show "base_delay opts n = - ?r"
    using n r by (intro base_delay_shifted_out [OF assms(2)]) (simp_all add: dvd_mult2)
  then show "calcDelay ovf j opts n < 0" using r calcDelay_negative [OF assms(1)] by blast
next
  assume z: "ro_RetryDelay opts = 0 \<and> ro_MaxRetryDelay opts = 0"
  let ?o = "RetryOptions_defaults opts"
  note o = default_backoff [OF assms(2) conjunct1 [OF z] conjunct2 [OF z]]
  show "ro_MaxRetryDelay ?o = 120 * second" by (rule o(3))
  fix n :: int
  assume n: "n = 33 \<or> 54 \<le> n \<and> n < 2 ^ 31"
  have "base_delay ?o n = - (4 * second)" if "54 \<le> n" "n < 2 ^ 31"
    using that default_shifted_out [of n] o(2)
    by (intro trans [OF base_delay_shifted_out [OF o(1)]]) (simp_all add: second_def)
  moreover have "base_delay ?o 33 = - 1266874893709551616"
    using o by (simp add: base_delay_wrap second_def wrap64_def)
  ultimately consider "base_delay ?o n = - (4 * second)" | "base_delay ?o n = - 1266874893709551616"
    using n by blast
  then show "calcDelay ovf j ?o n < 0"
    by cases (erule calcDelay_negative [OF assms(1)]; simp add: second_def)+
qed

theorem backoff_overflow_witness:
  "calcDelay 0 16777216 (RetryOptions_defaults example_options) 33 < 0
   \<and> calcDelay 0 16777216 (RetryOptions_defaults example_options) 60 < 0
   \<and> calcDelay 0 16777216 (RetryOptions_defaults example_options) 100 < 0"
  using backoff_overflow [of 16777216 example_options 0]
  by (simp add: jitter_ok_def example_options_def RetryPolicyExponential_def)

end
