(* ===== verification/Uuid.thy ===== *)
theory Uuid
  imports Go_Strings
begin

unbundle bit_operations_syntax

text \<open>
  zc\_uuid.go: generation, printing and parsing of the identifiers the unique-request-id
  policy sends. The sixteen random bytes of \<open>crypto/rand\<close> are the argument of \<open>newUUID\<close>.
\<close>

type_synonym uuid = "8 word list"  \<comment> \<open>\<open>[16]byte\<close>: the length is sixteen\<close>

definition uuid_ok :: "uuid \<Rightarrow> bool" where
  "uuid_ok u \<longleftrightarrow> length u = 16"

definition reservedRFC4122 :: "8 word" where
  "reservedRFC4122 = 0x40"

definition newUUID :: "8 word list \<Rightarrow> uuid" where
  "newUUID random =
     (let u = random;
          u = u[8 := (u ! 8 OR reservedRFC4122) AND 0x7F];
          version = (4 :: 8 word);
          u = u[6 := (u ! 6 AND 0xF) OR push_bit 4 version]
      in u)"

text \<open>The \<open>%x\<close> verb on a byte slice: two lower-case digits a byte.\<close>

definition hex_byte :: "8 word \<Rightarrow> string" where
  "hex_byte b = [lowerhex (unat b div 16), lowerhex (unat b mod 16)]"

definition hex_bytes :: "8 word list \<Rightarrow> string" where
  "hex_bytes bs = concat (map hex_byte bs)"

definition slice :: "nat \<Rightarrow> nat \<Rightarrow> 'a list \<Rightarrow> 'a list" where
  "slice i j xs = take (j - i) (drop i xs)"

definition uuid_String :: "uuid \<Rightarrow> string" where
  "uuid_String u =
     hex_bytes (slice 0 4 u) @ ''-'' @ hex_bytes (slice 4 6 u) @ ''-'' @ hex_bytes (slice 6 8 u)
       @ ''-'' @ hex_bytes (slice 8 10 u) @ ''-'' @ hex_bytes (drop 10 u)"

text \<open>
  \<open>char\<close> ignores the error of \<open>strconv.ParseUint(s, 16, 8)\<close>, whose value is then zero.
  A slice expression beyond the end of the string panics.
\<close>

definition uuid_char :: "string \<Rightarrow> 8 word" where
  "uuid_char s =
     (if s \<noteq> [] \<and> list_all ishex s then of_nat (foldl (\<lambda>n c. 16 * n + unhex c) 0 s) else 0)"

definition index_panic :: "'a exec" where
  "index_panic = Panic ''runtime error: slice bounds out of range''"

definition uuid_offsets :: "nat list" where
  "uuid_offsets = [0, 2, 4, 6, 9, 11, 14, 16, 19, 21, 24, 26, 28, 30, 32, 34]"

definition parseUUID :: "string \<Rightarrow> uuid exec" where
  "parseUUID s0 =
     (case s0 of
        [] \<Rightarrow> Panic ''runtime error: index out of range''
      | c # cs \<Rightarrow>
          let s = (if c = CHR ''{'' then cs else s0) in
          if length s < 36 then index_panic
          else Return (map (\<lambda>i. uuid_char (slice i (i + 2) s)) uuid_offsets))"

section \<open>Printing and parsing\<close>

lemma unat_byte_less: "unat (b :: 8 word) < 256"
  using unsigned_less [of b] by simp

lemma hex_byte_parse [simp]: "uuid_char (hex_byte b) = b"
proof -
  have "unat b < 256" by (rule unat_byte_less)
  then have d: "unat b div 16 < 16" "unat b mod 16 < 16" by (auto simp: div_less_iff_less_mult)
  have "16 * (unat b div 16) + unat b mod 16 = unat b" by simp
  with d show ?thesis by (simp add: uuid_char_def hex_byte_def)
qed

lemma length_hex_byte [simp]: "length (hex_byte b) = 2"
  by (simp add: hex_byte_def)

lemma hex_byte_not_brace: "hd (hex_byte b) \<noteq> CHR ''{''"
proof
  have "unat b < 256" by (rule unat_byte_less)
  then have "unat b div 16 < 16" by (auto simp: div_less_iff_less_mult)
  then have "ishex (hd (hex_byte b))" by (simp add: hex_byte_def)
  moreover assume "hd (hex_byte b) = CHR ''{''"
  ultimately show False by (simp add: ishex_def byte_of_def)
qed

lemma uuid_ok_cases:
  assumes "uuid_ok u"
  obtains a b c d e f g h i j k l m n p q where "u = [a,b,c,d,e,f,g,h,i,j,k,l,m,n,p,q]"
  using assms unfolding uuid_ok_def
  by (auto simp: length_Suc_conv eval_nat_numeral)

lemma uuid_String_chars:
  "uuid_String [a,b,c,d,e,f,g,h,i,j,k,l,m,n,p,q] =
    hex_byte a @ hex_byte b @ hex_byte c @ hex_byte d @ ''-'' @ hex_byte e @ hex_byte f @ ''-'' @
    hex_byte g @ hex_byte h @ ''-'' @ hex_byte i @ hex_byte j @ ''-'' @ hex_byte k @ hex_byte l @
    hex_byte m @ hex_byte n @ hex_byte p @ hex_byte q"
  by (simp add: uuid_String_def slice_def hex_bytes_def eval_nat_numeral)


lemma length_uuid_String: "uuid_ok u \<Longrightarrow> length (uuid_String u) = 36"
  by (erule uuid_ok_cases) (simp add: uuid_String_chars)

lemma uuid_String_slices:
  "map (\<lambda>o'. slice o' (o' + 2) (uuid_String [a,b,c,d,e,f,g,h,i,j,k,l,m,n,p,q])) uuid_offsets =
     map hex_byte [a,b,c,d,e,f,g,h,i,j,k,l,m,n,p,q]"
  by (simp add: uuid_String_chars uuid_offsets_def slice_def)

lemma parse_digits:
  assumes "uuid_ok u"
  shows "map (\<lambda>i. uuid_char (slice i (i + 2) (uuid_String u))) uuid_offsets = u"
  using assms
proof (rule uuid_ok_cases)
  fix a b c d e f g h i j k l m n p q
  assume u: "u = [a,b,c,d,e,f,g,h,i,j,k,l,m,n,p,q]"
  have "map uuid_char (map (\<lambda>i. slice i (i + 2) (uuid_String u)) uuid_offsets) =
      map uuid_char (map hex_byte u)"
    unfolding u by (simp only: uuid_String_slices)
  then show ?thesis by (simp add: comp_def)
qed

lemma uuid_String_not_brace:
  assumes "uuid_ok u"
  shows "\<exists>c cs. uuid_String u = c # cs \<and> c \<noteq> CHR ''{''"
  using assms hex_byte_not_brace
  by (auto elim!: uuid_ok_cases simp: uuid_String_chars) (auto simp: hex_byte_def)

definition uuid_dec :: "string \<Rightarrow> uuid option" where
  "uuid_dec s = (case parseUUID s of Return u \<Rightarrow> Some u | Panic _ \<Rightarrow> None)"

lemma parseUUID_String:
  assumes "uuid_ok u"
  shows "parseUUID (uuid_String u) = Return u"
    and "parseUUID (''{'' @ uuid_String u @ ''}'') = Return u"
proof -
  obtain c cs where s: "uuid_String u = c # cs" and c: "c \<noteq> CHR ''{''"
    using uuid_String_not_brace [OF assms] by blast
  have len: "length (c # cs) = 36" using length_uuid_String [OF assms] s by simp
  have map: "map (\<lambda>i. uuid_char (slice i (i + 2) (c # cs))) uuid_offsets = u"
    using parse_digits [OF assms] s by simp
  with len c s show "parseUUID (uuid_String u) = Return u"
    by (simp add: parseUUID_def Let_def)
  have "slice i (i + 2) ((c # cs) @ ''}'') = slice i (i + 2) (c # cs)" if "i \<in> set uuid_offsets" for i
    using that len by (auto simp: slice_def uuid_offsets_def)
  then have "map (\<lambda>i. uuid_char (slice i (i + 2) ((c # cs) @ ''}''))) uuid_offsets = u"
    by (subst map [symmetric]) (rule map_cong, simp_all)
  with len s show "parseUUID (''{'' @ uuid_String u @ ''}'') = Return u"
    by (simp add: parseUUID_def Let_def)
qed

interpretation uuidCodec: codec uuid_ok uuid_String uuid_dec
  by unfold_locales (simp add: uuid_dec_def parseUUID_String)

text \<open>
  Parsing what \<open>String\<close> prints, with or without the braces \<open>parseUUID\<close> allows, gives
  the identifier back and never panics, and two different identifiers never print the same.
\<close>

theorem uuid_roundtrip:
  assumes "uuid_ok u"
  shows "parseUUID (uuid_String u) = Return u
     \<and> parseUUID (''{'' @ uuid_String u @ ''}'') = Return u
     \<and> (\<forall>v. uuid_ok v \<and> uuid_String v = uuid_String u \<longrightarrow> v = u)"
  using parseUUID_String [OF assms] uuidCodec.enc_inj [OF _ assms] by auto

theorem uuid_roundtrip_witness:
  "parseUUID (uuid_String (replicate 16 0xAB)) = Return (replicate 16 (0xAB :: 8 word))"
  using uuid_roundtrip [of "replicate 16 (0xAB :: 8 word)"] by (simp add: uuid_ok_def)

section \<open>Version and variant\<close>

lemma version_bits:
  "drop_bit 4 ((w AND 0xF) OR push_bit 4 4) = (4 :: 8 word)"
  "take_bit 4 ((w AND 0xF) OR push_bit 4 4) = take_bit 4 w"
proof -
  have "w AND 0xF = take_bit 4 w" by (simp add: take_bit_eq_mask mask_numeral)
  then show "drop_bit 4 ((w AND 0xF) OR push_bit 4 4) = (4 :: 8 word)"
    by (simp add: drop_bit_or drop_bit_take_bit)
  show "take_bit 4 ((w AND 0xF) OR push_bit 4 4) = take_bit 4 w"
    by (simp add: take_bit_eq_mask mask_numeral and.assoc bit.conj_disj_distrib2)
qed

lemma variant_bits:
  "drop_bit 6 ((w OR 0x40) AND 0x7F) = (1 :: 8 word)"
  "take_bit 6 ((w OR 0x40) AND 0x7F) = take_bit 6 w"
  by (rule bit_word_eqI, auto simp: drop_bit_or drop_bit_and bit_simps bit_1_iff)
     (simp add: take_bit_eq_mask mask_numeral and.assoc bit.conj_disj_distrib2)

text \<open>
  C38: Every generated identifier has sixteen bytes and version 4, keeps the other random
  bits, and has the top bits \<open>01\<close> in byte 8. RFC 4122 asks for \<open>10\<close> there, so the variant
  the code writes is never the RFC variant, whatever the random source returns.
\<close>

theorem newUUID_layout:
  assumes "length random = 16"
  shows "uuid_ok (newUUID random)
    \<and> drop_bit 4 (newUUID random ! 6) = 4
    \<and> take_bit 4 (newUUID random ! 6) = take_bit 4 (random ! 6)
    \<and> drop_bit 6 (newUUID random ! 8) = 1
    \<and> take_bit 6 (newUUID random ! 8) = take_bit 6 (random ! 8)
    \<and> (\<forall>i < 16. i \<noteq> 6 \<and> i \<noteq> 8 \<longrightarrow> newUUID random ! i = random ! i)
    \<and> drop_bit 6 (newUUID random ! 8) \<noteq> 2"
  using assms
  by (simp add: newUUID_def uuid_ok_def reservedRFC4122_def version_bits variant_bits
      nth_list_update)
     (simp add: take_bit_eq_mask mask_numeral and.assoc)

theorem newUUID_layout_witness:
  "drop_bit 6 (newUUID (replicate 16 0xFF) ! 8) = 1 \<and> newUUID (replicate 16 0xFF) ! 8 = 0x7F"
proof
  show "drop_bit 6 (newUUID (replicate 16 0xFF) ! 8) = 1"
    using newUUID_layout [of "replicate 16 0xFF"] by simp
  show "newUUID (replicate 16 0xFF) ! 8 = 0x7F"
    by (simp add: newUUID_def reservedRFC4122_def)
qed

end
