(* ===== verification/Validation.thy ===== *)
theory Validation
  imports Go_Http Complex_Main
begin

text \<open>
  zz\_generated\_validation.go: the constraints the generated clients put on their arguments,
  and the recursive check of an argument against them. Arguments are seen through
  reflection: a value is its kind and content. A pointer carries its address, because
  pointers are compared by address. Elements of one slice or map have one static type, so
  comparing them does not involve comparing dynamic types. Regular expressions are an
  argument \<open>regexp\<close>; no constraint of the package uses them.
\<close>

section \<open>Values, rules and constraints\<close>

datatype go_float = Finite rat | PosInf | NegInf | NaN

fun float_less :: "go_float \<Rightarrow> go_float \<Rightarrow> bool" where
  "float_less (Finite a) (Finite b) \<longleftrightarrow> a < b"
| "float_less NegInf (Finite b) \<longleftrightarrow> True"
| "float_less NegInf PosInf \<longleftrightarrow> True"
| "float_less (Finite a) PosInf \<longleftrightarrow> True"
| "float_less _ _ \<longleftrightarrow> False"

fun float_eq :: "go_float \<Rightarrow> go_float \<Rightarrow> bool" where
  "float_eq NaN _ \<longleftrightarrow> False"
| "float_eq a b \<longleftrightarrow> a = b"

definition float_le :: "go_float \<Rightarrow> go_float \<Rightarrow> bool" where
  "float_le a b \<longleftrightarrow> float_less a b \<or> float_eq a b"

datatype gval =
    GPtr "(nat \<times> gval) option"
  | GStr string
  | GStruct "(string \<times> gval) list"
  | GInt int
  | GFloat go_float
  | GArray "gval list"
  | GSlice "gval list option"
  | GMap "(gval \<times> gval) list option"
  | GOther string   \<comment> \<open>any other kind, by the name of the kind\<close>

datatype rule = RNil | RBool bool | RInt int | RFloat go_float | RString string

datatype vconstraint =
  Constraint (c_target: string) (c_name: string) (c_rule: rule) (c_chain: "vconstraint list option")

text \<open>The names of the constraints.\<close>

definition empty_c :: string where "empty_c = ''Empty''"
definition null_c :: string where "null_c = ''Null''"
definition readOnly :: string where "readOnly = ''ReadOnly''"
definition pattern_c :: string where "pattern_c = ''Pattern''"
definition maxLength :: string where "maxLength = ''MaxLength''"
definition minLength :: string where "minLength = ''MinLength''"
definition maxItems :: string where "maxItems = ''MaxItems''"
definition minItems :: string where "minItems = ''MinItems''"
definition multipleOf :: string where "multipleOf = ''MultipleOf''"
definition uniqueItems :: string where "uniqueItems = ''UniqueItems''"
definition inclusiveMaximum :: string where "inclusiveMaximum = ''InclusiveMaximum''"
definition exclusiveMaximum :: string where "exclusiveMaximum = ''ExclusiveMaximum''"
definition exclusiveMinimum :: string where "exclusiveMinimum = ''ExclusiveMinimum''"
definition inclusiveMinimum :: string where "inclusiveMinimum = ''InclusiveMinimum''"

lemmas constraint_names = empty_c_def null_c_def readOnly_def pattern_c_def maxLength_def minLength_def
  maxItems_def minItems_def multipleOf_def uniqueItems_def inclusiveMaximum_def exclusiveMaximum_def
  exclusiveMinimum_def inclusiveMinimum_def

text \<open>
  The details of a validation error: one constructor for each message of the code, with the
  values the message prints.
\<close>

datatype detail =
    UnknownType string
  | FieldDoesntExist string
  | ReadonlyParameter
  | RuleMustBe string string rule
  | MustBeMultipleOf int
  | MustBeGreaterThan rule
  | MustBeLessThan rule
  | MustBeAtLeast rule
  | MustBeAtMost rule
  | NotApplicable string string
  | BadPattern string
  | DoesntMatch rule
  | LengthMustBeLess rule
  | LengthMustBeGreater rule
  | MaximumItemLimit rule nat
  | MinimumItemLimit rule nat
  | MustBeUnique string
  | KeyDoesntMatch rule
  | CannotBeNull
  | CannotBeNullOrEmpty

text \<open>\<open>createError\<close>: parameter, constraint, value, details.\<close>

record validation_error =
  ve_parameter :: string
  ve_constraint :: string
  ve_value :: gval
  ve_details :: detail

type_synonym verdict = "validation_error option exec"

definition createError :: "gval \<Rightarrow> vconstraint \<Rightarrow> detail \<Rightarrow> verdict" where
  "createError x v d = Return (Some \<lparr>ve_parameter = c_target v, ve_constraint = c_name v,
     ve_value = x, ve_details = d\<rparr>)"

section \<open>Checks without recursion\<close>

definition checkNil :: "gval \<Rightarrow> vconstraint \<Rightarrow> verdict" where
  "checkNil x v =
     (case c_rule v of
        RBool b \<Rightarrow> if b then createError x v CannotBeNull else Return None
      | r \<Rightarrow> createError x v (RuleMustBe ''bool'' (c_name v) r))"

definition checkEmpty :: "gval \<Rightarrow> vconstraint \<Rightarrow> verdict" where
  "checkEmpty x v =
     (case c_rule v of
        RBool b \<Rightarrow> if b then createError x v CannotBeNullOrEmpty else Return None
      | r \<Rightarrow> createError x v (RuleMustBe ''bool'' (c_name v) r))"

definition validateInt :: "int \<Rightarrow> vconstraint \<Rightarrow> verdict" where
  "validateInt i v =
     (case c_rule v of
        RInt r \<Rightarrow>
          (let x = GInt i in
           if c_name v = multipleOf then
             (if r = 0 then Panic ''runtime error: integer divide by zero''
              else if go_mod i r \<noteq> 0 then createError x v (MustBeMultipleOf r) else Return None)
           else if c_name v = exclusiveMinimum then
             (if i \<le> r then createError x v (MustBeGreaterThan (RInt r)) else Return None)
           else if c_name v = exclusiveMaximum then
             (if i \<ge> r then createError x v (MustBeLessThan (RInt r)) else Return None)
           else if c_name v = inclusiveMinimum then
             (if i < r then createError x v (MustBeAtLeast (RInt r)) else Return None)
           else if c_name v = inclusiveMaximum then
             (if i > r then createError x v (MustBeAtMost (RInt r)) else Return None)
           else createError x v (NotApplicable (c_name v) ''integer''))
      | r \<Rightarrow> createError (GInt i) v (RuleMustBe ''integer'' (c_name v) r))"

definition validateFloat :: "go_float \<Rightarrow> vconstraint \<Rightarrow> verdict" where
  "validateFloat f v =
     (case c_rule v of
        RFloat r \<Rightarrow>
          (let x = GFloat f in
           if c_name v = exclusiveMinimum then
             (if float_le f r then createError x v (MustBeGreaterThan (RFloat r)) else Return None)
           else if c_name v = exclusiveMaximum then
             (if float_le r f then createError x v (MustBeLessThan (RFloat r)) else Return None)
           else if c_name v = inclusiveMinimum then
             (if float_less f r then createError x v (MustBeAtLeast (RFloat r)) else Return None)
           else if c_name v = inclusiveMaximum then
             (if float_less r f then createError x v (MustBeAtMost (RFloat r)) else Return None)
           else createError x v (NotApplicable (c_name v) ''float''))
      | r \<Rightarrow> createError (GFloat f) v (RuleMustBe ''float'' (c_name v) r))"

section \<open>Uniqueness\<close>

fun hashable :: "gval \<Rightarrow> bool" where
  "hashable (GStruct fs) = list_all (\<lambda>(n, x). hashable x) fs"
| "hashable (GArray xs) = list_all hashable xs"
| "hashable (GSlice xs) = False"
| "hashable (GMap m) = False"
| "hashable x = True"

text \<open>
  Go's equality on hashable values of one type: pointers are compared by address, and a
  not-a-number is unequal to everything.
\<close>

fun identity_of :: "gval \<Rightarrow> gval" where
  "identity_of (GPtr p) = GPtr (map_option (\<lambda>(a, x). (a, GOther [])) p)"
| "identity_of (GStruct fs) = GStruct (map (\<lambda>(n, x). (n, identity_of x)) fs)"
| "identity_of (GArray xs) = GArray (map identity_of xs)"
| "identity_of x = x"

fun has_nan :: "gval \<Rightarrow> bool" where
  "has_nan (GFloat f) \<longleftrightarrow> f = NaN"
| "has_nan (GStruct fs) \<longleftrightarrow> list_ex (\<lambda>(n, x). has_nan x) fs"
| "has_nan (GArray xs) \<longleftrightarrow> list_ex has_nan xs"
| "has_nan x \<longleftrightarrow> False"

definition go_eq :: "gval \<Rightarrow> gval \<Rightarrow> bool" where
  "go_eq x y \<longleftrightarrow> identity_of x = identity_of y \<and> \<not> has_nan x"

text \<open>The loop over the values with the map \<open>m\<close> of those seen.\<close>

fun unique_loop :: "gval list \<Rightarrow> gval list \<Rightarrow> bool exec" where
  "unique_loop m [] = Return True"
| "unique_loop m (val # vals) =
     (if \<not> hashable val then Panic ''runtime error: hash of unhashable type''
      else if list_ex (go_eq val) m then Return False
      else unique_loop (val # m) vals)"

text \<open>
  The comparison with \<open>reflect.Zero\<close> in the source compares values of different types and is
  always false.
\<close>

definition checkForUniqueInArray :: "gval list \<Rightarrow> bool exec" where
  "checkForUniqueInArray xs = (if length xs = 0 then Return False else unique_loop [] xs)"

definition checkForUniqueInMap :: "(gval \<times> gval) list \<Rightarrow> bool exec" where
  "checkForUniqueInMap m = (if length m = 0 then Return False else unique_loop [] (map snd m))"

section \<open>The recursive check\<close>

text \<open>The last component of a dotted target.\<close>

definition last_component :: "string \<Rightarrow> string" where
  "last_component s = rev (takeWhile (\<lambda>c. c \<noteq> CHR ''.'') (rev s))"

definition exported :: "string \<Rightarrow> bool" where
  "exported n \<longleftrightarrow> (case n of c # _ \<Rightarrow> 65 \<le> byte_of c \<and> byte_of c \<le> 90 | [] \<Rightarrow> False)"

type_synonym regexps = "string \<Rightarrow> string + (string \<Rightarrow> bool)"

lemma size_chain: "c_chain v = Some ch \<Longrightarrow> size_list size ch < size v"
  by (cases v) simp

lemma size_constraint_pos: "0 < size (v :: vconstraint)"
  by (cases v) simp

lemma size_field: "map_of fs n = Some x \<Longrightarrow> size x < size (GStruct fs)"
  by (induction fs) (auto split: if_splits)

definition key_string :: "gval \<Rightarrow> string" where
  "key_string k = (case k of GStr s \<Rightarrow> s | _ \<Rightarrow> ''<Value>'')"

fun check_keys :: "(string \<Rightarrow> bool) \<Rightarrow> vconstraint \<Rightarrow> gval list \<Rightarrow> verdict" where
  "check_keys match v [] = Return None"
| "check_keys match v (k # ks) =
     (if \<not> match (key_string k) then createError k v (KeyDoesntMatch (c_rule v)) else check_keys match v ks)"

text \<open>What the switches decide before the chain is looked at.\<close>

definition compile_rule :: "regexps \<Rightarrow> rule \<Rightarrow> (string + (string \<Rightarrow> bool)) exec" where
  "compile_rule regexp r =
     (case r of RString s \<Rightarrow> Return (regexp s) | _ \<Rightarrow> Panic ''interface conversion: interface {} is not string'')"

definition string_switch :: "regexps \<Rightarrow> string \<Rightarrow> vconstraint \<Rightarrow> verdict" where
  "string_switch regexp s v =
     (let x = GStr s; len = int (length s) in
      if c_name v = empty_c then (if len = 0 then checkEmpty x v else Return None)
      else if c_name v = pattern_c then
        bind_exec (compile_rule regexp (c_rule v)) (\<lambda>reg.
          case reg of Inl err \<Rightarrow> createError x v (BadPattern err)
          | Inr match \<Rightarrow> if \<not> match s then createError x v (DoesntMatch (c_rule v)) else Return None)
      else if c_name v = maxLength then
        (case c_rule v of
           RInt r \<Rightarrow> if len > r then createError x v (LengthMustBeLess (RInt r)) else Return None
         | r \<Rightarrow> createError x v (RuleMustBe ''integer'' (c_name v) r))
      else if c_name v = minLength then
        (case c_rule v of
           RInt r \<Rightarrow> if len < r then createError x v (LengthMustBeGreater (RInt r)) else Return None
         | r \<Rightarrow> createError x v (RuleMustBe ''integer'' (c_name v) r))
      else if c_name v = readOnly then
        (if len > 0 then createError x v ReadonlyParameter else Return None)
      else createError x v (NotApplicable (c_name v) ''string''))"

definition array_is_nil :: "gval \<Rightarrow> bool exec" where
  "array_is_nil x =
     (case x of GSlice s \<Rightarrow> Return (s = None) | GMap m \<Rightarrow> Return (m = None)
      | _ \<Rightarrow> Panic ''reflect: call of reflect.Value.IsNil on array Value'')"

definition array_len :: "gval \<Rightarrow> nat" where
  "array_len x =
     (case x of GArray xs \<Rightarrow> length xs
      | GSlice s \<Rightarrow> (case s of None \<Rightarrow> 0 | Some xs \<Rightarrow> length xs)
      | GMap m \<Rightarrow> (case m of None \<Rightarrow> 0 | Some kvs \<Rightarrow> length kvs) | _ \<Rightarrow> 0)"

definition check_unique :: "gval \<Rightarrow> bool exec" where
  "check_unique x =
     (case x of GArray xs \<Rightarrow> checkForUniqueInArray xs
      | GSlice s \<Rightarrow> checkForUniqueInArray (case s of None \<Rightarrow> [] | Some xs \<Rightarrow> xs)
      | GMap m \<Rightarrow> checkForUniqueInMap (case m of None \<Rightarrow> [] | Some kvs \<Rightarrow> kvs)
      | _ \<Rightarrow> Return False)"

definition array_switch :: "regexps \<Rightarrow> gval \<Rightarrow> vconstraint \<Rightarrow> verdict" where
  "array_switch regexp x v =
     (let len = int (array_len x) in
      if c_name v = null_c then
        bind_exec (array_is_nil x) (\<lambda>n. if n then checkNil x v else Return None)
      else if c_name v = empty_c then
        bind_exec (array_is_nil x) (\<lambda>n. if n \<or> len = 0 then checkEmpty x v else Return None)
      else if c_name v = maxItems then
        (case c_rule v of
           RInt r \<Rightarrow> if len > r then createError x v (MaximumItemLimit (RInt r) (array_len x)) else Return None
         | r \<Rightarrow> createError x v (RuleMustBe ''integer'' (c_name v) r))
      else if c_name v = minItems then
        (case c_rule v of
           RInt r \<Rightarrow> if len < r then createError x v (MinimumItemLimit (RInt r) (array_len x)) else Return None
         | r \<Rightarrow> createError x v (RuleMustBe ''integer'' (c_name v) r))
      else if c_name v = uniqueItems then
        bind_exec (check_unique x) (\<lambda>u. if \<not> u then createError x v (MustBeUnique (c_target v)) else Return None)
      else if c_name v = readOnly then
        (if len \<noteq> 0 then createError x v ReadonlyParameter else Return None)
      else if c_name v = pattern_c then
        bind_exec (compile_rule regexp (c_rule v)) (\<lambda>reg.
          case reg of Inl err \<Rightarrow> createError x v (BadPattern err)
          | Inr match \<Rightarrow>
              (case x of GMap m \<Rightarrow> check_keys match v (map fst (case m of None \<Rightarrow> [] | Some kvs \<Rightarrow> kvs))
               | _ \<Rightarrow> Panic ''reflect: call of reflect.Value.MapKeys on slice Value''))
      else createError x v (NotApplicable (c_name v) ''array, slice and map''))"

definition and_then :: "verdict \<Rightarrow> verdict \<Rightarrow> verdict" where
  "and_then r s = bind_exec r (\<lambda>e. case e of Some err \<Rightarrow> Return (Some err) | None \<Rightarrow> s)"

lemma and_then_cong [fundef_cong]:
  "r = r' \<Longrightarrow> (r' = Return None \<Longrightarrow> s = s') \<Longrightarrow> and_then r s = and_then r' s'"
  by (cases r') (auto simp: and_then_def split: option.split)

text \<open>
  The functions of the source, mutually recursive through \<open>validate\<close>; \<open>validate_kind\<close> is the
  switch over the kinds and \<open>validate_constraints\<close> the loop over the constraints of one value.
  \<open>validate_chain\<close> is the tail shared by the functions that look at the chain.
\<close>

function validate_kind :: "regexps \<Rightarrow> gval \<Rightarrow> vconstraint \<Rightarrow> verdict"
  and validatePtr :: "regexps \<Rightarrow> (nat \<times> gval) option \<Rightarrow> vconstraint \<Rightarrow> verdict"
  and validateStruct :: "regexps \<Rightarrow> (string \<times> gval) list \<Rightarrow> vconstraint \<Rightarrow> verdict"
  and validateString :: "regexps \<Rightarrow> string \<Rightarrow> vconstraint \<Rightarrow> verdict"
  and validateArrayMap :: "regexps \<Rightarrow> gval \<Rightarrow> vconstraint \<Rightarrow> verdict"
  and validate_chain :: "regexps \<Rightarrow> gval \<Rightarrow> vconstraint list option \<Rightarrow> verdict"
  and validate_constraints :: "regexps \<Rightarrow> gval \<Rightarrow> vconstraint list \<Rightarrow> verdict" where
  "validate_kind regexp x v =
     (case x of
        GPtr p \<Rightarrow> validatePtr regexp p v
      | GStr s \<Rightarrow> validateString regexp s v
      | GStruct fs \<Rightarrow> validateStruct regexp fs v
      | GInt i \<Rightarrow> validateInt i v
      | GFloat f \<Rightarrow> validateFloat f v
      | GOther k \<Rightarrow> createError x v (UnknownType k)
      | _ \<Rightarrow> validateArrayMap regexp x v)"
| "validatePtr regexp p v =
     (if c_name v = readOnly then
        (case p of Some (_, y) \<Rightarrow> createError y v ReadonlyParameter | None \<Rightarrow> Return None)
      else (case p of
         None \<Rightarrow> checkNil (GPtr p) v
       | Some (_, y) \<Rightarrow> validate_chain regexp y (c_chain v)))"
| "validateStruct regexp fs v =
     (case map_of fs (last_component (c_target v)) of
        None \<Rightarrow> createError (GStruct fs) v (FieldDoesntExist (c_target v))
      | Some f \<Rightarrow>
          if exported (last_component (c_target v)) then validate_kind regexp f v
          else Panic ''reflect.Value.Interface: cannot return value obtained from unexported field or method'')"
| "validateString regexp s v =
     and_then (string_switch regexp s v) (validate_chain regexp (GStr s) (c_chain v))"
| "validateArrayMap regexp x v =
     and_then (array_switch regexp x v) (validate_chain regexp x (c_chain v))"
| "validate_chain regexp x chain =
     (case chain of None \<Rightarrow> Return None | Some vs \<Rightarrow> validate_constraints regexp x vs)"
| "validate_constraints regexp x [] = Return None"
| "validate_constraints regexp x (v # vs) =
     and_then (validate_kind regexp x v) (validate_constraints regexp x vs)"
  by pat_completeness auto
termination
  by (relation "measures [\<lambda>a. case a of
        Inl (Inl (_, x, v)) \<Rightarrow> size x + size v
      | Inl (Inr (Inl (_, p, v))) \<Rightarrow> size (GPtr p) + size v
      | Inl (Inr (Inr (_, fs, v))) \<Rightarrow> size (GStruct fs) + size v
      | Inr (Inl (Inl (_, s, v))) \<Rightarrow> size (GStr s) + size v
      | Inr (Inl (Inr (_, x, v))) \<Rightarrow> size x + size v
      | Inr (Inr (Inl (_, x, ch))) \<Rightarrow> size x + (case ch of None \<Rightarrow> 0 | Some vs \<Rightarrow> size_list size vs)
      | Inr (Inr (Inr (_, x, vs))) \<Rightarrow> size x + size_list size vs,
      \<lambda>a. case a of Inl (Inl _) \<Rightarrow> 2 | Inr (Inr (Inr _)) \<Rightarrow> 0 | _ \<Rightarrow> (1::nat)]")
     (auto simp: size_constraint_pos intro: size_field [simplified] dest!: size_chain split: option.splits)

declare validate_kind.simps [simp del]

text \<open>The loop over the arguments.\<close>

fun validate :: "regexps \<Rightarrow> (gval \<times> vconstraint list) list \<Rightarrow> verdict" where
  "validate regexp [] = Return None"
| "validate regexp ((targetValue, constraints) # m) =
     and_then (validate_constraints regexp targetValue constraints) (validate regexp m)"

section \<open>Properties\<close>

lemma and_then_simps [simp]:
  "and_then (Return None) s = s" "and_then (Return (Some e)) s = Return (Some e)" "and_then (Panic m) s = Panic m"
  by (simp_all add: and_then_def)

lemma and_then_assoc: "and_then (and_then r s) u = and_then r (and_then s u)"
  by (cases r) (auto simp: and_then_def split: option.splits)

lemma and_then_Return_None: "and_then r (Return None) = r"
  by (cases r) (auto simp: and_then_def split: option.splits)

lemma and_then_None_iff: "and_then r s = Return None \<longleftrightarrow> r = Return None \<and> s = Return None"
  by (cases r) (auto simp: and_then_def split: option.splits)

lemma validate_constraints_None_iff:
  "validate_constraints regexp x vs = Return None \<longleftrightarrow> (\<forall>v \<in> set vs. validate_kind regexp x v = Return None)"
  by (induction vs) (simp_all add: and_then_None_iff)

lemma createError_not_None [simp]: "createError x v d \<noteq> Return None" "createError x v d \<noteq> Panic m"
  by (simp_all add: createError_def)

text \<open>The shape of constraint the clients use for optional integers.\<close>

definition optional_minimum :: "string \<Rightarrow> int \<Rightarrow> vconstraint" where
  "optional_minimum target lo =
     Constraint target null_c (RBool False)
       (Some [Constraint target inclusiveMinimum (RInt lo) None])"

definition int_ptr :: "int option \<Rightarrow> gval" where
  "int_ptr p = GPtr (map_option (\<lambda>i. (0, GInt i)) p)"

lemma validate_optional_minimum:
  "validate_constraints regexp (int_ptr p) [optional_minimum target lo] =
     (case p of
        Some i \<Rightarrow> if i < lo
          then Return (Some \<lparr>ve_parameter = target, ve_constraint = inclusiveMinimum, ve_value = GInt i,
                 ve_details = MustBeAtLeast (RInt lo)\<rparr>)
          else Return None
      | None \<Rightarrow> Return None)"
  by (cases p) (simp_all add: validate_kind.simps int_ptr_def optional_minimum_def checkNil_def
      validateInt_def createError_def constraint_names)

end
