(* ===== verification/Client.thy ===== *)
theory Client
  imports Storage_Error Validation Go_Base64
begin

text \<open>
  What the generated clients share (zz\_generated\_client.go and the common shape of the
  methods of zz\_generated\_file.go, zz\_generated\_share.go, zz\_generated\_directory.go and
  zz\_generated\_service.go): a method validates its arguments, prepares a request, sends it
  through the pipeline with its responder as the method policy, and asserts the type of the
  response. The package azure-pipeline-go and the XML codec of the standard library are
  the record \<open>lib\<close>; the pipeline a client holds is a field of the client.
\<close>

section \<open>Clients and their surroundings\<close>

definition ServiceVersion :: string where
  "ServiceVersion = ''2018-03-28''"

record lib =
  lib_NewRequest :: "string \<Rightarrow> url \<Rightarrow> string option \<Rightarrow> http_request \<times> go_error option"
  lib_SetBody :: "string \<Rightarrow> http_request \<Rightarrow> http_request \<times> go_error option"
  lib_node :: error_node
  lib_xml :: xml_decoder
  lib_regexp :: regexps
  lib_MarshalSignedIdentifiers :: "SignedIdentifier list \<Rightarrow> go_error + string"
  lib_MarshalServiceProperties :: "StorageServiceProperties \<Rightarrow> go_error + string"
  lib_UnmarshalRanges :: "string \<Rightarrow> Range list \<times> go_error option"
  lib_UnmarshalSignedIdentifiers :: "string \<Rightarrow> SignedIdentifier list \<times> go_error option"
  lib_UnmarshalShareStats :: "string \<Rightarrow> int \<times> go_error option"
  lib_UnmarshalListShares :: "string \<Rightarrow> ListSharesPage \<times> go_error option"
  lib_UnmarshalListFiles :: "string \<Rightarrow> ListFilesPage \<times> go_error option"
  lib_UnmarshalServiceProperties :: "string \<Rightarrow> StorageServiceProperties \<times> go_error option"

text \<open>\<open>Pipeline.Do\<close> sends a request with a given method policy in place.\<close>

type_synonym 'w pipeline = "'w policy \<Rightarrow> 'w sender"

record 'w managementClient =
  mc_url :: url
  mc_p :: "'w pipeline"

definition newManagementClient :: "url \<Rightarrow> 'w pipeline \<Rightarrow> 'w managementClient" where
  "newManagementClient url p = \<lparr>mc_url = url, mc_p = p\<rparr>"

definition managementClient_URL :: "'w managementClient \<Rightarrow> url" where
  "managementClient_URL mc = mc_url mc"

definition managementClient_Pipeline :: "'w managementClient \<Rightarrow> 'w pipeline" where
  "managementClient_Pipeline mc = mc_p mc"

text \<open>
  The results of a method: a response structure or nil, and an error from the validation of
  the arguments, from the preparation of the request, or from the pipeline.
\<close>

record api_response =
  ar_rawResponse :: "http_response option"
  ar_value :: response_value

datatype api_error = Invalid validation_error | Prepare string go_error | Sent go_error | Argument string

type_synonym api_result = "api_response option \<times> api_error option"

section \<open>Preparing requests\<close>

definition start_request ::
    "lib \<Rightarrow> string \<Rightarrow> 'w managementClient \<Rightarrow> string option
      \<Rightarrow> (http_request \<Rightarrow> http_request \<times> api_error option) \<Rightarrow> http_request \<times> api_error option" where
  "start_request lib method client body k =
     (case lib_NewRequest lib method (mc_url client) body of
        (req, Some err) \<Rightarrow> (req, Some (Prepare ''failed to create request'' err))
      | (req, None) \<Rightarrow> k req)"

definition opt_param :: "string \<Rightarrow> string option \<Rightarrow> Values \<Rightarrow> Values" where
  "opt_param k v params = (case v of Some x \<Rightarrow> Values_Set params k x | None \<Rightarrow> params)"

text \<open>A parameter that is also left out when it is the empty string.\<close>

definition nonempty_param :: "string \<Rightarrow> string option \<Rightarrow> Values \<Rightarrow> Values" where
  "nonempty_param k v params =
     (case v of Some x \<Rightarrow> if length x > 0 then Values_Set params k x else params | None \<Rightarrow> params)"

definition set_query :: "Values \<Rightarrow> http_request \<Rightarrow> http_request" where
  "set_query params req = req\<lparr>rq_URL := (rq_URL req)\<lparr>u_RawQuery := Values_Encode params\<rparr>\<rparr>"

definition set_header :: "string \<Rightarrow> string \<Rightarrow> http_request \<Rightarrow> http_request" where
  "set_header k v req = req\<lparr>rq_Header := Header_Set (rq_Header req) k v\<rparr>"

definition opt_header :: "string \<Rightarrow> string option \<Rightarrow> http_request \<Rightarrow> http_request" where
  "opt_header k v req = (case v of Some x \<Rightarrow> set_header k x req | None \<Rightarrow> req)"

definition metadata_headers :: "Metadata \<Rightarrow> http_request \<Rightarrow> http_request" where
  "metadata_headers md req = fold (\<lambda>(k, v) req. set_header (''x-ms-meta-'' @ k) v req) md req"

text \<open>A marshalled body.\<close>

definition xml_body :: "lib \<Rightarrow> go_error + string \<Rightarrow> http_request \<Rightarrow> http_request \<times> api_error option" where
  "xml_body lib b req =
     (case b of
        Inl err \<Rightarrow> (req, Some (Prepare ''failed to marshal request body'' err))
      | Inr d \<Rightarrow>
          (case lib_SetBody lib d (set_header ''Content-Type'' ''application/xml'' req) of
             (req, Some err) \<Rightarrow> (req, Some (Prepare ''failed to set request body'' err))
           | (req, None) \<Rightarrow> (req, None)))"

section \<open>Responders\<close>

text \<open>A body that has been read and closed.\<close>

definition closed_body :: body where
  "closed_body = \<lparr>b_data = [], b_error = Some (ReadPlain ''http: read on closed response body'')\<rparr>"

definition consumed :: "http_response \<Rightarrow> http_response" where
  "consumed r = r\<lparr>rs_Body := Some closed_body\<rparr>"

text \<open>Responders that discard the body.\<close>

definition discard_responder ::
    "lib \<Rightarrow> int list \<Rightarrow> response_value \<Rightarrow> http_response option option \<Rightarrow> reply exec" where
  "discard_responder lib codes value resp =
     bind_exec (validateResponse (lib_node lib) (lib_xml lib) resp codes) (\<lambda>err.
       case resp of
         None \<Rightarrow> Return \<lparr>rp_response = None, rp_value = HTTPResponse, rp_error = err\<rparr>
       | Some None \<Rightarrow> nil_deref
       | Some (Some r) \<Rightarrow>
           (case rs_Body r of
              None \<Rightarrow> nil_deref
            | Some _ \<Rightarrow> Return \<lparr>rp_response = Some (Some (consumed r)), rp_value = value, rp_error = err\<rparr>))"

text \<open>The responder that leaves the body to the caller.\<close>

definition stream_responder ::
    "lib \<Rightarrow> int list \<Rightarrow> response_value \<Rightarrow> http_response option option \<Rightarrow> reply exec" where
  "stream_responder lib codes value resp =
     bind_exec (validateResponse (lib_node lib) (lib_xml lib) resp codes) (\<lambda>err.
       case resp of
         None \<Rightarrow> Return \<lparr>rp_response = None, rp_value = HTTPResponse, rp_error = err\<rparr>
       | Some r \<Rightarrow> Return \<lparr>rp_response = Some r, rp_value = value, rp_error = err\<rparr>)"

text \<open>Responders that decode the body; \<open>zero\<close> is the structure before decoding.\<close>

definition xml_responder ::
    "lib \<Rightarrow> int list \<Rightarrow> ('a \<Rightarrow> response_value) \<Rightarrow> 'a \<Rightarrow> (string \<Rightarrow> 'a \<times> go_error option)
      \<Rightarrow> http_response option option \<Rightarrow> reply exec" where
  "xml_responder lib codes wrap zero decode resp =
     bind_exec (validateResponse (lib_node lib) (lib_xml lib) resp codes) (\<lambda>err.
       case resp of
         None \<Rightarrow> Return \<lparr>rp_response = None, rp_value = HTTPResponse, rp_error = err\<rparr>
       | Some None \<Rightarrow> nil_deref
       | Some (Some r) \<Rightarrow>
           if err \<noteq> None
           then Return \<lparr>rp_response = Some (Some (consumed r)), rp_value = wrap zero, rp_error = err\<rparr>
           else case rs_Body r of
             None \<Rightarrow> nil_deref
           | Some b \<Rightarrow>
               let reply = (\<lambda>v e. \<lparr>rp_response = Some (Some (consumed r)), rp_value = wrap v, rp_error = e\<rparr>) in
               (case b_error b of
                  Some e \<Rightarrow> Return (reply zero (Some (error_of_read e)))
                | None \<Rightarrow>
                    if b_data b \<noteq> [] then
                      (case decode (removeBOM (b_data b)) of
                         (v, None) \<Rightarrow> Return (reply v None)
                       | (v, Some e) \<Rightarrow>
                           bind_exec (NewResponseError (lib_node lib) (Some e) (Some r)
                               ''failed to unmarshal response body'')
                             (\<lambda>se. Return (reply v (Some (StorageErr se)))))
                    else Return (reply zero None)))"

section \<open>Methods\<close>

definition client_call ::
    "lib \<Rightarrow> 'w managementClient \<Rightarrow> (gval \<times> vconstraint list) list \<Rightarrow> http_request \<times> api_error option
      \<Rightarrow> (http_response option option \<Rightarrow> reply exec) \<Rightarrow> (response_value \<Rightarrow> bool)
      \<Rightarrow> 'w \<Rightarrow> (api_result \<times> 'w) exec" where
  "client_call lib client checks prepared responder is_type w =
     bind_exec (validate (lib_regexp lib) checks) (\<lambda>invalid.
       case invalid of
         Some err \<Rightarrow> Return ((None, Some (Invalid err)), w)
       | None \<Rightarrow>
           (case prepared of
              (req, Some err) \<Rightarrow> Return ((None, Some err), w)
            | (req, None) \<Rightarrow>
                bind_exec (mc_p client (responderPolicy_Do responder) req w) (\<lambda>(rep, w).
                  case rp_error rep of
                    Some err \<Rightarrow> Return ((None, Some (Sent err)), w)
                  | None \<Rightarrow>
                      (case rp_response rep of
                         Some raw \<Rightarrow>
                           if is_type (rp_value rep)
                           then Return ((Some \<lparr>ar_rawResponse = raw, ar_value = rp_value rep\<rparr>, None), w)
                           else Panic ''interface conversion: pipeline.Response has another dynamic type''
                       | None \<Rightarrow> Panic ''interface conversion: interface is nil''))))"

definition timeout_check :: "int option \<Rightarrow> gval \<times> vconstraint list" where
  "timeout_check timeout = (int_ptr timeout, [optional_minimum ''timeout'' 0])"

definition quota_check :: "int option \<Rightarrow> gval \<times> vconstraint list" where
  "quota_check quota = (int_ptr quota, [optional_minimum ''quota'' 1])"

definition maxresults_check :: "int option \<Rightarrow> gval \<times> vconstraint list" where
  "maxresults_check maxresults = (int_ptr maxresults, [optional_minimum ''maxresults'' 1])"

section \<open>What a prepared request says\<close>

text \<open>
  The documented behaviour of \<open>NewRequest\<close> and \<open>SetBody\<close>: a request for the given method, URL
  and body, and a request whose body and length are replaced.
\<close>

definition new_request_ok :: "lib \<Rightarrow> bool" where
  "new_request_ok lib \<longleftrightarrow>
     (\<forall>m u b. \<exists>req. lib_NewRequest lib m u b = (req, None)
        \<and> rq_Method req = m \<and> rq_URL req = u \<and> rq_Body req = b)"

definition set_body_ok :: "lib \<Rightarrow> bool" where
  "set_body_ok lib \<longleftrightarrow>
     (\<forall>d req. \<exists>req'. lib_SetBody lib d req = (req', None) \<and> rq_Method req' = rq_Method req
        \<and> rq_URL req' = rq_URL req \<and> rq_Body req' = Some d
        \<and> (\<forall>k. CanonicalMIMEHeaderKey k \<noteq> ''Content-Length'' \<longrightarrow>
             Header_Get (rq_Header req') k = Header_Get (rq_Header req) k))"

text \<open>A header and a query parameter of a request.\<close>

abbreviation hdr :: "http_request \<Rightarrow> string \<Rightarrow> string" where
  "hdr req k \<equiv> Header_Get (rq_Header req) k"

abbreviation param :: "http_request \<Rightarrow> string \<Rightarrow> string list option" where
  "param req k \<equiv> map_of (URL_Query (rq_URL req)) k"

text \<open>Query maps as requests carry them: no key twice, none without a value.\<close>

definition params_ok :: "Values \<Rightarrow> bool" where
  "params_ok v \<longleftrightarrow> go_map_ok v \<and> [] \<notin> snd ` set v"

lemma params_ok_URL_Query [simp]: "params_ok (URL_Query u)"
  by (simp add: params_ok_def URL_Query_def ParseQuery_nonempty)

lemma params_ok_Values_Set [simp]:
  assumes "params_ok v" shows "params_ok (Values_Set v k x)"
proof -
  have "[] \<notin> snd ` set (AList.update k [x] v)" if "[] \<notin> snd ` set v" for v :: Values
    using that by (induction v) (auto simp: image_iff)
  with assms show ?thesis by (simp add: params_ok_def Values_Set_def)
qed

lemma params_ok_opt [simp]:
  "params_ok v \<Longrightarrow> params_ok (opt_param k x v)" "params_ok v \<Longrightarrow> params_ok (nonempty_param k x v)"
  by (simp_all add: opt_param_def nonempty_param_def split: option.splits)

lemma map_of_Values_Set: "map_of (Values_Set v k x) k' = (if k' = k then Some [x] else map_of v k')"
  by (simp add: Values_Set_def map_of_update_alist)

lemma map_of_opt_param:
  "map_of (opt_param k x v) k' = (if k' = k \<and> x \<noteq> None then Some [the x] else map_of v k')"
  "map_of (nonempty_param k x v) k' = (if k' = k \<and> x \<notin> {None, Some []} then Some [the x] else map_of v k')"
  by (auto simp: opt_param_def nonempty_param_def map_of_Values_Set split: option.splits)

text \<open>The encoded query reads back as the map that was encoded.\<close>

lemma param_set_query:
  assumes "params_ok v"
  shows "param (set_query v req) k = map_of v k"
proof -
  have "go_map_ok v" using assms by (simp add: params_ok_def)
  moreover have "map_of v k \<noteq> Some []"
    using assms by (force simp: params_ok_def dest: map_of_SomeD)
  ultimately show ?thesis
    by (auto simp: set_query_def URL_Query_def ParseQuery_Encode(1) split: option.splits list.splits)
qed

lemma set_header_fields [simp]:
  "rq_Method (set_header k v req) = rq_Method req" "rq_URL (set_header k v req) = rq_URL req"
  "rq_Body (set_header k v req) = rq_Body req"
  "rq_Method (opt_header k x req) = rq_Method req" "rq_URL (opt_header k x req) = rq_URL req"
  "rq_Body (opt_header k x req) = rq_Body req"
  by (simp_all add: set_header_def opt_header_def split: option.splits)

lemma set_query_fields [simp]:
  "rq_Method (set_query v req) = rq_Method req" "rq_Header (set_query v req) = rq_Header req"
  "rq_Body (set_query v req) = rq_Body req"
  "(rq_URL (set_query v req))\<lparr>u_RawQuery := q\<rparr> = (rq_URL req)\<lparr>u_RawQuery := q\<rparr>"
  by (simp_all add: set_query_def)

lemma metadata_headers_fields [simp]:
  "rq_Method (metadata_headers md req) = rq_Method req" "rq_URL (metadata_headers md req) = rq_URL req"
  "rq_Body (metadata_headers md req) = rq_Body req"
  unfolding metadata_headers_def by (induction md arbitrary: req) (auto simp: case_prod_beta)

lemma hdr_set_header:
  "hdr (set_header k v req) k' =
     (if CanonicalMIMEHeaderKey k' = CanonicalMIMEHeaderKey k then v else hdr req k')"
  "hdr (opt_header k x req) k' =
     (if CanonicalMIMEHeaderKey k' = CanonicalMIMEHeaderKey k \<and> x \<noteq> None then the x else hdr req k')"
  by (simp_all add: set_header_def opt_header_def Header_Get_Set split: option.splits)

text \<open>Metadata never replaces another header of a request.\<close>

lemma canonical_loop_append:
  "s \<noteq> [] \<Longrightarrow> canonical_loop b (s @ t) = canonical_loop b s @ canonical_loop (last (canonical_loop b s) = CHR ''-'') t"
proof (induction s arbitrary: b)
  case (Cons c s)
  then show ?case by (cases s) (simp_all add: Let_def)
qed simp

lemma meta_key:
  "CanonicalMIMEHeaderKey (''x-ms-meta-'' @ k) \<in> {''X-Ms-Meta-'' @ canonical_loop True k, ''x-ms-meta-'' @ k}"
proof -
  have "canonical_loop True ''x-ms-meta-'' = ''X-Ms-Meta-''" "last ''X-Ms-Meta-'' = CHR ''-''" by code_simp+
  then have "canonical_loop True (''x-ms-meta-'' @ k) = ''X-Ms-Meta-'' @ canonical_loop True k"
    using canonical_loop_append [of "''x-ms-meta-''" True k] by (simp only: list.simps HOL.simp_thms)
  then show ?thesis unfolding CanonicalMIMEHeaderKey_def by (simp only: split: if_split) simp
qed

definition not_meta :: "string \<Rightarrow> bool" where
  "not_meta k \<longleftrightarrow> (let c = take 10 (CanonicalMIMEHeaderKey k) in c \<noteq> ''X-Ms-Meta-'' \<and> c \<noteq> ''x-ms-meta-'')"

lemma hdr_metadata_headers: "not_meta k \<Longrightarrow> hdr (metadata_headers md req) k = hdr req k"
  unfolding metadata_headers_def
proof (induction md arbitrary: req)
  case (Cons e md)
  obtain n x where e: "e = (n, x)" by (cases e)
  have "CanonicalMIMEHeaderKey k \<noteq> CanonicalMIMEHeaderKey (''x-ms-meta-'' @ n)"
    using meta_key [of n] Cons.prems by (auto simp: not_meta_def Let_def)
  with Cons show ?case by (simp add: e hdr_set_header)
qed simp

lemma canonical_names [simp]:
  "CanonicalMIMEHeaderKey ''x-ms-version'' = ''X-Ms-Version''"
  "CanonicalMIMEHeaderKey ''x-ms-copy-action'' = ''X-Ms-Copy-Action''"
  "CanonicalMIMEHeaderKey ''x-ms-copy-source'' = ''X-Ms-Copy-Source''"
  "CanonicalMIMEHeaderKey ''x-ms-content-length'' = ''X-Ms-Content-Length''"
  "CanonicalMIMEHeaderKey ''x-ms-content-type'' = ''X-Ms-Content-Type''"
  "CanonicalMIMEHeaderKey ''x-ms-content-encoding'' = ''X-Ms-Content-Encoding''"
  "CanonicalMIMEHeaderKey ''x-ms-content-language'' = ''X-Ms-Content-Language''"
  "CanonicalMIMEHeaderKey ''x-ms-content-disposition'' = ''X-Ms-Content-Disposition''"
  "CanonicalMIMEHeaderKey ''x-ms-content-md5'' = ''X-Ms-Content-Md5''"
  "CanonicalMIMEHeaderKey ''x-ms-cache-control'' = ''X-Ms-Cache-Control''"
  "CanonicalMIMEHeaderKey ''x-ms-type'' = ''X-Ms-Type''"
  "CanonicalMIMEHeaderKey ''x-ms-range'' = ''X-Ms-Range''"
  "CanonicalMIMEHeaderKey ''x-ms-range-get-content-md5'' = ''X-Ms-Range-Get-Content-Md5''"
  "CanonicalMIMEHeaderKey ''x-ms-write'' = ''X-Ms-Write''"
  "CanonicalMIMEHeaderKey ''x-ms-share-quota'' = ''X-Ms-Share-Quota''"
  "CanonicalMIMEHeaderKey ''x-ms-delete-snapshots'' = ''X-Ms-Delete-Snapshots''"
  "CanonicalMIMEHeaderKey ''Content-Length'' = ''Content-Length''"
  "CanonicalMIMEHeaderKey ''Content-MD5'' = ''Content-Md5''"
  "CanonicalMIMEHeaderKey ''Content-Type'' = ''Content-Type''"
  by code_simp+

lemma start_request_ok:
  assumes "new_request_ok lib"
  obtains req where "rq_Method req = m" "rq_URL req = mc_url client" "rq_Body req = b"
    and "\<And>k. start_request lib m client b k = k req"
proof -
  from assms obtain req where "lib_NewRequest lib m (mc_url client) b = (req, None)"
    and "rq_Method req = m" "rq_URL req = mc_url client" "rq_Body req = b"
    unfolding new_request_ok_def by blast
  then show ?thesis by (intro that [of req]) (simp_all add: start_request_def)
qed

end
