(* ===== verification/Pipeline.thy ===== *)
theory Pipeline
  imports Request_Log Retry_Policy Shared_Key Uuid Client
begin

text \<open>
  The request pipeline: zc\_policy\_telemetry.go, zc\_policy\_unique\_request\_id.go,
  zc\_credential\_anonymous.go and zc\_pipeline.go, with the retry policy, the shared-key
  credential and the request log as its other stages. The constructor of azure-pipeline-go is
  the argument \<open>pipeline\<close>; its documented behaviour is the hypothesis \<open>builds\<close>.
\<close>

section \<open>Telemetry\<close>

definition UserAgent :: string where
  "UserAgent = ''Azure-SDK-For-Go/10.0.0 azfile/2018-03-28''"

definition Version :: string where
  "Version = ''10.0.0''"

definition serviceLibVersion :: string where
  "serviceLibVersion = ''0.5.0''"

text \<open>\<open>runtime.GOOS\<close>, \<open>runtime.Version()\<close> and the environment variable OS.\<close>

record platform =
  pf_GOOS :: string
  pf_Version :: string
  pf_OS :: string

definition platformInfo :: "platform \<Rightarrow> string" where
  "platformInfo pf =
     (let operatingSystem = (if pf_GOOS pf = ''windows'' then pf_OS pf else pf_GOOS pf)
      in ''('' @ pf_Version pf @ ''; '' @ operatingSystem @ '')'')"

record TelemetryOptions =
  tmo_Value :: string

definition telemetryValue :: "platform \<Rightarrow> TelemetryOptions \<Rightarrow> string" where
  "telemetryValue pf opts =
     (let b = tmo_Value opts;
          b = (if length b > 0 then b @ '' '' else b)
      in b @ ''Azure-Storage/'' @ serviceLibVersion @ '' '' @ platformInfo pf)"

definition telemetry_Do :: "platform \<Rightarrow> TelemetryOptions \<Rightarrow> 'w policy" where
  "telemetry_Do pf opts next request w = next (set_header ''User-Agent'' (telemetryValue pf opts) request) w"

section \<open>Client request identifiers\<close>

definition xMsClientRequestID :: string where
  "xMsClientRequestID = ''x-ms-client-request-id''"

definition uniqueRequestID_Do :: "('w \<Rightarrow> 8 word list \<times> 'w) \<Rightarrow> 'w policy" where
  "uniqueRequestID_Do random next request w =
     (let id = hdr request xMsClientRequestID in
      if id = [] then
        (case random w of (bytes, w) \<Rightarrow>
           next (set_header xMsClientRequestID (uuid_String (newUUID bytes)) request) w)
      else next request w)"

section \<open>Credentials\<close>

datatype 'w Credential =
    AnonymousCredential
  | SharedKey SharedKeyCredential
  | CredentialFunc "'w policy"

definition NewAnonymousCredential :: "'w Credential" where
  "NewAnonymousCredential = AnonymousCredential"

definition anonymousCredentialPolicy_Do :: "'w policy" where
  "anonymousCredentialPolicy_Do next request w = next request w"

section \<open>The retry policy as a stage\<close>

definition retry_Do :: "RetryOptions \<Rightarrow> 'w retry_env \<Rightarrow> 'w policy" where
  "retry_Do opts env next request w =
     (case retry_policy opts (env\<lparr>env_next := \<lambda>_. next\<rparr>) request w of
        Some (Return st) \<Rightarrow> Return (rt_reply st, rt_world st)
      | Some (Panic m) \<Rightarrow> Panic m
      | None \<Rightarrow> Panic ''the retry loop does not return'')"

section \<open>NewPipeline\<close>

text \<open>
  A factory is what creating its policy does to the world, once an operation, and the policy.
\<close>

datatype 'w factory = Factory "'w \<Rightarrow> 'w" "'w policy" | MethodFactoryMarker

record PipelineOptions =
  plo_ShouldLog :: "log_level \<Rightarrow> bool"
  plo_Retry :: RetryOptions
  plo_RequestLog :: RequestLogOptions
  plo_Telemetry :: TelemetryOptions

text \<open>What the policies use of their surroundings.\<close>

record 'w host =
  h_unicode :: unicode_tables
  h_mac :: mac
  h_parse :: url_parser
  h_platform :: platform
  h_date :: "'w \<Rightarrow> string"
  h_log :: "log_level \<Rightarrow> string \<Rightarrow> 'w \<Rightarrow> 'w"
  h_random :: "'w \<Rightarrow> 8 word list \<times> 'w"
  h_retry :: "'w retry_env"

definition credential_New :: "'w host \<Rightarrow> 'w Credential \<Rightarrow> 'w policy" where
  "credential_New h c =
     (case c of
        AnonymousCredential \<Rightarrow> anonymousCredentialPolicy_Do
      | SharedKey f \<Rightarrow> SharedKeyCredential_New (h_unicode h) (h_mac h) (h_date h) (h_log h) f
      | CredentialFunc p \<Rightarrow> p)"

definition NewPipeline ::
    "('a log_world_scheme factory list \<Rightarrow> 'a log_world_scheme pipeline) \<Rightarrow> 'a log_world_scheme host
      \<Rightarrow> 'a log_world_scheme Credential \<Rightarrow> PipelineOptions \<Rightarrow> 'a log_world_scheme pipeline" where
  "NewPipeline pipeline h c opts =
     (let f = [Factory (\<lambda>w. w) (telemetry_Do (h_platform h) (plo_Telemetry opts)),
               Factory (\<lambda>w. w) (uniqueRequestID_Do (h_random h)),
               Factory (\<lambda>w. w) (retry_Do (plo_Retry opts) (h_retry h))];
          f = (case c of AnonymousCredential \<Rightarrow> f | _ \<Rightarrow> f @ [Factory (\<lambda>w. w) (credential_New h c)]);
          f = f @ [Factory requestLog_New
                     (requestLog_Do (h_unicode h) (h_parse h) (plo_ShouldLog opts) (plo_RequestLog opts)),
                   MethodFactoryMarker]
      in pipeline f)"

text \<open>
  What the package documents: \<open>Do\<close> creates the policies of all factories, with the method's
  policy at the marker, each handing on to the next one, and the last to the HTTP sender.
\<close>

fun chain :: "'w sender \<Rightarrow> 'w policy \<Rightarrow> 'w factory list \<Rightarrow> 'w sender" where
  "chain wire m [] = wire"
| "chain wire m (Factory create p # fs) = p (chain wire m fs)"
| "chain wire m (MethodFactoryMarker # fs) = m (chain wire m fs)"

fun create_all :: "'w factory list \<Rightarrow> 'w \<Rightarrow> 'w" where
  "create_all [] w = w"
| "create_all (Factory create p # fs) w = create (create_all fs w)"
| "create_all (MethodFactoryMarker # fs) w = create_all fs w"

definition builds :: "'w sender \<Rightarrow> ('w factory list \<Rightarrow> 'w pipeline) \<Rightarrow> bool" where
  "builds wire pipeline \<longleftrightarrow> (\<forall>fs m req w. pipeline fs m req w = chain wire m fs req (create_all fs w))"

definition credential_stage :: "'w host \<Rightarrow> 'w Credential \<Rightarrow> 'w policy" where
  "credential_stage h c = (case c of AnonymousCredential \<Rightarrow> (\<lambda>next. next) | _ \<Rightarrow> credential_New h c)"

lemma NewPipeline_eq:
  assumes "builds wire pipeline"
  shows "NewPipeline pipeline h c opts m req w =
    telemetry_Do (h_platform h) (plo_Telemetry opts) (uniqueRequestID_Do (h_random h)
      (retry_Do (plo_Retry opts) (h_retry h) (credential_stage h c
        (requestLog_Do (h_unicode h) (h_parse h) (plo_ShouldLog opts) (plo_RequestLog opts) (m wire)))))
      req (requestLog_New w)"
  using assms by (cases c) (simp_all add: NewPipeline_def builds_def credential_stage_def)

section \<open>Stages that treat equal senders equally\<close>

definition agree :: "(http_request \<Rightarrow> bool) \<Rightarrow> 'w sender \<Rightarrow> 'w sender \<Rightarrow> bool" where
  "agree P s s' \<longleftrightarrow> (\<forall>req w. P req \<longrightarrow> s req w = s' req w)"

lemma agree_responder: "agree P s s' \<Longrightarrow> agree P (responderPolicy_Do r s) (responderPolicy_Do r s')"
  by (simp add: agree_def responderPolicy_Do_def)

lemma agree_log: "agree P s s' \<Longrightarrow> agree P (requestLog_Do u p l o' s) (requestLog_Do u p l o' s')"
  by (simp add: agree_def requestLog_Do_def Let_def)

lemma finish_try_next [simp]: "finish_try (env\<lparr>env_next := s\<rparr>) = finish_try env"
  by (intro ext) (simp add: finish_try_def)

lemma retry_step_agree:
  assumes "\<not> rt_considerSecondary st" and "\<And>t w. s (with_timeout t request) w = s' (with_timeout t request) w"
  shows "retry_step opts (env\<lparr>env_next := \<lambda>_. s\<rparr>) request st = retry_step opts (env\<lparr>env_next := \<lambda>_. s'\<rparr>) request st"
  using assms by (simp add: retry_step_def Let_def split: prod.split option.split)

lemma retry_step_primary:
  assumes "retry_step opts env request st = Return (Again st')" and "\<not> rt_considerSecondary st"
  shows "\<not> rt_considerSecondary st'"
  using assms by (auto simp: retry_step_def Let_def elim: finish_try_cases split: prod.splits option.splits)

lemma retry_loop_agree_Some:
  assumes "retry_loop opts env request st = Some y" and "\<not> rt_considerSecondary st"
    and "\<And>st. \<not> rt_considerSecondary st \<Longrightarrow> retry_step opts env request st = retry_step opts env' request st"
  shows "retry_loop opts env' request st = Some y"
proof -
  let ?P = "\<lambda>p e r st y. e = env \<longrightarrow> r = request \<longrightarrow> p = opts \<longrightarrow> \<not> rt_considerSecondary st
    \<longrightarrow> retry_loop opts env' request st = Some y"
  have "?P opts env request st y"
  proof (rule retry_loop.raw_induct [where P = ?P, OF _ assms(1)], intro impI)
    fix loop p e r st y
    assume IH: "\<And>p e r st y. loop p e r st = Some y \<Longrightarrow> ?P p e r st y"
      and run: "(if rt_try st \<le> ro_MaxTries p then
        (case retry_step p e r st of
           Return (Again st') \<Rightarrow> loop p e r st' | Return (Done st') \<Rightarrow> Some (Return st') | Panic m \<Rightarrow> Some (Panic m))
        else Some (Return st)) = Some y"
      and eq: "e = env" "r = request" "p = opts" and prim: "\<not> rt_considerSecondary st"
    note step = assms(3) [OF prim]
    show "retry_loop opts env' request st = Some y"
      using IH run eq prim retry_step_primary [of opts env request st]
      by (subst retry_loop.simps) (auto simp: step split: if_splits exec.splits step_result.splits)
  qed
  with assms(2) show ?thesis by blast
qed

lemma agree_retry:
  fixes s s' :: "'w sender"
  assumes "agree P' s s'" and "\<And>req t. P req \<Longrightarrow> P' (with_timeout t req)"
  shows "agree P (retry_Do opts env s) (retry_Do opts env s')"
  unfolding agree_def
proof (intro allI impI)
  fix req and w :: 'w
  assume "P req"
  then have eq: "s (with_timeout t req) w = s' (with_timeout t req) w" for t w
    using assms by (simp add: agree_def)
  let ?o = "RetryOptions_defaults opts"
  let ?e = "env\<lparr>env_next := \<lambda>_. s\<rparr>" and ?e' = "env\<lparr>env_next := \<lambda>_. s'\<rparr>"
  have st: "\<not> rt_considerSecondary (initial_state ?o req w)"
    by (simp add: initial_state_def retryReadsFromSecondaryHost_def)
  have step: "retry_step ?o ?e req st = retry_step ?o ?e' req st" if "\<not> rt_considerSecondary st" for st
    using that eq by (rule retry_step_agree)
  have "retry_loop ?o ?e req (initial_state ?o req w) = retry_loop ?o ?e' req (initial_state ?o req w)"
    using retry_loop_agree_Some [OF _ st, of ?o ?e req _ ?e'] retry_loop_agree_Some [OF _ st, of ?o ?e' req _ ?e] step
    by (metis option.exhaust)
  then show "retry_Do opts env s req w = retry_Do opts env s' req w"
    by (simp add: retry_Do_def retry_policy_def Let_def)
qed

section \<open>What reaches the wire\<close>

definition signed_by :: "unicode_tables \<Rightarrow> mac \<Rightarrow> SharedKeyCredential \<Rightarrow> http_request \<Rightarrow> bool" where
  "signed_by u mac f req \<longleftrightarrow>
     (\<exists>sts. buildStringToSign u f req = Return sts \<and> hdr req ''Authorization'' = auth_header mac f sts)"

text \<open>The changes the stages make to a request.\<close>

definition authorize :: "string \<Rightarrow> string \<Rightarrow> http_request \<Rightarrow> http_request" where
  "authorize date auth req =
     (let r = with_date date req in r\<lparr>rq_Header := AList.update ''Authorization'' [auth] (rq_Header r)\<rparr>)"

lemma authorize_fields [simp]:
  "rq_Method (authorize d a r) = rq_Method r" "rq_URL (authorize d a r) = rq_URL r"
  "rq_Host (authorize d a r) = rq_Host r" "rq_Body (authorize d a r) = rq_Body r"
  by (simp_all add: authorize_def with_date_def)

lemma hdr_authorize:
  assumes "CanonicalMIMEHeaderKey k \<noteq> ''Authorization''" and "CanonicalMIMEHeaderKey k \<noteq> ''x-ms-date''"
  shows "hdr (authorize d a r) k = hdr r k"
  using assms by (simp add: authorize_def with_date_def Let_def Header_Get_update_other)

lemma signed_by_authorize:
  assumes "buildStringToSign u f (with_date d r) = Return sts"
  shows "signed_by u mac f (authorize d (auth_header mac f sts) r)"
proof -
  let ?a = "auth_header mac f sts"
  have "buildStringToSign u f (authorize d ?a r) = Return sts"
    using assms buildStringToSign_Authorization [where u = u and f = f and r = "with_date d r" and v = "[?a]"]
    by (simp add: authorize_def Let_def)
  moreover have "hdr (authorize d ?a r) ''Authorization'' = ?a"
    by (simp add: authorize_def Let_def Header_Get_def signed_names_canonical map_of_update_alist)
  ultimately show ?thesis by (auto simp: signed_by_def)
qed

lemma agree_shared_key:
  assumes "agree P' s s'"
    and "\<And>req d sts. P req \<Longrightarrow> buildStringToSign u f (with_date d req) = Return sts
      \<Longrightarrow> P' (authorize d (auth_header mac f sts) req)"
  shows "agree P (SharedKeyCredential_New u mac now lg f s) (SharedKeyCredential_New u mac now lg f s')"
  unfolding agree_def
proof (intro allI impI)
  fix req w assume "P req"
  with assms have "s (authorize d (auth_header mac f sts) req) w = s' (authorize d (auth_header mac f sts) req) w"
    if "buildStringToSign u f (with_date d req) = Return sts" for d sts
    using that by (simp add: agree_def)
  then show "SharedKeyCredential_New u mac now lg f s req w = SharedKeyCredential_New u mac now lg f s' req w"
    by (cases "buildStringToSign u f (with_date (now w) req)")
      (simp_all add: SharedKeyCredential_New_def Let_def authorize_def)
qed

text \<open>The identifier an operation goes by.\<close>

definition client_request_id :: "'w host \<Rightarrow> http_request \<Rightarrow> 'w \<Rightarrow> string" where
  "client_request_id h req w =
     (if hdr req xMsClientRequestID = [] then uuid_String (newUUID (fst (h_random h w)))
      else hdr req xMsClientRequestID)"

definition sent_ok :: "'w host \<Rightarrow> 'w Credential \<Rightarrow> PipelineOptions \<Rightarrow> http_request \<Rightarrow> string \<Rightarrow> http_request \<Rightarrow> bool" where
  "sent_ok h c opts req ident r \<longleftrightarrow>
     rq_Method r = rq_Method req \<and> rq_Host r = rq_Host req \<and> rq_Body r = rq_Body req
     \<and> (rq_URL r)\<lparr>u_RawQuery := []\<rparr> = (rq_URL req)\<lparr>u_RawQuery := []\<rparr>
     \<and> (\<forall>k. k \<noteq> ''timeout'' \<longrightarrow> param r k = param req k)
     \<and> hdr r ''User-Agent'' = telemetryValue (h_platform h) (plo_Telemetry opts)
     \<and> hdr r xMsClientRequestID = ident
     \<and> (case c of SharedKey f \<Rightarrow> signed_by (h_unicode h) (h_mac h) f r | _ \<Rightarrow> True)"

definition guarded :: "(http_request \<Rightarrow> bool) \<Rightarrow> 'w sender \<Rightarrow> 'w sender" where
  "guarded P wire req w = (if P req then wire req w else Panic ''refused'')"

lemma agree_guarded: "agree P wire (guarded P wire)"
  by (simp add: agree_def guarded_def)

lemma canonical_stage_names:
  "CanonicalMIMEHeaderKey ''User-Agent'' = ''User-Agent''"
  "CanonicalMIMEHeaderKey xMsClientRequestID = ''X-Ms-Client-Request-Id''"
  by code_simp+

lemma with_timeout_URL:
  "(rq_URL (with_timeout t r))\<lparr>u_RawQuery := []\<rparr> = (rq_URL r)\<lparr>u_RawQuery := []\<rparr>"
  by (simp add: with_timeout_def Let_def)

text \<open>A request before the credential and before the retry policy.\<close>

definition tried :: "'w host \<Rightarrow> PipelineOptions \<Rightarrow> http_request \<Rightarrow> string \<Rightarrow> http_request \<Rightarrow> bool" where
  "tried h opts req ident r \<longleftrightarrow> sent_ok h AnonymousCredential opts req ident r"

lemma set_header_Host [simp]: "rq_Host (set_header k v r) = rq_Host r"
  by (simp add: set_header_def)

text \<open>The two ways a request enters the retry policy.\<close>

lemma tried_started:
  "tried h opts req v (set_header xMsClientRequestID v
     (set_header ''User-Agent'' (telemetryValue (h_platform h) (plo_Telemetry opts)) req))"
  "tried h opts req (hdr req xMsClientRequestID)
     (set_header ''User-Agent'' (telemetryValue (h_platform h) (plo_Telemetry opts)) req)"
  by (simp_all add: tried_def sent_ok_def hdr_set_header canonical_stage_names)

lemma tried_with_timeout: "tried h opts req ident r \<Longrightarrow> tried h opts req ident (with_timeout t r)"
  by (simp add: tried_def sent_ok_def with_timeout_URL with_timeout_query)

lemma credential_agree:
  assumes "agree (sent_ok h c opts req ident) s s'" and "\<And>p. c \<noteq> CredentialFunc p"
  shows "agree (tried h opts req ident) (credential_stage h c s) (credential_stage h c s')"
proof (cases c)
  case AnonymousCredential
  with assms show ?thesis by (simp add: credential_stage_def agree_def tried_def)
next
  case (SharedKey f)
  have "sent_ok h c opts req ident (authorize d (auth_header (h_mac h) f sts) r)"
    if "tried h opts req ident r" "buildStringToSign (h_unicode h) f (with_date d r) = Return sts" for r d sts
    using that signed_by_authorize [OF that(2)]
    by (simp add: SharedKey tried_def sent_ok_def hdr_authorize canonical_stage_names)
  with assms(1) show ?thesis
    by (simp add: SharedKey credential_stage_def credential_New_def agree_shared_key)
qed (use assms(2) in blast)

lemma retry_stage_agree:
  assumes "agree (sent_ok h c opts req ident) s s'" and "\<And>p. c \<noteq> CredentialFunc p"
  shows "agree (tried h opts req ident) (retry_Do o' env (credential_stage h c s)) (retry_Do o' env (credential_stage h c s'))"
  using credential_agree [OF assms] tried_with_timeout by (rule agree_retry)

text \<open>
  C3: Whatever the operation and however often it is tried, what a pipeline made by
  \<open>NewPipeline\<close> puts on the wire is the operation's request: same method, host, body and
  path, same query parameters apart from the timeout, with the telemetry value as its user
  agent, one client request identifier for all tries, and, with a shared key, an
  authorization over exactly that request. A wire that refuses every other request cannot
  be told apart from one that does not.
\<close>

theorem pipeline_sends:
  assumes "builds wire pipeline" and "\<And>p. c \<noteq> CredentialFunc p"
    and "builds (guarded (sent_ok h c opts req (client_request_id h req (requestLog_New w))) wire) pipeline'"
  shows "NewPipeline pipeline h c opts (responderPolicy_Do r) req w =
    NewPipeline pipeline' h c opts (responderPolicy_Do r) req w"
proof -
  let ?id = "client_request_id h req (requestLog_New w)"
  let ?wire = "guarded (sent_ok h c opts req ?id) wire"
  let ?log = "\<lambda>wire. requestLog_Do (h_unicode h) (h_parse h) (plo_ShouldLog opts) (plo_RequestLog opts)
    (responderPolicy_Do r wire)"
  have "agree (sent_ok h c opts req ?id) (?log wire) (?log ?wire)"
    by (intro agree_log agree_responder agree_guarded)
  from retry_stage_agree [OF this assms(2)]
  have "agree (tried h opts req ?id) (retry_Do (plo_Retry opts) (h_retry h) (credential_stage h c (?log wire)))
    (retry_Do (plo_Retry opts) (h_retry h) (credential_stage h c (?log ?wire)))" .
  then have enter: "retry_Do (plo_Retry opts) (h_retry h) (credential_stage h c (?log wire)) q x =
    retry_Do (plo_Retry opts) (h_retry h) (credential_stage h c (?log ?wire)) q x" if "tried h opts req ?id q" for q x
    using that by (simp add: agree_def)
  show ?thesis
  proof (cases "hdr req xMsClientRequestID = []")
    case True
    let ?v = "uuid_String (newUUID (fst (h_random h (requestLog_New w))))"
    have "?id = ?v" using True by (simp add: client_request_id_def)
    with enter tried_started(1) [of h opts req ?v] True show ?thesis
      unfolding NewPipeline_eq [OF assms(1)] NewPipeline_eq [OF assms(3)]
      by (simp add: telemetry_Do_def uniqueRequestID_Do_def hdr_set_header canonical_stage_names case_prod_beta)
  next
    case False
    then have "?id = hdr req xMsClientRequestID" by (simp add: client_request_id_def)
    with enter tried_started(2) [of h opts req] False show ?thesis
      unfolding NewPipeline_eq [OF assms(1)] NewPipeline_eq [OF assms(3)]
      by (simp add: telemetry_Do_def uniqueRequestID_Do_def hdr_set_header canonical_stage_names)
  qed
qed

text \<open>A concrete pipeline with a shared key, over a wire that accepts everything.\<close>

definition example_pipeline :: "'w sender \<Rightarrow> 'w factory list \<Rightarrow> 'w pipeline" where
  "example_pipeline wire fs m req w = chain wire m fs req (create_all fs w)"

lemma example_pipeline_builds: "builds wire (example_pipeline wire)"
  by (simp add: builds_def example_pipeline_def)

definition example_retry :: "'w retry_env" where
  "example_retry = \<lparr>env_ovf = 0, env_jitter = (\<lambda>w. (0, w)), env_sleep = (\<lambda>d w. w), env_rewind = (\<lambda>r w. (None, w)),
     env_deadline = (\<lambda>w. None), env_next = (\<lambda>t r w. Panic []), env_ctxErr = (\<lambda>w. False)\<rparr>"

definition example_host :: "log_world host" where
  "example_host = \<lparr>h_unicode = ascii_tables, h_mac = example_mac, h_parse = (\<lambda>_. None),
     h_platform = \<lparr>pf_GOOS = ''linux'', pf_Version = ''go1.10'', pf_OS = []\<rparr>,
     h_date = (\<lambda>w. ''Mon, 02 Jan 2006 15:04:05 GMT''), h_log = (\<lambda>l m w. w),
     h_random = (\<lambda>w. (replicate 16 0, w)), h_retry = example_retry\<rparr>"

definition example_pipeline_options :: PipelineOptions where
  "example_pipeline_options = \<lparr>plo_ShouldLog = (\<lambda>_. False),
     plo_Retry = \<lparr>ro_Policy = 0, ro_MaxTries = 0, ro_TryTimeout = 0, ro_RetryDelay = 0, ro_MaxRetryDelay = 0\<rparr>,
     plo_RequestLog = \<lparr>rlo_LogWarningIfTryOverThreshold = - 1\<rparr>, plo_Telemetry = \<lparr>tmo_Value = []\<rparr>\<rparr>"

lemma example_stage_regular:
  "env_regular (example_retry\<lparr>env_next := \<lambda>_. requestLog_Do u p (\<lambda>_. False) \<lparr>rlo_LogWarningIfTryOverThreshold = - 1\<rparr>
     (responderPolicy_Do (\<lambda>resp. Return ok_reply) (\<lambda>req w. Return (ok_reply, w)))\<rparr>)"
  by (simp add: env_regular_def example_retry_def requestLog_Do_def responderPolicy_Do_def log_try_def try_level_def
      ok_reply_def error_status_def RequestLogOptions_defaults_def has_response_def Let_def)

theorem pipeline_sends_witness:
  "\<exists>rep w'. NewPipeline (example_pipeline (guarded (sent_ok example_host AnonymousCredential example_pipeline_options
       example_request (client_request_id example_host example_request (requestLog_New log_start)))
       (\<lambda>req w. Return (ok_reply, w)))) example_host AnonymousCredential example_pipeline_options
       (responderPolicy_Do (\<lambda>resp. Return ok_reply)) example_request log_start = Return (rep, w')"
proof -
  let ?m = "responderPolicy_Do (\<lambda>resp. Return ok_reply)" and ?wire = "\<lambda>req w. Return (ok_reply, w)"
  have b: "0 \<le> ro_MaxTries (plo_Retry example_pipeline_options)"
    "ro_MaxTries (plo_Retry example_pipeline_options) < 2 ^ 31 - 1" by (simp_all add: example_pipeline_options_def)
  have "\<exists>rep w'. retry_Do (plo_Retry example_pipeline_options) example_retry
      (requestLog_Do ascii_tables (\<lambda>_. None) (\<lambda>_. False)
        \<lparr>rlo_LogWarningIfTryOverThreshold = - 1\<rparr> (?m ?wire)) req w = Return (rep, w')" for req and w :: log_world
  proof -
    obtain st where "retry_policy (plo_Retry example_pipeline_options) (example_retry\<lparr>env_next := \<lambda>_.
        requestLog_Do ascii_tables (\<lambda>_. None) (\<lambda>_. False)
        \<lparr>rlo_LogWarningIfTryOverThreshold = - 1\<rparr> (?m ?wire)\<rparr>) req w = Some (Return st)"
      using retry_policy_spec [OF b example_stage_regular] by blast
    then show ?thesis by (simp add: retry_Do_def)
  qed
  then have "\<exists>rep w'. NewPipeline (example_pipeline ?wire) example_host AnonymousCredential example_pipeline_options
      ?m example_request log_start = Return (rep, w')"
    unfolding NewPipeline_eq [OF example_pipeline_builds]
    by (simp add: telemetry_Do_def uniqueRequestID_Do_def credential_stage_def Let_def example_pipeline_options_def
        example_host_def)
  then show ?thesis
    by (subst pipeline_sends [OF example_pipeline_builds _ example_pipeline_builds, symmetric]) simp_all
qed

end
