(* ===== verification/Service_Client.thy ===== *)
theory Service_Client
  imports Client
begin

text \<open>
  zz\_generated\_service.go: the requests and responses of the operations on the service.
\<close>

type_synonym 'w serviceClient = "'w managementClient"

definition newServiceClient :: "url \<Rightarrow> 'w pipeline \<Rightarrow> 'w serviceClient" where
  [simp]: "newServiceClient url p = newManagementClient url p"

definition empty_ListSharesPage :: ListSharesPage where
  "empty_ListSharesPage = \<lparr>lsp_ServiceEndpoint = [], lsp_Prefix = None, lsp_Marker = None,
     lsp_MaxResults = None, lsp_ShareItems = [], lsp_NextMarker = \<lparr>mk_val = None\<rparr>\<rparr>"

definition empty_ServiceProperties :: StorageServiceProperties where
  "empty_ServiceProperties = \<lparr>ssp_HourMetrics = None, ssp_MinuteMetrics = None, ssp_Cors = []\<rparr>"

text \<open>The properties as reflection sees them; the address of a pointer plays no role here.\<close>

definition ptr_of :: "('a \<Rightarrow> gval) \<Rightarrow> 'a option \<Rightarrow> gval" where
  "ptr_of f p = GPtr (map_option (\<lambda>x. (0, f x)) p)"

definition RetentionPolicy_gval :: "RetentionPolicy \<Rightarrow> gval" where
  "RetentionPolicy_gval r = GStruct [(''Enabled'', GOther ''bool''), (''Days'', ptr_of GInt (rt_Days r))]"

definition Metrics_gval :: "Metrics \<Rightarrow> gval" where
  "Metrics_gval m = GStruct [(''Version'', GStr (mt_Version m)), (''Enabled'', GOther ''bool''),
     (''IncludeAPIs'', ptr_of (\<lambda>_. GOther ''bool'') (mt_IncludeAPIs m)),
     (''RetentionPolicy'', ptr_of RetentionPolicy_gval (mt_RetentionPolicy m))]"

definition CorsRule_gval :: "CorsRule \<Rightarrow> gval" where
  "CorsRule_gval c = GStruct [(''AllowedOrigins'', GStr (cr_AllowedOrigins c)),
     (''AllowedMethods'', GStr (cr_AllowedMethods c)), (''AllowedHeaders'', GStr (cr_AllowedHeaders c)),
     (''ExposedHeaders'', GStr (cr_ExposedHeaders c)), (''MaxAgeInSeconds'', GInt (cr_MaxAgeInSeconds c))]"

definition StorageServiceProperties_gval :: "StorageServiceProperties \<Rightarrow> gval" where
  "StorageServiceProperties_gval p = GStruct [(''HourMetrics'', ptr_of Metrics_gval (ssp_HourMetrics p)),
     (''MinuteMetrics'', ptr_of Metrics_gval (ssp_MinuteMetrics p)),
     (''Cors'', GSlice (Some (map CorsRule_gval (ssp_Cors p))))]"

text \<open>The constraint on one kind of metrics: its retention days lie between 1 and 365.\<close>

definition metrics_constraint :: "string \<Rightarrow> vconstraint" where
  "metrics_constraint target =
     (let policy = target @ ''.RetentionPolicy''; days = policy @ ''.Days'' in
      Constraint target null_c (RBool False)
       (Some [Constraint policy null_c (RBool False)
         (Some [Constraint days null_c (RBool False)
           (Some [Constraint days inclusiveMaximum (RInt 365) None,
                  Constraint days inclusiveMinimum (RInt 1) None])])]))"

definition service_properties_check :: "StorageServiceProperties \<Rightarrow> gval \<times> vconstraint list" where
  "service_properties_check p =
     (StorageServiceProperties_gval p,
      [metrics_constraint ''storageServiceProperties.HourMetrics'',
       metrics_constraint ''storageServiceProperties.MinuteMetrics''])"

definition serviceClient_getPropertiesPreparer ::
    "lib \<Rightarrow> 'w serviceClient \<Rightarrow> int option \<Rightarrow> http_request \<times> api_error option" where
  "serviceClient_getPropertiesPreparer lib client timeout =
     start_request lib ''GET'' client None (\<lambda>req.
       let params = URL_Query (rq_URL req);
           params = opt_param ''timeout'' (map_option FormatInt timeout) params;
           params = Values_Set params ''restype'' ''service'';
           params = Values_Set params ''comp'' ''properties'';
           req = set_query params req;
           req = set_header ''x-ms-version'' ServiceVersion req
       in (req, None))"

definition serviceClient_getPropertiesResponder :: "lib \<Rightarrow> http_response option option \<Rightarrow> reply exec" where
  "serviceClient_getPropertiesResponder lib = xml_responder lib [200] ServiceProperties
      empty_ServiceProperties (lib_UnmarshalServiceProperties lib)"

definition serviceClient_GetProperties ::
    "lib \<Rightarrow> 'w serviceClient \<Rightarrow> int option \<Rightarrow> 'w \<Rightarrow> (api_result \<times> 'w) exec" where
  "serviceClient_GetProperties lib client timeout =
     client_call lib client [timeout_check timeout]
       (serviceClient_getPropertiesPreparer lib client timeout)
       (serviceClient_getPropertiesResponder lib) is_ServiceProperties"

definition serviceClient_listSharesSegmentPreparer ::
    "lib \<Rightarrow> 'w serviceClient \<Rightarrow> string option \<Rightarrow> string option \<Rightarrow> int option
      \<Rightarrow> ListSharesIncludeType list \<Rightarrow> int option \<Rightarrow> http_request \<times> api_error option" where
  "serviceClient_listSharesSegmentPreparer lib client prefix' marker maxresults include' timeout =
     start_request lib ''GET'' client None (\<lambda>req.
       let params = URL_Query (rq_URL req);
           params = nonempty_param ''prefix'' prefix' params;
           params = nonempty_param ''marker'' marker params;
           params = opt_param ''maxresults'' (map_option FormatInt maxresults) params;
           params = (if length include' > 0 then Values_Set params ''include'' (joinConst include'
         '','') else params);
           params = opt_param ''timeout'' (map_option FormatInt timeout) params;
           params = Values_Set params ''comp'' ''list'';
           req = set_query params req;
           req = set_header ''x-ms-version'' ServiceVersion req
       in (req, None))"

definition serviceClient_listSharesSegmentResponder :: "lib \<Rightarrow> http_response option option \<Rightarrow> reply exec"
         where
  "serviceClient_listSharesSegmentResponder lib = xml_responder lib [200] ListSharesResponse
      empty_ListSharesPage (lib_UnmarshalListShares lib)"

definition serviceClient_ListSharesSegment ::
    "lib \<Rightarrow> 'w serviceClient \<Rightarrow> string option \<Rightarrow> string option \<Rightarrow> int option
      \<Rightarrow> ListSharesIncludeType list \<Rightarrow> int option \<Rightarrow> 'w \<Rightarrow> (api_result \<times> 'w) exec" where
  "serviceClient_ListSharesSegment lib client prefix' marker maxresults include' timeout =
     client_call lib client [maxresults_check maxresults, timeout_check timeout]
       (serviceClient_listSharesSegmentPreparer lib client prefix' marker maxresults include' timeout)
       (serviceClient_listSharesSegmentResponder lib) is_ListSharesResponse"

definition serviceClient_setPropertiesPreparer ::
    "lib \<Rightarrow> 'w serviceClient \<Rightarrow> StorageServiceProperties \<Rightarrow> int option
      \<Rightarrow> http_request \<times> api_error option" where
  "serviceClient_setPropertiesPreparer lib client storageServiceProperties timeout =
     start_request lib ''PUT'' client None (\<lambda>req.
       let params = URL_Query (rq_URL req);
           params = opt_param ''timeout'' (map_option FormatInt timeout) params;
           params = Values_Set params ''restype'' ''service'';
           params = Values_Set params ''comp'' ''properties'';
           req = set_query params req;
           req = set_header ''x-ms-version'' ServiceVersion req
       in xml_body lib (lib_MarshalServiceProperties lib storageServiceProperties) req)"

definition serviceClient_setPropertiesResponder :: "lib \<Rightarrow> http_response option option \<Rightarrow> reply exec" where
  "serviceClient_setPropertiesResponder lib = discard_responder lib [200, 202] ServiceSetPropertiesResponse"

definition serviceClient_SetProperties ::
    "lib \<Rightarrow> 'w serviceClient \<Rightarrow> StorageServiceProperties \<Rightarrow> int option \<Rightarrow> 'w \<Rightarrow> (api_result \<times> 'w) exec" where
  "serviceClient_SetProperties lib client storageServiceProperties timeout =
     client_call lib client [service_properties_check storageServiceProperties, timeout_check timeout]
       (serviceClient_setPropertiesPreparer lib client storageServiceProperties timeout)
       (serviceClient_setPropertiesResponder lib) ((=) ServiceSetPropertiesResponse)"

end
