(* ===== verification/Share_Client.thy ===== *)
theory Share_Client
  imports Client
begin

text \<open>
  zz\_generated\_share.go: the requests and responses of the operations on shares.
\<close>

type_synonym 'w shareClient = "'w managementClient"

definition newShareClient :: "url \<Rightarrow> 'w pipeline \<Rightarrow> 'w shareClient" where
  [simp]: "newShareClient url p = newManagementClient url p"

definition shareClient_createPreparer ::
    "lib \<Rightarrow> 'w shareClient \<Rightarrow> int option \<Rightarrow> Metadata \<Rightarrow> int option \<Rightarrow> http_request \<times> api_error option" where
  "shareClient_createPreparer lib client timeout metadata quota =
     start_request lib ''PUT'' client None (\<lambda>req.
       let params = URL_Query (rq_URL req);
           params = opt_param ''timeout'' (map_option FormatInt timeout) params;
           params = Values_Set params ''restype'' ''share'';
           req = set_query params req;
           req = metadata_headers metadata req;
           req = opt_header ''x-ms-share-quota'' (map_option FormatInt quota) req;
           req = set_header ''x-ms-version'' ServiceVersion req
       in (req, None))"

definition shareClient_createResponder :: "lib \<Rightarrow> http_response option option \<Rightarrow> reply exec" where
  "shareClient_createResponder lib = discard_responder lib [200, 201] ShareCreateResponse"

definition shareClient_Create ::
    "lib \<Rightarrow> 'w shareClient \<Rightarrow> int option \<Rightarrow> Metadata \<Rightarrow> int option \<Rightarrow> 'w \<Rightarrow> (api_result \<times> 'w) exec" where
  "shareClient_Create lib client timeout metadata quota =
     client_call lib client [timeout_check timeout, quota_check quota]
       (shareClient_createPreparer lib client timeout metadata quota)
       (shareClient_createResponder lib) ((=) ShareCreateResponse)"

definition shareClient_createSnapshotPreparer ::
    "lib \<Rightarrow> 'w shareClient \<Rightarrow> int option \<Rightarrow> Metadata \<Rightarrow> http_request \<times> api_error option" where
  "shareClient_createSnapshotPreparer lib client timeout metadata =
     start_request lib ''PUT'' client None (\<lambda>req.
       let params = URL_Query (rq_URL req);
           params = opt_param ''timeout'' (map_option FormatInt timeout) params;
           params = Values_Set params ''restype'' ''share'';
           params = Values_Set params ''comp'' ''snapshot'';
           req = set_query params req;
           req = metadata_headers metadata req;
           req = set_header ''x-ms-version'' ServiceVersion req
       in (req, None))"

definition shareClient_createSnapshotResponder :: "lib \<Rightarrow> http_response option option \<Rightarrow> reply exec" where
  "shareClient_createSnapshotResponder lib = discard_responder lib [200, 201] ShareCreateSnapshotResponse"

definition shareClient_CreateSnapshot ::
    "lib \<Rightarrow> 'w shareClient \<Rightarrow> int option \<Rightarrow> Metadata \<Rightarrow> 'w \<Rightarrow> (api_result \<times> 'w) exec" where
  "shareClient_CreateSnapshot lib client timeout metadata =
     client_call lib client [timeout_check timeout]
       (shareClient_createSnapshotPreparer lib client timeout metadata)
       (shareClient_createSnapshotResponder lib) ((=) ShareCreateSnapshotResponse)"

definition shareClient_deletePreparer ::
    "lib \<Rightarrow> 'w shareClient \<Rightarrow> string option \<Rightarrow> int option \<Rightarrow> DeleteSnapshotsOptionType
      \<Rightarrow> http_request \<times> api_error option" where
  "shareClient_deletePreparer lib client sharesnapshot timeout deleteSnapshots =
     start_request lib ''DELETE'' client None (\<lambda>req.
       let params = URL_Query (rq_URL req);
           params = nonempty_param ''sharesnapshot'' sharesnapshot params;
           params = opt_param ''timeout'' (map_option FormatInt timeout) params;
           params = Values_Set params ''restype'' ''share'';
           req = set_query params req;
           req = set_header ''x-ms-version'' ServiceVersion req;
           req = (if deleteSnapshots \<noteq> DeleteSnapshotsOptionNone
               then set_header ''x-ms-delete-snapshots'' deleteSnapshots req else req)
       in (req, None))"

definition shareClient_deleteResponder :: "lib \<Rightarrow> http_response option option \<Rightarrow> reply exec" where
  "shareClient_deleteResponder lib = discard_responder lib [200, 202] ShareDeleteResponse"

definition shareClient_Delete ::
    "lib \<Rightarrow> 'w shareClient \<Rightarrow> string option \<Rightarrow> int option \<Rightarrow> DeleteSnapshotsOptionType \<Rightarrow> 'w
      \<Rightarrow> (api_result \<times> 'w) exec" where
  "shareClient_Delete lib client sharesnapshot timeout deleteSnapshots =
     client_call lib client [timeout_check timeout]
       (shareClient_deletePreparer lib client sharesnapshot timeout deleteSnapshots)
       (shareClient_deleteResponder lib) ((=) ShareDeleteResponse)"

definition shareClient_getAccessPolicyPreparer ::
    "lib \<Rightarrow> 'w shareClient \<Rightarrow> int option \<Rightarrow> http_request \<times> api_error option" where
  "shareClient_getAccessPolicyPreparer lib client timeout =
     start_request lib ''GET'' client None (\<lambda>req.
       let params = URL_Query (rq_URL req);
           params = opt_param ''timeout'' (map_option FormatInt timeout) params;
           params = Values_Set params ''restype'' ''share'';
           params = Values_Set params ''comp'' ''acl'';
           req = set_query params req;
           req = set_header ''x-ms-version'' ServiceVersion req
       in (req, None))"

definition shareClient_getAccessPolicyResponder :: "lib \<Rightarrow> http_response option option \<Rightarrow> reply exec" where
  "shareClient_getAccessPolicyResponder lib = xml_responder lib [200] SignedIdentifiers []
      (lib_UnmarshalSignedIdentifiers lib)"

definition shareClient_GetAccessPolicy ::
    "lib \<Rightarrow> 'w shareClient \<Rightarrow> int option \<Rightarrow> 'w \<Rightarrow> (api_result \<times> 'w) exec" where
  "shareClient_GetAccessPolicy lib client timeout =
     client_call lib client [timeout_check timeout]
       (shareClient_getAccessPolicyPreparer lib client timeout)
       (shareClient_getAccessPolicyResponder lib) is_SignedIdentifiers"

definition shareClient_getPropertiesPreparer ::
    "lib \<Rightarrow> 'w shareClient \<Rightarrow> string option \<Rightarrow> int option \<Rightarrow> http_request \<times> api_error option" where
  "shareClient_getPropertiesPreparer lib client sharesnapshot timeout =
     start_request lib ''GET'' client None (\<lambda>req.
       let params = URL_Query (rq_URL req);
           params = nonempty_param ''sharesnapshot'' sharesnapshot params;
           params = opt_param ''timeout'' (map_option FormatInt timeout) params;
           params = Values_Set params ''restype'' ''share'';
           req = set_query params req;
           req = set_header ''x-ms-version'' ServiceVersion req
       in (req, None))"

definition shareClient_getPropertiesResponder :: "lib \<Rightarrow> http_response option option \<Rightarrow> reply exec" where
  "shareClient_getPropertiesResponder lib = discard_responder lib [200] ShareGetPropertiesResponse"

definition shareClient_GetProperties ::
    "lib \<Rightarrow> 'w shareClient \<Rightarrow> string option \<Rightarrow> int option \<Rightarrow> 'w \<Rightarrow> (api_result \<times> 'w) exec" where
  "shareClient_GetProperties lib client sharesnapshot timeout =
     client_call lib client [timeout_check timeout]
       (shareClient_getPropertiesPreparer lib client sharesnapshot timeout)
       (shareClient_getPropertiesResponder lib) ((=) ShareGetPropertiesResponse)"

definition shareClient_getStatisticsPreparer ::
    "lib \<Rightarrow> 'w shareClient \<Rightarrow> int option \<Rightarrow> http_request \<times> api_error option" where
  "shareClient_getStatisticsPreparer lib client timeout =
     start_request lib ''GET'' client None (\<lambda>req.
       let params = URL_Query (rq_URL req);
           params = opt_param ''timeout'' (map_option FormatInt timeout) params;
           params = Values_Set params ''restype'' ''share'';
           params = Values_Set params ''comp'' ''stats'';
           req = set_query params req;
           req = set_header ''x-ms-version'' ServiceVersion req
       in (req, None))"

definition shareClient_getStatisticsResponder :: "lib \<Rightarrow> http_response option option \<Rightarrow> reply exec" where
  "shareClient_getStatisticsResponder lib = xml_responder lib [200] ShareStats 0
      (lib_UnmarshalShareStats lib)"

definition shareClient_GetStatistics ::
    "lib \<Rightarrow> 'w shareClient \<Rightarrow> int option \<Rightarrow> 'w \<Rightarrow> (api_result \<times> 'w) exec" where
  "shareClient_GetStatistics lib client timeout =
     client_call lib client [timeout_check timeout]
       (shareClient_getStatisticsPreparer lib client timeout)
       (shareClient_getStatisticsResponder lib) is_ShareStats"

definition shareClient_setAccessPolicyPreparer ::
    "lib \<Rightarrow> 'w shareClient \<Rightarrow> SignedIdentifier list \<Rightarrow> int option \<Rightarrow> http_request \<times> api_error option" where
  "shareClient_setAccessPolicyPreparer lib client shareACL timeout =
     start_request lib ''PUT'' client None (\<lambda>req.
       let params = URL_Query (rq_URL req);
           params = opt_param ''timeout'' (map_option FormatInt timeout) params;
           params = Values_Set params ''restype'' ''share'';
           params = Values_Set params ''comp'' ''acl'';
           req = set_query params req;
           req = set_header ''x-ms-version'' ServiceVersion req
       in xml_body lib (lib_MarshalSignedIdentifiers lib shareACL) req)"

definition shareClient_setAccessPolicyResponder :: "lib \<Rightarrow> http_response option option \<Rightarrow> reply exec" where
  "shareClient_setAccessPolicyResponder lib = discard_responder lib [200] ShareSetAccessPolicyResponse"

definition shareClient_SetAccessPolicy ::
    "lib \<Rightarrow> 'w shareClient \<Rightarrow> SignedIdentifier list \<Rightarrow> int option \<Rightarrow> 'w \<Rightarrow> (api_result \<times> 'w) exec" where
  "shareClient_SetAccessPolicy lib client shareACL timeout =
     client_call lib client [timeout_check timeout]
       (shareClient_setAccessPolicyPreparer lib client shareACL timeout)
       (shareClient_setAccessPolicyResponder lib) ((=) ShareSetAccessPolicyResponse)"

definition shareClient_setMetadataPreparer ::
    "lib \<Rightarrow> 'w shareClient \<Rightarrow> int option \<Rightarrow> Metadata \<Rightarrow> http_request \<times> api_error option" where
  "shareClient_setMetadataPreparer lib client timeout metadata =
     start_request lib ''PUT'' client None (\<lambda>req.
       let params = URL_Query (rq_URL req);
           params = opt_param ''timeout'' (map_option FormatInt timeout) params;
           params = Values_Set params ''restype'' ''share'';
           params = Values_Set params ''comp'' ''metadata'';
           req = set_query params req;
           req = metadata_headers metadata req;
           req = set_header ''x-ms-version'' ServiceVersion req
       in (req, None))"

definition shareClient_setMetadataResponder :: "lib \<Rightarrow> http_response option option \<Rightarrow> reply exec" where
  "shareClient_setMetadataResponder lib = discard_responder lib [200] ShareSetMetadataResponse"

definition shareClient_SetMetadata ::
    "lib \<Rightarrow> 'w shareClient \<Rightarrow> int option \<Rightarrow> Metadata \<Rightarrow> 'w \<Rightarrow> (api_result \<times> 'w) exec" where
  "shareClient_SetMetadata lib client timeout metadata =
     client_call lib client [timeout_check timeout]
       (shareClient_setMetadataPreparer lib client timeout metadata)
       (shareClient_setMetadataResponder lib) ((=) ShareSetMetadataResponse)"

definition shareClient_setQuotaPreparer ::
    "lib \<Rightarrow> 'w shareClient \<Rightarrow> int option \<Rightarrow> int option \<Rightarrow> http_request \<times> api_error option" where
  "shareClient_setQuotaPreparer lib client timeout quota =
     start_request lib ''PUT'' client None (\<lambda>req.
       let params = URL_Query (rq_URL req);
           params = opt_param ''timeout'' (map_option FormatInt timeout) params;
           params = Values_Set params ''restype'' ''share'';
           params = Values_Set params ''comp'' ''properties'';
           req = set_query params req;
           req = set_header ''x-ms-version'' ServiceVersion req;
           req = opt_header ''x-ms-share-quota'' (map_option FormatInt quota) req
       in (req, None))"

definition shareClient_setQuotaResponder :: "lib \<Rightarrow> http_response option option \<Rightarrow> reply exec" where
  "shareClient_setQuotaResponder lib = discard_responder lib [200] ShareSetQuotaResponse"

definition shareClient_SetQuota ::
    "lib \<Rightarrow> 'w shareClient \<Rightarrow> int option \<Rightarrow> int option \<Rightarrow> 'w \<Rightarrow> (api_result \<times> 'w) exec" where
  "shareClient_SetQuota lib client timeout quota =
     client_call lib client [timeout_check timeout, quota_check quota]
       (shareClient_setQuotaPreparer lib client timeout quota)
       (shareClient_setQuotaResponder lib) ((=) ShareSetQuotaResponse)"

end
