(* ===== verification/Directory_Client.thy ===== *)
theory Directory_Client
  imports Client
begin

text \<open>
  zz\_generated\_directory.go: the requests and responses of the operations on directories.
\<close>

type_synonym 'w directoryClient = "'w managementClient"

definition newDirectoryClient :: "url \<Rightarrow> 'w pipeline \<Rightarrow> 'w directoryClient" where
  [simp]: "newDirectoryClient url p = newManagementClient url p"

definition empty_ListFilesPage :: ListFilesPage where
  "empty_ListFilesPage = \<lparr>lfp_ServiceEndpoint = [], lfp_ShareName = [], lfp_ShareSnapshot = None,
     lfp_DirectoryPath = [], lfp_Prefix = [], lfp_Marker = None, lfp_MaxResults = None, lfp_FileItems = [],
     lfp_DirectoryItems = [], lfp_NextMarker = \<lparr>mk_val = None\<rparr>\<rparr>"

definition directoryClient_createPreparer ::
    "lib \<Rightarrow> 'w directoryClient \<Rightarrow> int option \<Rightarrow> Metadata \<Rightarrow> http_request \<times> api_error option" where
  "directoryClient_createPreparer lib client timeout metadata =
     start_request lib ''PUT'' client None (\<lambda>req.
       let params = URL_Query (rq_URL req);
           params = opt_param ''timeout'' (map_option FormatInt timeout) params;
           params = Values_Set params ''restype'' ''directory'';
           req = set_query params req;
           req = metadata_headers metadata req;
           req = set_header ''x-ms-version'' ServiceVersion req
       in (req, None))"

definition directoryClient_createResponder :: "lib \<Rightarrow> http_response option option \<Rightarrow> reply exec" where
  "directoryClient_createResponder lib = discard_responder lib [200, 201] DirectoryCreateResponse"

definition directoryClient_Create ::
    "lib \<Rightarrow> 'w directoryClient \<Rightarrow> int option \<Rightarrow> Metadata \<Rightarrow> 'w \<Rightarrow> (api_result \<times> 'w) exec" where
  "directoryClient_Create lib client timeout metadata =
     client_call lib client [timeout_check timeout]
       (directoryClient_createPreparer lib client timeout metadata)
       (directoryClient_createResponder lib) ((=) DirectoryCreateResponse)"

definition directoryClient_deletePreparer ::
    "lib \<Rightarrow> 'w directoryClient \<Rightarrow> int option \<Rightarrow> http_request \<times> api_error option" where
  "directoryClient_deletePreparer lib client timeout =
     start_request lib ''DELETE'' client None (\<lambda>req.
       let params = URL_Query (rq_URL req);
           params = opt_param ''timeout'' (map_option FormatInt timeout) params;
           params = Values_Set params ''restype'' ''directory'';
           req = set_query params req;
           req = set_header ''x-ms-version'' ServiceVersion req
       in (req, None))"

definition directoryClient_deleteResponder :: "lib \<Rightarrow> http_response option option \<Rightarrow> reply exec" where
  "directoryClient_deleteResponder lib = discard_responder lib [200, 202] DirectoryDeleteResponse"

definition directoryClient_Delete ::
    "lib \<Rightarrow> 'w directoryClient \<Rightarrow> int option \<Rightarrow> 'w \<Rightarrow> (api_result \<times> 'w) exec" where
  "directoryClient_Delete lib client timeout =
     client_call lib client [timeout_check timeout]
       (directoryClient_deletePreparer lib client timeout)
       (directoryClient_deleteResponder lib) ((=) DirectoryDeleteResponse)"

definition directoryClient_getPropertiesPreparer ::
    "lib \<Rightarrow> 'w directoryClient \<Rightarrow> string option \<Rightarrow> int option \<Rightarrow> http_request \<times> api_error option" where
  "directoryClient_getPropertiesPreparer lib client sharesnapshot timeout =
     start_request lib ''GET'' client None (\<lambda>req.
       let params = URL_Query (rq_URL req);
           params = nonempty_param ''sharesnapshot'' sharesnapshot params;
           params = opt_param ''timeout'' (map_option FormatInt timeout) params;
           params = Values_Set params ''restype'' ''directory'';
           req = set_query params req;
           req = set_header ''x-ms-version'' ServiceVersion req
       in (req, None))"

definition directoryClient_getPropertiesResponder :: "lib \<Rightarrow> http_response option option \<Rightarrow> reply exec" where
  "directoryClient_getPropertiesResponder lib = discard_responder lib [200] DirectoryGetPropertiesResponse"

definition directoryClient_GetProperties ::
    "lib \<Rightarrow> 'w directoryClient \<Rightarrow> string option \<Rightarrow> int option \<Rightarrow> 'w \<Rightarrow> (api_result \<times> 'w) exec" where
  "directoryClient_GetProperties lib client sharesnapshot timeout =
     client_call lib client [timeout_check timeout]
       (directoryClient_getPropertiesPreparer lib client sharesnapshot timeout)
       (directoryClient_getPropertiesResponder lib) ((=) DirectoryGetPropertiesResponse)"

definition directoryClient_listFilesAndDirectoriesSegmentPreparer ::
    "lib \<Rightarrow> 'w directoryClient \<Rightarrow> string option \<Rightarrow> string option \<Rightarrow> string option \<Rightarrow> int option
      \<Rightarrow> int option \<Rightarrow> http_request \<times> api_error option" where
  "directoryClient_listFilesAndDirectoriesSegmentPreparer lib client prefix' sharesnapshot marker
      maxresults timeout =
     start_request lib ''GET'' client None (\<lambda>req.
       let params = URL_Query (rq_URL req);
           params = nonempty_param ''prefix'' prefix' params;
           params = nonempty_param ''sharesnapshot'' sharesnapshot params;
           params = nonempty_param ''marker'' marker params;
           params = opt_param ''maxresults'' (map_option FormatInt maxresults) params;
           params = opt_param ''timeout'' (map_option FormatInt timeout) params;
           params = Values_Set params ''restype'' ''directory'';
           params = Values_Set params ''comp'' ''list'';
           req = set_query params req;
           req = set_header ''x-ms-version'' ServiceVersion req
       in (req, None))"

definition directoryClient_listFilesAndDirectoriesSegmentResponder :: "lib \<Rightarrow> http_response option option
         \<Rightarrow> reply exec" where
  "directoryClient_listFilesAndDirectoriesSegmentResponder lib = xml_responder lib [200]
      ListFilesAndDirectoriesSegmentResponse empty_ListFilesPage (lib_UnmarshalListFiles lib)"

definition directoryClient_ListFilesAndDirectoriesSegment ::
    "lib \<Rightarrow> 'w directoryClient \<Rightarrow> string option \<Rightarrow> string option \<Rightarrow> string option \<Rightarrow> int option
      \<Rightarrow> int option \<Rightarrow> 'w \<Rightarrow> (api_result \<times> 'w) exec" where
  "directoryClient_ListFilesAndDirectoriesSegment lib client prefix' sharesnapshot marker maxresults
      timeout =
     client_call lib client [maxresults_check maxresults, timeout_check timeout]
       (directoryClient_listFilesAndDirectoriesSegmentPreparer lib client prefix' sharesnapshot marker
         maxresults timeout)
       (directoryClient_listFilesAndDirectoriesSegmentResponder lib)
         is_ListFilesAndDirectoriesSegmentResponse"

definition directoryClient_setMetadataPreparer ::
    "lib \<Rightarrow> 'w directoryClient \<Rightarrow> int option \<Rightarrow> Metadata \<Rightarrow> http_request \<times> api_error option" where
  "directoryClient_setMetadataPreparer lib client timeout metadata =
     start_request lib ''PUT'' client None (\<lambda>req.
       let params = URL_Query (rq_URL req);
           params = opt_param ''timeout'' (map_option FormatInt timeout) params;
           params = Values_Set params ''restype'' ''directory'';
           params = Values_Set params ''comp'' ''metadata'';
           req = set_query params req;
           req = metadata_headers metadata req;
           req = set_header ''x-ms-version'' ServiceVersion req
       in (req, None))"

definition directoryClient_setMetadataResponder :: "lib \<Rightarrow> http_response option option \<Rightarrow> reply exec" where
  "directoryClient_setMetadataResponder lib = discard_responder lib [200, 202] DirectorySetMetadataResponse"

definition directoryClient_SetMetadata ::
    "lib \<Rightarrow> 'w directoryClient \<Rightarrow> int option \<Rightarrow> Metadata \<Rightarrow> 'w \<Rightarrow> (api_result \<times> 'w) exec" where
  "directoryClient_SetMetadata lib client timeout metadata =
     client_call lib client [timeout_check timeout]
       (directoryClient_setMetadataPreparer lib client timeout metadata)
       (directoryClient_setMetadataResponder lib) ((=) DirectorySetMetadataResponse)"

end
