(* ===== verification/File_Client.thy ===== *)
theory File_Client
  imports Client
begin

text \<open>
  zz\_generated\_file.go: the requests and responses of the operations on files.
\<close>

type_synonym 'w fileClient = "'w managementClient"

definition newFileClient :: "url \<Rightarrow> 'w pipeline \<Rightarrow> 'w fileClient" where
  [simp]: "newFileClient url p = newManagementClient url p"

definition fileClient_abortCopyPreparer ::
    "lib \<Rightarrow> 'w fileClient \<Rightarrow> string \<Rightarrow> int option \<Rightarrow> http_request \<times> api_error option" where
  "fileClient_abortCopyPreparer lib client copyID timeout =
     start_request lib ''PUT'' client None (\<lambda>req.
       let params = URL_Query (rq_URL req);
           params = Values_Set params ''copyid'' copyID;
           params = opt_param ''timeout'' (map_option FormatInt timeout) params;
           params = Values_Set params ''comp'' ''copy'';
           req = set_query params req;
           req = set_header ''x-ms-copy-action'' ''abort'' req;
           req = set_header ''x-ms-version'' ServiceVersion req
       in (req, None))"

definition fileClient_abortCopyResponder :: "lib \<Rightarrow> http_response option option \<Rightarrow> reply exec" where
  "fileClient_abortCopyResponder lib = discard_responder lib [200, 204] FileAbortCopyResponse"

definition fileClient_AbortCopy ::
    "lib \<Rightarrow> 'w fileClient \<Rightarrow> string \<Rightarrow> int option \<Rightarrow> 'w \<Rightarrow> (api_result \<times> 'w) exec" where
  "fileClient_AbortCopy lib client copyID timeout =
     client_call lib client [timeout_check timeout]
       (fileClient_abortCopyPreparer lib client copyID timeout)
       (fileClient_abortCopyResponder lib) ((=) FileAbortCopyResponse)"

definition fileClient_createPreparer ::
    "lib \<Rightarrow> 'w fileClient \<Rightarrow> int \<Rightarrow> int option \<Rightarrow> string option \<Rightarrow> string option \<Rightarrow> string option
      \<Rightarrow> string option \<Rightarrow> string option \<Rightarrow> string option \<Rightarrow> Metadata
      \<Rightarrow> http_request \<times> api_error option" where
  "fileClient_createPreparer lib client fileContentLength timeout fileContentType fileContentEncoding
      fileContentLanguage fileCacheControl fileContentMD5 fileContentDisposition metadata =
     start_request lib ''PUT'' client None (\<lambda>req.
       let params = URL_Query (rq_URL req);
           params = opt_param ''timeout'' (map_option FormatInt timeout) params;
           req = set_query params req;
           req = set_header ''x-ms-version'' ServiceVersion req;
           req = set_header ''x-ms-content-length'' (FormatInt fileContentLength) req;
           req = set_header ''x-ms-type'' ''file'' req;
           req = opt_header ''x-ms-content-type'' fileContentType req;
           req = opt_header ''x-ms-content-encoding'' fileContentEncoding req;
           req = opt_header ''x-ms-content-language'' fileContentLanguage req;
           req = opt_header ''x-ms-cache-control'' fileCacheControl req;
           req = opt_header ''x-ms-content-md5'' (map_option EncodeToString fileContentMD5) req;
           req = opt_header ''x-ms-content-disposition'' fileContentDisposition req;
           req = metadata_headers metadata req
       in (req, None))"

definition fileClient_createResponder :: "lib \<Rightarrow> http_response option option \<Rightarrow> reply exec" where
  "fileClient_createResponder lib = discard_responder lib [200, 201] FileCreateResponse"

definition fileClient_Create ::
    "lib \<Rightarrow> 'w fileClient \<Rightarrow> int \<Rightarrow> int option \<Rightarrow> string option \<Rightarrow> string option \<Rightarrow> string option
      \<Rightarrow> string option \<Rightarrow> string option \<Rightarrow> string option \<Rightarrow> Metadata \<Rightarrow> 'w
      \<Rightarrow> (api_result \<times> 'w) exec" where
  "fileClient_Create lib client fileContentLength timeout fileContentType fileContentEncoding
      fileContentLanguage fileCacheControl fileContentMD5 fileContentDisposition metadata =
     client_call lib client [timeout_check timeout]
       (fileClient_createPreparer lib client fileContentLength timeout fileContentType
         fileContentEncoding fileContentLanguage fileCacheControl fileContentMD5 fileContentDisposition
         metadata)
       (fileClient_createResponder lib) ((=) FileCreateResponse)"

definition fileClient_deletePreparer ::
    "lib \<Rightarrow> 'w fileClient \<Rightarrow> int option \<Rightarrow> http_request \<times> api_error option" where
  "fileClient_deletePreparer lib client timeout =
     start_request lib ''DELETE'' client None (\<lambda>req.
       let params = URL_Query (rq_URL req);
           params = opt_param ''timeout'' (map_option FormatInt timeout) params;
           req = set_query params req;
           req = set_header ''x-ms-version'' ServiceVersion req
       in (req, None))"

definition fileClient_deleteResponder :: "lib \<Rightarrow> http_response option option \<Rightarrow> reply exec" where
  "fileClient_deleteResponder lib = discard_responder lib [200, 202] FileDeleteResponse"

definition fileClient_Delete ::
    "lib \<Rightarrow> 'w fileClient \<Rightarrow> int option \<Rightarrow> 'w \<Rightarrow> (api_result \<times> 'w) exec" where
  "fileClient_Delete lib client timeout =
     client_call lib client [timeout_check timeout]
       (fileClient_deletePreparer lib client timeout)
       (fileClient_deleteResponder lib) ((=) FileDeleteResponse)"

definition fileClient_downloadPreparer ::
    "lib \<Rightarrow> 'w fileClient \<Rightarrow> int option \<Rightarrow> string option \<Rightarrow> bool option
      \<Rightarrow> http_request \<times> api_error option" where
  "fileClient_downloadPreparer lib client timeout rangeParameter rangeGetContentMD5 =
     start_request lib ''GET'' client None (\<lambda>req.
       let params = URL_Query (rq_URL req);
           params = opt_param ''timeout'' (map_option FormatInt timeout) params;
           req = set_query params req;
           req = set_header ''x-ms-version'' ServiceVersion req;
           req = opt_header ''x-ms-range'' rangeParameter req;
           req = opt_header ''x-ms-range-get-content-md5'' (map_option FormatBool rangeGetContentMD5) req
       in (req, None))"

definition fileClient_downloadResponder :: "lib \<Rightarrow> http_response option option \<Rightarrow> reply exec" where
  "fileClient_downloadResponder lib = stream_responder lib [200, 206] DownloadResponse"

definition fileClient_Download ::
    "lib \<Rightarrow> 'w fileClient \<Rightarrow> int option \<Rightarrow> string option \<Rightarrow> bool option \<Rightarrow> 'w
      \<Rightarrow> (api_result \<times> 'w) exec" where
  "fileClient_Download lib client timeout rangeParameter rangeGetContentMD5 =
     client_call lib client [timeout_check timeout]
       (fileClient_downloadPreparer lib client timeout rangeParameter rangeGetContentMD5)
       (fileClient_downloadResponder lib) ((=) DownloadResponse)"

definition fileClient_getPropertiesPreparer ::
    "lib \<Rightarrow> 'w fileClient \<Rightarrow> string option \<Rightarrow> int option \<Rightarrow> http_request \<times> api_error option" where
  "fileClient_getPropertiesPreparer lib client sharesnapshot timeout =
     start_request lib ''HEAD'' client None (\<lambda>req.
       let params = URL_Query (rq_URL req);
           params = nonempty_param ''sharesnapshot'' sharesnapshot params;
           params = opt_param ''timeout'' (map_option FormatInt timeout) params;
           req = set_query params req;
           req = set_header ''x-ms-version'' ServiceVersion req
       in (req, None))"

definition fileClient_getPropertiesResponder :: "lib \<Rightarrow> http_response option option \<Rightarrow> reply exec" where
  "fileClient_getPropertiesResponder lib = discard_responder lib [200] FileGetPropertiesResponse"

definition fileClient_GetProperties ::
    "lib \<Rightarrow> 'w fileClient \<Rightarrow> string option \<Rightarrow> int option \<Rightarrow> 'w \<Rightarrow> (api_result \<times> 'w) exec" where
  "fileClient_GetProperties lib client sharesnapshot timeout =
     client_call lib client [timeout_check timeout]
       (fileClient_getPropertiesPreparer lib client sharesnapshot timeout)
       (fileClient_getPropertiesResponder lib) ((=) FileGetPropertiesResponse)"

definition fileClient_getRangeListPreparer ::
    "lib \<Rightarrow> 'w fileClient \<Rightarrow> string option \<Rightarrow> int option \<Rightarrow> string option
      \<Rightarrow> http_request \<times> api_error option" where
  "fileClient_getRangeListPreparer lib client sharesnapshot timeout rangeParameter =
     start_request lib ''GET'' client None (\<lambda>req.
       let params = URL_Query (rq_URL req);
           params = nonempty_param ''sharesnapshot'' sharesnapshot params;
           params = opt_param ''timeout'' (map_option FormatInt timeout) params;
           params = Values_Set params ''comp'' ''rangelist'';
           req = set_query params req;
           req = set_header ''x-ms-version'' ServiceVersion req;
           req = opt_header ''x-ms-range'' rangeParameter req
       in (req, None))"

definition fileClient_getRangeListResponder :: "lib \<Rightarrow> http_response option option \<Rightarrow> reply exec" where
  "fileClient_getRangeListResponder lib = xml_responder lib [200] Ranges [] (lib_UnmarshalRanges lib)"

definition fileClient_GetRangeList ::
    "lib \<Rightarrow> 'w fileClient \<Rightarrow> string option \<Rightarrow> int option \<Rightarrow> string option \<Rightarrow> 'w
      \<Rightarrow> (api_result \<times> 'w) exec" where
  "fileClient_GetRangeList lib client sharesnapshot timeout rangeParameter =
     client_call lib client [timeout_check timeout]
       (fileClient_getRangeListPreparer lib client sharesnapshot timeout rangeParameter)
       (fileClient_getRangeListResponder lib) is_Ranges"

definition fileClient_setHTTPHeadersPreparer ::
    "lib \<Rightarrow> 'w fileClient \<Rightarrow> int option \<Rightarrow> int option \<Rightarrow> string option \<Rightarrow> string option
      \<Rightarrow> string option \<Rightarrow> string option \<Rightarrow> string option \<Rightarrow> string option
      \<Rightarrow> http_request \<times> api_error option" where
  "fileClient_setHTTPHeadersPreparer lib client timeout fileContentLength fileContentType
      fileContentEncoding fileContentLanguage fileCacheControl fileContentMD5 fileContentDisposition =
     start_request lib ''PUT'' client None (\<lambda>req.
       let params = URL_Query (rq_URL req);
           params = opt_param ''timeout'' (map_option FormatInt timeout) params;
           params = Values_Set params ''comp'' ''properties'';
           req = set_query params req;
           req = set_header ''x-ms-version'' ServiceVersion req;
           req = opt_header ''x-ms-content-length'' (map_option FormatInt fileContentLength) req;
           req = opt_header ''x-ms-content-type'' fileContentType req;
           req = opt_header ''x-ms-content-encoding'' fileContentEncoding req;
           req = opt_header ''x-ms-content-language'' fileContentLanguage req;
           req = opt_header ''x-ms-cache-control'' fileCacheControl req;
           req = opt_header ''x-ms-content-md5'' (map_option EncodeToString fileContentMD5) req;
           req = opt_header ''x-ms-content-disposition'' fileContentDisposition req
       in (req, None))"

definition fileClient_setHTTPHeadersResponder :: "lib \<Rightarrow> http_response option option \<Rightarrow> reply exec" where
  "fileClient_setHTTPHeadersResponder lib = discard_responder lib [200] FileSetHTTPHeadersResponse"

definition fileClient_SetHTTPHeaders ::
    "lib \<Rightarrow> 'w fileClient \<Rightarrow> int option \<Rightarrow> int option \<Rightarrow> string option \<Rightarrow> string option
      \<Rightarrow> string option \<Rightarrow> string option \<Rightarrow> string option \<Rightarrow> string option \<Rightarrow> 'w
      \<Rightarrow> (api_result \<times> 'w) exec" where
  "fileClient_SetHTTPHeaders lib client timeout fileContentLength fileContentType fileContentEncoding
      fileContentLanguage fileCacheControl fileContentMD5 fileContentDisposition =
     client_call lib client [timeout_check timeout]
       (fileClient_setHTTPHeadersPreparer lib client timeout fileContentLength fileContentType
         fileContentEncoding fileContentLanguage fileCacheControl fileContentMD5 fileContentDisposition)
       (fileClient_setHTTPHeadersResponder lib) ((=) FileSetHTTPHeadersResponse)"

definition fileClient_setMetadataPreparer ::
    "lib \<Rightarrow> 'w fileClient \<Rightarrow> int option \<Rightarrow> Metadata \<Rightarrow> http_request \<times> api_error option" where
  "fileClient_setMetadataPreparer lib client timeout metadata =
     start_request lib ''PUT'' client None (\<lambda>req.
       let params = URL_Query (rq_URL req);
           params = opt_param ''timeout'' (map_option FormatInt timeout) params;
           params = Values_Set params ''comp'' ''metadata'';
           req = set_query params req;
           req = metadata_headers metadata req;
           req = set_header ''x-ms-version'' ServiceVersion req
       in (req, None))"

definition fileClient_setMetadataResponder :: "lib \<Rightarrow> http_response option option \<Rightarrow> reply exec" where
  "fileClient_setMetadataResponder lib = discard_responder lib [200, 202] FileSetMetadataResponse"

definition fileClient_SetMetadata ::
    "lib \<Rightarrow> 'w fileClient \<Rightarrow> int option \<Rightarrow> Metadata \<Rightarrow> 'w \<Rightarrow> (api_result \<times> 'w) exec" where
  "fileClient_SetMetadata lib client timeout metadata =
     client_call lib client [timeout_check timeout]
       (fileClient_setMetadataPreparer lib client timeout metadata)
       (fileClient_setMetadataResponder lib) ((=) FileSetMetadataResponse)"

definition fileClient_startCopyPreparer ::
    "lib \<Rightarrow> 'w fileClient \<Rightarrow> string \<Rightarrow> int option \<Rightarrow> Metadata \<Rightarrow> http_request \<times> api_error option" where
  "fileClient_startCopyPreparer lib client copySource timeout metadata =
     start_request lib ''PUT'' client None (\<lambda>req.
       let params = URL_Query (rq_URL req);
           params = opt_param ''timeout'' (map_option FormatInt timeout) params;
           req = set_query params req;
           req = set_header ''x-ms-version'' ServiceVersion req;
           req = metadata_headers metadata req;
           req = set_header ''x-ms-copy-source'' copySource req
       in (req, None))"

definition fileClient_startCopyResponder :: "lib \<Rightarrow> http_response option option \<Rightarrow> reply exec" where
  "fileClient_startCopyResponder lib = discard_responder lib [200, 202] FileStartCopyResponse"

definition fileClient_StartCopy ::
    "lib \<Rightarrow> 'w fileClient \<Rightarrow> string \<Rightarrow> int option \<Rightarrow> Metadata \<Rightarrow> 'w \<Rightarrow> (api_result \<times> 'w) exec" where
  "fileClient_StartCopy lib client copySource timeout metadata =
     client_call lib client [timeout_check timeout]
       (fileClient_startCopyPreparer lib client copySource timeout metadata)
       (fileClient_startCopyResponder lib) ((=) FileStartCopyResponse)"

definition fileClient_uploadRangePreparer ::
    "lib \<Rightarrow> 'w fileClient \<Rightarrow> string \<Rightarrow> FileRangeWriteType \<Rightarrow> int \<Rightarrow> string option \<Rightarrow> int option
      \<Rightarrow> string option \<Rightarrow> http_request \<times> api_error option" where
  "fileClient_uploadRangePreparer lib client rangeParameter fileRangeWrite contentLength body timeout
      contentMD5 =
     start_request lib ''PUT'' client body (\<lambda>req.
       let params = URL_Query (rq_URL req);
           params = opt_param ''timeout'' (map_option FormatInt timeout) params;
           params = Values_Set params ''comp'' ''range'';
           req = set_query params req;
           req = set_header ''x-ms-range'' rangeParameter req;
           req = set_header ''x-ms-write'' fileRangeWrite req;
           req = set_header ''Content-Length'' (FormatInt contentLength) req;
           req = opt_header ''Content-MD5'' (map_option EncodeToString contentMD5) req;
           req = set_header ''x-ms-version'' ServiceVersion req
       in (req, None))"

definition fileClient_uploadRangeResponder :: "lib \<Rightarrow> http_response option option \<Rightarrow> reply exec" where
  "fileClient_uploadRangeResponder lib = discard_responder lib [200, 201] FileUploadRangeResponse"

definition fileClient_UploadRange ::
    "lib \<Rightarrow> 'w fileClient \<Rightarrow> string \<Rightarrow> FileRangeWriteType \<Rightarrow> int \<Rightarrow> string option \<Rightarrow> int option
      \<Rightarrow> string option \<Rightarrow> 'w \<Rightarrow> (api_result \<times> 'w) exec" where
  "fileClient_UploadRange lib client rangeParameter fileRangeWrite contentLength body timeout contentMD5 =
     client_call lib client [timeout_check timeout]
       (fileClient_uploadRangePreparer lib client rangeParameter fileRangeWrite contentLength body
         timeout contentMD5)
       (fileClient_uploadRangeResponder lib) ((=) FileUploadRangeResponse)"

end
