(* ===== verification/Parsing_Urls.thy ===== *)
theory Parsing_Urls
  imports Sas_Query
begin

text \<open>
  parsing\_urls.go: taking a URL apart into account, share, path, snapshot, SAS and the other
  query parameters, and putting it together again, with the two styles of host names.
\<close>

section \<open>Definitions\<close>

definition shareSnapshot :: string where
  "shareSnapshot = ''sharesnapshot''"

record FileURLParts =
  fp_Scheme :: string
  fp_Host :: string
  fp_ShareName :: string
  fp_DirectoryOrFilePath :: string
  fp_ShareSnapshot :: string
  fp_SAS :: SASQueryParameters
  fp_UnparsedParams :: string
  fp_AccountName :: string   \<comment> \<open>\<open>IPEndpointStyleInfo.AccountName\<close>\<close>

text \<open>\<open>host[0]\<close> panics when \<open>SplitHostPort\<close> finds an empty host before the port.\<close>

definition isIPEndpointStyle :: "string \<Rightarrow> bool exec" where
  "isIPEndpointStyle host =
     (if host = [] then Return False
      else
        let host = (case SplitHostPort host of Some (h, _) \<Rightarrow> h | None \<Rightarrow> host) in
        (case host of
           [] \<Rightarrow> index_panic
         | c # cs \<Rightarrow>
             let host = (if c = CHR ''['' \<and> last host = CHR '']'' then butlast cs else host)
             in Return (ParseIP host \<noteq> [])))"

text \<open>The share name and the path after it.\<close>

definition split_share :: "string \<Rightarrow> FileURLParts \<Rightarrow> FileURLParts" where
  "split_share path up =
     (case IndexByte path (CHR ''/'') of
        None \<Rightarrow> up\<lparr>fp_ShareName := path\<rparr>
      | Some i \<Rightarrow> up\<lparr>fp_ShareName := take i path, fp_DirectoryOrFilePath := drop (Suc i) path\<rparr>)"

definition split_path :: "string \<Rightarrow> FileURLParts \<Rightarrow> FileURLParts exec" where
  "split_path path up =
     (if path = [] then Return up
      else
        let path = (if hd path = CHR ''/'' then tl path else path) in
        bind_exec (isIPEndpointStyle (fp_Host up)) (\<lambda>ip.
          if ip then
            (case IndexByte path (CHR ''/'') of
               None \<Rightarrow> Return (up\<lparr>fp_AccountName := path\<rparr>)
             | Some i \<Rightarrow> Return (split_share (drop (Suc i) path) (up\<lparr>fp_AccountName := take i path\<rparr>)))
          else Return (split_share path up)))"

fun caseInsensitiveValues_Get :: "unicode_tables \<Rightarrow> Values \<Rightarrow> string \<Rightarrow> string list option" where
  "caseInsensitiveValues_Get u [] key = None"
| "caseInsensitiveValues_Get u ((k, v) # rest) key =
     (if ToLower u k = ToLower u key then Some v else caseInsensitiveValues_Get u rest key)"

definition NewFileURLParts :: "unicode_tables \<Rightarrow> url \<Rightarrow> FileURLParts exec" where
  "NewFileURLParts u url =
     bind_exec
       (split_path (u_Path url)
          \<lparr>fp_Scheme = u_Scheme url, fp_Host = u_Host url, fp_ShareName = [],
           fp_DirectoryOrFilePath = [], fp_ShareSnapshot = [], fp_SAS = empty_SAS,
           fp_UnparsedParams = [], fp_AccountName = []\<rparr>) (\<lambda>up.
       let paramsMap = URL_Query url in
       bind_exec
         (case caseInsensitiveValues_Get u paramsMap shareSnapshot of
            None \<Rightarrow> Return (up, paramsMap)
          | Some [] \<Rightarrow> index_panic
          | Some (snap # _) \<Rightarrow> Return (up\<lparr>fp_ShareSnapshot := snap\<rparr>, AList.delete shareSnapshot paramsMap))
         (\<lambda>(up, paramsMap).
           bind_exec (newSASQueryParameters u paramsMap True) (\<lambda>(sas, paramsMap).
             Return (up\<lparr>fp_SAS := sas, fp_UnparsedParams := Values_Encode paramsMap\<rparr>))))"

definition append_query :: "string \<Rightarrow> string \<Rightarrow> string" where
  "append_query rawQuery q = (if rawQuery \<noteq> [] then rawQuery @ ''&'' else rawQuery) @ q"

definition FileURLParts_URL :: "FileURLParts \<Rightarrow> url exec" where
  "FileURLParts_URL up =
     bind_exec (isIPEndpointStyle (fp_Host up)) (\<lambda>ip.
       let path = (if ip \<and> fp_AccountName up \<noteq> [] then ''/'' @ fp_AccountName up else []);
           path = (if fp_ShareName up \<noteq> []
                   then path @ ''/'' @ fp_ShareName up
                     @ (if fp_DirectoryOrFilePath up \<noteq> [] then ''/'' @ fp_DirectoryOrFilePath up else [])
                   else path);
           rawQuery = fp_UnparsedParams up;
           rawQuery = (if fp_ShareSnapshot up \<noteq> []
                       then append_query rawQuery (shareSnapshot @ ''='' @ fp_ShareSnapshot up) else rawQuery);
           sas = SAS_Encode (fp_SAS up);
           rawQuery = (if sas \<noteq> [] then append_query rawQuery sas else rawQuery)
       in Return (empty_url\<lparr>u_Scheme := fp_Scheme up, u_Host := fp_Host up, u_Path := path,
                            u_RawQuery := rawQuery\<rparr>))"

section \<open>Parts a URL can carry\<close>

text \<open>
  \<open>ip\<close> tells whether the host is an address. Other parameters are an encoded map none of whose
  names is the snapshot's or a SAS parameter's in any case; a snapshot is written as it is, so
  it must read back as itself.
\<close>

definition names_ok :: "bool \<Rightarrow> FileURLParts \<Rightarrow> bool" where
  "names_ok ip p \<longleftrightarrow> CHR ''/'' \<notin> set (fp_AccountName p) \<and> CHR ''/'' \<notin> set (fp_ShareName p)
     \<and> (fp_ShareName p = [] \<longrightarrow> fp_DirectoryOrFilePath p = [])
     \<and> (if ip then fp_ShareName p \<noteq> [] \<longrightarrow> fp_AccountName p \<noteq> [] else fp_AccountName p = [])"

definition other_params_ok :: "unicode_tables \<Rightarrow> Values \<Rightarrow> bool" where
  "other_params_ok u v \<longleftrightarrow> go_map_ok v \<and>
     list_all (\<lambda>(k, xs). xs \<noteq> [] \<and> ToLower u k \<notin> set (shareSnapshot # sas_names)) v"

definition snapshot_ok :: "string \<Rightarrow> bool" where
  "snapshot_ok s \<longleftrightarrow> list_all (\<lambda>c. \<not> query_sep c) s \<and> QueryUnescape s = Some s"

section \<open>Paths\<close>

lemma split_share_append:
  assumes "CHR ''/'' \<notin> set s"
  shows "split_share s up = up\<lparr>fp_ShareName := s\<rparr>"
    and "split_share (s @ CHR ''/'' # t) up = up\<lparr>fp_ShareName := s, fp_DirectoryOrFilePath := t\<rparr>"
  using assms IndexByte_None_iff [of s "CHR ''/''"] by (simp_all add: split_share_def IndexByte_append)

definition parts_path :: "bool \<Rightarrow> FileURLParts \<Rightarrow> string" where
  "parts_path ip p =
     (if ip \<and> fp_AccountName p \<noteq> [] then ''/'' @ fp_AccountName p else [])
     @ (if fp_ShareName p \<noteq> []
        then ''/'' @ fp_ShareName p
          @ (if fp_DirectoryOrFilePath p \<noteq> [] then ''/'' @ fp_DirectoryOrFilePath p else [])
        else [])"

lemma split_path_parts:
  assumes host: "isIPEndpointStyle (fp_Host p) = Return ip" and ok: "names_ok ip p"
    and up: "fp_Host up = fp_Host p" "fp_ShareName up = []" "fp_DirectoryOrFilePath up = []" "fp_AccountName up = []"
  shows "split_path (parts_path ip p) up =
    Return (up\<lparr>fp_AccountName := fp_AccountName p, fp_ShareName := fp_ShareName p,
      fp_DirectoryOrFilePath := fp_DirectoryOrFilePath p\<rparr>)"
proof -
  have s: "CHR ''/'' \<notin> set (fp_ShareName p)" and a: "CHR ''/'' \<notin> set (fp_AccountName p)"
    using ok by (simp_all add: names_ok_def)
  note ixs = IndexByte_None_iff [THEN iffD2, OF a] IndexByte_append [OF a] split_share_append [OF s]
  show ?thesis
  proof (cases ip)
    case True
    then show ?thesis
      using ok host up
      by (cases up) (auto simp: parts_path_def split_path_def names_ok_def ixs)
  next
    case False
    then show ?thesis
      using ok host up
      by (cases up) (auto simp: parts_path_def split_path_def names_ok_def ixs)
  qed
qed

section \<open>Queries\<close>

text \<open>The query of the parts as pieces, and the pairs those pieces stand for.\<close>

definition snapshot_pieces :: "string \<Rightarrow> string list" where
  "snapshot_pieces s = (if s = [] then [] else [shareSnapshot @ ''='' @ s])"

definition snapshot_pairs :: "string \<Rightarrow> (string \<times> string) list" where
  "snapshot_pairs s = (if s = [] then [] else [(shareSnapshot, s)])"

lemma shareSnapshot_plain:
  "shareSnapshot \<noteq> []" "CHR ''='' \<notin> set shareSnapshot" "list_all (\<lambda>c. \<not> query_sep c) shareSnapshot"
  "QueryUnescape shareSnapshot = Some shareSnapshot" "ToLower u shareSnapshot = shareSnapshot"
  "shareSnapshot \<notin> set sas_names"
proof -
  have "ascii shareSnapshot" "map lower_char shareSnapshot = shareSnapshot" by code_simp+
  then show "ToLower u shareSnapshot = shareSnapshot" by (simp add: ToLower_ascii)
qed code_simp+

lemma URL_raw_query:
  assumes "isIPEndpointStyle (fp_Host p) = Return ip"
  shows "FileURLParts_URL p = Return (empty_url\<lparr>u_Scheme := fp_Scheme p, u_Host := fp_Host p,
    u_Path := parts_path ip p,
    u_RawQuery := join_queries [fp_UnparsedParams p, Join (snapshot_pieces (fp_ShareSnapshot p)) ''&'',
      SAS_Encode (fp_SAS p)]\<rparr>)"
  using assms
  by (simp add: FileURLParts_URL_def parts_path_def join_queries_def append_query_def
      snapshot_pieces_def shareSnapshot_plain)

lemma clean_snapshot_pieces: "snapshot_ok s \<Longrightarrow> list_all clean_piece (snapshot_pieces s)"
  using shareSnapshot_plain(3)
  by (auto simp: snapshot_pieces_def snapshot_ok_def clean_piece_def query_sep_def list_all_iff)

lemma fold_parse_snapshot:
  assumes "snapshot_ok s"
  shows "fold parse_piece (snapshot_pieces s) (m, err) = (add_pairs (snapshot_pairs s) m, err)"
proof -
  have "split_pair (shareSnapshot @ CHR ''='' # s) = (shareSnapshot, s)"
    by (simp add: split_pair_def IndexByte_append [OF shareSnapshot_plain(2)])
  with assms shareSnapshot_plain(4) show ?thesis
    by (simp add: snapshot_pieces_def snapshot_pairs_def add_pairs_def parse_piece_def snapshot_ok_def)
qed

lemma add_pairs_append: "add_pairs (ps @ qs) m = add_pairs qs (add_pairs ps m)"
  by (simp add: add_pairs_def)

lemma parse_parts_query:
  assumes "snapshot_ok s"
  shows "fst (ParseQuery (join_queries [Values_Encode v, Join (snapshot_pieces s) ''&'', SAS_Encode sas]))
    = add_pairs (Values_pairs v @ snapshot_pairs s @ Values_pairs (addToValues sas [])) []"
proof -
  let ?sss = "[map encode_pair (Values_pairs v), snapshot_pieces s,
    map encode_pair (Values_pairs (addToValues sas []))]"
  have "query_pieces (join_queries (map (\<lambda>ss. Join ss ''&'') ?sss)) = concat ?sss"
    by (rule query_pieces_join) (use clean_snapshot_pieces [OF assms] in \<open>auto simp: list_all_iff\<close>)
  then show ?thesis
    by (simp add: ParseQuery_def Values_Encode_def SAS_Encode_def fold_parse_encode
        fold_parse_snapshot [OF assms] add_pairs_append)
qed

section \<open>Parameters read back\<close>

lemma sas_field_names: "sas_field q k \<noteq> None \<Longrightarrow> k \<in> set sas_names"
  by (erule contrapos_np) (simp add: sas_names_def sas_field_def)

text \<open>What the parsed query holds: the other parameters, the snapshot, the SAS fields.\<close>

lemma map_of_parts_query:
  assumes v: "other_params_ok u v"
  shows "map_of (add_pairs (Values_pairs v @ snapshot_pairs s @ Values_pairs (addToValues q [])) []) k =
    (if k = shareSnapshot then (if s = [] then None else Some [s])
     else case map_of v k of Some xs \<Rightarrow> Some xs | None \<Rightarrow> map_option (\<lambda>x. [x]) (sas_field q k))"
proof -
  have ok: "go_map_ok v" "go_map_ok (addToValues q [])" using v by (simp_all add: other_params_ok_def)
  have other: "xs \<noteq> [] \<and> k \<noteq> shareSnapshot \<and> k \<notin> set sas_names" if "map_of v k = Some xs" for k xs
  proof -
    have *: "xs \<noteq> [] \<and> ToLower u k \<notin> set (shareSnapshot # sas_names)"
      using that v by (auto simp: other_params_ok_def list_all_iff go_map_ok_map_of)
    then have "k \<noteq> shareSnapshot" using shareSnapshot_plain(5) [of u] by auto
    moreover have "k \<notin> set sas_names" using * ToLower_sas_name [of k u] by auto
    ultimately show ?thesis using * by simp
  qed
  have ns: "shareSnapshot \<notin> set sas_names" by (rule shareSnapshot_plain(6))
  then have nf: "sas_field q shareSnapshot = None" using sas_field_names by blast
  have snap: "fst ` set (snapshot_pairs s) = (if s = [] then {} else {shareSnapshot})"
    "map snd (filter (\<lambda>p. fst p = k) (snapshot_pairs s)) = (if s \<noteq> [] \<and> k = shareSnapshot then [s] else [])"
    by (auto simp: snapshot_pairs_def)
  have nv: "map_of v k = None" if "k = shareSnapshot \<or> sas_field q k \<noteq> None"
    using that other [of k] sas_field_names [of q k] by (cases "map_of v k") auto
  show ?thesis
    using other [of k] nf nv snap
    by (auto simp: map_of_add_pairs image_Un fst_Values_pairs Values_pairs_key [OF ok(1)]
        Values_pairs_key [OF ok(2)] map_of_addToValues split: option.splits)
qed

text \<open>A map of SAS fields and other parameters gives the SAS back and keeps the others.\<close>

text \<open>A query that mixes encoded SAS parameters with other parameters.\<close>

definition mixed :: "SASQueryParameters \<Rightarrow> Values \<Rightarrow> Values \<Rightarrow> bool" where
  "mixed q v m \<longleftrightarrow> go_map_ok m
     \<and> (\<forall>k. map_of m k = (case map_of v k of Some xs \<Rightarrow> Some xs | None \<Rightarrow> map_option (\<lambda>x. [x]) (sas_field q k)))"

lemma other_param: "other_params_ok u v \<Longrightarrow> map_of v k = Some xs \<Longrightarrow> xs \<noteq> [] \<and> ToLower u k \<notin> set sas_names"
  by (auto simp: other_params_ok_def list_all_iff go_map_ok_map_of)

lemma mixed_key:
  assumes "mixed q v m" and "other_params_ok u v" and "(k, xs) \<in> set m"
  shows "xs \<noteq> []"
    and "ToLower u k \<in> set sas_names \<Longrightarrow> ToLower u k = k \<and> map_of v k = None \<and> sas_field q k = Some (hd xs)"
proof -
  have "go_map_ok m" using assms(1) by (simp add: mixed_def)
  with assms(3) have mk: "map_of m k = Some xs" by (simp add: go_map_ok_map_of)
  have "xs \<noteq> [] \<and> (ToLower u k \<in> set sas_names \<longrightarrow> ToLower u k = k \<and> map_of v k = None \<and> sas_field q k = Some (hd xs))"
  proof (cases "map_of v k")
    case None
    with mk assms(1) obtain x where x: "sas_field q k = Some x" "xs = [x]" by (auto simp: mixed_def)
    then have "k \<in> set sas_names" using sas_field_names [of q k] by simp
    with x None show ?thesis by (simp add: ToLower_sas_name)
  next
    case (Some ys)
    with mk assms(1) other_param [OF assms(2) Some] show ?thesis by (simp add: mixed_def)
  qed
  then show "xs \<noteq> []"
    "ToLower u k \<in> set sas_names \<Longrightarrow> ToLower u k = k \<and> map_of v k = None \<and> sas_field q k = Some (hd xs)" by simp_all
qed

lemma mixed_clash:
  assumes "mixed q v m" and "other_params_ok u v"
  shows "[] \<notin> snd ` set m" and "no_case_clash u m"
proof -
  show "[] \<notin> snd ` set m" by (auto dest: mixed_key(1) [OF assms])
  let ?s = "filter (\<lambda>e. ToLower u (fst e) \<in> set sas_names) m"
  have low: "map (\<lambda>e. ToLower u (fst e)) ?s = map fst ?s"
    by (rule map_cong) (use mixed_key(2) [OF assms] in fastforce)+
  have "go_map_ok ?s" using assms(1) by (simp add: mixed_def)
  then show "no_case_clash u m" unfolding no_case_clash_def filter_map comp_def go_map_ok_def low .
qed

lemma mixed_low_params:
  assumes "mixed q v m" and "other_params_ok u v" and n: "n \<in> set sas_names"
  shows "map_of (low_params u m) n = sas_field q n"
proof (cases "sas_field q n")
  case None
  have "n \<notin> (\<lambda>e. ToLower u (fst e)) ` set m"
    using mixed_key(2) [OF assms(1,2)] n None by fastforce
  with None show ?thesis by (simp add: map_of_low_params_None)
next
  case (Some x)
  have "map_of v n = None"
    using other_param [OF assms(2), of n] n ToLower_sas_name [OF n, of u] by (cases "map_of v n") auto
  with Some assms(1) have "(n, [x]) \<in> set m" by (simp add: mixed_def flip: go_map_ok_map_of)
  then have "(n, x) \<in> set (low_params u m)"
    using ToLower_sas_name [OF n, of u] by (force simp: low_params_def)
  then obtain y where y: "map_of (low_params u m) n = Some y" by (metis weak_map_of_SomeI)
  then have "(n, y) \<in> set (low_params u m)" by (rule map_of_SomeD)
  then obtain k xs where "(k, xs) \<in> set m" "n = ToLower u k" "y = hd xs"
    by (auto simp: low_params_def)
  with mixed_key(2) [OF assms(1,2), of k xs] n y Some show ?thesis by simp
qed

lemma mixed_non_sas:
  assumes "mixed q v m" and "other_params_ok u v"
  shows "map_of (non_sas u m) k = map_of v k"
proof (cases "ToLower u k \<in> set sas_names")
  case True
  then have "map_of (non_sas u m) k = None" by (auto simp: non_sas_def map_of_eq_None_iff)
  moreover have "map_of v k = None" using True other_param [OF assms(2), of k] by (cases "map_of v k") auto
  ultimately show ?thesis by simp
next
  case False
  then have "map_of (non_sas u m) k = map_of m k"
    unfolding non_sas_def by (rule map_of_filter_fst [of "\<lambda>k. ToLower u k \<notin> set sas_names"])
  moreover have "sas_field q k = None"
    using False sas_field_names [of q k] ToLower_sas_name [of k u] by (cases "sas_field q k") auto
  ultimately show ?thesis using assms(1) by (simp add: mixed_def split: option.splits)
qed

lemma newSAS_of_mixed:
  assumes "sas_ok q" and m: "mixed q v m" and v: "other_params_ok u v"
  shows "\<exists>r. newSASQueryParameters u m True = Return (q, r) \<and> Values_Encode r = Values_Encode v"
proof -
  have sas: "sas_apply (map_of (low_params u m)) empty_SAS = q"
    using sas_apply_field [OF assms(1)] mixed_low_params [OF m v] by (metis sas_apply_cong)
  have "map_of (non_sas u m) = map_of v" using mixed_non_sas [OF m v] by (rule ext)
  then have "Values_Encode (non_sas u m) = Values_Encode v"
    using v m by (intro Values_Encode_cong) (simp_all add: non_sas_def mixed_def other_params_ok_def)
  with newSAS_eq [OF mixed_clash [OF m v], of True] sas show ?thesis by simp
qed

lemma Get_unique:
  assumes "go_map_ok m" and "\<And>k xs. (k, xs) \<in> set m \<Longrightarrow> ToLower u k = ToLower u key \<Longrightarrow> k = key"
  shows "caseInsensitiveValues_Get u m key = map_of m key"
  using assms
proof (induction m)
  case (Cons e m)
  obtain k xs where "e = (k, xs)" by (cases e)
  with Cons show ?case by auto
qed simp

lemma delete_absent: "k \<notin> fst ` set m \<Longrightarrow> AList.delete k m = m"
  by (induction m) auto

section \<open>Round trip\<close>

text \<open>The query of a URL made from parts: the other parameters, the snapshot and the SAS.\<close>

definition parts_query :: "FileURLParts \<Rightarrow> Values \<Rightarrow> Values" where
  "parts_query p v = add_pairs (Values_pairs v @ snapshot_pairs (fp_ShareSnapshot p)
     @ Values_pairs (addToValues (fp_SAS p) [])) []"

lemma go_map_ok_parts_query [simp]: "go_map_ok (parts_query p v)"
  by (simp add: parts_query_def)

lemma parts_query_snapshot_key:
  assumes v: "other_params_ok u v" and "(k, xs) \<in> set (parts_query p v)" and "ToLower u k = ToLower u shareSnapshot"
  shows "k = shareSnapshot"
proof (rule ccontr)
  assume k: "k \<noteq> shareSnapshot"
  have "map_of (parts_query p v) k = Some xs" using assms(2) by (simp add: go_map_ok_map_of)
  with k map_of_parts_query [OF v, of "fp_ShareSnapshot p" "fp_SAS p" k, folded parts_query_def]
  consider "map_of v k = Some xs" | "sas_field (fp_SAS p) k \<noteq> None" by (auto split: option.splits)
  then show False
  proof cases
    case 1
    with v assms(3) show False
      by (auto simp: other_params_ok_def list_all_iff go_map_ok_map_of shareSnapshot_plain)
  next
    case 2
    then have "k \<in> set sas_names" by (rule sas_field_names)
    with k assms(3) show False by (simp add: shareSnapshot_plain ToLower_sas_name)
  qed
qed

lemma parts_query_get:
  assumes "other_params_ok u v"
  shows "caseInsensitiveValues_Get u (parts_query p v) shareSnapshot =
    (if fp_ShareSnapshot p = [] then None else Some [fp_ShareSnapshot p])"
proof -
  have "caseInsensitiveValues_Get u (parts_query p v) shareSnapshot = map_of (parts_query p v) shareSnapshot"
    by (rule Get_unique) (simp, rule parts_query_snapshot_key [OF assms])
  with map_of_parts_query [OF assms, of "fp_ShareSnapshot p" "fp_SAS p" shareSnapshot, folded parts_query_def]
  show ?thesis by simp
qed

lemma parts_query_mixed:
  assumes "other_params_ok u v"
  shows "mixed (fp_SAS p) v (AList.delete shareSnapshot (parts_query p v))"
    and "fp_ShareSnapshot p = [] \<Longrightarrow> AList.delete shareSnapshot (parts_query p v) = parts_query p v"
proof -
  note mk = map_of_parts_query [OF assms, of "fp_ShareSnapshot p" "fp_SAS p", folded parts_query_def]
  have "map_of v shareSnapshot = None"
    using assms shareSnapshot_plain(5) [of u]
    by (auto simp: other_params_ok_def list_all_iff map_of_eq_None_iff)
  moreover have "sas_field (fp_SAS p) shareSnapshot = None"
    using sas_field_names shareSnapshot_plain(6) by blast
  ultimately show "mixed (fp_SAS p) v (AList.delete shareSnapshot (parts_query p v))"
    by (simp add: mixed_def mk map_of_delete_alist)
  assume "fp_ShareSnapshot p = []"
  then have "shareSnapshot \<notin> fst ` set (parts_query p v)"
    using mk [of shareSnapshot] by (simp add: map_of_eq_None_iff)
  then show "AList.delete shareSnapshot (parts_query p v) = parts_query p v" by (simp add: delete_absent)
qed

lemma parts_read_back:
  assumes host: "isIPEndpointStyle (fp_Host p) = Return ip" and names: "names_ok ip p"
    and sas: "sas_ok (fp_SAS p)" and snap: "snapshot_ok (fp_ShareSnapshot p)"
    and v: "other_params_ok u v" "fp_UnparsedParams p = Values_Encode v"
    and url: "FileURLParts_URL p = Return url"
  shows "NewFileURLParts u url = Return p"
proof -
  have u: "u_Scheme url = fp_Scheme p" "u_Host url = fp_Host p" "u_Path url = parts_path ip p"
    and q: "URL_Query url = parts_query p v"
    using url v(2) parse_parts_query [OF snap, of v "fp_SAS p"]
    by (auto simp: URL_raw_query [OF host] URL_Query_def parts_query_def)
  from newSAS_of_mixed [OF sas parts_query_mixed(1) [OF v(1)] v(1)] obtain r where
    r: "newSASQueryParameters u (AList.delete shareSnapshot (parts_query p v)) True = Return (fp_SAS p, r)"
    "Values_Encode r = Values_Encode v" by blast
  then show ?thesis
    using v(2) parts_query_mixed(2) [OF v(1), of p]
    by (cases "fp_ShareSnapshot p = []")
       (simp_all add: NewFileURLParts_def u q parts_query_get [OF v(1)] split_path_parts [OF host names])
qed

text \<open>
  C19: Putting the parts of a URL together and taking the URL apart again gives the same
  parts, for hosts that are names and for hosts that are IP addresses (where the account
  name leads the path): scheme, host, account, share, path, snapshot, every field of the
  SAS, and the other query parameters, whose encoding comes back unchanged. The parts must
  be ones a URL can carry: no slash in the account or share name, a path only after a share,
  a SAS with encodable times and addresses, a snapshot that needs no escaping (the code
  writes it as it is), and other parameters that are not SAS or snapshot parameters.
\<close>

theorem file_url_parts_roundtrip:
  assumes "isIPEndpointStyle (fp_Host p) = Return ip" and "names_ok ip p"
    and "sas_ok (fp_SAS p)" and "snapshot_ok (fp_ShareSnapshot p)"
    and "other_params_ok u v" and "fp_UnparsedParams p = Values_Encode v"
  shows "\<exists>url. FileURLParts_URL p = Return url \<and> NewFileURLParts u url = Return p"
  using parts_read_back [OF assms] URL_raw_query [OF assms(1)] by blast

definition example_parts :: FileURLParts where
  "example_parts = \<lparr>fp_Scheme = ''https'', fp_Host = ''10.1.2.3:80'', fp_ShareName = ''s'',
     fp_DirectoryOrFilePath = ''d/f'', fp_ShareSnapshot = ''2018-01-01T00:00:00.0000000Z'',
     fp_SAS = example_SAS, fp_UnparsedParams = ''comp=list'', fp_AccountName = ''acct''\<rparr>"

lemma example_hosts:
  "isIPEndpointStyle ''10.1.2.3:80'' = Return True" "isIPEndpointStyle ''h'' = Return False"
  "isIPEndpointStyle '':80'' = index_panic"
proof -
  have "IP_String (v4_prefix @ [10, 1, 2, 3]) = ''10.1.2.3''" "ipv4_ok (v4_prefix @ [10, 1, 2, 3])" by code_simp+
  with ParseIP_String_v4 have "ParseIP ''10.1.2.3'' \<noteq> []" by fastforce
  moreover have "SplitHostPort ''10.1.2.3:80'' = Some (''10.1.2.3'', ''80'')" by code_simp
  ultimately show "isIPEndpointStyle ''10.1.2.3:80'' = Return True" by (simp add: isIPEndpointStyle_def)
qed (simp_all add: isIPEndpointStyle_def SplitHostPort_def ParseIP_def)

theorem file_url_parts_roundtrip_witness:
  "\<exists>url. FileURLParts_URL example_parts = Return url
     \<and> NewFileURLParts ascii_tables url = Return example_parts"
proof (rule file_url_parts_roundtrip)
  show "isIPEndpointStyle (fp_Host example_parts) = Return True"
    by (simp add: example_parts_def example_hosts)
  show "names_ok True example_parts" by code_simp
  show "sas_ok (fp_SAS example_parts)" by code_simp
  show "snapshot_ok (fp_ShareSnapshot example_parts)" by code_simp
  show "other_params_ok ascii_tables [(''comp'', [''list''])]" by code_simp
  show "fp_UnparsedParams example_parts = Values_Encode [(''comp'', [''list''])]" by code_simp
qed

section \<open>Hosts and snapshot names at the edge\<close>

text \<open>A host that is empty before its port, with or without brackets.\<close>

definition port_only :: "string \<Rightarrow> bool" where
  "port_only host \<longleftrightarrow> (\<exists>port. set port \<inter> {CHR '':'', CHR ''['', CHR '']''} = {}
     \<and> (host = '':'' @ port \<or> host = ''[]:'' @ port))"

lemma last_index_None: "last_index s c = None \<longleftrightarrow> c \<notin> set s"
  by (induction s) (auto split: option.splits)

lemma last_index_Cons: "last_index (c # s) c = Some 0 \<longleftrightarrow> c \<notin> set s"
  by (simp add: last_index_None [symmetric] split: option.splits)

lemma SplitHostPort_empty: "(\<exists>p. SplitHostPort host = Some ([], p)) \<longleftrightarrow> port_only host"
proof
  assume "\<exists>p. SplitHostPort host = Some ([], p)"
  then obtain p i where s: "SplitHostPort host = Some ([], p)" and i: "last_index host (CHR '':'') = Some i"
    by (cases "last_index host (CHR '':'')") (auto simp: SplitHostPort_def)
  from i obtain c cs where h: "host = c # cs" by (cases host) auto
  show "port_only host"
  proof (cases "c = CHR ''[''")
    case False
    with s i h have z: "i = 0" "CHR ''['' \<notin> set host" "CHR '']'' \<notin> set host"
      by (auto simp: SplitHostPort_def Let_def split: if_splits)
    with i h have c: "c = CHR '':''" by (auto split: option.splits if_splits)
    with i h z(1) have "CHR '':'' \<notin> set cs" using last_index_Cons by blast
    with c h z show ?thesis by (auto simp: port_only_def)
  next
    case True
    with s i h obtain e where e: "IndexByte cs (CHR '']'') = Some e" "i = Suc (Suc e)" "take e cs = []"
      "CHR ''['' \<notin> set cs" "CHR '']'' \<notin> set (drop (Suc e) cs)"
      by (auto simp: SplitHostPort_def split: option.splits if_splits)
    then have e0: "e = 0" by (cases cs) auto
    with e(1) obtain ds where ds: "cs = CHR '']'' # ds" by (cases cs) (auto split: if_splits)
    with i h e(2) e0 obtain es where es: "last_index ds (CHR '':'') = Some 0" "ds \<noteq> []"
      by (cases ds) (auto split: option.splits if_splits)
    then obtain es where d: "ds = CHR '':'' # es" by (cases ds) (auto split: option.splits if_splits)
    with es have "CHR '':'' \<notin> set es" using last_index_Cons by blast
    with True h ds d e(4,5) e0 show ?thesis by (auto simp: port_only_def)
  qed
next
  assume "port_only host"
  then obtain port where p: "CHR '':'' \<notin> set port" "CHR ''['' \<notin> set port" "CHR '']'' \<notin> set port"
    and h: "host = '':'' @ port \<or> host = ''[]:'' @ port"
    by (auto simp: port_only_def)
  from p(1) have l: "last_index port (CHR '':'') = None" by (simp add: last_index_None)
  from h p l show "\<exists>p. SplitHostPort host = Some ([], p)" by (auto simp: SplitHostPort_def)
qed

lemma isIPEndpointStyle_panics:
  "isIPEndpointStyle host = (if port_only host then index_panic
     else Return (case isIPEndpointStyle host of Return b \<Rightarrow> b | _ \<Rightarrow> False))"
proof (cases "SplitHostPort host")
  case None
  with SplitHostPort_empty [of host] show ?thesis
    by (cases host) (auto simp: isIPEndpointStyle_def Let_def)
next
  case (Some hp)
  obtain h p where hp: "hp = (h, p)" by (cases hp)
  have "host \<noteq> []" using Some by (auto simp: SplitHostPort_def)
  moreover have "port_only host \<longleftrightarrow> h = []" using SplitHostPort_empty [of host] Some hp by auto
  ultimately show ?thesis using Some hp by (cases h) (simp_all add: isIPEndpointStyle_def Let_def)
qed

lemma isIPEndpointStyle_cases:
  obtains "port_only host" "isIPEndpointStyle host = index_panic"
  | ip where "\<not> port_only host" "isIPEndpointStyle host = Return ip"
  using isIPEndpointStyle_panics [of host] by (metis (full_types))

lemma split_path_returns:
  assumes "isIPEndpointStyle (fp_Host up) = Return ip"
  shows "\<exists>up'. split_path path up = Return up' \<and> fp_Host up' = fp_Host up"
  using assms by (auto simp: split_path_def split_share_def Let_def split: option.splits)

text \<open>Reading the SAS parameters ends, and keeps every parameter that is not one of them.\<close>

lemma newSAS_loop_keeps:
  assumes "[] \<notin> snd ` set vals" and "go_map_ok m"
  shows "\<exists>p' r. newSAS_loop u del vals (p, m) = Return (p', r) \<and> go_map_ok r
     \<and> (\<forall>k. ToLower u k \<notin> set sas_names \<longrightarrow> map_of r k = map_of m k)"
  using assms
proof (induction vals arbitrary: p m)
  case (Cons e vals)
  obtain k xs where e: "e = (k, xs)" by (cases e)
  with Cons.prems(1) obtain x xs' where xs: "xs = x # xs'" by (cases xs) auto
  have rest: "[] \<notin> snd ` set vals" using Cons.prems(1) by simp
  show ?case
  proof (cases "sas_assign (ToLower u k) x p")
    case None
    with Cons.IH [OF rest Cons.prems(2)] show ?thesis by (simp add: e xs)
  next
    case (Some p')
    then have k: "ToLower u k \<in> set sas_names" using sas_assign_None_iff by (metis option.distinct(1))
    let ?m = "if del then AList.delete k m else m"
    have "go_map_ok ?m" using Cons.prems(2) by simp
    from Cons.IH [OF rest this, of p'] obtain p2 r where
      r: "newSAS_loop u del vals (p', ?m) = Return (p2, r)" "go_map_ok r"
      "\<forall>k. ToLower u k \<notin> set sas_names \<longrightarrow> map_of r k = map_of ?m k" by blast
    moreover have "map_of ?m k' = map_of m k'" if "ToLower u k' \<notin> set sas_names" for k'
      using that k by (auto simp: map_of_delete_alist)
    ultimately show ?thesis using Some by (simp add: e xs)
  qed
qed auto

lemma newSAS_keeps:
  assumes "[] \<notin> snd ` set m" and "go_map_ok m"
  obtains sas r where "newSASQueryParameters u m True = Return (sas, r)" "go_map_ok r"
    "\<And>k. ToLower u k \<notin> set sas_names \<Longrightarrow> map_of r k = map_of m k"
  using newSAS_loop_keeps [OF assms, of u True empty_SAS] by (auto simp: newSASQueryParameters_def)

lemma Get_in: "caseInsensitiveValues_Get u m key = Some xs \<Longrightarrow> xs \<in> snd ` set m"
  by (induction u m key rule: caseInsensitiveValues_Get.induct) (auto split: if_splits)

lemma URL_Query_nonempty: "[] \<notin> snd ` set (URL_Query url)"
  by (simp add: URL_Query_def ParseQuery_nonempty)

lemma delete_nonempty: "[] \<notin> snd ` set m \<Longrightarrow> [] \<notin> snd ` set (AList.delete k m)"
  by (auto simp: AList.delete_eq)

lemma NewFileURLParts_panics: "is_panic (NewFileURLParts u url) \<longleftrightarrow> u_Path url \<noteq> [] \<and> port_only (u_Host url)"
proof -
  let ?up = "\<lparr>fp_Scheme = u_Scheme url, fp_Host = u_Host url, fp_ShareName = [],
     fp_DirectoryOrFilePath = [], fp_ShareSnapshot = [], fp_SAS = empty_SAS, fp_UnparsedParams = [], fp_AccountName = []\<rparr>"
  let ?m = "URL_Query url"
  note m = URL_Query_nonempty [of url] delete_nonempty [OF URL_Query_nonempty, of shareSnapshot url]
  obtain sas r where r: "newSASQueryParameters u ?m True = Return (sas, r)"
    by (rule newSAS_keeps [OF m(1) go_map_ok_URL_Query])
  have "go_map_ok (AList.delete shareSnapshot ?m)" by simp
  then obtain sas' r' where r': "newSASQueryParameters u (AList.delete shareSnapshot ?m) True = Return (sas', r')"
    by (rule newSAS_keeps [OF m(2)])
  have "caseInsensitiveValues_Get u ?m shareSnapshot \<noteq> Some []" using Get_in m(1) by fastforce
  then have ret: "\<not> is_panic (NewFileURLParts u url)" if "split_path (u_Path url) ?up = Return up'" for up'
    using that r r'
    by (auto simp: NewFileURLParts_def Let_def split: option.splits list.splits)
  show ?thesis
  proof (cases rule: isIPEndpointStyle_cases [of "u_Host url"])
    case 1
    show ?thesis
    proof (cases "u_Path url = []")
      case True
      then have "split_path (u_Path url) ?up = Return ?up" by (simp add: split_path_def)
      with ret True show ?thesis by simp
    next
      case False
      with 1 show ?thesis by (simp add: NewFileURLParts_def split_path_def index_panic_def)
    qed
  next
    case (2 ip)
    with split_path_returns [of ?up ip "u_Path url"] ret show ?thesis by auto
  qed
qed

text \<open>A snapshot parameter under a name in another case.\<close>

lemma Get_only:
  assumes "go_map_ok m" and "map_of m k = Some xs" and "ToLower u k = ToLower u key"
    and "\<And>k'. k' \<in> fst ` set m \<Longrightarrow> ToLower u k' = ToLower u key \<Longrightarrow> k' = k"
  shows "caseInsensitiveValues_Get u m key = Some xs"
  using assms
proof (induction m)
  case (Cons e m)
  obtain k' ys where e: "e = (k', ys)" by (cases e)
  show ?case
  proof (cases "k' = k")
    case False
    with Cons.prems(4) [of k'] e have "ToLower u k' \<noteq> ToLower u key" by auto
    with Cons False e show ?thesis by simp
  qed (use Cons.prems(2,3) e in simp)
qed simp

lemma snapshot_kept:
  assumes host: "\<not> port_only (u_Host url)" and k: "map_of (URL_Query url) k = Some (x # xs)"
    and other: "k \<noteq> shareSnapshot" "ToLower u k = shareSnapshot"
    and only: "\<And>k'. k' \<in> fst ` set (URL_Query url) \<Longrightarrow> ToLower u k' = shareSnapshot \<Longrightarrow> k' = k"
  shows "\<exists>p. NewFileURLParts u url = Return p \<and> fp_Host p = u_Host url \<and> fp_ShareSnapshot p = x
     \<and> map_of (fst (ParseQuery (fp_UnparsedParams p))) k = Some (x # xs)"
proof -
  let ?m = "URL_Query url"
  have get: "caseInsensitiveValues_Get u ?m shareSnapshot = Some (x # xs)"
    using k other(2) only by (intro Get_only [where k = k]) (simp_all add: shareSnapshot_plain)
  have "shareSnapshot \<notin> fst ` set ?m" using only other(1) shareSnapshot_plain(5) by metis
  then have del: "AList.delete shareSnapshot ?m = ?m" by (rule delete_absent)
  obtain sas r where r: "newSASQueryParameters u ?m True = Return (sas, r)" "go_map_ok r"
    and keep: "\<And>k. ToLower u k \<notin> set sas_names \<Longrightarrow> map_of r k = map_of ?m k"
    using newSAS_keeps [OF URL_Query_nonempty go_map_ok_URL_Query] by blast
  have "map_of r k = Some (x # xs)" using keep [of k] k other(2) shareSnapshot_plain(6) by simp
  then have enc: "map_of (fst (ParseQuery (Values_Encode r))) k = Some (x # xs)"
    using ParseQuery_Encode(1) [OF r(2)] by simp
  obtain ip where "isIPEndpointStyle (u_Host url) = Return ip"
    using host by (cases rule: isIPEndpointStyle_cases [of "u_Host url"]) auto
  from split_path_returns [of "\<lparr>fp_Scheme = u_Scheme url, fp_Host = u_Host url, fp_ShareName = [],
     fp_DirectoryOrFilePath = [], fp_ShareSnapshot = [], fp_SAS = empty_SAS, fp_UnparsedParams = [], fp_AccountName = []\<rparr>"
    ip "u_Path url"] this
  show ?thesis using r(1) enc by (auto simp: NewFileURLParts_def Let_def get del)
qed

text \<open>
  C40: Two kinds of input the parser does not handle as it means to. It panics exactly for a URL
  with a path whose host is empty before the port (as in \<open>:80\<close> or \<open>[]:80\<close>), because the check
  for an IP address indexes the empty host, and the other direction panics exactly for parts with
  such a host. A snapshot parameter whose name is written in another case, when it is the only
  one, is recognised as the snapshot but stays among the unparsed parameters, because only the
  lower-case key is deleted; so the URL built from those parts names the snapshot twice.
\<close>

theorem file_url_parts_edges:
  "(is_panic (NewFileURLParts u url) \<longleftrightarrow> u_Path url \<noteq> [] \<and> port_only (u_Host url))
   \<and> (is_panic (FileURLParts_URL p) \<longleftrightarrow> port_only (fp_Host p))
   \<and> (\<not> port_only (u_Host url) \<and> map_of (URL_Query url) k = Some (x # xs) \<and> x \<noteq> []
       \<and> k \<noteq> shareSnapshot \<and> ToLower u k = shareSnapshot
       \<and> (\<forall>k' \<in> fst ` set (URL_Query url). ToLower u k' = shareSnapshot \<longrightarrow> k' = k) \<longrightarrow>
      (\<exists>parts url'. NewFileURLParts u url = Return parts \<and> fp_ShareSnapshot parts = x
        \<and> map_of (fst (ParseQuery (fp_UnparsedParams parts))) k = Some (x # xs)
        \<and> FileURLParts_URL parts = Return url'
        \<and> u_RawQuery url' = fp_UnparsedParams parts @ ''&sharesnapshot='' @ x
             @ (if SAS_Encode (fp_SAS parts) = [] then [] else ''&'' @ SAS_Encode (fp_SAS parts))))"
proof (intro conjI impI)
  show "is_panic (NewFileURLParts u url) \<longleftrightarrow> u_Path url \<noteq> [] \<and> port_only (u_Host url)"
    by (rule NewFileURLParts_panics)
  show "is_panic (FileURLParts_URL p) \<longleftrightarrow> port_only (fp_Host p)"
    by (cases rule: isIPEndpointStyle_cases [of "fp_Host p"])
       (simp_all add: FileURLParts_URL_def Let_def index_panic_def)
next
  assume a: "\<not> port_only (u_Host url) \<and> map_of (URL_Query url) k = Some (x # xs) \<and> x \<noteq> []
       \<and> k \<noteq> shareSnapshot \<and> ToLower u k = shareSnapshot
       \<and> (\<forall>k' \<in> fst ` set (URL_Query url). ToLower u k' = shareSnapshot \<longrightarrow> k' = k)"
  then obtain parts where p: "NewFileURLParts u url = Return parts" "fp_Host parts = u_Host url"
    "fp_ShareSnapshot parts = x" "map_of (fst (ParseQuery (fp_UnparsedParams parts))) k = Some (x # xs)"
    using snapshot_kept [of url k x xs u] by blast
  obtain ip where ip: "isIPEndpointStyle (fp_Host parts) = Return ip"
    using a p(2) by (cases rule: isIPEndpointStyle_cases [of "u_Host url"]) auto
  have "ParseQuery [] = ([], None)" by code_simp
  then have "fp_UnparsedParams parts \<noteq> []" using p(4) by auto
  with URL_raw_query [OF ip] p a show "\<exists>parts url'. NewFileURLParts u url = Return parts \<and> fp_ShareSnapshot parts = x
        \<and> map_of (fst (ParseQuery (fp_UnparsedParams parts))) k = Some (x # xs)
        \<and> FileURLParts_URL parts = Return url'
        \<and> u_RawQuery url' = fp_UnparsedParams parts @ ''&sharesnapshot='' @ x
             @ (if SAS_Encode (fp_SAS parts) = [] then [] else ''&'' @ SAS_Encode (fp_SAS parts))"
    by (simp add: join_queries_def snapshot_pieces_def shareSnapshot_def)
qed

theorem file_url_parts_edges_witness:
  "is_panic (NewFileURLParts ascii_tables (empty_url\<lparr>u_Host := '':80'', u_Path := ''/s''\<rparr>))
   \<and> (\<exists>parts url'. NewFileURLParts ascii_tables
           (empty_url\<lparr>u_Host := ''h'', u_Path := ''/s'', u_RawQuery := ''ShareSnapshot=x''\<rparr>) = Return parts
        \<and> fp_ShareSnapshot parts = ''x'' \<and> FileURLParts_URL parts = Return url'
        \<and> u_RawQuery url' = fp_UnparsedParams parts @ ''&sharesnapshot=x''
             @ (if SAS_Encode (fp_SAS parts) = [] then [] else ''&'' @ SAS_Encode (fp_SAS parts)))"
proof
  have "port_only '':80''" by (auto simp: port_only_def)
  then show "is_panic (NewFileURLParts ascii_tables (empty_url\<lparr>u_Host := '':80'', u_Path := ''/s''\<rparr>))"
    using file_url_parts_edges [of ascii_tables "empty_url\<lparr>u_Host := '':80'', u_Path := ''/s''\<rparr>"] by simp
  let ?url = "empty_url\<lparr>u_Host := ''h'', u_Path := ''/s'', u_RawQuery := ''ShareSnapshot=x''\<rparr>"
  have q: "URL_Query ?url = [(''ShareSnapshot'', [''x''])]" by code_simp
  have l: "ToLower ascii_tables ''ShareSnapshot'' = shareSnapshot" by code_simp
  have "\<not> port_only ''h''" by (auto simp: port_only_def)
  with q l file_url_parts_edges [of ascii_tables ?url undefined "''ShareSnapshot''" "''x''" "[]"]
  show "\<exists>parts url'. NewFileURLParts ascii_tables ?url = Return parts
        \<and> fp_ShareSnapshot parts = ''x'' \<and> FileURLParts_URL parts = Return url'
        \<and> u_RawQuery url' = fp_UnparsedParams parts @ ''&sharesnapshot=x''
             @ (if SAS_Encode (fp_SAS parts) = [] then [] else ''&'' @ SAS_Encode (fp_SAS parts))"
    by (auto simp: shareSnapshot_def)
qed

end
