(* ===== verification/Util_Range.thy ===== *)
theory Util_Range
  imports Go_Strings
begin

text \<open>
  zc\_util\_validate.go: the byte range of an HTTP request (\<open>httpRange\<close>, \<open>pointers\<close>,
  \<open>toRange\<close>) and the two checks on seekable request bodies. The body is an
  \<open>io.ReadSeeker\<close> of the caller; what the checks rely on is the locale \<open>read_seeker\<close>,
  interpreted below on \<open>bytes.Reader\<close>, the body the parallel upload passes.
\<close>

section \<open>Ranges\<close>

definition CountToEnd :: int where
  "CountToEnd = 0"

record httpRange =
  hr_offset :: int
  hr_count :: int

definition toRange :: "int \<Rightarrow> int \<Rightarrow> string" where
  "toRange offset cnt =
     (let endRange = (if cnt \<noteq> CountToEnd then FormatInt (wrap64 (offset + cnt - 1)) else [])
      in ''bytes='' @ FormatInt offset @ ''-'' @ endRange)"

definition httpRange_pointers :: "httpRange \<Rightarrow> string option" where
  "httpRange_pointers r =
     (if hr_offset r = 0 \<and> hr_count r = CountToEnd then None
      else Some (toRange (hr_offset r) (hr_count r)))"

text \<open>
  What a range header means to the service: \<open>bytes=first-last\<close>, both ends included, or
  \<open>bytes=first-\<close> up to the end of the file (RFC 7233). \<open>None\<close> is a header the service
  does not understand.
\<close>

definition all_digits :: "string \<Rightarrow> bool" where
  "all_digits s \<longleftrightarrow> s \<noteq> [] \<and> list_all is_digit s"

definition read_range :: "string \<Rightarrow> (nat \<times> nat option) option" where
  "read_range s =
     (if \<not> HasPrefix s ''bytes='' then None
      else let t = drop 6 s in
       case IndexByte t (CHR ''-'') of
         None \<Rightarrow> None
       | Some i \<Rightarrow>
           let a = take i t; b = drop (Suc i) t in
           if \<not> all_digits a then None
           else if b = [] then Some (dec_val a, None)
           else if all_digits b then Some (dec_val a, Some (dec_val b))
           else None)"

definition select_range :: "string option \<Rightarrow> 'a list \<Rightarrow> 'a list option" where
  "select_range hdr content =
     (case hdr of
        None \<Rightarrow> Some content
      | Some h \<Rightarrow>
          (case read_range h of
             None \<Rightarrow> None
           | Some (a, None) \<Rightarrow> Some (drop a content)
           | Some (a, Some b) \<Rightarrow> Some (take (Suc b - a) (drop a content))))"

lemma all_digits_dec_nat [simp]: "all_digits (dec_nat n)"
  by (simp add: all_digits_def dec_nat_digits)

lemma HasPrefix_append [simp]: "HasPrefix (p @ s) p"
  by (simp add: HasPrefix_def)

lemma read_range_eq:
  "read_range (''bytes='' @ dec_nat a @ CHR ''-'' # b) =
     (if b = [] then Some (a, None)
      else if all_digits b then Some (a, Some (dec_val b)) else None)"
proof -
  have "HasPrefix (''bytes='' @ dec_nat a @ CHR ''-'' # b) ''bytes=''"
    by (rule HasPrefix_append)
  moreover have "IndexByte (dec_nat a @ CHR ''-'' # b) (CHR ''-'') = Some (length (dec_nat a))"
    by (rule IndexByte_append) (rule dec_nat_no_dash)
  ultimately show ?thesis by (simp add: read_range_def Let_def)
qed

lemma toRange_denotes:
  assumes "0 \<le> offset" and "0 \<le> cnt" and "offset + cnt \<le> 2 ^ 63"
  shows "read_range (toRange offset cnt) =
     Some (nat offset, if cnt = CountToEnd then None else Some (nat (offset + cnt - 1)))"
proof (cases "cnt = 0")
  case True
  with assms show ?thesis
    by (simp add: toRange_def CountToEnd_def FormatInt_def read_range_eq [of _ "[]", simplified])
next
  case False
  with assms have "wrap64 (offset + cnt - 1) = offset + cnt - 1"
    by (intro wrap64_nonneg) auto
  with False assms show ?thesis
    using read_range_eq [of "nat offset" "dec_nat (nat (offset + cnt - 1))"]
    by (simp add: toRange_def CountToEnd_def FormatInt_def)
qed

lemma select_range_pointers:
  assumes "0 \<le> offset" and "0 \<le> cnt" and "offset + cnt \<le> 2 ^ 63"
  shows "select_range (httpRange_pointers \<lparr>hr_offset = offset, hr_count = cnt\<rparr>) content =
     Some (if cnt = CountToEnd then drop (nat offset) content
           else take (nat cnt) (drop (nat offset) content))"
proof (cases "cnt = 0")
  case True
  with assms toRange_denotes [OF assms] show ?thesis
    by (simp add: httpRange_pointers_def select_range_def CountToEnd_def)
next
  case False
  with assms have "Suc (nat (offset + cnt - 1)) - nat offset = nat cnt" by auto
  with False assms toRange_denotes [OF assms] show ?thesis
    by (simp add: httpRange_pointers_def select_range_def CountToEnd_def)
qed

text \<open>
  The range pointer of a request selects, from any file content, the \<open>cnt\<close> bytes that
  start at \<open>offset\<close>, or everything from \<open>offset\<close> on for \<open>CountToEnd\<close>; in particular leaving
  the header out for the whole resource selects the same bytes as sending it.
\<close>

theorem httpRange_pointers_select:
  assumes "0 \<le> offset" and "0 \<le> cnt" and "offset + cnt \<le> 2 ^ 63"
  shows "select_range (httpRange_pointers \<lparr>hr_offset = offset, hr_count = cnt\<rparr>) content =
     Some (if cnt = CountToEnd then drop (nat offset) content
           else take (nat cnt) (drop (nat offset) content))"
  using assms by (rule select_range_pointers)

theorem httpRange_pointers_select_witness:
  "select_range (httpRange_pointers \<lparr>hr_offset = 2, hr_count = 3\<rparr>) ''abcdefgh'' = Some ''cde''"
  using httpRange_pointers_select [of 2 3 "''abcdefgh''"]
  by (simp add: CountToEnd_def numeral_3_eq_3 numeral_2_eq_2)

section \<open>Seekable bodies\<close>

datatype whence = SeekStart | SeekCurrent | SeekEnd

text \<open>
  A seek returns the new position and an error; the body's state changes with it.
  \<open>validateSeekableStreamAt0AndGetCount\<close> takes the caller's \<open>Seek\<close> as its argument and
  returns the body in the state the second seek leaves it in, so that a later read starts
  at the beginning.
\<close>

type_synonym 'st seek = "'st \<Rightarrow> int \<Rightarrow> whence \<Rightarrow> (int \<times> string option) \<times> 'st"

definition validateSeekableStreamAt0 :: "'st seek \<Rightarrow> 'st option \<Rightarrow> 'st option exec" where
  "validateSeekableStreamAt0 seek body =
     (case body of
        None \<Rightarrow> Return None
      | Some st \<Rightarrow>
          (case seek st 0 SeekCurrent of
             ((pos, err), st') \<Rightarrow>
               if pos \<noteq> 0 \<or> err \<noteq> None
               then (case err of
                       Some e \<Rightarrow> sanityCheckFailed e
                     | None \<Rightarrow> sanityCheckFailed ''stream must be set to position 0'')
               else Return (Some st')))"

definition validateSeekableStreamAt0AndGetCount ::
    "'st seek \<Rightarrow> 'st option \<Rightarrow> (int \<times> 'st option) exec" where
  "validateSeekableStreamAt0AndGetCount seek body =
     (case body of
        None \<Rightarrow> Return (0, None)
      | Some _ \<Rightarrow>
          bind_exec (validateSeekableStreamAt0 seek body) (\<lambda>b.
            case b of
              None \<Rightarrow> Return (0, None)
            | Some st \<Rightarrow>
                (case seek st 0 SeekEnd of
                   ((n, err), st') \<Rightarrow>
                     (case err of
                        Some e \<Rightarrow> sanityCheckFailed e
                      | None \<Rightarrow> Return (n, Some (snd (seek st' 0 SeekStart)))))))"

text \<open>
  What a well-behaved \<open>io.ReadSeeker\<close> promises: a seek by nothing from a position it knows
  moves to that position and does not fail; the end is the length of what can be read.
\<close>

locale read_seeker =
  fixes seek :: "'st seek" and content :: "'st \<Rightarrow> 'b list" and pos :: "'st \<Rightarrow> int"
    and invar :: "'st \<Rightarrow> bool"
  assumes seek_current: "invar st \<Longrightarrow> seek st 0 SeekCurrent = ((pos st, None), st)"
    and seek_end: "invar st \<Longrightarrow> \<exists>st'. seek st 0 SeekEnd = ((int (length (content st)), None), st')
          \<and> content st' = content st \<and> invar st'"
    and seek_start: "invar st \<Longrightarrow> content (snd (seek st 0 SeekStart)) = content st
          \<and> pos (snd (seek st 0 SeekStart)) = 0 \<and> invar (snd (seek st 0 SeekStart))"
begin

lemma validate_at0_ok:
  "invar st \<Longrightarrow> pos st = 0 \<Longrightarrow> validateSeekableStreamAt0 seek (Some st) = Return (Some st)"
  by (simp add: validateSeekableStreamAt0_def seek_current)

lemma validate_not_at0_panics:
  "invar st \<Longrightarrow> pos st \<noteq> 0 \<Longrightarrow>
    validateSeekableStreamAt0AndGetCount seek (Some st) =
      sanityCheckFailed ''stream must be set to position 0''"
  by (simp add: validateSeekableStreamAt0AndGetCount_def validateSeekableStreamAt0_def
      seek_current sanityCheckFailed_def)

lemma get_count_ok:
  assumes "invar st" and "pos st = 0"
  shows "\<exists>st'. validateSeekableStreamAt0AndGetCount seek (Some st) =
      Return (int (length (content st)), Some st') \<and> content st' = content st \<and> pos st' = 0
      \<and> invar st'"
proof -
  from seek_end [OF assms(1)]
  obtain st1 where st1: "seek st 0 SeekEnd = ((int (length (content st)), None), st1)"
    "content st1 = content st" "invar st1" by blast
  from assms st1 show ?thesis
    by (simp add: validateSeekableStreamAt0AndGetCount_def validate_at0_ok seek_start)
qed

end

text \<open>\<open>bytes.Reader\<close>: the slice and the current reading index.\<close>

record bytes_reader =
  br_s :: string
  br_i :: int

definition bytes_NewReader :: "string \<Rightarrow> bytes_reader" where
  "bytes_NewReader b = \<lparr>br_s = b, br_i = 0\<rparr>"

definition bytes_Seek :: "bytes_reader seek" where
  "bytes_Seek r off wh =
     (let abs = (case wh of SeekStart \<Rightarrow> off | SeekCurrent \<Rightarrow> br_i r + off
                 | SeekEnd \<Rightarrow> int (length (br_s r)) + off)
      in if abs < 0 then ((0, Some ''bytes.Reader.Seek: negative position''), r)
         else ((abs, None), r\<lparr>br_i := abs\<rparr>))"

definition bytes_reader_ok :: "bytes_reader \<Rightarrow> bool" where
  "bytes_reader_ok r \<longleftrightarrow> 0 \<le> br_i r"

interpretation bytesReader: read_seeker bytes_Seek br_s br_i bytes_reader_ok
  by unfold_locales (simp_all add: bytes_Seek_def bytes_reader_ok_def Let_def)

text \<open>
  On a \<open>bytes.Reader\<close> the body check returns the number of readable bytes and leaves
  the reader at its start when it was there, and panics otherwise.
\<close>

theorem bytes_reader_get_count:
  assumes "bytes_reader_ok r"
  shows "validateSeekableStreamAt0AndGetCount bytes_Seek (Some r) =
     (if br_i r = 0 then Return (int (length (br_s r)), Some r)
      else sanityCheckFailed ''stream must be set to position 0'')"
proof (cases "br_i r = 0")
  case True
  with bytesReader.get_count_ok [OF assms True] show ?thesis by auto
next
  case False
  with bytesReader.validate_not_at0_panics [OF assms False] show ?thesis by simp
qed

theorem bytes_reader_get_count_witness:
  "validateSeekableStreamAt0AndGetCount bytes_Seek (Some (bytes_NewReader ''hello'')) =
     Return (5, Some (bytes_NewReader ''hello''))"
  using bytes_reader_get_count [of "bytes_NewReader ''hello''"]
  by (simp add: bytes_NewReader_def bytes_reader_ok_def)

end
