(* ===== verification/Retry_Reader.thy ===== *)
theory Retry_Reader
  imports Util_Range Go_Http
begin

text \<open>
  zc\_retry\_reader.go: a reader over a download that asks for the rest of the data when the
  connection breaks. A response body is modelled with the bytes it still has to deliver and a
  script of how the network treats the coming reads: how many bytes a read delivers, whether
  the end is reported with the last bytes, or with what error it fails. Any behaviour of a
  connection is some script; an exhausted script delivers normally. The getter of the caller
  is an argument.
\<close>

section \<open>Response bodies\<close>

datatype read_script = Deliver nat bool | Fail nat read_error

record body_stream =
  bs_rem :: string
  bs_script :: "read_script list"
  bs_closed :: bool

datatype io_result = NoErr | Eof | Failed read_error

definition ReadOnClosedBodyMessage :: string where
  "ReadOnClosedBodyMessage = ''read on closed response body''"

definition deliver :: "nat \<Rightarrow> bool \<Rightarrow> body_stream \<Rightarrow> string \<times> io_result \<times> body_stream" where
  "deliver k eofWithData b =
     (let data = take k (bs_rem b); rest = drop k (bs_rem b) in
      (data, if rest = [] \<and> (data = [] \<or> eofWithData) then Eof else NoErr, b\<lparr>bs_rem := rest\<rparr>))"

definition body_Read :: "nat \<Rightarrow> body_stream \<Rightarrow> string \<times> io_result \<times> body_stream" where
  "body_Read plen b =
     (if bs_closed b then ([], Failed (ReadPlain (''http: '' @ ReadOnClosedBodyMessage)), b)
      else case bs_script b of
        [] \<Rightarrow> deliver plen False b
      | Deliver k e # s \<Rightarrow> deliver (min k plen) e (b\<lparr>bs_script := s\<rparr>)
      | Fail k err # s \<Rightarrow>
          (case deliver (min k plen) False (b\<lparr>bs_script := s\<rparr>) of (data, _, b') \<Rightarrow> (data, Failed err, b')))"

definition body_Close :: "body_stream \<Rightarrow> body_stream" where
  "body_Close b = b\<lparr>bs_closed := True\<rparr>"

section \<open>The reader\<close>

record HTTPGetterInfo =
  gi_Offset :: int
  gi_Count :: int
  gi_ETag :: string

record RetryReaderOptions =
  rro_MaxRetryRequests :: int
  rro_doInjectError :: bool
  rro_doInjectErrorRound :: int
  rro_NotifyFailedRead :: bool      \<comment> \<open>a notifier is set\<close>
  rro_TreatEarlyCloseAsError :: bool

record retryReader =
  rr_info :: HTTPGetterInfo
  rr_countWasBounded :: bool
  rr_o :: RetryReaderOptions
  rr_response :: "body_stream option"

text \<open>
  The getter returns an error or a response; \<open>Inr None\<close> is a nil response (or body).
\<close>

type_synonym 'w getter = "HTTPGetterInfo \<Rightarrow> 'w \<Rightarrow> (go_error + body_stream option) \<times> 'w"

definition NewRetryReader ::
    "body_stream option \<Rightarrow> HTTPGetterInfo \<Rightarrow> RetryReaderOptions \<Rightarrow> 'w getter option \<Rightarrow> retryReader exec" where
  "NewRetryReader initialResponse info opts getter =
     (if getter = None then Panic ''getter must not be nil''
      else if gi_Count info < 0 then Panic ''info.Count must be >= 0''
      else if rro_MaxRetryRequests opts < 0 then Panic ''o.MaxRetryRequests must be >= 0''
      else Return \<lparr>rr_info = info, rr_countWasBounded = (gi_Count info \<noteq> CountToEnd), rr_o = opts,
                   rr_response = initialResponse\<rparr>)"

definition wasRetryableEarlyClose :: "RetryReaderOptions \<Rightarrow> read_error \<Rightarrow> bool" where
  "wasRetryableEarlyClose opts err =
     (if rro_TreatEarlyCloseAsError opts then False
      else case err of ReadPlain text \<Rightarrow> HasSuffix text ReadOnClosedBodyMessage | ReadNet _ \<Rightarrow> False)"

definition retryReader_Close :: "retryReader \<Rightarrow> retryReader" where
  "retryReader_Close s = s\<lparr>rr_response := map_option body_Close (rr_response s)\<rparr>"

text \<open>What a read did, for the caller and for the record of its requests and notifications.\<close>

datatype read_outcome = Got io_result | GetterFailed go_error

record failed_read =
  nt_failureCount :: int
  nt_error :: read_error
  nt_offset :: int
  nt_count :: int
  nt_willRetry :: bool

record 'w read_result =
  rd_data :: string
  rd_outcome :: read_outcome
  rd_reader :: retryReader
  rd_gets :: "HTTPGetterInfo list"
  rd_notes :: "failed_read list"
  rd_world :: 'w

definition injected :: read_error where
  "injected = ReadNet \<lparr>ne_Temporary = True, ne_Timeout = False,
     ne_kind = NotOpError \<lparr>pe_type = DNSError, pe_text = ''lookup : ''\<rparr>\<rparr>"

definition is_net_error :: "read_error \<Rightarrow> bool" where
  "is_net_error err = (case err of ReadNet _ \<Rightarrow> True | ReadPlain _ \<Rightarrow> False)"

text \<open>The stream to read from, asking for one when there is none.\<close>

definition obtain_response ::
    "'w getter \<Rightarrow> retryReader \<Rightarrow> 'w \<Rightarrow> ((go_error + body_stream) \<times> HTTPGetterInfo list \<times> 'w) exec" where
  "obtain_response getter s w =
     (case rr_response s of
        Some b \<Rightarrow> Return (Inr b, [], w)
      | None \<Rightarrow>
          (case getter (rr_info s) w of
             (Inl err, w) \<Rightarrow> Return (Inl err, [rr_info s], w)
           | (Inr None, w) \<Rightarrow> nil_deref
           | (Inr (Some b), w) \<Rightarrow> Return (Inr b, [rr_info s], w)))"

definition advance :: "nat \<Rightarrow> HTTPGetterInfo \<Rightarrow> HTTPGetterInfo" where
  "advance n info =
     info\<lparr>gi_Offset := wrap64 (gi_Offset info + int n),
          gi_Count := (if gi_Count info \<noteq> CountToEnd then wrap64 (gi_Count info - int n) else gi_Count info)\<rparr>"

function read_loop ::
    "'w getter \<Rightarrow> nat \<Rightarrow> int \<Rightarrow> retryReader \<Rightarrow> HTTPGetterInfo list \<Rightarrow> failed_read list \<Rightarrow> 'w
      \<Rightarrow> 'w read_result exec" where
  "read_loop getter plen tries s gets noted w =
     (if rr_countWasBounded s \<and> gi_Count (rr_info s) = CountToEnd
      then Return \<lparr>rd_data = [], rd_outcome = Got Eof, rd_reader = s, rd_gets = gets, rd_notes = noted,
                   rd_world = w\<rparr>
      else case obtain_response getter s w of
        Panic m \<Rightarrow> Panic m
      | Return (Inl err, gs, w) \<Rightarrow>
          Return \<lparr>rd_data = [], rd_outcome = GetterFailed err, rd_reader = s, rd_gets = gets @ gs,
                  rd_notes = noted, rd_world = w\<rparr>
      | Return (Inr resp, gs, w) \<Rightarrow>
          (case body_Read plen resp of (data, res, resp') \<Rightarrow>
             let res = (if rro_doInjectError (rr_o s) \<and> tries = rro_doInjectErrorRound (rr_o s)
                        then Failed injected else res) in
             (case res of
                Failed err \<Rightarrow>
                  let s' = s\<lparr>rr_response := None\<rparr>;
                      retriesExhausted = (rro_MaxRetryRequests (rr_o s) \<le> tries);
                      willRetry = ((is_net_error err \<or> wasRetryableEarlyClose (rr_o s) err) \<and> \<not> retriesExhausted);
                      noted' = (if rro_NotifyFailedRead (rr_o s)
                                then noted @ [\<lparr>nt_failureCount = tries + 1, nt_error = err,
                                       nt_offset = gi_Offset (rr_info s), nt_count = gi_Count (rr_info s),
                                       nt_willRetry = willRetry\<rparr>]
                                else noted)
                  in if willRetry then read_loop getter plen (tries + 1) s' (gets @ gs) noted' w
                     else Return \<lparr>rd_data = data, rd_outcome = Got (Failed err), rd_reader = s',
                                  rd_gets = gets @ gs, rd_notes = noted', rd_world = w\<rparr>
              | _ \<Rightarrow>
                  Return \<lparr>rd_data = data, rd_outcome = Got res,
                          rd_reader = s\<lparr>rr_response := Some resp', rr_info := advance (length data) (rr_info s)\<rparr>,
                          rd_gets = gets @ gs, rd_notes = noted, rd_world = w\<rparr>)))"
  by pat_completeness auto
termination
  by (relation "measure (\<lambda>(getter, plen, tries, s, _). nat (rro_MaxRetryRequests (rr_o s) - tries))") auto

declare read_loop.simps [simp del]

definition retryReader_Read ::
    "'w getter \<Rightarrow> nat \<Rightarrow> retryReader \<Rightarrow> 'w \<Rightarrow> 'w read_result exec" where
  "retryReader_Read getter plen s w = read_loop getter plen 0 s [] [] w"

section \<open>Bodies deliver in order\<close>

lemma body_Read_spec:
  assumes "body_Read plen b = (data, res, b')" and "\<not> bs_closed b"
  shows "bs_rem b = data @ bs_rem b'" and "\<not> bs_closed b'" and "length data \<le> plen"
    and "res = Eof \<Longrightarrow> bs_rem b' = []"
  using assms
  by (auto simp: body_Read_def deliver_def Let_def split: list.splits read_script.splits if_splits)

lemma body_Read_closed: "bs_closed b \<Longrightarrow> body_Read plen b = (data, res, b') \<Longrightarrow> \<exists>e. res = Failed e"
  by (auto simp: body_Read_def)

section \<open>Reading a file through a getter\<close>

text \<open>The part of the file that is still to be read.\<close>

definition range_rest :: "string \<Rightarrow> retryReader \<Rightarrow> string" where
  "range_rest F s =
     (let rest = drop (nat (gi_Offset (rr_info s))) F in
      if rr_countWasBounded s then take (nat (gi_Count (rr_info s))) rest else rest)"

text \<open>
  The getter asks the service for a range, and a response carries the bytes that the range
  header of the request selects.
\<close>

definition serves :: "string \<Rightarrow> 'w getter \<Rightarrow> bool" where
  "serves F getter \<longleftrightarrow>
     (\<forall>info w r w'. getter info w = (Inr r, w') \<longrightarrow>
        (\<exists>b. r = Some b \<and> \<not> bs_closed b \<and>
           select_range (httpRange_pointers \<lparr>hr_offset = gi_Offset info, hr_count = gi_Count info\<rparr>) F
             = Some (bs_rem b)))"

definition reader_ok :: "string \<Rightarrow> retryReader \<Rightarrow> bool" where
  "reader_ok F s \<longleftrightarrow>
     0 \<le> gi_Offset (rr_info s) \<and> gi_Offset (rr_info s) \<le> int (length F) \<and> 0 \<le> gi_Count (rr_info s)
     \<and> int (length F) < 2 ^ 63 \<and> gi_Offset (rr_info s) + gi_Count (rr_info s) < 2 ^ 63
     \<and> (rr_countWasBounded s \<or> gi_Count (rr_info s) = CountToEnd)
     \<and> (\<forall>b. rr_response s = Some b \<longrightarrow> bs_closed b \<or> bs_rem b = range_rest F s)"

lemma range_rest_response:
  assumes "serves F getter" and "reader_ok F s" and "getter (rr_info s) w = (Inr r, w')"
    and "\<not> (rr_countWasBounded s \<and> gi_Count (rr_info s) = CountToEnd)"
  shows "\<exists>b. r = Some b \<and> \<not> bs_closed b \<and> bs_rem b = range_rest F s"
proof -
  from assms(1,3) obtain b where b: "r = Some b" "\<not> bs_closed b"
    and sel: "select_range (httpRange_pointers \<lparr>hr_offset = gi_Offset (rr_info s), hr_count = gi_Count (rr_info s)\<rparr>) F
        = Some (bs_rem b)"
    unfolding serves_def by blast
  have "bs_rem b = (if gi_Count (rr_info s) = CountToEnd then drop (nat (gi_Offset (rr_info s))) F
      else take (nat (gi_Count (rr_info s))) (drop (nat (gi_Offset (rr_info s))) F))"
    using sel assms(2) select_range_pointers [of "gi_Offset (rr_info s)" "gi_Count (rr_info s)" F]
    by (simp add: reader_ok_def)
  with assms(2,4) b show ?thesis by (auto simp: range_rest_def Let_def reader_ok_def)
qed

lemma length_range_rest:
  assumes "reader_ok F s"
  shows "gi_Offset (rr_info s) + int (length (range_rest F s)) \<le> int (length F)"
    and "rr_countWasBounded s \<Longrightarrow> int (length (range_rest F s)) \<le> gi_Count (rr_info s)"
  using assms by (auto simp: range_rest_def Let_def reader_ok_def)

text \<open>A successful read of \<open>data\<close> from the open response moves the reader on.\<close>

lemma advance_ok:
  assumes ok: "reader_ok F s" and rem: "range_rest F s = data @ bs_rem b'"
    and more: "\<not> (rr_countWasBounded s \<and> gi_Count (rr_info s) = CountToEnd)"
  defines "s' \<equiv> s\<lparr>rr_response := Some b', rr_info := advance (length data) (rr_info s)\<rparr>"
  shows "reader_ok F s'" and "range_rest F s' = bs_rem b'"
    and "gi_Offset (rr_info s') = gi_Offset (rr_info s) + int (length data)"
proof -
  have len: "int (length data) \<le> int (length (range_rest F s))" by (simp add: rem)
  have off: "gi_Offset (rr_info s') = gi_Offset (rr_info s) + int (length data)"
    using ok len length_range_rest(1) [OF ok]
    by (simp add: s'_def advance_def reader_ok_def wrap64_nonneg)
  have cnt: "gi_Count (rr_info s') =
      (if rr_countWasBounded s then gi_Count (rr_info s) - int (length data) else CountToEnd)"
    using ok more len length_range_rest(2) [OF ok]
    by (auto simp: s'_def advance_def reader_ok_def wrap64_nonneg)
  have rest: "range_rest F s' = drop (length data) (range_rest F s)"
    using ok off cnt
    by (simp add: range_rest_def Let_def reader_ok_def s'_def drop_take nat_diff_distrib'
        nat_add_distrib add.commute)
  then show "range_rest F s' = bs_rem b'" by (simp add: rem)
  with ok off cnt len length_range_rest [OF ok] show "reader_ok F s'"
    by (auto simp: reader_ok_def s'_def CountToEnd_def)
  show "gi_Offset (rr_info s') = gi_Offset (rr_info s) + int (length data)" by (rule off)
qed

section \<open>The loop\<close>

text \<open>One turn of the loop, split by what happens in it.\<close>

text \<open>Where the response that is read from comes from, and what one read of its body gives.\<close>

lemma obtain_response_cases:
  assumes ok: "reader_ok F s" and srv: "serves F getter"
    and more: "\<not> (rr_countWasBounded s \<and> gi_Count (rr_info s) = CountToEnd)"
  obtains (none) err w' where "rr_response s = None" "obtain_response getter s w = Return (Inl err, [rr_info s], w')"
  | (some) b w' where
      "obtain_response getter s w = Return (Inr b, if rr_response s = None then [rr_info s] else [], w')"
      "bs_closed b \<or> bs_rem b = range_rest F s"
proof (cases "rr_response s")
  case (Some b)
  then show ?thesis using some [of b w] ok by (auto simp: obtain_response_def reader_ok_def)
next
  case None
  obtain g w' where g: "getter (rr_info s) w = (g, w')" by fastforce
  show ?thesis
  proof (cases g)
    case (Inl err)
    with g None show ?thesis using none by (simp add: obtain_response_def)
  next
    case (Inr r)
    with g range_rest_response [OF srv ok _ more] obtain b where "r = Some b" "bs_rem b = range_rest F s" by blast
    with Inr g None show ?thesis using some by (simp add: obtain_response_def)
  qed
qed

lemma body_Read_prefix:
  assumes "body_Read plen b = (data, res, b')" and "bs_closed b \<or> bs_rem b = rest"
  shows "\<exists>rest'. rest = data @ rest' \<and> length data \<le> plen"
proof (cases "bs_closed b")
  case True
  with assms(1) show ?thesis by (auto simp: body_Read_def)
next
  case False
  with assms(2) body_Read_spec(1,3) [OF assms(1)] show ?thesis by metis
qed

lemma body_Read_delivered:
  assumes "body_Read plen b = (data, res, b')" and "bs_closed b \<or> bs_rem b = rest" and "res = NoErr \<or> res = Eof"
  shows "rest = data @ bs_rem b'" and "res = Eof \<longrightarrow> bs_rem b' = []" and "length data \<le> plen"
proof -
  have "\<not> bs_closed b" using body_Read_closed [OF _ assms(1)] assms(3) by auto
  with assms(2) body_Read_spec [OF assms(1)]
  show "rest = data @ bs_rem b'" "res = Eof \<longrightarrow> bs_rem b' = []" "length data \<le> plen" by simp_all
qed

lemma read_loop_step:
  assumes ok: "reader_ok F s" and srv: "serves F getter"
  obtains (exhausted) "rr_countWasBounded s" "gi_Count (rr_info s) = CountToEnd"
      "read_loop getter plen tries s gets noted w =
         Return \<lparr>rd_data = [], rd_outcome = Got Eof, rd_reader = s, rd_gets = gets, rd_notes = noted, rd_world = w\<rparr>"
  | (noget) err w' where "rr_response s = None"
      "read_loop getter plen tries s gets noted w =
         Return \<lparr>rd_data = [], rd_outcome = GetterFailed err, rd_reader = s, rd_gets = gets @ [rr_info s],
           rd_notes = noted, rd_world = w'\<rparr>"
  | (success) data res b' gs w' where "res = NoErr \<or> res = Eof" "range_rest F s = data @ bs_rem b'"
      "res = Eof \<longrightarrow> bs_rem b' = []" "length data \<le> plen"
      "\<not> (rr_countWasBounded s \<and> gi_Count (rr_info s) = CountToEnd)"
      "gs = (if rr_response s = None then [rr_info s] else [])"
      "read_loop getter plen tries s gets noted w =
         Return \<lparr>rd_data = data, rd_outcome = Got res,
           rd_reader = s\<lparr>rr_response := Some b', rr_info := advance (length data) (rr_info s)\<rparr>,
           rd_gets = gets @ gs, rd_notes = noted, rd_world = w'\<rparr>"
  | (failure) data err gs noted' w' rest where "gs = (if rr_response s = None then [rr_info s] else [])"
      "range_rest F s = data @ rest" "length data \<le> plen"
      "read_loop getter plen tries s gets noted w =
         Return \<lparr>rd_data = data, rd_outcome = Got (Failed err), rd_reader = s\<lparr>rr_response := None\<rparr>,
           rd_gets = gets @ gs, rd_notes = noted', rd_world = w'\<rparr>"
  | (again) gs noted' w' where "tries < rro_MaxRetryRequests (rr_o s)"
      "gs = (if rr_response s = None then [rr_info s] else [])"
      "read_loop getter plen tries s gets noted w =
         read_loop getter plen (tries + 1) (s\<lparr>rr_response := None\<rparr>) (gets @ gs) noted' w'"
proof (cases "rr_countWasBounded s \<and> gi_Count (rr_info s) = CountToEnd")
  case True
  then show ?thesis using exhausted by (simp add: read_loop.simps)
next
  case False
  define gs where "gs = (if rr_response s = None then [rr_info s] else [])"
  from ok srv False show ?thesis
  proof (cases rule: obtain_response_cases [where w = w])
    case none
    then show ?thesis using False noget by (simp add: read_loop.simps)
  next
    case (some b w')
    obtain data res b' where rd: "body_Read plen b = (data, res, b')" by (cases "body_Read plen b") auto
    define res' where "res' = (if rro_doInjectError (rr_o s) \<and> tries = rro_doInjectErrorRound (rr_o s)
                        then Failed injected else res)"
    note unf = read_loop.simps [of getter plen tries s gets noted w]
    show ?thesis
    proof (cases "\<exists>err. res' = Failed err")
      case True
      then obtain err where Failed: "res' = Failed err" by blast
      let ?will = "(is_net_error err \<or> wasRetryableEarlyClose (rr_o s) err) \<and> \<not> rro_MaxRetryRequests (rr_o s) \<le> tries"
      define noted' where "noted' = (if rro_NotifyFailedRead (rr_o s)
          then noted @ [\<lparr>nt_failureCount = tries + 1, nt_error = err, nt_offset = gi_Offset (rr_info s),
                 nt_count = gi_Count (rr_info s), nt_willRetry = ?will\<rparr>]
          else noted)"
      have eq: "read_loop getter plen tries s gets noted w =
          (if ?will then read_loop getter plen (tries + 1) (s\<lparr>rr_response := None\<rparr>) (gets @ gs) noted' w'
           else Return \<lparr>rd_data = data, rd_outcome = Got (Failed err), rd_reader = s\<lparr>rr_response := None\<rparr>,
                   rd_gets = gets @ gs, rd_notes = noted', rd_world = w'\<rparr>)"
        unfolding unf if_not_P [OF False] some(1) [folded gs_def] exec.case prod.case sum.case rd Let_def
          res'_def [symmetric] Failed io_result.case noted'_def by (rule refl)
      then show ?thesis
        using body_Read_prefix [OF rd some(2)] again [of gs noted' w'] failure [of gs data _ err noted' w']
        by (cases ?will) (auto simp: gs_def)
    next
      case good: False
      then have "res' = res" "res = NoErr \<or> res = Eof" by (cases res; auto simp: res'_def split: if_splits)+
      moreover have "\<not> (rro_doInjectError (rr_o s) \<and> tries = rro_doInjectErrorRound (rr_o s))"
        using good by (auto simp: res'_def)
      ultimately show ?thesis using body_Read_delivered [OF rd some(2)]
        by (intro success [of res data b' gs w'])
          (auto simp: unf if_not_P [OF False] some(1) rd Let_def gs_def False)
    qed
  qed
qed

definition read_post :: "string \<Rightarrow> retryReader \<Rightarrow> 'w read_result \<Rightarrow> bool" where
  "read_post F s r \<longleftrightarrow> reader_ok F (rd_reader r)
     \<and> (if rd_outcome r = Got NoErr \<or> rd_outcome r = Got Eof
        then range_rest F s = rd_data r @ range_rest F (rd_reader r)
           \<and> gi_Offset (rr_info (rd_reader r)) = gi_Offset (rr_info s) + int (length (rd_data r))
        else rr_info (rd_reader r) = rr_info s)
     \<and> (rd_outcome r = Got Eof \<longrightarrow> range_rest F (rd_reader r) = [])
     \<and> (\<exists>rest. range_rest F s = rd_data r @ rest)"

lemma reader_ok_drop_response:
  "reader_ok F s \<Longrightarrow> reader_ok F (s\<lparr>rr_response := None\<rparr>)"
  by (simp add: reader_ok_def)

lemma range_rest_drop_response [simp]: "range_rest F (s\<lparr>rr_response := x\<rparr>) = range_rest F s"
  by (simp add: range_rest_def Let_def)

lemma read_loop_spec:
  assumes "serves F getter" and "reader_ok F s"
  shows "\<exists>r. read_loop getter plen tries s gets noted w = Return r \<and> read_post F s r
     \<and> length (rd_data r) \<le> plen \<and> set (rd_gets r) \<subseteq> insert (rr_info s) (set gets)
     \<and> length (rd_gets r) \<le> length gets + (if rr_response s = None then 1 else 0)
          + nat (rro_MaxRetryRequests (rr_o s) - tries)"
  using assms(2)
proof (induction "nat (rro_MaxRetryRequests (rr_o s) - tries)" arbitrary: tries s gets noted w rule: less_induct)
  case less
  from less.prems assms(1) show ?case
  proof (cases rule: read_loop_step [where plen = plen and tries = tries and gets = gets and noted = noted and w = w])
    case exhausted
    with less.prems show ?thesis
      by (auto simp: read_post_def) (simp add: range_rest_def Let_def CountToEnd_def)
  next
    case (noget err w')
    with less.prems show ?thesis by (auto simp: read_post_def)
  next
    case (success data res b' gs w')
    from advance_ok [OF less.prems success(2,5)] success show ?thesis
      by (auto simp: read_post_def)
  next
    case (failure data err gs noted' w')
    with reader_ok_drop_response [OF less.prems] show ?thesis by (auto simp: read_post_def)
  next
    case (again gs noted' w')
    have "nat (rro_MaxRetryRequests (rr_o s) - (tries + 1)) < nat (rro_MaxRetryRequests (rr_o s) - tries)"
      using again(1) by simp
    with less.hyps [of "s\<lparr>rr_response := None\<rparr>" "tries + 1" "gets @ gs" noted' w']
      reader_ok_drop_response [OF less.prems]
    obtain r where r: "read_loop getter plen tries s gets noted w = Return r"
      "read_post F (s\<lparr>rr_response := None\<rparr>) r" "length (rd_data r) \<le> plen"
      "set (rd_gets r) \<subseteq> insert (rr_info s) (set (gets @ gs))"
      "length (rd_gets r) \<le> length (gets @ gs) + 1 + nat (rro_MaxRetryRequests (rr_o s) - (tries + 1))"
      unfolding again(3) by auto
    have "length (rd_gets r) \<le> length gets + (if rr_response s = None then 1 else 0)
          + nat (rro_MaxRetryRequests (rr_o s) - tries)"
      using r(5) again(1,2) by auto
    moreover have "set (rd_gets r) \<subseteq> insert (rr_info s) (set gets)"
      using r(4) again(2) by (auto split: if_splits)
    moreover have "read_post F s r" using r(2) by (auto simp: read_post_def split: if_splits)
    ultimately show ?thesis using r(1,3) by blast
  qed
qed

text \<open>
  One \<open>Read\<close> of the retry reader, under any network behaviour: it returns after at most
  \<open>MaxRetryRequests\<close> further requests (one more if no response was open), all for exactly the
  range that is still outstanding, with the original entity tag. Bytes returned without an
  error are the next bytes of the range and move the position by their number; the end of
  the data is only reported when the range is complete; after any error the position is
  unchanged.
\<close>

theorem retry_reader_read:
  assumes "serves F getter" and "reader_ok F s" and "0 \<le> rro_MaxRetryRequests (rr_o s)"
  shows "\<exists>r. retryReader_Read getter plen s w = Return r
     \<and> int (length (rd_gets r)) \<le> rro_MaxRetryRequests (rr_o s) + (if rr_response s = None then 1 else 0)
     \<and> set (rd_gets r) \<subseteq> {rr_info s}
     \<and> (if rd_outcome r = Got NoErr \<or> rd_outcome r = Got Eof
        then range_rest F s = rd_data r @ range_rest F (rd_reader r)
           \<and> gi_Offset (rr_info (rd_reader r)) = gi_Offset (rr_info s) + int (length (rd_data r))
        else rr_info (rd_reader r) = rr_info s)
     \<and> (rd_outcome r = Got Eof \<longrightarrow> range_rest F (rd_reader r) = [])
     \<and> reader_ok F (rd_reader r)"
proof -
  obtain r where "retryReader_Read getter plen s w = Return r" and "read_post F s r"
    and "set (rd_gets r) \<subseteq> {rr_info s}"
    and "length (rd_gets r) \<le> (if rr_response s = None then 1 else 0) + nat (rro_MaxRetryRequests (rr_o s))"
    using read_loop_spec [OF assms(1,2), of plen 0 "[]" "[]" w] unfolding retryReader_Read_def by auto
  with assms(3) show ?thesis by (intro exI [of _ r]) (auto simp: read_post_def)
qed

text \<open>A server whose every fresh connection breaks after three bytes.\<close>

definition example_getter :: "string \<Rightarrow> unit getter" where
  "example_getter F info w =
     (case select_range (httpRange_pointers \<lparr>hr_offset = gi_Offset info, hr_count = gi_Count info\<rparr>) F of
        Some d \<Rightarrow> (Inr (Some \<lparr>bs_rem = d, bs_script = [Deliver 3 False, Fail 1 injected], bs_closed = False\<rparr>), w)
      | None \<Rightarrow> (Inl (PlainErr ''InvalidRange''), w))"

lemma example_getter_serves: "serves F (example_getter F)"
  by (auto simp: serves_def example_getter_def split: option.splits)

definition example_reader :: retryReader where
  "example_reader = \<lparr>rr_info = \<lparr>gi_Offset = 1, gi_Count = 5, gi_ETag = ''e''\<rparr>, rr_countWasBounded = True,
     rr_o = \<lparr>rro_MaxRetryRequests = 2, rro_doInjectError = False, rro_doInjectErrorRound = 0,
       rro_NotifyFailedRead = True, rro_TreatEarlyCloseAsError = False\<rparr>,
     rr_response = Some \<lparr>bs_rem = ''bcdef'', bs_script = [Fail 1 injected], bs_closed = False\<rparr>\<rparr>"

lemma example_reader_ok: "reader_ok ''abcdefgh'' example_reader"
  by (simp add: reader_ok_def example_reader_def range_rest_def numeral_eq_Suc)

theorem retry_reader_read_witness:
  "\<exists>r. retryReader_Read (example_getter ''abcdefgh'') 4 example_reader () = Return r
     \<and> int (length (rd_gets r)) \<le> 2 \<and> reader_ok ''abcdefgh'' (rd_reader r)"
  using retry_reader_read [OF example_getter_serves example_reader_ok, of 4 "()"]
  by (auto simp: example_reader_def)

section \<open>Reading to the end\<close>

text \<open>A caller that reads with buffers of the given sizes until anything but success comes back.\<close>

fun read_many ::
    "'w getter \<Rightarrow> nat list \<Rightarrow> retryReader \<Rightarrow> 'w \<Rightarrow> (string \<times> read_outcome \<times> retryReader \<times> 'w) exec" where
  "read_many getter [] s w = Return ([], Got NoErr, s, w)"
| "read_many getter (n # ns) s w =
     bind_exec (retryReader_Read getter n s w) (\<lambda>r.
       if rd_outcome r = Got NoErr
       then bind_exec (read_many getter ns (rd_reader r) (rd_world r)) (\<lambda>(d, res, s', w').
              Return (rd_data r @ d, res, s', w'))
       else Return (rd_data r, rd_outcome r, rd_reader r, rd_world r))"

lemma read_many_spec:
  assumes "serves F getter" and "reader_ok F s"
  shows "\<exists>d res s' w'. read_many getter ns s w = Return (d, res, s', w')
     \<and> (res = Got NoErr \<longrightarrow> range_rest F s = d @ range_rest F s')
     \<and> (res = Got Eof \<longrightarrow> d = range_rest F s)"
  using assms(2)
proof (induction ns arbitrary: s w)
  case (Cons n ns)
  obtain r where r: "retryReader_Read getter n s w = Return r" and post: "read_post F s r"
    using read_loop_spec [OF assms(1) Cons.prems, of n 0 "[]" "[]" w] unfolding retryReader_Read_def by auto
  show ?case
  proof (cases "rd_outcome r = Got NoErr")
    case True
    from post have "reader_ok F (rd_reader r)" by (simp add: read_post_def)
    from Cons.IH [OF this, of "rd_world r"] post True r show ?thesis
      by (auto simp: read_post_def)
  next
    case False
    with post r show ?thesis by (auto simp: read_post_def)
  qed
qed simp

text \<open>
  C18: Reading a retry reader to its end gives exactly the requested part of the file: however
  the connections break and whatever buffer sizes the caller uses, if the sequence of reads
  ends with the end of the data, the bytes returned are the bytes from \<open>Offset\<close> on, \<open>Count\<close> of
  them if a count was given; before the end they are a prefix of it. No byte is lost,
  repeated or reordered by the retries.
\<close>

theorem retry_reader_reads_range:
  assumes "NewRetryReader (Some b) info opts (Some getter) = Return s" and "serves F getter"
    and "0 \<le> gi_Offset info" and "gi_Offset info \<le> int (length F)" and "int (length F) < 2 ^ 63"
    and "gi_Offset info + gi_Count info < 2 ^ 63"
    and "select_range (httpRange_pointers \<lparr>hr_offset = gi_Offset info, hr_count = gi_Count info\<rparr>) F = Some (bs_rem b)"
  defines "part \<equiv> (if gi_Count info = CountToEnd then drop (nat (gi_Offset info)) F
                   else take (nat (gi_Count info)) (drop (nat (gi_Offset info)) F))"
  shows "\<exists>d res s' w'. read_many getter ns s w = Return (d, res, s', w')
     \<and> (res = Got NoErr \<longrightarrow> (\<exists>rest. part = d @ rest)) \<and> (res = Got Eof \<longrightarrow> d = part)"
proof -
  from assms(1) have c: "0 \<le> gi_Count info" and s: "s = \<lparr>rr_info = info,
      rr_countWasBounded = (gi_Count info \<noteq> CountToEnd), rr_o = opts, rr_response = Some b\<rparr>"
    by (auto simp: NewRetryReader_def split: if_splits)
  have part: "part = range_rest F s" by (simp add: part_def range_rest_def s Let_def)
  have "bs_rem b = part"
    using assms(7) select_range_pointers [OF assms(3) c, of F] assms(6) by (simp add: part_def)
  then have "reader_ok F s"
    using assms(3-6) c by (simp add: reader_ok_def s part [unfolded s])
  from read_many_spec [OF assms(2) this, of ns w] show ?thesis unfolding part by blast
qed

theorem retry_reader_reads_range_witness:
  "\<exists>d res s' w'. read_many (example_getter ''abcdefgh'') [4, 4, 4] example_reader () = Return (d, res, s', w')
     \<and> (res = Got Eof \<longrightarrow> d = ''bcdef'')"
proof -
  let ?b = "\<lparr>bs_rem = ''bcdef'', bs_script = [Fail 1 injected], bs_closed = False\<rparr>"
  have new: "NewRetryReader (Some ?b) (rr_info example_reader) (rr_o example_reader)
      (Some (example_getter ''abcdefgh'')) = Return example_reader"
    by (simp add: NewRetryReader_def example_reader_def CountToEnd_def)
  have part: "(if gi_Count (rr_info example_reader) = CountToEnd then drop (nat (gi_Offset (rr_info example_reader))) ''abcdefgh''
      else take (nat (gi_Count (rr_info example_reader))) (drop (nat (gi_Offset (rr_info example_reader))) ''abcdefgh'')) = ''bcdef''"
    by (simp add: example_reader_def CountToEnd_def numeral_eq_Suc)
  have sel: "select_range (httpRange_pointers \<lparr>hr_offset = gi_Offset (rr_info example_reader),
      hr_count = gi_Count (rr_info example_reader)\<rparr>) ''abcdefgh'' = Some (bs_rem ?b)"
    using select_range_pointers [of 1 5 "''abcdefgh''"]
    by (simp add: example_reader_def CountToEnd_def numeral_eq_Suc)
  have h: "0 \<le> gi_Offset (rr_info example_reader)" "gi_Offset (rr_info example_reader) \<le> int (length ''abcdefgh'')"
    "int (length ''abcdefgh'') < 2 ^ 63" "gi_Offset (rr_info example_reader) + gi_Count (rr_info example_reader) < 2 ^ 63"
    by (simp_all add: example_reader_def)
  from retry_reader_reads_range [OF new example_getter_serves h sel, of "[4, 4, 4]" "()"] show ?thesis
    unfolding part by blast
qed

end
