(* ===== verification/File_Url.thy ===== *)
theory File_Url
  imports File_Client Parsing_Urls Retry_Reader
begin

text \<open>
  url\_file.go: the operations of \<open>FileURL\<close> on top of the generated file client. The structure
  \<open>FileURL\<close> has the client as its only field and is identified with it. The body of an upload
  is an \<open>io.ReadSeeker\<close> of the caller: \<open>seek\<close> moves it, \<open>payload\<close> is what is read from its start.
\<close>

type_synonym 'w FileURL = "'w fileClient"

definition NewFileURL :: "url \<Rightarrow> 'w pipeline \<Rightarrow> 'w FileURL" where
  "NewFileURL url p = newFileClient url p"

definition FileURL_URL :: "'w FileURL \<Rightarrow> url" where
  "FileURL_URL f = managementClient_URL f"

definition FileURL_String :: "'w FileURL \<Rightarrow> string" where
  "FileURL_String f = URL_String (FileURL_URL f)"

definition FileURL_WithPipeline :: "'w FileURL \<Rightarrow> 'w pipeline \<Rightarrow> 'w FileURL" where
  "FileURL_WithPipeline f p = NewFileURL (managementClient_URL f) p"

definition FileURL_WithSnapshot :: "unicode_tables \<Rightarrow> 'w FileURL \<Rightarrow> string \<Rightarrow> 'w FileURL exec" where
  "FileURL_WithSnapshot u f snapshot =
     bind_exec (NewFileURLParts u (FileURL_URL f)) (\<lambda>p.
       bind_exec (FileURLParts_URL (p\<lparr>fp_ShareSnapshot := snapshot\<rparr>)) (\<lambda>url.
         Return (NewFileURL url (managementClient_Pipeline f))))"

record FileHTTPHeaders =
  fh_ContentType :: string
  fh_ContentMD5 :: "string option"
  fh_ContentEncoding :: string
  fh_ContentLanguage :: string
  fh_ContentDisposition :: string
  fh_CacheControl :: string

definition FileURL_Create ::
    "lib \<Rightarrow> 'w FileURL \<Rightarrow> int \<Rightarrow> FileHTTPHeaders \<Rightarrow> Metadata \<Rightarrow> 'w \<Rightarrow> (api_result \<times> 'w) exec" where
  "FileURL_Create lib f sz h metadata =
     fileClient_Create lib f sz None (Some (fh_ContentType h)) (Some (fh_ContentEncoding h))
       (Some (fh_ContentLanguage h)) (Some (fh_CacheControl h)) (fh_ContentMD5 h)
       (Some (fh_ContentDisposition h)) metadata"

definition FileURL_StartCopy ::
    "lib \<Rightarrow> 'w FileURL \<Rightarrow> url \<Rightarrow> Metadata \<Rightarrow> 'w \<Rightarrow> (api_result \<times> 'w) exec" where
  "FileURL_StartCopy lib f source metadata = fileClient_StartCopy lib f (URL_String source) None metadata"

definition FileURL_AbortCopy :: "lib \<Rightarrow> 'w FileURL \<Rightarrow> string \<Rightarrow> 'w \<Rightarrow> (api_result \<times> 'w) exec" where
  "FileURL_AbortCopy lib f copyID = fileClient_AbortCopy lib f copyID None"

record DownloadInfo =
  dl_rawResponse :: http_response
  dl_info :: HTTPGetterInfo

definition FileURL_Download ::
    "lib \<Rightarrow> 'w FileURL \<Rightarrow> int \<Rightarrow> int \<Rightarrow> bool \<Rightarrow> 'w
      \<Rightarrow> ((DownloadInfo option \<times> api_error option) \<times> 'w) exec" where
  "FileURL_Download lib f offset cnt rangeGetContentMD5 w =
     (if rangeGetContentMD5 \<and> offset = 0 \<and> cnt = CountToEnd
      then Return ((None, Some (Argument
        ''invalid argument, rangeGetContentMD5 only works with partial data downloading'')), w)
      else
        bind_exec
          (fileClient_Download lib f None (httpRange_pointers \<lparr>hr_offset = offset, hr_count = cnt\<rparr>)
             (if rangeGetContentMD5 then Some rangeGetContentMD5 else None) w) (\<lambda>((dr, err), w).
          case err of
            Some e \<Rightarrow> Return ((None, Some e), w)
          | None \<Rightarrow>
              (case dr of
                 None \<Rightarrow> nil_deref
               | Some r \<Rightarrow>
                   (case ar_rawResponse r of
                      None \<Rightarrow> nil_deref
                    | Some raw \<Rightarrow>
                        Return ((Some \<lparr>dl_rawResponse = raw,
                          dl_info = \<lparr>gi_Offset = offset, gi_Count = cnt,
                            gi_ETag = Header_Get (rs_Header raw) ''ETag''\<rparr>\<rparr>, None), w)))))"

definition FileURL_Delete :: "lib \<Rightarrow> 'w FileURL \<Rightarrow> 'w \<Rightarrow> (api_result \<times> 'w) exec" where
  "FileURL_Delete lib f = fileClient_Delete lib f None"

definition FileURL_GetProperties :: "lib \<Rightarrow> 'w FileURL \<Rightarrow> 'w \<Rightarrow> (api_result \<times> 'w) exec" where
  "FileURL_GetProperties lib f = fileClient_GetProperties lib f None None"

definition FileURL_SetHTTPHeaders ::
    "lib \<Rightarrow> 'w FileURL \<Rightarrow> FileHTTPHeaders \<Rightarrow> 'w \<Rightarrow> (api_result \<times> 'w) exec" where
  "FileURL_SetHTTPHeaders lib f h =
     fileClient_SetHTTPHeaders lib f None None (Some (fh_ContentType h)) (Some (fh_ContentEncoding h))
       (Some (fh_ContentLanguage h)) (Some (fh_CacheControl h)) (fh_ContentMD5 h)
       (Some (fh_ContentDisposition h))"

definition FileURL_SetMetadata :: "lib \<Rightarrow> 'w FileURL \<Rightarrow> Metadata \<Rightarrow> 'w \<Rightarrow> (api_result \<times> 'w) exec" where
  "FileURL_SetMetadata lib f metadata = fileClient_SetMetadata lib f None metadata"

definition FileURL_Resize :: "lib \<Rightarrow> 'w FileURL \<Rightarrow> int \<Rightarrow> 'w \<Rightarrow> (api_result \<times> 'w) exec" where
  "FileURL_Resize lib f len = fileClient_SetHTTPHeaders lib f None (Some len) None None None None None None"

definition FileURL_UploadRange ::
    "lib \<Rightarrow> 'st seek \<Rightarrow> ('st \<Rightarrow> string) \<Rightarrow> 'w FileURL \<Rightarrow> int \<Rightarrow> 'st option \<Rightarrow> string option
      \<Rightarrow> 'w \<Rightarrow> (api_result \<times> 'w) exec" where
  "FileURL_UploadRange lib seek payload f offset body transactionalMD5 w =
     (if body = None
      then Return ((None, Some (Argument ''invalid argument, body must not be nil'')), w)
      else
        bind_exec (validateSeekableStreamAt0AndGetCount seek body) (\<lambda>(cnt, body).
          if cnt = 0
          then Return ((None, Some (Argument
            ''invalid argument, body must contain readable data whose size is > 0'')), w)
          else
            fileClient_UploadRange lib f (toRange offset cnt) FileRangeWriteUpdate cnt
              (map_option payload body) None transactionalMD5 w))"

definition FileURL_ClearRange ::
    "lib \<Rightarrow> 'w FileURL \<Rightarrow> int \<Rightarrow> int \<Rightarrow> 'w \<Rightarrow> (api_result \<times> 'w) exec" where
  "FileURL_ClearRange lib f offset cnt w =
     (if cnt \<le> 0
      then Return ((None, Some (Argument
        ''invalid argument, count cannot be CountToEnd, and must be > 0'')), w)
      else fileClient_UploadRange lib f (toRange offset cnt) FileRangeWriteClear 0 None None None w)"

definition FileURL_GetRangeList ::
    "lib \<Rightarrow> 'w FileURL \<Rightarrow> int \<Rightarrow> int \<Rightarrow> 'w \<Rightarrow> (api_result \<times> 'w) exec" where
  "FileURL_GetRangeList lib f offset cnt =
     fileClient_GetRangeList lib f None None (httpRange_pointers \<lparr>hr_offset = offset, hr_count = cnt\<rparr>)"

end
