(* ===== verification/Directory_Url.thy ===== *)
theory Directory_Url
  imports Directory_Client File_Url
begin

text \<open>
  url\_directory.go: the operations of \<open>DirectoryURL\<close>, and \<open>appendToURLPath\<close> of url\_service.go,
  by which every URL of a child is made.
\<close>

definition appendToURLPath :: "url \<Rightarrow> string \<Rightarrow> url" where
  "appendToURLPath u name =
     (let u = (if length (u_Path u) = 0 \<or> last (u_Path u) \<noteq> CHR ''/''
               then u\<lparr>u_Path := u_Path u @ ''/''\<rparr> else u)
      in u\<lparr>u_Path := u_Path u @ name\<rparr>)"

type_synonym 'w DirectoryURL = "'w directoryClient"

definition NewDirectoryURL :: "url \<Rightarrow> 'w pipeline \<Rightarrow> 'w DirectoryURL" where
  "NewDirectoryURL url p = newDirectoryClient url p"

definition DirectoryURL_URL :: "'w DirectoryURL \<Rightarrow> url" where
  "DirectoryURL_URL d = managementClient_URL d"

definition DirectoryURL_String :: "'w DirectoryURL \<Rightarrow> string" where
  "DirectoryURL_String d = URL_String (DirectoryURL_URL d)"

definition DirectoryURL_WithPipeline :: "'w DirectoryURL \<Rightarrow> 'w pipeline \<Rightarrow> 'w DirectoryURL" where
  "DirectoryURL_WithPipeline d p = NewDirectoryURL (DirectoryURL_URL d) p"

definition DirectoryURL_NewFileURL :: "'w DirectoryURL \<Rightarrow> string \<Rightarrow> 'w FileURL" where
  "DirectoryURL_NewFileURL d fileName =
     NewFileURL (appendToURLPath (DirectoryURL_URL d) fileName) (managementClient_Pipeline d)"

definition DirectoryURL_NewDirectoryURL :: "'w DirectoryURL \<Rightarrow> string \<Rightarrow> 'w DirectoryURL" where
  "DirectoryURL_NewDirectoryURL d directoryName =
     NewDirectoryURL (appendToURLPath (DirectoryURL_URL d) directoryName) (managementClient_Pipeline d)"

definition DirectoryURL_Create :: "lib \<Rightarrow> 'w DirectoryURL \<Rightarrow> Metadata \<Rightarrow> 'w \<Rightarrow> (api_result \<times> 'w) exec" where
  "DirectoryURL_Create lib d metadata = directoryClient_Create lib d None metadata"

definition DirectoryURL_Delete :: "lib \<Rightarrow> 'w DirectoryURL \<Rightarrow> 'w \<Rightarrow> (api_result \<times> 'w) exec" where
  "DirectoryURL_Delete lib d = directoryClient_Delete lib d None"

definition DirectoryURL_GetProperties :: "lib \<Rightarrow> 'w DirectoryURL \<Rightarrow> 'w \<Rightarrow> (api_result \<times> 'w) exec" where
  "DirectoryURL_GetProperties lib d = directoryClient_GetProperties lib d None None"

definition DirectoryURL_SetMetadata ::
    "lib \<Rightarrow> 'w DirectoryURL \<Rightarrow> Metadata \<Rightarrow> 'w \<Rightarrow> (api_result \<times> 'w) exec" where
  "DirectoryURL_SetMetadata lib d metadata = directoryClient_SetMetadata lib d None metadata"

record ListFilesAndDirectoriesOptions =
  lo_Prefix :: string
  lo_MaxResults :: int

definition ListFilesAndDirectoriesOptions_pointers ::
    "ListFilesAndDirectoriesOptions \<Rightarrow> string option \<times> int option" where
  "ListFilesAndDirectoriesOptions_pointers opts =
     (if lo_Prefix opts \<noteq> [] then Some (lo_Prefix opts) else None,
      if lo_MaxResults opts \<noteq> 0 then Some (lo_MaxResults opts) else None)"

definition DirectoryURL_ListFilesAndDirectoriesSegment ::
    "lib \<Rightarrow> 'w DirectoryURL \<Rightarrow> Marker \<Rightarrow> ListFilesAndDirectoriesOptions \<Rightarrow> 'w \<Rightarrow> (api_result \<times> 'w) exec" where
  "DirectoryURL_ListFilesAndDirectoriesSegment lib d marker opts =
     (case ListFilesAndDirectoriesOptions_pointers opts of (prefix', maxResults) \<Rightarrow>
        directoryClient_ListFilesAndDirectoriesSegment lib d prefix' None (mk_val marker) maxResults None)"

section \<open>Paths of children\<close>

text \<open>Joining a name to a path puts exactly one slash between them, unless the path ends in several.\<close>

lemma appendToURLPath_fields [simp]:
  "u_Scheme (appendToURLPath u n) = u_Scheme u" "u_Host (appendToURLPath u n) = u_Host u"
  "u_RawQuery (appendToURLPath u n) = u_RawQuery u" "URL_Query (appendToURLPath u n) = URL_Query u"
  by (simp_all add: appendToURLPath_def Let_def URL_Query_def)

lemma appendToURLPath_path:
  "u_Path (appendToURLPath u n) =
     (if u_Path u \<noteq> [] \<and> last (u_Path u) = CHR ''/'' then u_Path u else u_Path u @ ''/'') @ n"
  by (simp add: appendToURLPath_def Let_def)

end
