(* ===== verification/Share_Url.thy ===== *)
theory Share_Url
  imports Share_Client Directory_Url
begin

text \<open>
  url\_share.go: the operations of \<open>ShareURL\<close>. The permissions of stored access policies are
  in the theory of the other permission flags.
\<close>

type_synonym 'w ShareURL = "'w shareClient"

definition NewShareURL :: "url \<Rightarrow> 'w pipeline \<Rightarrow> 'w ShareURL" where
  "NewShareURL url p = newShareClient url p"

definition ShareURL_URL :: "'w ShareURL \<Rightarrow> url" where
  "ShareURL_URL s = managementClient_URL s"

definition ShareURL_String :: "'w ShareURL \<Rightarrow> string" where
  "ShareURL_String s = URL_String (ShareURL_URL s)"

definition ShareURL_WithPipeline :: "'w ShareURL \<Rightarrow> 'w pipeline \<Rightarrow> 'w ShareURL" where
  "ShareURL_WithPipeline s p = NewShareURL (ShareURL_URL s) p"

definition ShareURL_WithSnapshot :: "unicode_tables \<Rightarrow> 'w ShareURL \<Rightarrow> string \<Rightarrow> 'w ShareURL exec" where
  "ShareURL_WithSnapshot u s snapshot =
     bind_exec (NewFileURLParts u (ShareURL_URL s)) (\<lambda>p.
       bind_exec (FileURLParts_URL (p\<lparr>fp_ShareSnapshot := snapshot\<rparr>)) (\<lambda>url.
         Return (NewShareURL url (managementClient_Pipeline s))))"

definition ShareURL_NewDirectoryURL :: "'w ShareURL \<Rightarrow> string \<Rightarrow> 'w DirectoryURL" where
  "ShareURL_NewDirectoryURL s directoryName =
     NewDirectoryURL (appendToURLPath (ShareURL_URL s) directoryName) (managementClient_Pipeline s)"

definition ShareURL_NewRootDirectoryURL :: "'w ShareURL \<Rightarrow> 'w DirectoryURL" where
  "ShareURL_NewRootDirectoryURL s = NewDirectoryURL (ShareURL_URL s) (managementClient_Pipeline s)"

definition ShareURL_Create ::
    "lib \<Rightarrow> 'w ShareURL \<Rightarrow> Metadata \<Rightarrow> int \<Rightarrow> 'w \<Rightarrow> (api_result \<times> 'w) exec" where
  "ShareURL_Create lib s metadata quotaInGB =
     (let quota = (if quotaInGB \<noteq> 0 then Some quotaInGB else None)
      in shareClient_Create lib s None metadata quota)"

definition ShareURL_CreateSnapshot :: "lib \<Rightarrow> 'w ShareURL \<Rightarrow> Metadata \<Rightarrow> 'w \<Rightarrow> (api_result \<times> 'w) exec" where
  "ShareURL_CreateSnapshot lib s metadata = shareClient_CreateSnapshot lib s None metadata"

definition ShareURL_Delete ::
    "lib \<Rightarrow> 'w ShareURL \<Rightarrow> DeleteSnapshotsOptionType \<Rightarrow> 'w \<Rightarrow> (api_result \<times> 'w) exec" where
  "ShareURL_Delete lib s deleteSnapshotsOption = shareClient_Delete lib s None None deleteSnapshotsOption"

definition ShareURL_GetProperties :: "lib \<Rightarrow> 'w ShareURL \<Rightarrow> 'w \<Rightarrow> (api_result \<times> 'w) exec" where
  "ShareURL_GetProperties lib s = shareClient_GetProperties lib s None None"

definition ShareURL_SetQuota :: "lib \<Rightarrow> 'w ShareURL \<Rightarrow> int \<Rightarrow> 'w \<Rightarrow> (api_result \<times> 'w) exec" where
  "ShareURL_SetQuota lib s quotaInGB =
     (let quota = (if quotaInGB \<noteq> 0 then Some quotaInGB else None)
      in shareClient_SetQuota lib s None quota)"

definition ShareURL_SetMetadata :: "lib \<Rightarrow> 'w ShareURL \<Rightarrow> Metadata \<Rightarrow> 'w \<Rightarrow> (api_result \<times> 'w) exec" where
  "ShareURL_SetMetadata lib s metadata = shareClient_SetMetadata lib s None metadata"

definition ShareURL_GetPermissions :: "lib \<Rightarrow> 'w ShareURL \<Rightarrow> 'w \<Rightarrow> (api_result \<times> 'w) exec" where
  "ShareURL_GetPermissions lib s = shareClient_GetAccessPolicy lib s None"

definition ShareURL_SetPermissions ::
    "lib \<Rightarrow> 'w ShareURL \<Rightarrow> SignedIdentifier list \<Rightarrow> 'w \<Rightarrow> (api_result \<times> 'w) exec" where
  "ShareURL_SetPermissions lib s permissions = shareClient_SetAccessPolicy lib s permissions None"

definition ShareURL_GetStatistics :: "lib \<Rightarrow> 'w ShareURL \<Rightarrow> 'w \<Rightarrow> (api_result \<times> 'w) exec" where
  "ShareURL_GetStatistics lib s = shareClient_GetStatistics lib s None"

end
