(* ===== verification/Service_Url.thy ===== *)
theory Service_Url
  imports Service_Client Share_Url
begin

text \<open>
  url\_service.go: the operations of \<open>ServiceURL\<close> and the conversion between the service's
  properties and the flat structures of zz\_response\_helpers.go.
\<close>

type_synonym 'w ServiceURL = "'w serviceClient"

definition NewServiceURL :: "url \<Rightarrow> 'w pipeline \<Rightarrow> 'w ServiceURL" where
  "NewServiceURL url p = newServiceClient url p"

definition ServiceURL_URL :: "'w ServiceURL \<Rightarrow> url" where
  "ServiceURL_URL s = managementClient_URL s"

definition ServiceURL_String :: "'w ServiceURL \<Rightarrow> string" where
  "ServiceURL_String s = URL_String (ServiceURL_URL s)"

definition ServiceURL_WithPipeline :: "'w ServiceURL \<Rightarrow> 'w pipeline \<Rightarrow> 'w ServiceURL" where
  "ServiceURL_WithPipeline s p = NewServiceURL (ServiceURL_URL s) p"

definition ServiceURL_NewShareURL :: "'w ServiceURL \<Rightarrow> string \<Rightarrow> 'w ShareURL" where
  "ServiceURL_NewShareURL s shareName =
     NewShareURL (appendToURLPath (ServiceURL_URL s) shareName) (managementClient_Pipeline s)"

section \<open>Listing shares\<close>

record ListSharesDetail =
  ld_Metadata :: bool
  ld_Snapshots :: bool

definition ListSharesDetail_toArray :: "ListSharesDetail \<Rightarrow> ListSharesIncludeType list" where
  "ListSharesDetail_toArray d =
     (let items = [];
          items = (if ld_Metadata d then items @ [ListSharesIncludeMetadata] else items);
          items = (if ld_Snapshots d then items @ [ListSharesIncludeSnapshots] else items)
      in items)"

record ListSharesOptions =
  lso_Detail :: ListSharesDetail
  lso_Prefix :: string
  lso_MaxResults :: int

definition ListSharesOptions_pointers ::
    "ListSharesOptions \<Rightarrow> string option \<times> ListSharesIncludeType list \<times> int option" where
  "ListSharesOptions_pointers opts =
     (if lso_Prefix opts \<noteq> [] then Some (lso_Prefix opts) else None,
      ListSharesDetail_toArray (lso_Detail opts),
      if lso_MaxResults opts \<noteq> 0 then Some (lso_MaxResults opts) else None)"

definition ServiceURL_ListSharesSegment ::
    "lib \<Rightarrow> 'w ServiceURL \<Rightarrow> Marker \<Rightarrow> ListSharesOptions \<Rightarrow> 'w \<Rightarrow> (api_result \<times> 'w) exec" where
  "ServiceURL_ListSharesSegment lib s marker opts =
     (case ListSharesOptions_pointers opts of (prefix', include', maxResults) \<Rightarrow>
        serviceClient_ListSharesSegment lib s prefix' (mk_val marker) maxResults include' None)"

section \<open>Service properties\<close>

definition storageAnalyticsVersion :: string where
  "storageAnalyticsVersion = ''1.0''"

record MetricProperties =
  mp_MetricEnabled :: bool
  mp_IncludeAPIs :: bool
  mp_RetentionPolicyEnabled :: bool
  mp_RetentionDays :: int

record FileServiceProperties =
  fsp_rawResponse :: "http_response option"
  fsp_HourMetrics :: MetricProperties
  fsp_MinuteMetrics :: MetricProperties
  fsp_Cors :: "CorsRule list"

text \<open>The receiver of \<open>toMp\<close> is a pointer that \<open>toFsp\<close> passes without a check.\<close>

definition Metrics_toMp :: "Metrics option \<Rightarrow> MetricProperties exec" where
  "Metrics_toMp m =
     (let mp = \<lparr>mp_MetricEnabled = False, mp_IncludeAPIs = False, mp_RetentionPolicyEnabled = False,
                mp_RetentionDays = 0\<rparr> in
      case m of
        None \<Rightarrow> nil_deref
      | Some m \<Rightarrow>
          if mt_Enabled m then
            (case mt_IncludeAPIs m of
               None \<Rightarrow> nil_deref
             | Some apis \<Rightarrow>
                 let mp = mp\<lparr>mp_MetricEnabled := True, mp_IncludeAPIs := apis\<rparr> in
                 (case mt_RetentionPolicy m of
                    Some r \<Rightarrow>
                      if rt_Enabled r then
                        (case rt_Days r of
                           None \<Rightarrow> nil_deref
                         | Some days \<Rightarrow> Return (mp\<lparr>mp_RetentionPolicyEnabled := True, mp_RetentionDays := days\<rparr>))
                      else Return mp
                  | None \<Rightarrow> Return mp))
          else Return mp)"

definition StorageServiceProperties_toFsp ::
    "(http_response option \<times> StorageServiceProperties) option \<Rightarrow> FileServiceProperties option exec" where
  "StorageServiceProperties_toFsp ssp =
     (case ssp of
        None \<Rightarrow> Return None
      | Some (raw, p) \<Rightarrow>
          bind_exec (Metrics_toMp (ssp_HourMetrics p)) (\<lambda>hour.
            bind_exec (Metrics_toMp (ssp_MinuteMetrics p)) (\<lambda>minute.
              Return (Some \<lparr>fsp_rawResponse = raw, fsp_HourMetrics = hour, fsp_MinuteMetrics = minute,
                fsp_Cors = ssp_Cors p\<rparr>))))"

definition MetricProperties_toM :: "MetricProperties \<Rightarrow> Metrics" where
  "MetricProperties_toM mp =
     (let m = \<lparr>mt_Version = storageAnalyticsVersion, mt_Enabled = False, mt_IncludeAPIs = None,
               mt_RetentionPolicy = Some \<lparr>rt_Enabled = False, rt_Days = None\<rparr>\<rparr> in
      if mp_MetricEnabled mp then
        let m = m\<lparr>mt_Enabled := True, mt_IncludeAPIs := Some (mp_IncludeAPIs mp)\<rparr> in
        if mp_RetentionPolicyEnabled mp
        then m\<lparr>mt_RetentionPolicy := Some \<lparr>rt_Enabled = True, rt_Days = Some (mp_RetentionDays mp)\<rparr>\<rparr>
        else m
      else m)"

text \<open>
  The answer a structure was read from stands beside it here, as the first part of a pair; what is
  sent never holds it, so it is left out.
\<close>

definition FileServiceProperties_toSsp :: "FileServiceProperties \<Rightarrow> StorageServiceProperties" where
  "FileServiceProperties_toSsp fsp =
     \<lparr>ssp_HourMetrics = Some (MetricProperties_toM (fsp_HourMetrics fsp)),
      ssp_MinuteMetrics = Some (MetricProperties_toM (fsp_MinuteMetrics fsp)), ssp_Cors = fsp_Cors fsp\<rparr>"

definition ServiceURL_GetProperties ::
    "lib \<Rightarrow> 'w ServiceURL \<Rightarrow> 'w \<Rightarrow> ((FileServiceProperties option \<times> api_error option) \<times> 'w) exec" where
  "ServiceURL_GetProperties lib s w =
     bind_exec (serviceClient_GetProperties lib s None w) (\<lambda>((ssp, err), w).
       bind_exec
         (StorageServiceProperties_toFsp
            (map_option (\<lambda>r. (ar_rawResponse r, un_ServiceProperties (ar_value r))) ssp))
         (\<lambda>fsp. Return ((fsp, err), w)))"

definition ServiceURL_SetProperties ::
    "lib \<Rightarrow> 'w ServiceURL \<Rightarrow> FileServiceProperties \<Rightarrow> 'w \<Rightarrow> (api_result \<times> 'w) exec" where
  "ServiceURL_SetProperties lib s properties =
     serviceClient_SetProperties lib s (FileServiceProperties_toSsp properties) None"

section \<open>Properties\<close>

text \<open>Settings without effect: whatever is below something that is switched off.\<close>

definition effective :: "MetricProperties \<Rightarrow> MetricProperties" where
  "effective mp =
     (let retained = mp_MetricEnabled mp \<and> mp_RetentionPolicyEnabled mp in
      mp\<lparr>mp_IncludeAPIs := mp_MetricEnabled mp \<and> mp_IncludeAPIs mp,
         mp_RetentionPolicyEnabled := retained,
         mp_RetentionDays := if retained then mp_RetentionDays mp else 0\<rparr>)"

lemma toMp_toM: "Metrics_toMp (Some (MetricProperties_toM mp)) = Return (effective mp)"
  by (cases mp) (simp add: Metrics_toMp_def MetricProperties_toM_def effective_def Let_def)

text \<open>
  C22: Properties sent to the service and read back are the same properties, up to settings
  that have no effect: the conversion to the wire structure and back keeps the CORS rules and
  whether metrics are on, and keeps the call summaries, the retention policy and its days
  exactly when the settings above them are on. Properties without ineffective settings come
  back unchanged, and doing it twice changes nothing more.
\<close>

theorem service_properties_roundtrip:
  "StorageServiceProperties_toFsp (Some (fsp_rawResponse fsp, FileServiceProperties_toSsp fsp)) =
     Return (Some (fsp\<lparr>fsp_HourMetrics := effective (fsp_HourMetrics fsp),
                       fsp_MinuteMetrics := effective (fsp_MinuteMetrics fsp)\<rparr>))
   \<and> (effective mp = mp \<longleftrightarrow>
        (mp_IncludeAPIs mp \<or> mp_RetentionPolicyEnabled mp \<longrightarrow> mp_MetricEnabled mp)
        \<and> (mp_RetentionDays mp \<noteq> 0 \<longrightarrow> mp_RetentionPolicyEnabled mp))
   \<and> effective (effective mp) = effective mp"
proof (intro conjI)
  show "StorageServiceProperties_toFsp (Some (fsp_rawResponse fsp, FileServiceProperties_toSsp fsp)) =
     Return (Some (fsp\<lparr>fsp_HourMetrics := effective (fsp_HourMetrics fsp),
                       fsp_MinuteMetrics := effective (fsp_MinuteMetrics fsp)\<rparr>))"
    by (simp add: StorageServiceProperties_toFsp_def FileServiceProperties_toSsp_def toMp_toM)
  show "effective mp = mp \<longleftrightarrow>
        (mp_IncludeAPIs mp \<or> mp_RetentionPolicyEnabled mp \<longrightarrow> mp_MetricEnabled mp)
        \<and> (mp_RetentionDays mp \<noteq> 0 \<longrightarrow> mp_RetentionPolicyEnabled mp)"
    by (cases mp) (auto simp: effective_def Let_def)
qed (simp add: effective_def Let_def)

theorem service_properties_roundtrip_witness:
  "effective \<lparr>mp_MetricEnabled = True, mp_IncludeAPIs = True, mp_RetentionPolicyEnabled = True,
     mp_RetentionDays = 7\<rparr> = \<lparr>mp_MetricEnabled = True, mp_IncludeAPIs = True,
     mp_RetentionPolicyEnabled = True, mp_RetentionDays = 7\<rparr>"
  using service_properties_roundtrip [of undefined "\<lparr>mp_MetricEnabled = True, mp_IncludeAPIs = True,
     mp_RetentionPolicyEnabled = True, mp_RetentionDays = 7\<rparr>"] by simp

text \<open>The retention days the client accepts.\<close>

definition days_ok :: "Metrics option \<Rightarrow> bool" where
  "days_ok m \<longleftrightarrow>
     (case m of
        Some m \<Rightarrow>
          (case mt_RetentionPolicy m of
             Some r \<Rightarrow> (case rt_Days r of Some d \<Rightarrow> 1 \<le> d \<and> d \<le> 365 | None \<Rightarrow> True)
           | None \<Rightarrow> True)
      | None \<Rightarrow> True)"

lemma last_components [simp]:
  "last_component ''storageServiceProperties.HourMetrics'' = ''HourMetrics''"
  "last_component ''storageServiceProperties.MinuteMetrics'' = ''MinuteMetrics''"
  "last_component (s @ ''.RetentionPolicy'') = ''RetentionPolicy''"
  "last_component (s @ ''.RetentionPolicy.Days'') = ''Days''"
  "exported ''HourMetrics''" "exported ''MinuteMetrics''" "exported ''RetentionPolicy''" "exported ''Days''"
  by (simp_all add: last_component_def exported_def byte_of_def)

lemma validate_metrics:
  assumes "last_component target = field" and "exported field"
    and "map_of fs field = Some (ptr_of Metrics_gval m)"
  shows "if days_ok m then validate_kind regexp (GStruct fs) (metrics_constraint target) = Return None
     else \<exists>e. validate_kind regexp (GStruct fs) (metrics_constraint target) = Return (Some e)"
  using assms
  by (auto simp: validate_kind.simps metrics_constraint_def Let_def ptr_of_def days_ok_def checkNil_def constraint_names
      Metrics_gval_def RetentionPolicy_gval_def validateInt_def createError_def split: option.splits)

text \<open>
  C23: Setting the service's properties is refused exactly when a retention policy that is in
  effect keeps data for less than one or more than 365 days; then nothing is sent. Otherwise
  the validation has no effect: the call is that of a method without constraints, and what
  is marshalled is the wire structure of the given properties.
\<close>

theorem set_properties_validates:
  "if days_ok (Some (MetricProperties_toM (fsp_HourMetrics fsp)))
      \<and> days_ok (Some (MetricProperties_toM (fsp_MinuteMetrics fsp)))
   then ServiceURL_SetProperties lib s fsp w =
     client_call lib s [] (serviceClient_setPropertiesPreparer lib s (FileServiceProperties_toSsp fsp) None)
       (serviceClient_setPropertiesResponder lib) ((=) ServiceSetPropertiesResponse) w
   else \<exists>e. ServiceURL_SetProperties lib s fsp w = Return ((None, Some (Invalid e)), w)"
proof -
  let ?p = "FileServiceProperties_toSsp fsp" and ?h = "metrics_constraint ''storageServiceProperties.HourMetrics''"
    and ?m = "metrics_constraint ''storageServiceProperties.MinuteMetrics''"
  let ?x = "StorageServiceProperties_gval ?p"
  obtain fs where fs: "?x = GStruct fs" "map_of fs ''HourMetrics'' = Some (ptr_of Metrics_gval (ssp_HourMetrics ?p))"
    "map_of fs ''MinuteMetrics'' = Some (ptr_of Metrics_gval (ssp_MinuteMetrics ?p))"
    by (simp add: StorageServiceProperties_gval_def)
  note h = validate_metrics [OF _ _ fs(2), of "''storageServiceProperties.HourMetrics''" "lib_regexp lib", folded fs(1)]
    and m = validate_metrics [OF _ _ fs(3), of "''storageServiceProperties.MinuteMetrics''" "lib_regexp lib", folded fs(1)]
  have t: "validate_kind (lib_regexp lib) (int_ptr None) (optional_minimum ''timeout'' 0) = Return None"
    using validate_optional_minimum [of "lib_regexp lib" None "''timeout''" 0]
    by (simp add: and_then_Return_None)
  have v: "validate (lib_regexp lib) [service_properties_check ?p, timeout_check None] =
      and_then (validate_kind (lib_regexp lib) ?x ?h) (validate_kind (lib_regexp lib) ?x ?m)"
    by (simp only: service_properties_check_def timeout_check_def validate.simps validate_constraints.simps
        and_then_assoc t and_then_Return_None)
  have d: "ssp_HourMetrics ?p = Some (MetricProperties_toM (fsp_HourMetrics fsp))"
    "ssp_MinuteMetrics ?p = Some (MetricProperties_toM (fsp_MinuteMetrics fsp))"
    by (simp_all add: FileServiceProperties_toSsp_def)
  show ?thesis
    using h m unfolding ServiceURL_SetProperties_def serviceClient_SetProperties_def client_call_def v d
    by (auto split: if_splits)
qed

text \<open>
  An answer without metrics, such as an empty one, is accepted by the responder, but the
  conversion dereferences the missing metrics.
\<close>

lemma get_properties_without_metrics:
  assumes "new_request_ok lib" and "mc_p s = (\<lambda>m. m wire)"
    and "\<And>req w. wire req w = Return (\<lparr>rp_response = Some (Some r), rp_value = HTTPResponse, rp_error = None\<rparr>, w)"
    and "rs_StatusCode r = 200" and "rs_Body r = Some \<lparr>b_data = [], b_error = None\<rparr>"
  shows "is_panic (ServiceURL_GetProperties lib s w)"
proof -
  obtain req where req: "\<And>k. start_request lib ''GET'' s None k = k req"
    using start_request_ok [OF assms(1)] by metis
  have t: "validate (lib_regexp lib) [timeout_check None] = Return None"
    using validate_optional_minimum [of "lib_regexp lib" None "''timeout''" 0]
    by (simp add: timeout_check_def)
  show ?thesis
    unfolding ServiceURL_GetProperties_def serviceClient_GetProperties_def client_call_def t
    using assms(2-5)
    by (simp add: serviceClient_getPropertiesPreparer_def req serviceClient_getPropertiesResponder_def
        xml_responder_def responderPolicy_Do_def validateResponse_def Let_def
        StorageServiceProperties_toFsp_def empty_ServiceProperties_def Metrics_toMp_def nil_deref_def)
qed

end
