(* ===== verification/Api.thy ===== *)
theory Api
  imports Service_Url
begin

text \<open>
  All operations of the four generated clients as one datatype, and what their requests have
  in common: the path and host of the client's URL, its query parameters apart from the few
  names the operations set, the service version, and with the query the SAS that authorizes
  the request.
\<close>

section \<open>The operations\<close>

datatype operation =
    File_AbortCopy string "int option"
  | File_Create int "int option" "string option" "string option" "string option" "string option" "string
      option" "string option" Metadata
  | File_Delete "int option"
  | File_Download "int option" "string option" "bool option"
  | File_GetProperties "string option" "int option"
  | File_GetRangeList "string option" "int option" "string option"
  | File_SetHTTPHeaders "int option" "int option" "string option" "string option" "string option"
      "string option" "string option" "string option"
  | File_SetMetadata "int option" Metadata
  | File_StartCopy string "int option" Metadata
  | File_UploadRange string FileRangeWriteType int "string option" "int option" "string option"
  | Share_Create "int option" Metadata "int option"
  | Share_CreateSnapshot "int option" Metadata
  | Share_Delete "string option" "int option" DeleteSnapshotsOptionType
  | Share_GetAccessPolicy "int option"
  | Share_GetProperties "string option" "int option"
  | Share_GetStatistics "int option"
  | Share_SetAccessPolicy "SignedIdentifier list" "int option"
  | Share_SetMetadata "int option" Metadata
  | Share_SetQuota "int option" "int option"
  | Directory_Create "int option" Metadata
  | Directory_Delete "int option"
  | Directory_GetProperties "string option" "int option"
  | Directory_ListFilesAndDirectoriesSegment "string option" "string option" "string option" "int
      option" "int option"
  | Directory_SetMetadata "int option" Metadata
  | Service_GetProperties "int option"
  | Service_ListSharesSegment "string option" "string option" "int option" "ListSharesIncludeType list"
      "int option"
  | Service_SetProperties StorageServiceProperties "int option"

fun prepare :: "lib \<Rightarrow> 'w managementClient \<Rightarrow> operation \<Rightarrow> http_request \<times> api_error option" where
  "prepare lib client (File_AbortCopy copyID timeout) =
     fileClient_abortCopyPreparer lib client copyID timeout"
| "prepare lib client (File_Create fileContentLength timeout fileContentType fileContentEncoding
      fileContentLanguage fileCacheControl fileContentMD5 fileContentDisposition metadata) =
     fileClient_createPreparer lib client fileContentLength timeout fileContentType fileContentEncoding
      fileContentLanguage fileCacheControl fileContentMD5 fileContentDisposition metadata"
| "prepare lib client (File_Delete timeout) = fileClient_deletePreparer lib client timeout"
| "prepare lib client (File_Download timeout rangeParameter rangeGetContentMD5) =
     fileClient_downloadPreparer lib client timeout rangeParameter rangeGetContentMD5"
| "prepare lib client (File_GetProperties sharesnapshot timeout) =
     fileClient_getPropertiesPreparer lib client sharesnapshot timeout"
| "prepare lib client (File_GetRangeList sharesnapshot timeout rangeParameter) =
     fileClient_getRangeListPreparer lib client sharesnapshot timeout rangeParameter"
| "prepare lib client (File_SetHTTPHeaders timeout fileContentLength fileContentType fileContentEncoding
      fileContentLanguage fileCacheControl fileContentMD5 fileContentDisposition) =
     fileClient_setHTTPHeadersPreparer lib client timeout fileContentLength fileContentType
      fileContentEncoding fileContentLanguage fileCacheControl fileContentMD5 fileContentDisposition"
| "prepare lib client (File_SetMetadata timeout metadata) =
     fileClient_setMetadataPreparer lib client timeout metadata"
| "prepare lib client (File_StartCopy copySource timeout metadata) =
     fileClient_startCopyPreparer lib client copySource timeout metadata"
| "prepare lib client (File_UploadRange rangeParameter fileRangeWrite contentLength body timeout
      contentMD5) =
     fileClient_uploadRangePreparer lib client rangeParameter fileRangeWrite contentLength body timeout
      contentMD5"
| "prepare lib client (Share_Create timeout metadata quota) =
     shareClient_createPreparer lib client timeout metadata quota"
| "prepare lib client (Share_CreateSnapshot timeout metadata) =
     shareClient_createSnapshotPreparer lib client timeout metadata"
| "prepare lib client (Share_Delete sharesnapshot timeout deleteSnapshots) =
     shareClient_deletePreparer lib client sharesnapshot timeout deleteSnapshots"
| "prepare lib client (Share_GetAccessPolicy timeout) =
     shareClient_getAccessPolicyPreparer lib client timeout"
| "prepare lib client (Share_GetProperties sharesnapshot timeout) =
     shareClient_getPropertiesPreparer lib client sharesnapshot timeout"
| "prepare lib client (Share_GetStatistics timeout) =
     shareClient_getStatisticsPreparer lib client timeout"
| "prepare lib client (Share_SetAccessPolicy shareACL timeout) =
     shareClient_setAccessPolicyPreparer lib client shareACL timeout"
| "prepare lib client (Share_SetMetadata timeout metadata) =
     shareClient_setMetadataPreparer lib client timeout metadata"
| "prepare lib client (Share_SetQuota timeout quota) =
     shareClient_setQuotaPreparer lib client timeout quota"
| "prepare lib client (Directory_Create timeout metadata) =
     directoryClient_createPreparer lib client timeout metadata"
| "prepare lib client (Directory_Delete timeout) = directoryClient_deletePreparer lib client timeout"
| "prepare lib client (Directory_GetProperties sharesnapshot timeout) =
     directoryClient_getPropertiesPreparer lib client sharesnapshot timeout"
| "prepare lib client (Directory_ListFilesAndDirectoriesSegment prefix' sharesnapshot marker maxresults
      timeout) =
     directoryClient_listFilesAndDirectoriesSegmentPreparer lib client prefix' sharesnapshot marker
      maxresults timeout"
| "prepare lib client (Directory_SetMetadata timeout metadata) =
     directoryClient_setMetadataPreparer lib client timeout metadata"
| "prepare lib client (Service_GetProperties timeout) =
     serviceClient_getPropertiesPreparer lib client timeout"
| "prepare lib client (Service_ListSharesSegment prefix' marker maxresults include' timeout) =
     serviceClient_listSharesSegmentPreparer lib client prefix' marker maxresults include' timeout"
| "prepare lib client (Service_SetProperties storageServiceProperties timeout) =
     serviceClient_setPropertiesPreparer lib client storageServiceProperties timeout"

lemmas preparer_defs =
  fileClient_abortCopyPreparer_def
  fileClient_createPreparer_def
  fileClient_deletePreparer_def
  fileClient_downloadPreparer_def
  fileClient_getPropertiesPreparer_def
  fileClient_getRangeListPreparer_def
  fileClient_setHTTPHeadersPreparer_def
  fileClient_setMetadataPreparer_def
  fileClient_startCopyPreparer_def
  fileClient_uploadRangePreparer_def
  shareClient_createPreparer_def
  shareClient_createSnapshotPreparer_def
  shareClient_deletePreparer_def
  shareClient_getAccessPolicyPreparer_def
  shareClient_getPropertiesPreparer_def
  shareClient_getStatisticsPreparer_def
  shareClient_setAccessPolicyPreparer_def
  shareClient_setMetadataPreparer_def
  shareClient_setQuotaPreparer_def
  directoryClient_createPreparer_def
  directoryClient_deletePreparer_def
  directoryClient_getPropertiesPreparer_def
  directoryClient_listFilesAndDirectoriesSegmentPreparer_def
  directoryClient_setMetadataPreparer_def
  serviceClient_getPropertiesPreparer_def
  serviceClient_listSharesSegmentPreparer_def
  serviceClient_setPropertiesPreparer_def

section \<open>A concrete surrounding\<close>

text \<open>
  An implementation of the library functions as their documentation has it, with decoders that
  refuse everything, and a client whose URL carries a SAS.
\<close>

definition example_lib :: lib where
  "example_lib = \<lparr>
     lib_NewRequest = (\<lambda>m u b. (\<lparr>rq_Method = m, rq_URL = u, rq_Host = u_Host u, rq_Header = [], rq_Body = b\<rparr>, None)),
     lib_SetBody = (\<lambda>d req. (set_header ''Content-Length'' (FormatInt (int (length d))) req\<lparr>rq_Body := Some d\<rparr>, None)),
     lib_node = (\<lambda>_. (False, False)), lib_xml = (\<lambda>_. None), lib_regexp = (\<lambda>_. Inl ''unsupported''),
     lib_MarshalSignedIdentifiers = (\<lambda>_. Inr ''<SignedIdentifiers/>''),
     lib_MarshalServiceProperties = (\<lambda>_. Inr ''<StorageServiceProperties/>''),
     lib_UnmarshalRanges = (\<lambda>_. ([], Some (PlainErr ''EOF''))),
     lib_UnmarshalSignedIdentifiers = (\<lambda>_. ([], Some (PlainErr ''EOF''))),
     lib_UnmarshalShareStats = (\<lambda>_. (0, Some (PlainErr ''EOF''))),
     lib_UnmarshalListShares = (\<lambda>_. (empty_ListSharesPage, Some (PlainErr ''EOF''))),
     lib_UnmarshalListFiles = (\<lambda>_. (empty_ListFilesPage, Some (PlainErr ''EOF''))),
     lib_UnmarshalServiceProperties = (\<lambda>_. (empty_ServiceProperties, Some (PlainErr ''EOF'')))\<rparr>"

lemma example_lib_ok: "new_request_ok example_lib" "set_body_ok example_lib"
  by (auto simp: new_request_ok_def set_body_ok_def example_lib_def set_header_def Header_Get_Set)

definition example_url :: url where
  "example_url = empty_url\<lparr>u_Scheme := ''https'', u_Host := ''a.file.core.windows.net'', u_Path := ''/s/f'',
     u_RawQuery := ''sv=2018-03-28&comp=x&SIG=abc%3D''\<rparr>"

definition example_client :: "unit managementClient" where
  "example_client = \<lparr>mc_url = example_url, mc_p = (\<lambda>m req w. Return (\<lparr>rp_response = None,
     rp_value = HTTPResponse, rp_error = Some (PlainErr ''offline'')\<rparr>, w))\<rparr>"

section \<open>What every request carries\<close>

definition reserved_params :: "string list" where
  "reserved_params = [''timeout'', ''comp'', ''restype'', ''copyid'', ''sharesnapshot'', ''prefix'', ''marker'',
     ''maxresults'', ''include'']"

definition carries :: "url \<Rightarrow> http_request \<Rightarrow> bool" where
  "carries u req \<longleftrightarrow> (rq_URL req)\<lparr>u_RawQuery := []\<rparr> = u\<lparr>u_RawQuery := []\<rparr>
     \<and> (\<forall>k. k \<notin> set reserved_params \<longrightarrow> param req k = map_of (URL_Query u) k)
     \<and> hdr req ''x-ms-version'' = ServiceVersion"

text \<open>Updates of a query that only touch reserved names.\<close>

definition extends :: "Values \<Rightarrow> Values \<Rightarrow> bool" where
  "extends v v' \<longleftrightarrow> params_ok v' \<and> (\<forall>k. k \<notin> set reserved_params \<longrightarrow> map_of v' k = map_of v k)"

lemma extends_refl: "extends (URL_Query u) (URL_Query u)"
  by (simp add: extends_def)

lemma extends_updates:
  assumes "extends v v'" and "k \<in> set reserved_params"
  shows "extends v (Values_Set v' k x)" "extends v (opt_param k y v')" "extends v (nonempty_param k y v')"
  using assms by (auto simp: extends_def map_of_Values_Set map_of_opt_param)

lemma extends_if: "extends v a \<Longrightarrow> extends v b \<Longrightarrow> extends v (if c then a else b)"
  by simp

text \<open>Requests on their way: the URL is settled, the version may still be missing.\<close>

definition for_url :: "url \<Rightarrow> http_request \<Rightarrow> bool" where
  "for_url u req \<longleftrightarrow> (rq_URL req)\<lparr>u_RawQuery := []\<rparr> = u\<lparr>u_RawQuery := []\<rparr>
     \<and> (\<forall>k. k \<notin> set reserved_params \<longrightarrow> param req k = map_of (URL_Query u) k)"

definition with_version :: "http_request \<Rightarrow> bool" where
  "with_version req \<longleftrightarrow> hdr req ''x-ms-version'' = ServiceVersion"

lemma for_url_set_query:
  "rq_URL req = u \<Longrightarrow> extends (URL_Query u) v \<Longrightarrow> for_url u (set_query v req)"
  by (auto simp: for_url_def extends_def param_set_query)

lemma for_url_headers:
  "for_url u req \<Longrightarrow> for_url u (set_header k x req)" "for_url u req \<Longrightarrow> for_url u (opt_header k y req)"
  "for_url u req \<Longrightarrow> for_url u (metadata_headers md req)"
  by (simp_all add: for_url_def)

lemma for_url_if: "for_url u a \<Longrightarrow> for_url u b \<Longrightarrow> for_url u (if c then a else b)"
  by simp

lemma with_version_set: "with_version (set_header ''x-ms-version'' ServiceVersion req)"
  by (simp add: with_version_def hdr_set_header)

lemma with_version_headers:
  assumes "with_version req"
  shows "CanonicalMIMEHeaderKey k \<noteq> ''X-Ms-Version'' \<Longrightarrow> with_version (set_header k x req)"
    and "CanonicalMIMEHeaderKey k \<noteq> ''X-Ms-Version'' \<Longrightarrow> with_version (opt_header k y req)"
    and "with_version (metadata_headers md req)"
proof -
  have "not_meta ''x-ms-version''" by (simp add: not_meta_def)
  with assms show "with_version (metadata_headers md req)" by (simp add: with_version_def hdr_metadata_headers)
qed (use assms in \<open>simp_all add: with_version_def hdr_set_header\<close>)

lemma with_version_if: "with_version a \<Longrightarrow> with_version b \<Longrightarrow> with_version (if c then a else b)"
  by simp

lemma reserved [simp]:
  "''timeout'' \<in> set reserved_params" "''comp'' \<in> set reserved_params" "''restype'' \<in> set reserved_params"
  "''copyid'' \<in> set reserved_params" "''sharesnapshot'' \<in> set reserved_params"
  "''prefix'' \<in> set reserved_params" "''marker'' \<in> set reserved_params"
  "''maxresults'' \<in> set reserved_params" "''include'' \<in> set reserved_params"
  by (simp_all add: reserved_params_def)

text \<open>Both together, as every step of a preparer keeps them.\<close>

definition ready :: "url \<Rightarrow> http_request \<Rightarrow> bool" where
  "ready u req \<longleftrightarrow> for_url u req \<and> with_version req"

lemma ready_intros:
  "for_url u req \<Longrightarrow> ready u (set_header ''x-ms-version'' ServiceVersion req)"
  "ready u req \<Longrightarrow> CanonicalMIMEHeaderKey k \<noteq> ''X-Ms-Version'' \<Longrightarrow> ready u (set_header k x req)"
  "ready u req \<Longrightarrow> CanonicalMIMEHeaderKey k \<noteq> ''X-Ms-Version'' \<Longrightarrow> ready u (opt_header k y req)"
  "ready u req \<Longrightarrow> ready u (metadata_headers md req)"
  by (simp_all add: ready_def for_url_headers with_version_set with_version_headers)

lemma xml_body_ready:
  assumes "set_body_ok lib" and "xml_body lib b req = (req', None)" and "ready u req"
  shows "ready u req'"
proof -
  obtain d where d: "b = Inr d" using assms(2) by (cases b) (auto simp: xml_body_def)
  let ?r = "set_header ''Content-Type'' ''application/xml'' req"
  have "ready u ?r" using assms(3) by (simp add: ready_intros)
  moreover obtain r where r: "lib_SetBody lib d ?r = (r, None)" "rq_URL r = rq_URL ?r"
    "\<forall>k. CanonicalMIMEHeaderKey k \<noteq> ''Content-Length'' \<longrightarrow> hdr r k = hdr ?r k"
    using assms(1) unfolding set_body_ok_def by blast
  moreover have "req' = r" using assms(2) r(1) by (simp add: xml_body_def d)
  ultimately show ?thesis by (simp add: ready_def for_url_def with_version_def)
qed

lemma start_requestE:
  assumes "start_request lib m client b k = (req, None)" and "new_request_ok lib"
  obtains r where "rq_URL r = mc_url client" "k r = (req, None)"
proof -
  from assms(2) obtain r where "rq_URL r = mc_url client" "\<And>k. start_request lib m client b k = k r"
    by (rule start_request_ok) blast
  with assms(1) show ?thesis by (intro that [of r]) simp_all
qed

lemmas carries_intros = for_url_set_query for_url_headers for_url_if ready_intros
  extends_refl extends_updates extends_if

lemma prepare_ready:
  assumes "prepare lib client op = (req, None)" and "new_request_ok lib" and "set_body_ok lib"
  shows "ready (mc_url client) req"
  using assms
  by (cases op)
    (auto simp: preparer_defs Let_def elim!: start_requestE intro!: carries_intros elim: xml_body_ready)

text \<open>
  C15: Every request of every operation goes to the client's URL: same scheme, host and path,
  and the query parameters of the URL with their values, apart from the nine names the
  operations set themselves. Every request states the service version, whatever headers and
  metadata come with it.
\<close>

theorem every_request_carries_url:
  assumes "new_request_ok lib" and "set_body_ok lib" and "prepare lib client op = (req, None)"
  shows "carries (mc_url client) req"
  using prepare_ready [OF assms(3,1,2)] by (simp add: carries_def ready_def for_url_def with_version_def)

theorem every_request_carries_url_witness:
  "\<exists>req. prepare example_lib example_client (File_AbortCopy ''id'' (Some 30)) = (req, None)
     \<and> carries example_url req"
proof -
  obtain req where req: "prepare example_lib example_client (File_AbortCopy ''id'' (Some 30)) = (req, None)"
    by (simp add: fileClient_abortCopyPreparer_def start_request_def example_lib_def Let_def)
  from every_request_carries_url [OF example_lib_ok req] req show ?thesis
    by (auto simp: example_client_def)
qed

section \<open>The SAS of every request\<close>

text \<open>The entries of a query that are SAS parameters, in any case.\<close>

definition sas_part :: "unicode_tables \<Rightarrow> Values \<Rightarrow> Values" where
  "sas_part u vals = filter (\<lambda>e. ToLower u (fst e) \<in> set sas_names) vals"

lemma no_case_clash_sas_part: "no_case_clash u (sas_part u vals) = no_case_clash u vals"
  by (simp add: no_case_clash_def sas_part_def filter_map comp_def)

lemma low_params_sas_part:
  "n \<in> set sas_names \<Longrightarrow> map_of (low_params u (sas_part u vals)) n = map_of (low_params u vals) n"
  unfolding sas_part_def by (induction vals) auto

lemma reserved_not_sas: "k \<in> set reserved_params \<Longrightarrow> ToLower u k \<notin> set sas_names"
proof -
  have "list_all (\<lambda>k. ascii k \<and> map lower_char k = k \<and> k \<notin> set sas_names) reserved_params"
    by code_simp
  then show "k \<in> set reserved_params \<Longrightarrow> ToLower u k \<notin> set sas_names"
    by (auto simp: list_all_iff ToLower_ascii)
qed

lemma sas_part_mset:
  assumes "params_ok v" and "params_ok v'" and "\<And>k. k \<notin> set reserved_params \<Longrightarrow> map_of v' k = map_of v k"
  shows "mset (sas_part u v) = mset (sas_part u v')"
proof -
  have ok: "distinct (map fst v)" "distinct (map fst v')"
    using assms(1,2) by (simp_all add: params_ok_def go_map_ok_def)
  have "set (sas_part u v) = set (sas_part u v')"
  proof (rule set_eqI)
    fix e :: "string \<times> string list"
    have "e \<in> set v \<longleftrightarrow> e \<in> set v'" if "ToLower u (fst e) \<in> set sas_names"
    proof -
      have "fst e \<notin> set reserved_params" using that reserved_not_sas by blast
      then show ?thesis
        using assms(3) [of "fst e"] map_of_eq_Some_iff [OF ok(1), of "fst e" "snd e"]
          map_of_eq_Some_iff [OF ok(2), of "fst e" "snd e"] by simp
    qed
    then show "e \<in> set (sas_part u v) \<longleftrightarrow> e \<in> set (sas_part u v')" by (auto simp: sas_part_def)
  qed
  moreover have "distinct (sas_part u v)" "distinct (sas_part u v')"
    using ok by (simp_all add: sas_part_def distinct_map)
  ultimately show ?thesis by (simp add: set_eq_iff_mset_eq_distinct)
qed

text \<open>
  A URL with a SAS authorizes every operation made from it: the SAS parameters read from
  the query of any request are the ones of the client's URL, whatever parameters the operation
  added, as long as the URL does not spell one SAS parameter in two ways.
\<close>

theorem every_request_carries_sas:
  assumes "new_request_ok lib" and "set_body_ok lib" and "prepare lib client op = (req, None)"
    and "no_case_clash u (URL_Query (mc_url client))"
  shows "\<exists>p. newSASQueryParameters u (URL_Query (mc_url client)) False = Return (p, URL_Query (mc_url client))
     \<and> newSASQueryParameters u (URL_Query (rq_URL req)) True = Return (p, non_sas u (URL_Query (rq_URL req)))"
proof -
  let ?v = "URL_Query (mc_url client)" and ?v' = "URL_Query (rq_URL req)"
  have "map_of ?v' k = map_of ?v k" if "k \<notin> set reserved_params" for k
    using prepare_ready [OF assms(3,1,2)] that by (simp add: ready_def for_url_def)
  then have parts: "mset (sas_part u ?v) = mset (sas_part u ?v')"
    by (intro sas_part_mset) simp_all
  have clash: "no_case_clash u (sas_part u ?v)" using assms(4) by (simp add: no_case_clash_sas_part)
  then have clash': "no_case_clash u ?v'"
    using no_case_clash_order [OF clash parts] by (simp add: no_case_clash_sas_part)
  have "map_of (low_params u ?v) n = map_of (low_params u ?v') n" if "n \<in> set sas_names" for n
    using low_params_order [OF clash parts that] that by (simp add: low_params_sas_part)
  then have "sas_apply (map_of (low_params u ?v)) empty_SAS = sas_apply (map_of (low_params u ?v')) empty_SAS"
    by (rule sas_apply_cong)
  moreover have "[] \<notin> snd ` set (URL_Query x)" for x
    using params_ok_URL_Query [of x] unfolding params_ok_def by (rule conjunct2)
  ultimately show ?thesis using assms(4) clash' by (simp add: newSAS_eq)
qed

theorem every_request_carries_sas_witness:
  "\<exists>req p. prepare example_lib example_client (File_AbortCopy ''id'' (Some 30)) = (req, None)
     \<and> newSASQueryParameters ascii_tables (URL_Query (rq_URL req)) True
        = Return (p, non_sas ascii_tables (URL_Query (rq_URL req)))
     \<and> sq_version p = ''2018-03-28'' \<and> sq_signature p = ''abc=''"
proof -
  obtain req where req: "prepare example_lib example_client (File_AbortCopy ''id'' (Some 30)) = (req, None)"
    by (simp add: fileClient_abortCopyPreparer_def start_request_def example_lib_def Let_def)
  have q: "URL_Query (mc_url example_client) = [(''sv'', [''2018-03-28'']), (''comp'', [''x'']), (''SIG'', [''abc=''])]"
    by code_simp
  have "no_case_clash ascii_tables (URL_Query (mc_url example_client))" unfolding q by code_simp
  from every_request_carries_sas [OF example_lib_ok req this] obtain p where
    p: "newSASQueryParameters ascii_tables (URL_Query (mc_url example_client)) False
          = Return (p, URL_Query (mc_url example_client))"
      "newSASQueryParameters ascii_tables (URL_Query (rq_URL req)) True
          = Return (p, non_sas ascii_tables (URL_Query (rq_URL req)))" by blast
  have low: "ToLower ascii_tables ''sv'' = ''sv''" "ToLower ascii_tables ''comp'' = ''comp''"
    "ToLower ascii_tables ''SIG'' = ''sig''" by code_simp+
  have "sq_version p = ''2018-03-28'' \<and> sq_signature p = ''abc=''"
    using p(1) by (auto simp: q newSASQueryParameters_def low sas_assign_def)
  with req p(2) show ?thesis by blast
qed

end
