(* ===== verification/Batch_Transfer.thy ===== *)
theory Batch_Transfer
  imports Prelude
begin

text \<open>
  \<open>doBatchTransfer\<close> of highlevel.go: a transfer is cut into chunks, \<open>parallelism\<close> goroutines
  take operations from a buffered channel and put their results into a second one, and the
  caller collects the results. The goroutines, the two channels and the caller are a state;
  the step relation interleaves them freely. An operation takes effect on the world when it
  finishes; what it does and returns is the argument \<open>op\<close>, a relation, so that any behaviour
  of the operation is covered. The context the function derives is never handed to an
  operation, so cancelling it is no step of the model.
\<close>

section \<open>Chunks\<close>

record batchTransferOptions =
  bto_transferSize :: int
  bto_chunkSize :: int
  bto_parallelism :: nat   \<comment> \<open>\<open>uint16\<close>\<close>

definition numChunks :: "batchTransferOptions \<Rightarrow> int" where
  "numChunks opts = wrap64 (go_div (wrap64 (bto_transferSize opts - 1)) (bto_chunkSize opts) + 1)"

definition chunk_offset :: "batchTransferOptions \<Rightarrow> nat \<Rightarrow> int" where
  "chunk_offset opts i = wrap64 (int i * bto_chunkSize opts)"

definition chunk_size :: "batchTransferOptions \<Rightarrow> nat \<Rightarrow> int" where
  "chunk_size opts i =
     (if int i = wrap64 (numChunks opts - 1)
      then wrap64 (bto_transferSize opts - wrap64 (int i * bto_chunkSize opts))
      else bto_chunkSize opts)"

definition batch_ok :: "batchTransferOptions \<Rightarrow> bool" where
  "batch_ok opts \<longleftrightarrow> 0 < bto_transferSize opts \<and> bto_transferSize opts < 2 ^ 63
     \<and> 0 < bto_chunkSize opts \<and> bto_chunkSize opts < 2 ^ 63"

section \<open>The goroutines\<close>

datatype 'e worker = Idle | Running nat | Sending nat "'e option" | Exited

datatype 'e caller = Dispatching | Collecting | Returned "'e option"

record ('w, 'e) batch_state =
  bt_next :: nat                                  \<comment> \<open>\<open>chunkIndex\<close> of the dispatching loop\<close>
  bt_caller :: "'e caller"
  bt_closed :: bool                               \<comment> \<open>\<open>operationChannel\<close> is closed\<close>
  bt_queue :: "nat list"                          \<comment> \<open>\<open>operationChannel\<close>\<close>
  bt_workers :: "'e worker list"
  bt_responses :: "'e option list"            \<comment> \<open>\<open>operationResponseChannel\<close>\<close>
  bt_received :: nat                              \<comment> \<open>results the caller has taken\<close>
  bt_finished :: "(nat \<times> 'e option) list"     \<comment> \<open>operations that have run, with their results\<close>
  bt_world :: 'w

definition batch_init :: "batchTransferOptions \<Rightarrow> 'w \<Rightarrow> ('w, 'e) batch_state" where
  "batch_init opts w = \<lparr>bt_next = 0, bt_caller = Dispatching, bt_closed = False, bt_queue = [],
     bt_workers = replicate (bto_parallelism opts) Idle, bt_responses = [], bt_received = 0,
     bt_finished = [], bt_world = w\<rparr>"

type_synonym ('w, 'e) operation = "int \<Rightarrow> int \<Rightarrow> 'w \<Rightarrow> 'e option \<Rightarrow> 'w \<Rightarrow> bool"

inductive batch_step ::
    "batchTransferOptions \<Rightarrow> ('w, 'e) operation \<Rightarrow> ('w, 'e) batch_state \<Rightarrow> ('w, 'e) batch_state \<Rightarrow> bool"
  for opts :: batchTransferOptions and op :: "('w, 'e) operation" where
  send: "bt_caller s = Dispatching \<Longrightarrow> int (bt_next s) < numChunks opts
    \<Longrightarrow> length (bt_queue s) < bto_parallelism opts
    \<Longrightarrow> batch_step opts op s (s\<lparr>bt_queue := bt_queue s @ [bt_next s], bt_next := Suc (bt_next s)\<rparr>)"
| closeChannel: "bt_caller s = Dispatching \<Longrightarrow> \<not> int (bt_next s) < numChunks opts
    \<Longrightarrow> batch_step opts op s (s\<lparr>bt_closed := True, bt_caller := Collecting\<rparr>)"
| take: "g < length (bt_workers s) \<Longrightarrow> bt_workers s ! g = Idle \<Longrightarrow> bt_queue s = c # q
    \<Longrightarrow> batch_step opts op s (s\<lparr>bt_queue := q, bt_workers := (bt_workers s)[g := Running c]\<rparr>)"
| exit: "g < length (bt_workers s) \<Longrightarrow> bt_workers s ! g = Idle \<Longrightarrow> bt_queue s = [] \<Longrightarrow> bt_closed s
    \<Longrightarrow> batch_step opts op s (s\<lparr>bt_workers := (bt_workers s)[g := Exited]\<rparr>)"
| run: "g < length (bt_workers s) \<Longrightarrow> bt_workers s ! g = Running c
    \<Longrightarrow> op (chunk_offset opts c) (chunk_size opts c) (bt_world s) r w'
    \<Longrightarrow> batch_step opts op s (s\<lparr>bt_workers := (bt_workers s)[g := Sending c r],
          bt_finished := bt_finished s @ [(c, r)], bt_world := w'\<rparr>)"
| respond: "g < length (bt_workers s) \<Longrightarrow> bt_workers s ! g = Sending c r
    \<Longrightarrow> int (length (bt_responses s)) < numChunks opts
    \<Longrightarrow> batch_step opts op s (s\<lparr>bt_workers := (bt_workers s)[g := Idle],
          bt_responses := bt_responses s @ [r]\<rparr>)"
| receive: "bt_caller s = Collecting \<Longrightarrow> int (bt_received s) < numChunks opts \<Longrightarrow> bt_responses s = None # rs
    \<Longrightarrow> batch_step opts op s (s\<lparr>bt_responses := rs, bt_received := Suc (bt_received s)\<rparr>)"
| fail: "bt_caller s = Collecting \<Longrightarrow> int (bt_received s) < numChunks opts \<Longrightarrow> bt_responses s = Some err # rs
    \<Longrightarrow> batch_step opts op s (s\<lparr>bt_responses := rs, bt_caller := Returned (Some err)\<rparr>)"
| succeed: "bt_caller s = Collecting \<Longrightarrow> \<not> int (bt_received s) < numChunks opts
    \<Longrightarrow> batch_step opts op s (s\<lparr>bt_caller := Returned None\<rparr>)"

inductive_cases batch_stepE: "batch_step opts op s s'"

inductive batch_reach ::
    "batchTransferOptions \<Rightarrow> ('w, 'e) operation \<Rightarrow> ('w, 'e) batch_state \<Rightarrow> ('w, 'e) batch_state \<Rightarrow> nat \<Rightarrow> bool"
  for opts :: batchTransferOptions and op :: "('w, 'e) operation" and s0 :: "('w, 'e) batch_state" where
  start: "batch_reach opts op s0 s0 0"
| step: "batch_reach opts op s0 s n \<Longrightarrow> batch_step opts op s s' \<Longrightarrow> batch_reach opts op s0 s' (Suc n)"

section \<open>The chunks tile the transfer\<close>

lemma numChunks_eq:
  assumes "batch_ok opts"
  shows "numChunks opts = (bto_transferSize opts - 1) div bto_chunkSize opts + 1"
proof -
  let ?q = "(bto_transferSize opts - 1) div bto_chunkSize opts"
  have a: "0 \<le> bto_transferSize opts - 1" "bto_transferSize opts - 1 < 2 ^ 63 - 1" "0 < bto_chunkSize opts"
    using assms by (simp_all add: batch_ok_def)
  with int_div_facts(3,4) [OF a(1,3)] have "0 \<le> ?q + 1" "?q + 1 < 2 ^ 63" by simp_all
  with a show ?thesis by (simp add: numChunks_def wrap64_nonneg)
qed

lemma chunk_facts:
  assumes "batch_ok opts" and "int i < numChunks opts"
  shows "chunk_offset opts i = int i * bto_chunkSize opts"
    and "int i * bto_chunkSize opts < bto_transferSize opts"
    and "chunk_size opts i = min (bto_chunkSize opts) (bto_transferSize opts - int i * bto_chunkSize opts)"
proof -
  let ?t = "bto_transferSize opts" and ?c = "bto_chunkSize opts"
  have c: "0 < ?c" "0 < ?t" "?t < 2 ^ 63" using assms(1) by (simp_all add: batch_ok_def)
  define q where "q = (?t - 1) div ?c"
  have n: "numChunks opts = q + 1" using numChunks_eq [OF assms(1)] by (simp add: q_def)
  have q: "q * ?c \<le> ?t - 1" "?t - 1 < q * ?c + ?c"
    using int_div_facts(1,2) [of "?t - 1" ?c] c by (simp_all add: q_def)
  have iq: "int i \<le> q" using assms(2) n by simp
  then have "int i * ?c \<le> q * ?c" using c by (intro mult_right_mono) simp_all
  with q show lt: "int i * ?c < ?t" by linarith
  then show off: "chunk_offset opts i = int i * ?c"
    using c by (simp add: chunk_offset_def wrap64_nonneg)
  have nn: "wrap64 (numChunks opts - 1) = q"
  proof -
    have "q \<le> q * ?c" using c iq by (simp add: mult_le_cancel_left1)
    with q c have "0 \<le> q" "q < 2 ^ 63" using iq by linarith+
    then show ?thesis by (simp add: n wrap64_nonneg)
  qed
  show "chunk_size opts i = min ?c (?t - int i * ?c)"
  proof (cases "int i = q")
    case True
    then have "?t - int i * ?c \<le> ?c" using q by simp
    moreover have "wrap64 (?t - int i * ?c) = ?t - int i * ?c" proof (rule wrap64_nonneg)
      have "0 \<le> int i * ?c" using c by simp
      then show "?t - int i * ?c < 2 ^ 63" using c by linarith
    qed (use lt in simp)
    ultimately show ?thesis using True off by (simp add: chunk_size_def nn chunk_offset_def)
  next
    case False
    with iq have "int i + 1 \<le> q" by simp
    then have "(int i + 1) * ?c \<le> q * ?c" using c by (intro mult_right_mono) simp_all
    with q have "?c \<le> ?t - int i * ?c" by (simp add: algebra_simps)
    with False show ?thesis by (simp add: chunk_size_def nn)
  qed
qed

section \<open>Invariant\<close>

fun run_of :: "'e worker \<Rightarrow> nat multiset" where
  "run_of (Running c) = {#c#}"
| "run_of _ = {#}"

fun res_of :: "'e worker \<Rightarrow> 'e option multiset" where
  "res_of (Sending c r) = {#r#}"
| "res_of _ = {#}"

definition failed_result :: "'e caller \<Rightarrow> 'e option multiset" where
  "failed_result c = (case c of Returned (Some e) \<Rightarrow> {#Some e#} | _ \<Rightarrow> {#})"

lemma failed_result_simps [simp]:
  "failed_result Dispatching = {#}" "failed_result Collecting = {#}" "failed_result (Returned None) = {#}"
  "failed_result (Returned (Some e)) = {#Some e#}"
  by (simp_all add: failed_result_def)

lemma total_update:
  fixes f :: "'a \<Rightarrow> 'b :: cancel_comm_monoid_add"
  assumes "g < length ws"
  shows "sum_list (map f (ws[g := y])) + f (ws ! g) = sum_list (map f ws) + f y"
  using assms
proof (induction ws arbitrary: g)
  case (Cons w ws)
  show ?case
  proof (cases g)
    case 0
    then show ?thesis by (simp add: ac_simps)
  next
    case (Suc g')
    with Cons.IH [of g'] Cons.prems show ?thesis by (simp add: add.assoc)
  qed
qed simp

definition batch_inv :: "batchTransferOptions \<Rightarrow> ('w, 'e) batch_state \<Rightarrow> bool" where
  "batch_inv opts s \<longleftrightarrow>
     bt_next s \<le> nat (numChunks opts)
     \<and> mset (bt_queue s) + sum_list (map run_of (bt_workers s)) + mset (map fst (bt_finished s)) = mset [0..<bt_next s]
     \<and> sum_list (map res_of (bt_workers s)) + mset (bt_responses s) + replicate_mset (bt_received s) None
         + failed_result (bt_caller s) = mset (map snd (bt_finished s))
     \<and> bt_closed s = (bt_caller s \<noteq> Dispatching)
     \<and> (bt_caller s \<noteq> Dispatching \<longrightarrow> bt_next s = nat (numChunks opts))
     \<and> (bt_caller s = Returned None \<longrightarrow> bt_received s = nat (numChunks opts))
     \<and> bt_received s \<le> nat (numChunks opts)
     \<and> length (bt_workers s) = bto_parallelism opts
     \<and> (Exited \<in> set (bt_workers s) \<longrightarrow> bt_closed s \<and> bt_queue s = [])"

lemma sum_list_replicate_empty [simp]: "sum_list (replicate n {#}) = {#}"
  by (induction n) simp_all

lemma batch_inv_init: "batch_inv opts (batch_init opts w)"
  by (simp add: batch_inv_def batch_init_def)

lemma Exited_update: "Exited \<in> set (ws[g := x]) \<Longrightarrow> x = Exited \<or> Exited \<in> set ws"
  using set_update_subset_insert [of ws g x] by auto

text \<open>How the two totals change when one goroutine changes its state.\<close>

lemma worker_totals:
  assumes "g < length ws"
  shows "ws ! g = Idle \<Longrightarrow> sum_list (map run_of (ws[g := Running c])) = add_mset c (sum_list (map run_of ws))"
    and "ws ! g = Idle \<Longrightarrow> sum_list (map res_of (ws[g := Running c])) = sum_list (map res_of ws)"
    and "ws ! g = Idle \<Longrightarrow> sum_list (map run_of (ws[g := Exited])) = sum_list (map run_of ws)"
    and "ws ! g = Idle \<Longrightarrow> sum_list (map res_of (ws[g := Exited])) = sum_list (map res_of ws)"
    and "ws ! g = Running c \<Longrightarrow> sum_list (map run_of ws) = add_mset c (sum_list (map run_of (ws[g := Sending c r])))"
    and "ws ! g = Running c \<Longrightarrow> sum_list (map res_of (ws[g := Sending c r])) = add_mset r (sum_list (map res_of ws))"
    and "ws ! g = Sending c r \<Longrightarrow> sum_list (map run_of (ws[g := Idle])) = sum_list (map run_of ws)"
    and "ws ! g = Sending c r \<Longrightarrow> sum_list (map res_of ws) = add_mset r (sum_list (map res_of (ws[g := Idle])))"
  using total_update [OF assms, of run_of] total_update [OF assms, of res_of] by simp_all

lemma batch_inv_step:
  assumes "batch_step opts op s s'" and "batch_inv opts s"
  shows "batch_inv opts s'"
  using assms(1)
proof (cases rule: batch_step.cases)
  case send
  with assms(2) show ?thesis by (auto simp: batch_inv_def)
next
  case closeChannel
  with assms(2) show ?thesis by (auto simp: batch_inv_def)
next
  case (take g c q)
  with assms(2) show ?thesis
    by (auto simp: batch_inv_def worker_totals(1,2) simp del: mset_upt dest!: Exited_update)
next
  case (exit g)
  with assms(2) show ?thesis
    by (simp add: batch_inv_def worker_totals(3,4) del: mset_upt)
next
  case (run g c r w')
  with assms(2) show ?thesis
    by (auto simp: batch_inv_def worker_totals(5) [of g _ c r] worker_totals(6) simp del: mset_upt dest!: Exited_update)
next
  case (respond g c r)
  with assms(2) show ?thesis
    by (auto simp: batch_inv_def worker_totals(7) worker_totals(8) [of g _ c r] simp del: mset_upt dest!: Exited_update)
next
  case (receive rs)
  with assms(2) show ?thesis by (auto simp: batch_inv_def simp del: mset_upt)
next
  case (fail err rs)
  with assms(2) show ?thesis by (auto simp: batch_inv_def simp del: mset_upt)
next
  case succeed
  with assms(2) show ?thesis by (auto simp: batch_inv_def simp del: mset_upt)
qed

lemma batch_inv_reach:
  assumes "batch_reach opts op (batch_init opts w) s n"
  shows "batch_inv opts s"
  using assms by (induction rule: batch_reach.induct) (auto intro: batch_inv_init batch_inv_step)

lemma batch_inv_nums:
  assumes "batch_inv opts s"
  shows "length (bt_queue s) + size (sum_list (map run_of (bt_workers s))) + length (bt_finished s) = bt_next s"
    and "size (sum_list (map res_of (bt_workers s))) + length (bt_responses s) + bt_received s
        + size (failed_result (bt_caller s)) = length (bt_finished s)"
    and "distinct (map fst (bt_finished s))"
    and "set (map fst (bt_finished s)) \<subseteq> {0..<nat (numChunks opts)}"
proof -
  have c: "mset (bt_queue s) + sum_list (map run_of (bt_workers s)) + mset (map fst (bt_finished s)) = mset [0..<bt_next s]"
    and r: "sum_list (map res_of (bt_workers s)) + mset (bt_responses s) + replicate_mset (bt_received s) None
         + failed_result (bt_caller s) = mset (map snd (bt_finished s))"
    and n: "bt_next s \<le> nat (numChunks opts)"
    using assms by (simp_all only: batch_inv_def)
  show "length (bt_queue s) + size (sum_list (map run_of (bt_workers s))) + length (bt_finished s) = bt_next s"
    using arg_cong [OF c, of size] by simp
  show "size (sum_list (map res_of (bt_workers s))) + length (bt_responses s) + bt_received s
        + size (failed_result (bt_caller s)) = length (bt_finished s)"
    using arg_cong [OF r, of size] by simp
  have sub: "mset (map fst (bt_finished s)) \<subseteq># mset [0..<bt_next s]"
    unfolding c [symmetric] by simp
  have "count (mset (map fst (bt_finished s))) x \<le> 1" for x
    using mset_subset_eq_count [OF sub, of x] distinct_count_atmost_1 [of "[0..<bt_next s]"]
    by (metis distinct_upt le_trans le_zero_eq nat_le_linear zero_le)
  then show "distinct (map fst (bt_finished s))"
    by (metis distinct_count_atmost_1 count_mset_0_iff le_eq_less_or_eq less_one)
  show "set (map fst (bt_finished s)) \<subseteq> {0..<nat (numChunks opts)}"
    using set_mset_mono [OF sub] n by auto
qed

section \<open>Progress and termination\<close>

fun worker_weight :: "'e worker \<Rightarrow> nat" where
  "worker_weight Idle = 1"
| "worker_weight (Running c) = 4"
| "worker_weight (Sending c r) = 3"
| "worker_weight Exited = 0"

fun caller_weight :: "'e caller \<Rightarrow> nat" where
  "caller_weight Dispatching = 2"
| "caller_weight Collecting = 1"
| "caller_weight (Returned r) = 0"

definition batch_weight :: "batchTransferOptions \<Rightarrow> ('w, 'e) batch_state \<Rightarrow> nat" where
  "batch_weight opts s = 5 * (nat (numChunks opts) - bt_next s) + 4 * length (bt_queue s)
     + sum_list (map worker_weight (bt_workers s)) + length (bt_responses s) + caller_weight (bt_caller s)"

lemma batch_weight_step:
  assumes "batch_step opts op s s'"
  shows "batch_weight opts s' < batch_weight opts s"
  using assms
proof (cases rule: batch_step.cases)
  case (take g c q)
  with total_update [of g "bt_workers s" worker_weight "Running c"] show ?thesis
    by (simp add: batch_weight_def)
next
  case (exit g)
  with total_update [of g "bt_workers s" worker_weight Exited] show ?thesis
    by (simp add: batch_weight_def)
next
  case (run g c r w')
  with total_update [of g "bt_workers s" worker_weight "Sending c r"] show ?thesis
    by (simp add: batch_weight_def)
next
  case (respond g c r)
  with total_update [of g "bt_workers s" worker_weight Idle] show ?thesis
    by (simp add: batch_weight_def)
qed (auto simp: batch_weight_def)

interpretation batch: descending "batch_step opts op" "batch_inv opts" "batch_weight opts"
  for opts and op :: "('w, 'e) operation"
  by unfold_locales (rule batch_inv_step, assumption+, rule batch_weight_step)

fun has_returned :: "'e caller \<Rightarrow> bool" where
  "has_returned (Returned r) = True"
| "has_returned _ = False"

text \<open>A goroutine that has a result to deliver never waits: the channel has room for all.\<close>

lemma response_room:
  assumes "batch_inv opts s" and "g < length (bt_workers s)" and "bt_workers s ! g = Sending c r"
  shows "int (length (bt_responses s)) < numChunks opts"
proof -
  have "size (sum_list (map res_of (bt_workers s))) > 0"
    using worker_totals(8) [OF assms(2,3)] by simp
  moreover have "bt_next s \<le> nat (numChunks opts)" using assms(1) by (simp add: batch_inv_def)
  ultimately show ?thesis using batch_inv_nums(1,2) [OF assms(1)] by linarith
qed

lemma all_quiet:
  assumes "\<And>g c. g < length ws \<Longrightarrow> ws ! g \<noteq> Running c" and "\<And>g c r. g < length ws \<Longrightarrow> ws ! g \<noteq> Sending c r"
  shows "sum_list (map run_of ws) = {#}" and "sum_list (map res_of ws) = {#}"
    and "Exited \<notin> set ws \<Longrightarrow> ws \<noteq> [] \<Longrightarrow> ws ! 0 = Idle"
proof -
  have w: "w = Idle \<or> w = Exited" if "w \<in> set ws" for w
  proof -
    from that obtain g where "g < length ws" "ws ! g = w" by (auto simp: in_set_conv_nth)
    with assms [of g] show ?thesis by (cases w) auto
  qed
  then have "\<forall>w \<in> set ws. run_of w = {#} \<and> res_of w = {#}" by fastforce
  then show "sum_list (map run_of ws) = {#}" "sum_list (map res_of ws) = {#}"
    by (simp_all add: sum_list_eq_0_iff cong: map_cong)
  show "Exited \<notin> set ws \<Longrightarrow> ws \<noteq> [] \<Longrightarrow> ws ! 0 = Idle"
    using w [of "ws ! 0"] by (cases ws) auto
qed

text \<open>When no goroutine runs a chunk or holds a result, an idle one takes what is queued; and
  the caller has a step of its own unless it waits for that.\<close>

definition quiet_workers :: "'e worker list \<Rightarrow> bool" where
  "quiet_workers ws \<longleftrightarrow> (\<forall>g < length ws. (\<forall>c. ws ! g \<noteq> Running c) \<and> (\<forall>c r. ws ! g \<noteq> Sending c r))"

lemma quiet_take:
  assumes inv: "batch_inv opts s" and par: "0 < bto_parallelism opts"
    and quiet: "quiet_workers (bt_workers s)" and queued: "bt_queue s \<noteq> []"
  shows "\<exists>s'. batch_step opts op s s'"
proof -
  have len: "0 < length (bt_workers s)" using inv par by (simp add: batch_inv_def)
  from queued inv have "Exited \<notin> set (bt_workers s)" by (auto simp: batch_inv_def)
  then have "bt_workers s ! 0 = Idle"
    using all_quiet(3) [of "bt_workers s"] quiet len by (auto simp: quiet_workers_def)
  moreover from queued obtain c cs where "bt_queue s = c # cs" by (cases "bt_queue s") auto
  ultimately show ?thesis using len by (meson batch_step.take)
qed

lemma quiet_collecting_queued:
  assumes inv: "batch_inv opts s" and quiet: "quiet_workers (bt_workers s)" and "bt_caller s = Collecting"
    and "int (bt_received s) < numChunks opts" and "bt_responses s = []"
  shows "bt_queue s \<noteq> []"
proof -
  have "sum_list (map run_of (bt_workers s)) = {#}" "sum_list (map res_of (bt_workers s)) = {#}"
    using all_quiet(1,2) [of "bt_workers s"] quiet unfolding quiet_workers_def by blast+
  moreover have "bt_next s = nat (numChunks opts)" using inv assms(3) by (simp add: batch_inv_def)
  moreover have "bt_received s < nat (numChunks opts)" using assms(4) by simp
  ultimately show ?thesis using batch_inv_nums(1,2) [OF inv] assms(3,5) by auto
qed

lemma quiet_caller_progress:
  assumes inv: "batch_inv opts s" and par: "0 < bto_parallelism opts"
    and quiet: "quiet_workers (bt_workers s)" and open_: "\<not> has_returned (bt_caller s)"
  shows "\<exists>s'. batch_step opts op s s'"
proof (cases "bt_queue s = []")
  case False
  with inv par quiet show ?thesis by (rule quiet_take)
next
  case empty: True
  show ?thesis
  proof (cases "bt_caller s")
    case Dispatching
    with empty par show ?thesis by (metis batch_step.send batch_step.closeChannel list.size(3))
  next
    case Collecting
    note queued = quiet_collecting_queued [OF inv quiet Collecting]
    show ?thesis
    proof (cases "int (bt_received s) < numChunks opts")
      case False
      with Collecting show ?thesis by (meson batch_step.succeed)
    next
      case True
      with queued empty obtain r rs where "bt_responses s = r # rs" by (cases "bt_responses s") auto
      with Collecting True show ?thesis by (cases r) (meson batch_step.receive batch_step.fail)+
    qed
  next
    case (Returned r)
    with open_ show ?thesis by simp
  qed
qed

lemma running_chunk:
  assumes "batch_inv opts s" and "g < length (bt_workers s)" and "bt_workers s ! g = Running c"
  shows "int c < numChunks opts"
proof -
  have "c \<in># sum_list (map run_of (bt_workers s))"
    using worker_totals(5) [OF assms(2,3), of None] by simp
  then have "c \<in># mset [0..<bt_next s]" using assms(1) unfolding batch_inv_def by (metis union_iff)
  then show ?thesis using assms(1) by (auto simp: batch_inv_def)
qed

lemma batch_progress:
  assumes inv: "batch_inv opts s" and par: "0 < bto_parallelism opts"
    and total: "\<And>c w. int c < numChunks opts \<Longrightarrow> \<exists>r w'. op (chunk_offset opts c) (chunk_size opts c) w r w'"
    and open_: "\<not> has_returned (bt_caller s)"
  shows "\<exists>s'. batch_step opts op s s'"
proof -
  consider g c where "g < length (bt_workers s)" "bt_workers s ! g = Running c"
    | g c r where "g < length (bt_workers s)" "bt_workers s ! g = Sending c r"
    | "quiet_workers (bt_workers s)"
    unfolding quiet_workers_def by blast
  then show ?thesis
  proof cases
    case 1
    with total [OF running_chunk [OF inv 1]] show ?thesis by (meson batch_step.run)
  next
    case 2
    with response_room [OF inv] show ?thesis by (meson batch_step.respond)
  next
    case 3
    with inv par show ?thesis using open_ by (rule quiet_caller_progress)
  qed
qed

section \<open>The results of a run\<close>

lemma batch_success:
  assumes "batch_inv opts s" and "bt_caller s = Returned None"
  shows "mset (bt_finished s) = mset (map (\<lambda>i. (i, None)) [0..<nat (numChunks opts)])"
proof -
  let ?n = "nat (numChunks opts)"
  have rcv: "bt_received s = ?n" "bt_next s = ?n" using assms by (auto simp: batch_inv_def)
  have "length (bt_queue s) = 0 \<and> size (sum_list (map run_of (bt_workers s))) = 0
      \<and> size (sum_list (map res_of (bt_workers s))) = 0 \<and> length (bt_responses s) = 0"
    using batch_inv_nums(1,2) [OF assms(1)] rcv by linarith
  then have q: "bt_queue s = []" "sum_list (map run_of (bt_workers s)) = {#}"
    and r: "sum_list (map res_of (bt_workers s)) = {#}" "bt_responses s = []" by simp_all
  from assms(1) q rcv have fsts: "mset (map fst (bt_finished s)) = mset [0..<?n]"
    by (simp only: batch_inv_def mset.simps add_0)
  from assms r rcv have snds: "mset (map snd (bt_finished s)) = replicate_mset ?n None"
    by (simp add: batch_inv_def)
  have "x \<in># mset (map snd (bt_finished s)) \<Longrightarrow> x = None" for x
    unfolding snds by (simp split: if_splits)
  then have "\<forall>p \<in> set (bt_finished s). p = (fst p, None)" by (auto simp: prod_eq_iff)
  then have "bt_finished s = map (\<lambda>i. (i, None)) (map fst (bt_finished s))"
    by (simp add: map_idI comp_def)
  then have "mset (bt_finished s) = image_mset (\<lambda>i. (i, None)) (mset (map fst (bt_finished s)))"
    by (metis mset_map)
  then show ?thesis unfolding fsts by (simp only: mset_map)
qed

lemma batch_failure:
  assumes "batch_inv opts s" and "bt_caller s = Returned (Some e)"
  shows "\<exists>c. (c, Some e) \<in> set (bt_finished s)"
proof -
  from assms have "mset (map snd (bt_finished s)) = sum_list (map res_of (bt_workers s))
      + mset (bt_responses s) + replicate_mset (bt_received s) None + {#Some e#}"
    by (simp only: batch_inv_def failed_result_simps)
  then have "Some e \<in># mset (map snd (bt_finished s))" by (simp only: union_iff) simp
  then show ?thesis by auto
qed

text \<open>A result comes from a call of the operation on the chunk.\<close>

lemma batch_finished_op:
  assumes "batch_reach opts op (batch_init opts w) s k" and "(c, r) \<in> set (bt_finished s)"
  shows "\<exists>w w'. op (chunk_offset opts c) (chunk_size opts c) w r w'"
  using assms
proof (induction rule: batch_reach.induct)
  case start
  then show ?case by (simp add: batch_init_def)
next
  case (step s n s')
  from step.hyps(2) step.IH step.prems show ?case by (cases rule: batch_step.cases) auto
qed

section \<open>Operations on ranges of a buffer\<close>

text \<open>
  What an operation on a range may do to a buffer: it changes nothing outside its range, and
  when it reports success the range holds the bytes of \<open>S\<close>.
\<close>

definition range_op :: "'a list \<Rightarrow> ('a list, 'e) operation \<Rightarrow> bool" where
  "range_op S op \<longleftrightarrow>
     (\<forall>offset n w r w'. op offset n w r w' \<longrightarrow> 0 \<le> offset \<longrightarrow> 0 \<le> n \<longrightarrow> offset + n \<le> int (length S) \<longrightarrow>
        length w = length S \<longrightarrow> length w' = length S
        \<and> (\<forall>i < length S. \<not> (offset \<le> int i \<and> int i < offset + n) \<longrightarrow> w' ! i = w ! i)
        \<and> (r = None \<longrightarrow> (\<forall>i < length S. offset \<le> int i \<and> int i < offset + n \<longrightarrow> w' ! i = S ! i)))"

definition in_chunk :: "batchTransferOptions \<Rightarrow> nat \<Rightarrow> nat \<Rightarrow> bool" where
  "in_chunk opts c i \<longleftrightarrow>
     chunk_offset opts c \<le> int i \<and> int i < chunk_offset opts c + chunk_size opts c"

lemma in_chunk_iff:
  assumes "batch_ok opts" and "int c < numChunks opts" and "int i < bto_transferSize opts"
  shows "in_chunk opts c i \<longleftrightarrow> int i div bto_chunkSize opts = int c"
proof -
  let ?cs = "bto_chunkSize opts"
  have cs: "0 < ?cs" using assms(1) by (simp add: batch_ok_def)
  have "in_chunk opts c i \<longleftrightarrow> int c * ?cs \<le> int i \<and> int i < int c * ?cs + ?cs"
    using assms(3) chunk_facts [OF assms(1,2)] by (auto simp: in_chunk_def)
  also have "\<dots> \<longleftrightarrow> int i div ?cs = int c"
  proof
    assume "int c * ?cs \<le> int i \<and> int i < int c * ?cs + ?cs"
    then show "int i div ?cs = int c"
      using cs by (intro int_div_pos_eq [of _ _ _ "int i - int c * ?cs"]) (auto simp: mult.commute)
  next
    assume "int i div ?cs = int c"
    with int_div_facts(1,2) [of "int i" ?cs] cs show "int c * ?cs \<le> int i \<and> int i < int c * ?cs + ?cs"
      by simp
  qed
  finally show ?thesis .
qed

lemma chunk_of_position:
  assumes "batch_ok opts" and "int i < bto_transferSize opts"
  shows "\<exists>c. int c < numChunks opts \<and> in_chunk opts c i"
proof -
  let ?cs = "bto_chunkSize opts"
  have cs: "0 < ?cs" "0 < bto_transferSize opts" using assms(1) by (simp_all add: batch_ok_def)
  have "int i div ?cs \<le> (bto_transferSize opts - 1) div ?cs"
    using assms(2) cs by (intro zdiv_mono1) simp_all
  then have lt: "int (nat (int i div ?cs)) < numChunks opts"
    using numChunks_eq [OF assms(1)] int_div_facts(3) [of "int i" ?cs] cs by simp
  moreover have "in_chunk opts (nat (int i div ?cs)) i"
    using in_chunk_iff [OF assms(1) lt assms(2)] int_div_facts(3) [of "int i" ?cs] cs by simp
  ultimately show ?thesis by blast
qed

definition world_inv :: "batchTransferOptions \<Rightarrow> 'a list \<Rightarrow> ('a list, 'e) batch_state \<Rightarrow> bool" where
  "world_inv opts S s \<longleftrightarrow> int (length S) = bto_transferSize opts \<and> length (bt_world s) = length S
     \<and> (\<forall>c i. (c, None) \<in> set (bt_finished s) \<longrightarrow> int i < bto_transferSize opts \<longrightarrow> in_chunk opts c i
          \<longrightarrow> bt_world s ! i = S ! i)"

lemma world_inv_step:
  assumes "batch_step opts op s s'" and "batch_inv opts s" and "batch_ok opts" and "range_op S op"
    and "world_inv opts S s"
  shows "world_inv opts S s'"
  using assms(1)
proof (cases rule: batch_step.cases)
  case (run g c r w')
  have inv': "batch_inv opts s'" using assms(1,2) by (rule batch_inv_step)
  have fin': "bt_finished s' = bt_finished s @ [(c, r)]" "bt_world s' = w'" using run(1) by simp_all
  have lt: "int d < numChunks opts" if "d \<in> fst ` set (bt_finished s')" for d
    using batch_inv_nums(4) [OF inv'] that by auto
  then have c: "int c < numChunks opts" by (simp add: fin')
  have S: "int (length S) = bto_transferSize opts" "length (bt_world s) = length S"
    using assms(5) by (simp_all add: world_inv_def)
  have "0 \<le> chunk_offset opts c" "0 \<le> chunk_size opts c" "chunk_offset opts c + chunk_size opts c \<le> int (length S)"
    using chunk_facts [OF assms(3) c] assms(3) S(1) by (auto simp: batch_ok_def)
  with assms(4) run(4) S(2) have len: "length w' = length S"
    and out: "\<And>i. i < length S \<Longrightarrow> \<not> in_chunk opts c i \<Longrightarrow> w' ! i = bt_world s ! i"
    and into: "\<And>i. r = None \<Longrightarrow> i < length S \<Longrightarrow> in_chunk opts c i \<Longrightarrow> w' ! i = S ! i"
    unfolding range_op_def in_chunk_def by blast+
  have dist: "c \<notin> fst ` set (bt_finished s)"
    using batch_inv_nums(3) [OF inv'] by (simp add: fin')
  show ?thesis
    unfolding world_inv_def fin'
  proof (intro conjI allI impI)
    show "int (length S) = bto_transferSize opts" "length w' = length S" using S(1) len by simp_all
    fix d i
    assume d: "(d, None) \<in> set (bt_finished s @ [(c, r)])" and i: "int i < bto_transferSize opts"
      and ch: "in_chunk opts d i"
    have il: "i < length S" using i S(1) by simp
    show "w' ! i = S ! i"
    proof (cases "d = c")
      case True
      then have "r = None" using d dist by force
      with into il ch True show ?thesis by simp
    next
      case False
      with d have old: "(d, None) \<in> set (bt_finished s)" by auto
      have "int d < numChunks opts" "int c < numChunks opts"
        using lt [of d] lt [of c] old by (force simp: fin')+
      then have "\<not> in_chunk opts c i"
        using in_chunk_iff [OF assms(3) _ i] ch False by auto
      with out il assms(5) old i ch show ?thesis by (simp add: world_inv_def)
    qed
  qed
qed (use assms(5) in \<open>auto simp: world_inv_def\<close>)

section \<open>Properties\<close>

lemma batch_reach_relpowp: "batch_reach opts op s0 s n \<Longrightarrow> (batch_step opts op ^^ n) s0 s"
  by (induction rule: batch_reach.induct) (auto intro: relpowp_Suc_I)

lemma relpowp_batch_reach: "(batch_step opts op ^^ n) s0 s \<Longrightarrow> batch_reach opts op s0 s n"
proof (induction n arbitrary: s)
  case (Suc n)
  then obtain t where "(batch_step opts op ^^ n) s0 t" "batch_step opts op t s" by auto
  with Suc.IH show ?case by (intro batch_reach.step)
qed (simp add: batch_reach.start)

lemma world_inv_reach:
  assumes "batch_reach opts op (batch_init opts w) s n" and "batch_ok opts" and "range_op S op"
    and "int (length w) = bto_transferSize opts" and "length S = length w"
  shows "world_inv opts S s"
  using assms(1)
proof (induction rule: batch_reach.induct)
  case start
  show ?case using assms(4,5) by (simp add: world_inv_def batch_init_def)
next
  case (step s n s')
  then show ?case using world_inv_step [OF step(2) batch_inv_reach [OF step(1)] assms(2,3)] by simp
qed

lemma batch_copies:
  assumes "batch_reach opts op (batch_init opts w) s k" and "batch_ok opts" and "range_op S op"
    and "int (length w) = bto_transferSize opts" and "length S = length w"
    and "bt_caller s = Returned None"
  shows "bt_world s = S"
proof (rule nth_equalityI)
  have wi: "world_inv opts S s" using world_inv_reach [OF assms(1-5)] .
  then show len: "length (bt_world s) = length S" by (simp add: world_inv_def)
  fix i assume i: "i < length (bt_world s)"
  then have it: "int i < bto_transferSize opts" using wi by (simp add: world_inv_def)
  from chunk_of_position [OF assms(2) it] obtain c where c: "int c < numChunks opts" "in_chunk opts c i" by blast
  have "(c, None) \<in># mset (bt_finished s)"
    unfolding batch_success [OF batch_inv_reach [OF assms(1)] assms(6)] using c(1) by auto
  with wi c(2) it show "bt_world s ! i = S ! i" by (simp add: world_inv_def)
qed

text \<open>
  C25: The chunks cut the transfer into consecutive pieces: each starts where the one before
  ended, none is empty or longer than the chunk size, and every byte position of the transfer
  lies in exactly one chunk, without any 64-bit overflow.
\<close>

theorem chunks_tile_transfer:
  assumes "batch_ok opts" and "int c < numChunks opts"
  shows "0 \<le> chunk_offset opts c \<and> 0 < chunk_size opts c \<and> chunk_size opts c \<le> bto_chunkSize opts
     \<and> chunk_offset opts c + chunk_size opts c =
         (if int c + 1 = numChunks opts then bto_transferSize opts else chunk_offset opts (Suc c))
     \<and> chunk_offset opts 0 = 0
     \<and> (\<forall>i. int i < bto_transferSize opts \<longrightarrow>
          (\<exists>!d. int d < numChunks opts \<and> chunk_offset opts d \<le> int i
             \<and> int i < chunk_offset opts d + chunk_size opts d))"
proof -
  let ?t = "bto_transferSize opts" and ?cs = "bto_chunkSize opts"
  note f = chunk_facts [OF assms]
  have cs: "0 < ?cs" "0 < ?t" using assms(1) by (simp_all add: batch_ok_def)
  have n: "?t \<le> numChunks opts * ?cs" "(numChunks opts - 1) * ?cs < ?t"
    using int_div_facts(1,2) [of "?t - 1" ?cs] cs numChunks_eq [OF assms(1)]
    by (simp_all add: algebra_simps)
  have end_: "int c * ?cs + chunk_size opts c = (if int c + 1 = numChunks opts then ?t else chunk_offset opts (Suc c))"
  proof (cases "int c + 1 = numChunks opts")
    case True
    then have "numChunks opts * ?cs = int c * ?cs + ?cs" by (metis distrib_right mult_1)
    with True n f(3) show ?thesis by simp
  next
    case False
    then have lt: "int (Suc c) < numChunks opts" using assms(2) by simp
    note g = chunk_facts [OF assms(1) lt]
    have "int (Suc c) * ?cs = int c * ?cs + ?cs" by (simp add: algebra_simps)
    with g f(3) False show ?thesis by simp
  qed
  have one: "\<exists>!d. int d < numChunks opts \<and> chunk_offset opts d \<le> int i \<and> int i < chunk_offset opts d + chunk_size opts d"
    if i: "int i < ?t" for i
  proof -
    from chunk_of_position [OF assms(1) i] obtain d where d: "int d < numChunks opts" "in_chunk opts d i" by blast
    have "d' = d" if "int d' < numChunks opts" "in_chunk opts d' i" for d'
      using in_chunk_iff [OF assms(1) d(1) i] in_chunk_iff [OF assms(1) that(1) i] d(2) that(2) by simp
    with d show ?thesis unfolding in_chunk_def by blast
  qed
  have "0 \<le> int c * ?cs" "chunk_offset opts 0 = 0" using cs by (simp_all add: chunk_offset_def wrap64_nonneg)
  with f cs end_ one show ?thesis by simp
qed

definition example_batch :: batchTransferOptions where
  "example_batch = \<lparr>bto_transferSize = 5, bto_chunkSize = 2, bto_parallelism = 2\<rparr>"

theorem chunks_tile_transfer_witness:
  "chunk_offset example_batch 2 + chunk_size example_batch 2 = 5 \<and> chunk_size example_batch 2 = 1"
proof -
  have "batch_ok example_batch" "int 2 < numChunks example_batch" "numChunks example_batch = 3"
    "chunk_offset example_batch 2 = 4" "bto_transferSize example_batch = 5" by code_simp+
  with chunks_tile_transfer [of example_batch 2] show ?thesis by simp
qed

lemma batch_returns:
  fixes op :: "('w, 'e) operation"
  assumes "batch_reach opts op (batch_init opts w) s k" and "0 < bto_parallelism opts"
    and "\<And>c w. int c < numChunks opts \<Longrightarrow> \<exists>r w'. op (chunk_offset opts c) (chunk_size opts c) w r w'"
  shows "k \<le> 5 * nat (numChunks opts) + bto_parallelism opts + 2"
    and "has_returned (bt_caller s) \<or> (\<exists>s'. batch_step opts op s s')"
    and "\<exists>m s'. (batch_step opts op ^^ m) s s' \<and> has_returned (bt_caller s')"
proof -
  have inv: "batch_inv opts s" using assms(1) by (rule batch_inv_reach)
  have ws: "sum_list (map worker_weight (replicate p Idle)) = p" for p by (induction p) simp_all
  have "k + batch_weight opts s \<le> batch_weight opts (batch_init opts w :: ('w, 'e) batch_state)"
    using batch.run_bounded [OF batch_reach_relpowp [OF assms(1)] batch_inv_init] by blast
  then show "k \<le> 5 * nat (numChunks opts) + bto_parallelism opts + 2"
    by (simp add: batch_weight_def batch_init_def ws [simplified])
  have prog: "\<exists>s'. batch_step opts op t s'" if "batch_inv opts t" "\<not> has_returned (bt_caller t)" for t
    using that assms(2,3) by (intro batch_progress)
  then show "has_returned (bt_caller s) \<or> (\<exists>s'. batch_step opts op s s')" using inv by blast
  show "\<exists>m s'. (batch_step opts op ^^ m) s s' \<and> has_returned (bt_caller s')"
    using inv prog by (rule batch.completes)
qed

text \<open>
  C8: The transfer cannot hang. Provided at least one goroutine and operations that return,
  no interleaving of the goroutines and the caller runs forever (their steps are bounded by
  five per chunk, one per goroutine and two), no reachable state is stuck before the caller
  has returned, and from every reachable state the caller can return. In particular no
  goroutine ever waits to deliver a result, even after the caller has left early with an error.
\<close>

theorem batch_transfer_returns:
  fixes op :: "('w, 'e) operation"
  assumes "batch_reach opts op (batch_init opts w) s k" and "0 < bto_parallelism opts"
    and "\<And>c w. int c < numChunks opts \<Longrightarrow> \<exists>r w'. op (chunk_offset opts c) (chunk_size opts c) w r w'"
  shows "k \<le> 5 * nat (numChunks opts) + bto_parallelism opts + 2
     \<and> (has_returned (bt_caller s) \<or> (\<exists>s'. batch_step opts op s s'))
     \<and> (\<exists>m s'. (batch_step opts op ^^ m) s s' \<and> has_returned (bt_caller s'))
     \<and> (\<forall>g c r. g < length (bt_workers s) \<longrightarrow> bt_workers s ! g = Sending c r \<longrightarrow>
          int (length (bt_responses s)) < numChunks opts)"
  using batch_returns [OF assms] response_room [OF batch_inv_reach [OF assms(1)]] by blast

definition copy_op :: "'a list \<Rightarrow> ('a list, 'e) operation" where
  "copy_op S offset n w r w' \<longleftrightarrow> r = None
     \<and> w' = map (\<lambda>i. if offset \<le> int i \<and> int i < offset + n then S ! i else w ! i) [0..<length w]"

theorem batch_transfer_returns_witness:
  "\<exists>m s'. (batch_step example_batch (copy_op ''hello'' :: (string, string) operation) ^^ m)
        (batch_init example_batch ''-----'') s' \<and> has_returned (bt_caller s')"
proof -
  have r: "batch_reach example_batch (copy_op ''hello'' :: (string, string) operation) (batch_init example_batch ''-----'')
      (batch_init example_batch ''-----'') 0"
    by (rule batch_reach.start)
  have p: "0 < bto_parallelism example_batch" by (simp add: example_batch_def)
  have t: "\<exists>r w'. (copy_op ''hello'' :: (string, string) operation) offset n w r w'" for offset n w by (auto simp: copy_op_def)
  show ?thesis using batch_transfer_returns [OF r p] t by blast
qed

text \<open>
  C7: Whatever the interleaving, no chunk's operation is run twice, at any moment. When the
  caller returns nil, every chunk's operation has run exactly once and succeeded; when it
  returns an error, some chunk's operation returned that error.
\<close>

theorem batch_transfer_results:
  assumes "batch_reach opts op (batch_init opts w) s k"
  shows "distinct (map fst (bt_finished s))
     \<and> (bt_caller s = Returned None \<longrightarrow>
          mset (bt_finished s) = mset (map (\<lambda>i. (i, None)) [0..<nat (numChunks opts)]))
     \<and> (\<forall>e. bt_caller s = Returned (Some e) \<longrightarrow> (\<exists>c. (c, Some e) \<in> set (bt_finished s)))"
proof -
  note inv = batch_inv_reach [OF assms]
  show ?thesis
    using batch_inv_nums(3) [OF inv] batch_success [OF inv] batch_failure [OF inv] by simp
qed

text \<open>A complete run with one goroutine and one chunk.\<close>

definition single_end :: "'w \<Rightarrow> ('w, 'e) batch_state" where
  "single_end w' = \<lparr>bt_next = 1, bt_caller = Returned None, bt_closed = True, bt_queue = [],
     bt_workers = [Idle], bt_responses = [], bt_received = 1, bt_finished = [(0, None)],
     bt_world = w'\<rparr>"

lemma single_chunk_run:
  fixes op :: "('w, 'e) operation"
  assumes n: "numChunks opts = 1" "bto_parallelism opts = 1"
    and eff: "op (chunk_offset opts 0) (chunk_size opts 0) w None w'"
  shows "batch_reach opts op (batch_init opts w) (single_end w') 7"
proof -
  let ?step = "batch_step opts op"
  let ?s0 = "batch_init opts w :: ('w, 'e) batch_state"
  define s1 where "s1 = ?s0\<lparr>bt_queue := [0], bt_next := 1\<rparr>"
  define s2 where "s2 = s1\<lparr>bt_closed := True, bt_caller := Collecting\<rparr>"
  define s3 where "s3 = s2\<lparr>bt_queue := [], bt_workers := [Running 0]\<rparr>"
  define s4 where "s4 = s3\<lparr>bt_workers := [Sending 0 None], bt_finished := [(0, None)], bt_world := w'\<rparr>"
  define s5 where "s5 = s4\<lparr>bt_workers := [Idle], bt_responses := [None]\<rparr>"
  define s6 where "s6 = s5\<lparr>bt_responses := [], bt_received := 1\<rparr>"
  note defs = s1_def s2_def s3_def s4_def s5_def s6_def batch_init_def single_end_def
  have "?step ?s0 s1"
    using batch_step.send [of ?s0 opts op] n by (simp add: defs)
  moreover have "?step s1 s2"
    using batch_step.closeChannel [of s1 opts op] n by (simp add: defs)
  moreover have "?step s2 s3"
    using batch_step.take [of 0 s2 0 "[]" opts op] n by (simp add: defs)
  moreover have "?step s3 s4"
    using batch_step.run [of 0 s3 0 op opts None w'] eff n by (simp add: defs)
  moreover have "?step s4 s5"
    using batch_step.respond [of 0 s4 0 None opts op] n by (simp add: defs)
  moreover have "?step s5 s6"
    using batch_step.receive [of s5 opts "[]" op] n by (simp add: defs)
  moreover have "?step s6 (single_end w')"
    using batch_step.succeed [of s6 opts op] n by (simp add: defs)
  ultimately have "batch_reach opts op ?s0 (single_end w') (Suc (Suc (Suc (Suc (Suc (Suc (Suc 0)))))))"
    by (meson batch_reach.intros)
  then show ?thesis by (simp add: numeral_eq_Suc)
qed

definition small_batch :: batchTransferOptions where
  "small_batch = \<lparr>bto_transferSize = 2, bto_chunkSize = 4, bto_parallelism = 1\<rparr>"

definition small_end :: "(string, string) batch_state" where
  "small_end = single_end ''hi''"

lemma small_run: "batch_reach small_batch (copy_op ''hi'') (batch_init small_batch ''--'') small_end 7"
proof -
  have n: "numChunks small_batch = 1" "chunk_offset small_batch 0 = 0" "chunk_size small_batch 0 = 2"
    by code_simp+
  have "copy_op ''hi'' 0 2 ''--'' None ''hi''" by (simp add: copy_op_def upt_rec)
  then show ?thesis
    unfolding small_end_def using n by (intro single_chunk_run) (simp_all add: small_batch_def)
qed

theorem batch_transfer_results_witness:
  "mset (bt_finished small_end) = mset (map (\<lambda>i. (i, None)) [0..<nat (numChunks small_batch)])"
  using batch_transfer_results [OF small_run] by (simp add: small_end_def single_end_def)

text \<open>
  A transfer that returns nil has copied everything: if an operation that succeeds gives
  its range of the target the source's bytes, and no operation touches bytes outside its
  range, then after a successful transfer the target equals the source, in every
  interleaving.
\<close>

theorem batch_transfer_copies:
  assumes "batch_reach opts op (batch_init opts w) s k" and "batch_ok opts" and "range_op S op"
    and "int (length w) = bto_transferSize opts" and "length S = length w"
    and "bt_caller s = Returned None"
  shows "bt_world s = S"
  using assms by (rule batch_copies)

lemma range_op_copy: "range_op S (copy_op S)"
  by (auto simp: range_op_def copy_op_def)

theorem batch_transfer_copies_witness: "bt_world small_end = ''hi''"
proof -
  have ok: "batch_ok small_batch" "int (length ''--'') = bto_transferSize small_batch"
    "length ''hi'' = length ''--''" "bt_caller small_end = Returned None"
    by (simp_all add: batch_ok_def small_batch_def small_end_def single_end_def)
  show ?thesis by (rule batch_transfer_copies [OF small_run ok(1) range_op_copy ok(2-4)])
qed

text \<open>
  The caller does not wait for the other goroutines when it returns an error: with two chunks and
  two goroutines, when the first operation fails the second may still have to run, and it then
  changes the world behind the back of the caller.
\<close>

lemma early_return:
  fixes op :: "('w, 'e) operation"
  assumes n: "numChunks opts = 2" "bto_parallelism opts = 2"
    and first: "op (chunk_offset opts 0) (chunk_size opts 0) w (Some e) w1"
    and second: "op (chunk_offset opts 1) (chunk_size opts 1) w1 r w2"
  shows "\<exists>s s' k. batch_reach opts op (batch_init opts w) s k \<and> bt_caller s = Returned (Some e) \<and> bt_world s = w1
     \<and> batch_step opts op s s' \<and> bt_world s' = w2"
proof -
  let ?q = "\<lambda>nx c cl q ws rs fin w. \<lparr>bt_next = nx, bt_caller = c, bt_closed = cl, bt_queue = q, bt_workers = ws,
     bt_responses = rs, bt_received = 0, bt_finished = fin, bt_world = w\<rparr> :: ('w, 'e) batch_state"
  let ?step = "batch_step opts op"
  have 0: "?step (batch_init opts w) (?q 1 Dispatching False [0] [Idle, Idle] [] [] w)"
    using batch_step.send [of "batch_init opts w" opts op] n by (simp add: batch_init_def numeral_2_eq_2)
  have 1: "?step (?q 1 Dispatching False [0] [Idle, Idle] [] [] w) (?q 2 Dispatching False [0, 1] [Idle, Idle] [] [] w)"
    using batch_step.send [of "?q 1 Dispatching False [0] [Idle, Idle] [] [] w" opts op] n by (simp add: numeral_2_eq_2)
  have 2: "?step (?q 2 Dispatching False [0, 1] [Idle, Idle] [] [] w) (?q 2 Collecting True [0, 1] [Idle, Idle] [] [] w)"
    using batch_step.closeChannel [of "?q 2 Dispatching False [0, 1] [Idle, Idle] [] [] w" opts op] n by simp
  have 3: "?step (?q 2 Collecting True [0, 1] [Idle, Idle] [] [] w) (?q 2 Collecting True [1] [Running 0, Idle] [] [] w)"
    using batch_step.take [of 0 "?q 2 Collecting True [0, 1] [Idle, Idle] [] [] w" 0 "[1]" opts op] by simp
  have 4: "?step (?q 2 Collecting True [1] [Running 0, Idle] [] [] w) (?q 2 Collecting True [] [Running 0, Running 1] [] [] w)"
    using batch_step.take [of 1 "?q 2 Collecting True [1] [Running 0, Idle] [] [] w" 1 "[]" opts op] by simp
  have 5: "?step (?q 2 Collecting True [] [Running 0, Running 1] [] [] w)
      (?q 2 Collecting True [] [Sending 0 (Some e), Running 1] [] [(0, Some e)] w1)"
    using batch_step.run [of 0 "?q 2 Collecting True [] [Running 0, Running 1] [] [] w" 0 op opts "Some e" w1] first by simp
  have 6: "?step (?q 2 Collecting True [] [Sending 0 (Some e), Running 1] [] [(0, Some e)] w1)
      (?q 2 Collecting True [] [Idle, Running 1] [Some e] [(0, Some e)] w1)"
    using batch_step.respond [of 0 "?q 2 Collecting True [] [Sending 0 (Some e), Running 1] [] [(0, Some e)] w1" 0 "Some e" opts op] n
    by simp
  have 7: "?step (?q 2 Collecting True [] [Idle, Running 1] [Some e] [(0, Some e)] w1)
      (?q 2 (Returned (Some e)) True [] [Idle, Running 1] [] [(0, Some e)] w1)"
    using batch_step.fail [of "?q 2 Collecting True [] [Idle, Running 1] [Some e] [(0, Some e)] w1" opts e "[]" op] n by simp
  have 8: "?step (?q 2 (Returned (Some e)) True [] [Idle, Running 1] [] [(0, Some e)] w1)
      (?q 2 (Returned (Some e)) True [] [Idle, Sending 1 r] [] [(0, Some e), (1, r)] w2)"
    using batch_step.run [of 1 "?q 2 (Returned (Some e)) True [] [Idle, Running 1] [] [(0, Some e)] w1" 1 op opts r w2] second
    by simp
  have "batch_reach opts op (batch_init opts w) (?q 2 (Returned (Some e)) True [] [Idle, Running 1] [] [(0, Some e)] w1) 8"
    using batch_reach.start [of opts op "batch_init opts w"] 0 1 2 3 4 5 6 7
    by (simp add: eval_nat_numeral) (meson batch_reach.step)
  with 8 show ?thesis by fastforce
qed

end
