(* ===== verification/Highlevel.thy ===== *)
theory Highlevel
  imports Batch_Transfer File_Url
begin

text \<open>
  highlevel.go: uploading a buffer, and downloading into one, in parallel ranges, with
  \<open>DownloadResponse.Body\<close> of url\_file.go and \<open>io.ReadFull\<close>. The operations of \<open>FileURL\<close> on the service are arguments: \<open>create\<close> and \<open>uploadRange\<close> as relations between the
  state of the service before and after, \<open>download\<close> as a function of the network. Because the
  goroutines interleave, the functions here are relations between arguments, outcome and
  final state. A progress receiver does not change what is transferred; the callbacks that
  feed it are in theory Progress.
\<close>

definition FileMaxUploadRangeBytes :: int where
  "FileMaxUploadRangeBytes = 4 * 1024 * 1024"

definition defaultParallelCount :: nat where
  "defaultParallelCount = 5"

definition slice :: "'a list \<Rightarrow> int \<Rightarrow> int \<Rightarrow> 'a list" where
  "slice b offset n = take (nat n) (drop (nat offset) b)"

definition doBatchTransfer ::
    "batchTransferOptions \<Rightarrow> ('w, 'e) operation \<Rightarrow> 'w \<Rightarrow> 'e option \<Rightarrow> 'w \<Rightarrow> bool" where
  "doBatchTransfer opts op w res w' \<longleftrightarrow>
     (\<exists>s k. batch_reach opts op (batch_init opts w) s k \<and> bt_caller s = Returned res \<and> bt_world s = w')"

section \<open>Upload\<close>

record UploadToAzureFileOptions =
  uo_RangeSize :: int
  uo_Progress :: bool      \<comment> \<open>a receiver is set\<close>
  uo_Parallelism :: nat    \<comment> \<open>\<open>uint16\<close>\<close>
  uo_FileHTTPHeaders :: FileHTTPHeaders
  uo_Metadata :: Metadata

type_synonym 'w create_op = "int \<Rightarrow> FileHTTPHeaders \<Rightarrow> Metadata \<Rightarrow> 'w \<Rightarrow> go_error option \<Rightarrow> 'w \<Rightarrow> bool"
type_synonym 'w upload_range_op = "int \<Rightarrow> string \<Rightarrow> 'w \<Rightarrow> go_error option \<Rightarrow> 'w \<Rightarrow> bool"

definition upload_op :: "'w upload_range_op \<Rightarrow> string \<Rightarrow> ('w, go_error) operation" where
  "upload_op uploadRange b offset curRangeSize w r w' \<longleftrightarrow>
     uploadRange offset (slice b offset curRangeSize) w r w'"

definition upload_batch :: "UploadToAzureFileOptions \<Rightarrow> int \<Rightarrow> batchTransferOptions" where
  "upload_batch o' sz = \<lparr>bto_transferSize = sz,
     bto_chunkSize = (if uo_RangeSize o' = 0 then FileMaxUploadRangeBytes else uo_RangeSize o'),
     bto_parallelism = (if uo_Parallelism o' = 0 then defaultParallelCount else uo_Parallelism o')\<rparr>"

definition UploadBufferToAzureFile ::
    "'w create_op \<Rightarrow> 'w upload_range_op \<Rightarrow> string \<Rightarrow> UploadToAzureFileOptions \<Rightarrow> 'w
      \<Rightarrow> go_error option \<Rightarrow> 'w \<Rightarrow> bool" where
  "UploadBufferToAzureFile create uploadRange b o' w res w' \<longleftrightarrow>
     (if uo_RangeSize o' < 0 \<or> FileMaxUploadRangeBytes < uo_RangeSize o'
      then w' = w \<and> res = Some (PlainErr (''invalid argument, o.RangeSize must be >= 0 and <= ''
             @ FormatInt FileMaxUploadRangeBytes @ '', in bytes''))
      else
        let sz = int (length b) in
        \<exists>r w1. create sz (uo_FileHTTPHeaders o') (uo_Metadata o') w r w1 \<and>
          (case r of
             Some err \<Rightarrow> res = Some err \<and> w' = w1
           | None \<Rightarrow>
               if sz = 0 then res = None \<and> w' = w1
               else doBatchTransfer (upload_batch o' sz) (upload_op uploadRange b) w1 res w'))"

section \<open>What the service does\<close>

definition creates_file :: "string create_op \<Rightarrow> bool" where
  "creates_file create \<longleftrightarrow>
     (\<forall>sz h md w w'. 0 \<le> sz \<longrightarrow> create sz h md w None w' \<longrightarrow> int (length w') = sz)"

text \<open>
  Writing a range changes no byte outside it, and on success puts the data there.
\<close>

definition writes_range :: "string upload_range_op \<Rightarrow> bool" where
  "writes_range uploadRange \<longleftrightarrow>
     (\<forall>offset d w r w'. uploadRange offset d w r w' \<longrightarrow> 0 \<le> offset \<longrightarrow> offset + int (length d) \<le> int (length w) \<longrightarrow>
        length w' = length w
        \<and> (\<forall>i < length w. \<not> (offset \<le> int i \<and> int i < offset + int (length d)) \<longrightarrow> w' ! i = w ! i)
        \<and> (r = None \<longrightarrow> (\<forall>i < length d. w' ! (nat offset + i) = d ! i)))"

lemma range_op_upload:
  assumes "writes_range uploadRange"
  shows "range_op b (upload_op uploadRange b)"
  unfolding range_op_def upload_op_def
proof (intro allI impI)
  fix offset n w r w'
  assume u: "uploadRange offset (slice b offset n) w r w'" and o: "0 \<le> offset" "0 \<le> n"
    "offset + n \<le> int (length b)" and w: "length w = length b"
  have len: "int (length (slice b offset n)) = n" using o by (simp add: slice_def)
  have fits: "offset + int (length (slice b offset n)) \<le> int (length w)" using len o w by simp
  from assms [unfolded writes_range_def, THEN spec, THEN spec, THEN spec, THEN spec, THEN spec, THEN mp, OF u] o(1) fits
  have "length w' = length w
      \<and> (\<forall>i < length w. \<not> (offset \<le> int i \<and> int i < offset + int (length (slice b offset n))) \<longrightarrow> w' ! i = w ! i)
      \<and> (r = None \<longrightarrow> (\<forall>i < length (slice b offset n). w' ! (nat offset + i) = slice b offset n ! i))"
    by blast
  then have f: "length w' = length w"
    "\<And>i. i < length w \<Longrightarrow> \<not> (offset \<le> int i \<and> int i < offset + n) \<Longrightarrow> w' ! i = w ! i"
    "\<And>i. r = None \<Longrightarrow> i < length (slice b offset n) \<Longrightarrow> w' ! (nat offset + i) = slice b offset n ! i"
    unfolding len by blast+
  have "w' ! i = b ! i" if "r = None" "i < length b" "offset \<le> int i" "int i < offset + n" for i
  proof -
    have "i - nat offset < length (slice b offset n)" using that o len by linarith
    with f(3) [OF that(1), of "i - nat offset"] that o show ?thesis by (simp add: slice_def)
  qed
  with f w show "length w' = length b
      \<and> (\<forall>i < length b. \<not> (offset \<le> int i \<and> int i < offset + n) \<longrightarrow> w' ! i = w ! i)
      \<and> (r = None \<longrightarrow> (\<forall>i < length b. offset \<le> int i \<and> int i < offset + n \<longrightarrow> w' ! i = b ! i))"
    by auto
qed

lemma batch_ok_upload:
  assumes "0 \<le> uo_RangeSize o'" and "uo_RangeSize o' \<le> FileMaxUploadRangeBytes" and "0 < sz" and "sz < 2 ^ 63"
  shows "batch_ok (upload_batch o' sz)"
  using assms by (auto simp: batch_ok_def upload_batch_def FileMaxUploadRangeBytes_def)

lemma doBatchTransfer_copies:
  assumes "doBatchTransfer opts op w None w'" and "batch_ok opts" and "range_op S op"
    and "int (length w) = bto_transferSize opts" and "length S = length w"
  shows "w' = S"
  using assms batch_copies unfolding doBatchTransfer_def by blast

lemma doBatchTransfer_total:
  assumes "0 < bto_parallelism opts"
    and "\<And>c w. int c < numChunks opts \<Longrightarrow> \<exists>r w'. op (chunk_offset opts c) (chunk_size opts c) w r w'"
  shows "\<exists>res w'. doBatchTransfer opts op w res w'"
proof -
  have prog: "\<exists>t'. batch_step opts op t t'" if "batch_inv opts t" "\<not> has_returned (bt_caller t)" for t
    using that assms by (intro batch_progress)
  have "\<exists>k s. (batch_step opts op ^^ k) (batch_init opts w) s \<and> has_returned (bt_caller s)"
    using batch_inv_init prog by (rule batch.completes)
  then obtain s k where s: "(batch_step opts op ^^ k) (batch_init opts w) s" "has_returned (bt_caller s)"
    by blast
  from s(1) have "batch_reach opts op (batch_init opts w) s k"
    by (rule relpowp_batch_reach)
  moreover from s(2) obtain res where "bt_caller s = Returned res" by (cases "bt_caller s") auto
  ultimately show ?thesis unfolding doBatchTransfer_def by blast
qed

lemma doBatchTransfer_error:
  assumes "doBatchTransfer opts op w (Some e) w'"
  shows "\<exists>offset n w1 w2. op offset n w1 (Some e) w2"
proof -
  from assms obtain s k where s: "batch_reach opts op (batch_init opts w) s k" "bt_caller s = Returned (Some e)"
    unfolding doBatchTransfer_def by blast
  from batch_failure [OF batch_inv_reach [OF s(1)] s(2)] batch_finished_op [OF s(1)] show ?thesis by blast
qed

lemma buffer_stored:
  assumes "UploadBufferToAzureFile create uploadRange b o' w None w'"
    and "creates_file create" and "writes_range uploadRange" and "int (length b) < 2 ^ 63"
  shows "w' = b"
proof -
  from assms(1) obtain w1 where rs: "0 \<le> uo_RangeSize o'" "uo_RangeSize o' \<le> FileMaxUploadRangeBytes"
    and c: "create (int (length b)) (uo_FileHTTPHeaders o') (uo_Metadata o') w None w1"
    and rest: "if length b = 0 then w' = w1
      else doBatchTransfer (upload_batch o' (int (length b))) (upload_op uploadRange b) w1 None w'"
    by (auto simp: UploadBufferToAzureFile_def Let_def split: if_splits option.splits)
  have len: "int (length w1) = int (length b)" using assms(2) c unfolding creates_file_def by (metis of_nat_0_le_iff)
  show ?thesis
  proof (cases "length b = 0")
    case True
    with rest len show ?thesis by simp
  next
    case False
    with rest have bt: "doBatchTransfer (upload_batch o' (int (length b))) (upload_op uploadRange b) w1 None w'" by simp
    have ok: "batch_ok (upload_batch o' (int (length b)))"
      using rs False assms(4) by (intro batch_ok_upload) auto
    have "int (length w1) = bto_transferSize (upload_batch o' (int (length b)))" "length b = length w1"
      using len by (simp_all add: upload_batch_def)
    then show ?thesis by (rule doBatchTransfer_copies [OF bt ok range_op_upload [OF assms(3)]])
  qed
qed

text \<open>
  C4: A parallel upload that returns nil has stored the buffer: provided creating a file gives
  it the requested size and writing a range touches only that range and, when it succeeds,
  puts the data there, the file at the service is byte for byte the buffer, whatever range
  size and parallelism are chosen and however the goroutines interleave.
\<close>

theorem upload_stores_buffer:
  assumes "UploadBufferToAzureFile create uploadRange b o' w None w'"
    and "creates_file create" and "writes_range uploadRange" and "int (length b) < 2 ^ 63"
  shows "w' = b"
  using assms by (rule buffer_stored)

text \<open>
  An upload always ends if the service calls do, and each error it can end with comes
  from somewhere definite: a range size out of bounds (and then nothing was sent), the error
  of creating the file, or the error of writing one of the ranges.
\<close>

theorem upload_outcomes:
  assumes "\<And>sz h md w. \<exists>r w'. create sz h md w r w'" and "\<And>offset d w. \<exists>r w'. uploadRange offset d w r w'"
  shows "(\<exists>res w'. UploadBufferToAzureFile create uploadRange b o' w res w')
     \<and> (\<forall>e w'. UploadBufferToAzureFile create uploadRange b o' w (Some e) w' \<longrightarrow>
          (uo_RangeSize o' < 0 \<or> FileMaxUploadRangeBytes < uo_RangeSize o') \<and> w' = w
          \<or> (\<exists>w1. create (int (length b)) (uo_FileHTTPHeaders o') (uo_Metadata o') w (Some e) w1)
          \<or> (\<exists>offset d w1 w2. uploadRange offset d w1 (Some e) w2))"
proof
  have tot: "\<exists>r w'. upload_op uploadRange b offset n w r w'" for offset n w
    using assms(2) by (simp add: upload_op_def)
  have par: "0 < bto_parallelism (upload_batch o' sz)" for sz
    by (simp add: upload_batch_def defaultParallelCount_def)
  have bt: "\<exists>res w'. doBatchTransfer (upload_batch o' sz) (upload_op uploadRange b) w res w'" for sz w
    using doBatchTransfer_total [OF par tot] .
  obtain r w1 where c: "create (int (length b)) (uo_FileHTTPHeaders o') (uo_Metadata o') w r w1" using assms(1) by blast
  show "\<exists>res w'. UploadBufferToAzureFile create uploadRange b o' w res w'"
  proof (cases "uo_RangeSize o' < 0 \<or> FileMaxUploadRangeBytes < uo_RangeSize o'")
    case True
    then show ?thesis by (simp add: UploadBufferToAzureFile_def)
  next
    case False
    show ?thesis
    proof (cases r)
      case None
      obtain res w' where "doBatchTransfer (upload_batch o' (int (length b))) (upload_op uploadRange b) w1 res w'"
        using bt by blast
      then have "UploadBufferToAzureFile create uploadRange b o' w (if length b = 0 then None else res)
          (if length b = 0 then w1 else w')"
        using False c None unfolding UploadBufferToAzureFile_def Let_def by (auto intro!: exI [of _ w1])
      then show ?thesis by blast
    next
      case (Some err)
      with False c show ?thesis
        unfolding UploadBufferToAzureFile_def Let_def if_not_P [OF False]
        by (intro exI [of _ "Some err"] exI [of _ w1] conjI) simp_all
    qed
  qed
  show "\<forall>e w'. UploadBufferToAzureFile create uploadRange b o' w (Some e) w' \<longrightarrow>
          (uo_RangeSize o' < 0 \<or> FileMaxUploadRangeBytes < uo_RangeSize o') \<and> w' = w
          \<or> (\<exists>w1. create (int (length b)) (uo_FileHTTPHeaders o') (uo_Metadata o') w (Some e) w1)
          \<or> (\<exists>offset d w1 w2. uploadRange offset d w1 (Some e) w2)"
    by (auto simp: UploadBufferToAzureFile_def Let_def upload_op_def split: if_splits option.splits
        dest!: doBatchTransfer_error)
qed

text \<open>A service that does what it is asked, on a file held as a string.\<close>

definition good_create :: "string create_op" where
  "good_create sz h md w r w' \<longleftrightarrow> r = None \<and> w' = replicate (nat sz) (CHR 0x00)"

definition good_upload :: "string upload_range_op" where
  "good_upload offset d w r w' \<longleftrightarrow> r = None
     \<and> w' = take (nat offset) w @ take (length w - nat offset) d @ drop (nat offset + length d) w"

lemma good_service: "creates_file good_create" "writes_range good_upload"
  by (auto simp: creates_file_def good_create_def writes_range_def good_upload_def nth_append)

lemma good_service_total:
  "\<exists>r w'. good_create sz h md w r w'" "\<exists>r w'. good_upload offset d w r w'"
  by (auto simp: good_create_def good_upload_def)

definition example_upload :: UploadToAzureFileOptions where
  "example_upload = \<lparr>uo_RangeSize = 2, uo_Progress = False, uo_Parallelism = 0,
     uo_FileHTTPHeaders = \<lparr>fh_ContentType = ''text/plain'', fh_ContentMD5 = None, fh_ContentEncoding = [],
       fh_ContentLanguage = [], fh_ContentDisposition = [], fh_CacheControl = []\<rparr>, uo_Metadata = []\<rparr>"

theorem upload_outcomes_witness:
  "\<exists>res w'. UploadBufferToAzureFile good_create good_upload ''abcde'' example_upload [] res w'"
  using upload_outcomes [of good_create good_upload, OF good_service_total] by blast

lemma good_upload_run:
  "\<exists>w'. UploadBufferToAzureFile good_create good_upload ''abcde'' example_upload [] None w'"
proof -
  have tot: "\<exists>r w'. upload_op good_upload ''abcde'' offset n w r w'" for offset n w
    using good_service_total(2) by (simp add: upload_op_def)
  have par: "0 < bto_parallelism (upload_batch example_upload 5)"
    by (simp add: upload_batch_def defaultParallelCount_def)
  let ?w = "replicate 5 (CHR 0x00)"
  obtain res w' where bt: "doBatchTransfer (upload_batch example_upload 5) (upload_op good_upload ''abcde'') ?w res w'"
    using doBatchTransfer_total [of _ "upload_op good_upload ''abcde''" ?w, OF par tot] by blast
  have "res = None"
  proof (cases res)
    case (Some e)
    with doBatchTransfer_error bt show ?thesis by (fastforce simp: upload_op_def good_upload_def)
  qed simp
  with bt have up: "UploadBufferToAzureFile good_create good_upload ''abcde'' example_upload [] None w'"
    by (auto simp: UploadBufferToAzureFile_def example_upload_def FileMaxUploadRangeBytes_def good_create_def)
  then show ?thesis by blast
qed

theorem upload_stores_buffer_witness:
  "\<exists>w'. UploadBufferToAzureFile good_create good_upload ''abcde'' example_upload [] None w' \<and> w' = ''abcde''"
proof -
  obtain w' where up: "UploadBufferToAzureFile good_create good_upload ''abcde'' example_upload [] None w'"
    using good_upload_run by blast
  have "w' = ''abcde''" by (rule upload_stores_buffer [OF up good_service]) simp
  with up show ?thesis by blast
qed

section \<open>Download\<close>

text \<open>
  \<open>FileURL.Download\<close> of a range: an error, or a response with its body and entity tag. The
  state of the network is \<open>'n\<close>.
\<close>

type_synonym 'n download_op = "int \<Rightarrow> int \<Rightarrow> 'n \<Rightarrow> (go_error + body_stream \<times> string) \<times> 'n"

text \<open>The getter that \<open>DownloadResponse.Body\<close> hands to the retry reader; it ignores the tag.\<close>

definition download_getter :: "'n download_op \<Rightarrow> 'n getter" where
  "download_getter download info w =
     (case download (gi_Offset info) (gi_Count info) w of
        (Inl err, w') \<Rightarrow> (Inl err, w')
      | (Inr (b, etag), w') \<Rightarrow> (Inr (Some b), w'))"

datatype body_reader = RawBody body_stream | RetryBody retryReader

definition DownloadResponse_Body ::
    "'n download_op \<Rightarrow> body_stream \<Rightarrow> HTTPGetterInfo \<Rightarrow> RetryReaderOptions \<Rightarrow> body_reader exec" where
  "DownloadResponse_Body download response info opts =
     (if rro_MaxRetryRequests opts = 0 then Return (RawBody response)
      else bind_exec (NewRetryReader (Some response) info opts (Some (download_getter download)))
             (\<lambda>s. Return (RetryBody s)))"

definition reader_Read ::
    "'n getter \<Rightarrow> nat \<Rightarrow> body_reader \<Rightarrow> 'n \<Rightarrow> (string \<times> read_outcome \<times> body_reader \<times> 'n) exec" where
  "reader_Read getter plen rd w =
     (case rd of
        RawBody b \<Rightarrow> (case body_Read plen b of (data, res, b') \<Rightarrow> Return (data, Got res, RawBody b', w))
      | RetryBody s \<Rightarrow> bind_exec (retryReader_Read getter plen s w) (\<lambda>r.
          Return (rd_data r, rd_outcome r, RetryBody (rd_reader r), rd_world r)))"

text \<open>\<open>io.ReadFull\<close>: a stream that delivers nothing and never ends makes it run forever.\<close>

definition full_error :: "nat \<Rightarrow> string \<Rightarrow> read_outcome \<Rightarrow> go_error option" where
  "full_error needed data res =
     (if needed \<le> length data then None
      else case res of
        Got NoErr \<Rightarrow> None
      | Got Eof \<Rightarrow> Some (PlainErr (if data \<noteq> [] then ''unexpected EOF'' else ''EOF''))
      | Got (Failed e) \<Rightarrow> Some (error_of_read e)
      | GetterFailed e \<Rightarrow> Some e)"

partial_function (option) ReadFull ::
    "'n getter \<Rightarrow> nat \<Rightarrow> string \<Rightarrow> body_reader \<Rightarrow> 'n \<Rightarrow> (string \<times> go_error option \<times> 'n) exec option" where
  "ReadFull getter needed acc rd w =
     (if length acc < needed then
        (case reader_Read getter (needed - length acc) rd w of
           Panic m \<Rightarrow> Some (Panic m)
         | Return (data, res, rd', w') \<Rightarrow>
             if res = Got NoErr then ReadFull getter needed (acc @ data) rd' w'
             else Some (Return (acc @ data, full_error needed (acc @ data) res, w')))
      else Some (Return (acc, None, w)))"

declare ReadFull.simps [code]

text \<open>
  The operation on one chunk. The error of \<open>Download\<close> is not looked at before \<open>dr.Body\<close> is
  called on the nil response that comes with it.
\<close>

definition put_bytes :: "string \<Rightarrow> int \<Rightarrow> string \<Rightarrow> string" where
  "put_bytes buf offset d = take (nat offset) buf @ d @ drop (nat offset + length d) buf"

definition download_options :: "int \<Rightarrow> RetryReaderOptions" where
  "download_options maxRetry = \<lparr>rro_MaxRetryRequests = maxRetry, rro_doInjectError = False,
     rro_doInjectErrorRound = 0, rro_NotifyFailedRead = False, rro_TreatEarlyCloseAsError = False\<rparr>"

definition download_chunk ::
    "'n download_op \<Rightarrow> int \<Rightarrow> int \<Rightarrow> int \<Rightarrow> string \<Rightarrow> 'n \<Rightarrow> (string \<times> go_error option \<times> 'n) exec option" where
  "download_chunk download maxRetry offset n buf w =
     (case download offset n w of
        (Inl err, w') \<Rightarrow> Some nil_deref
      | (Inr (b, etag), w') \<Rightarrow>
          (case DownloadResponse_Body download b \<lparr>gi_Offset = offset, gi_Count = n, gi_ETag = etag\<rparr>
                  (download_options maxRetry) of
             Panic m \<Rightarrow> Some (Panic m)
           | Return rd \<Rightarrow>
               map_option (\<lambda>x. bind_exec x (\<lambda>(data, err, w'). Return (put_bytes buf offset data, err, w')))
                 (ReadFull (download_getter download) (nat n) [] rd w')))"

definition download_op :: "'n download_op \<Rightarrow> int \<Rightarrow> (string, go_error) operation" where
  "download_op download maxRetry offset n buf r buf' \<longleftrightarrow>
     (\<exists>w w'. download_chunk download maxRetry offset n buf w = Some (Return (buf', r, w')))"

record DownloadFromAzureFileOptions =
  do_RangeSize :: int
  do_Progress :: bool      \<comment> \<open>a receiver is set\<close>
  do_Parallelism :: nat    \<comment> \<open>\<open>uint16\<close>\<close>
  do_MaxRetryRequestsPerRange :: int

definition download_batch :: "DownloadFromAzureFileOptions \<Rightarrow> int \<Rightarrow> batchTransferOptions" where
  "download_batch o' sz = \<lparr>bto_transferSize = sz,
     bto_chunkSize = (if do_RangeSize o' = 0 then FileMaxUploadRangeBytes else do_RangeSize o'),
     bto_parallelism = (if do_Parallelism o' = 0 then defaultParallelCount else do_Parallelism o')\<rparr>"

text \<open>
  \<open>getProperties\<close> is the answer of the service for the file's properties, of which only the
  content length is used; the result is an error or the properties. When the buffer is too
  small the function panics.
\<close>

definition downloadAzureFileToBuffer ::
    "(go_error + int) \<Rightarrow> 'n download_op \<Rightarrow> int option \<Rightarrow> string \<Rightarrow> DownloadFromAzureFileOptions
      \<Rightarrow> (go_error + int) exec \<Rightarrow> string \<Rightarrow> bool" where
  "downloadAzureFileToBuffer getProperties download azfileProperties b o' res b' \<longleftrightarrow>
     (if do_RangeSize o' < 0
      then b' = b \<and> res = Return (Inl (PlainErr ''invalid argument, o.RangeSize must be >= 0''))
      else case (case azfileProperties of None \<Rightarrow> getProperties | Some p \<Rightarrow> Inr p) of
        Inl err \<Rightarrow> b' = b \<and> res = Return (Inl err)
      | Inr azfileSize \<Rightarrow>
          if azfileSize = 0 then b' = b \<and> res = Return (Inr azfileSize)
          else if int (length b) < azfileSize
          then b' = b \<and> res = sanityCheckFailed (''The buffer'' @ [CHR 0x27]
                 @ ''s size should be equal to or larger than Azure file'' @ [CHR 0x27] @ ''s size: ''
                 @ FormatInt azfileSize @ ''.'')
          else \<exists>r. doBatchTransfer (download_batch o' azfileSize)
                 (download_op download (do_MaxRetryRequestsPerRange o')) b r b'
               \<and> res = Return (case r of Some err \<Rightarrow> Inl err | None \<Rightarrow> Inr azfileSize))"

definition DownloadAzureFileToBuffer ::
    "(go_error + int) \<Rightarrow> 'n download_op \<Rightarrow> string \<Rightarrow> DownloadFromAzureFileOptions
      \<Rightarrow> (go_error + int) exec \<Rightarrow> string \<Rightarrow> bool" where
  "DownloadAzureFileToBuffer getProperties download b o' res b' \<longleftrightarrow>
     downloadAzureFileToBuffer getProperties download None b o' res b'"

section \<open>What a download returns\<close>

text \<open>The service answers a download with the bytes that the range header selects.\<close>

definition serves_file :: "string \<Rightarrow> 'n download_op \<Rightarrow> bool" where
  "serves_file F download \<longleftrightarrow>
     (\<forall>offset n w b etag w'. download offset n w = (Inr (b, etag), w') \<longrightarrow> \<not> bs_closed b \<and>
        select_range (httpRange_pointers \<lparr>hr_offset = offset, hr_count = n\<rparr>) F = Some (bs_rem b))"

lemma serves_download_getter: "serves_file F download \<Longrightarrow> serves F (download_getter download)"
  unfolding serves_file_def serves_def download_getter_def by (fastforce split: prod.splits sum.splits)

fun reader_inv :: "string \<Rightarrow> body_reader \<Rightarrow> string \<Rightarrow> bool" where
  "reader_inv F (RawBody b) rest \<longleftrightarrow> \<not> bs_closed b \<and> bs_rem b = rest"
| "reader_inv F (RetryBody s) rest \<longleftrightarrow> reader_ok F s \<and> range_rest F s = rest"

lemma reader_Read_spec:
  assumes "serves F getter" and "reader_inv F rd rest"
    and "reader_Read getter plen rd w = Return (data, res, rd', w')"
  shows "length data \<le> plen \<and> (\<exists>rest'. rest = data @ rest' \<and> (res = Got NoErr \<longrightarrow> reader_inv F rd' rest'))"
proof (cases rd)
  case (RawBody b)
  with assms obtain r b' where "body_Read plen b = (data, r, b')" "\<not> bs_closed b" "bs_rem b = rest" "rd' = RawBody b'"
    by (auto simp: reader_Read_def split: prod.splits)
  with body_Read_spec [of plen b data r b'] show ?thesis by auto
next
  case (RetryBody s)
  with assms(2) have ok: "reader_ok F s" "range_rest F s = rest" by simp_all
  obtain r where r: "retryReader_Read getter plen s w = Return r" and post: "read_post F s r"
    and len: "length (rd_data r) \<le> plen"
    using read_loop_spec [OF assms(1) ok(1), of plen 0 "[]" "[]" w] unfolding retryReader_Read_def by auto
  from r assms(3) RetryBody have eqs: "data = rd_data r" "res = rd_outcome r" "rd' = RetryBody (rd_reader r)"
    by (auto simp: reader_Read_def)
  from post ok(2) have "\<exists>rest'. rest = rd_data r @ rest'" by (auto simp: read_post_def)
  with post ok(2) len show ?thesis by (auto simp: eqs read_post_def)
qed

lemma ReadFull_spec:
  fixes w :: 'a
  assumes "ReadFull getter n acc rd w = Some (Return (d, err, w'))" and "serves F getter"
    and "reader_inv F rd rest"
  shows "\<exists>d' rest'. d = acc @ d' \<and> rest = d' @ rest' \<and> length d \<le> max n (length acc)
     \<and> (err = None \<longrightarrow> n \<le> length d)"
proof -
  define P where "P = (\<lambda>(getter :: 'a getter) n acc rd (w :: 'a) y.
      \<forall>d (err :: go_error option) (w' :: 'a) rest. y = Return (d, err, w') \<longrightarrow>
      serves F getter \<longrightarrow> reader_inv F rd rest \<longrightarrow>
      (\<exists>d' rest'. d = acc @ d' \<and> rest = d' @ rest' \<and> length d \<le> max n (length acc)
         \<and> (err = None \<longrightarrow> n \<le> length d)))"
  have "P getter n acc rd w y" if "ReadFull getter n acc rd w = Some y" for y
  proof (rule ReadFull.raw_induct [of P, OF _ that], goal_cases)
    case (1 readFull getter n acc rd w y)
    show ?case
    proof (cases "length acc < n")
      case False
      with 1(2) show ?thesis by (auto simp: P_def)
    next
      case True
      show ?thesis
        unfolding P_def
      proof (intro allI impI)
        fix d err w' rest
        assume y: "y = Return (d, err, w')" and srv: "serves F getter" and inv: "reader_inv F rd rest"
        obtain data res rd' w1 where rd: "reader_Read getter (n - length acc) rd w = Return (data, res, rd', w1)"
          using 1(2) True y by (cases "reader_Read getter (n - length acc) rd w") auto
        from reader_Read_spec [OF srv inv rd] obtain rest' where len: "length data \<le> n - length acc"
          and rest: "rest = data @ rest'" and inv': "res = Got NoErr \<longrightarrow> reader_inv F rd' rest'" by blast
        show "\<exists>d' rest'. d = acc @ d' \<and> rest = d' @ rest' \<and> length d \<le> max n (length acc)
            \<and> (err = None \<longrightarrow> n \<le> length d)"
        proof (cases "res = Got NoErr")
          case noerr: True
          have call: "readFull getter n (acc @ data) rd' w1 = Some y" using 1(2) True rd noerr by simp
          from 1(1) [OF call, unfolded P_def] y srv inv' noerr obtain d' rest'' where "d = (acc @ data) @ d'" "rest' = d' @ rest''"
            "length d \<le> max n (length (acc @ data))" "err = None \<longrightarrow> n \<le> length d" by blast
          with rest len show ?thesis by (intro exI [of _ "data @ d'"] exI [of _ rest'']) auto
        next
          case False
          then have "d = acc @ data" "err = full_error n (acc @ data) res" using 1(2) True rd y by auto
          moreover from False this(2) have "err = None \<longrightarrow> n \<le> length (acc @ data)"
            by (auto simp: full_error_def split: read_outcome.splits io_result.splits)
          ultimately show ?thesis using rest len by (intro exI [of _ data] exI [of _ rest']) auto
        qed
      qed
    qed
  qed
  with assms show ?thesis unfolding P_def by blast
qed

text \<open>
  A connection that never delivers zero bytes without an error or the end, as the contract of
  \<open>io.Reader\<close> asks for. Without it \<open>io.ReadFull\<close> can go on forever.
\<close>

definition steady :: "body_stream \<Rightarrow> bool" where
  "steady b \<longleftrightarrow> (\<forall>k e. Deliver k e \<in> set (bs_script b) \<longrightarrow> 0 < k)"

definition steady_download :: "'n download_op \<Rightarrow> bool" where
  "steady_download download \<longleftrightarrow>
     (\<forall>offset n w b etag w'. download offset n w = (Inr (b, etag), w') \<longrightarrow> steady b)"

fun steady_reader :: "body_reader \<Rightarrow> bool" where
  "steady_reader (RawBody b) \<longleftrightarrow> steady b"
| "steady_reader (RetryBody s) \<longleftrightarrow> (\<forall>b. rr_response s = Some b \<longrightarrow> steady b)"

text \<open>The reader over the body of a response to a request for a range.\<close>

lemma download_body:
  assumes "download offset n w = (Inr (b, etag), w1)" and "serves_file F download" and "int (length F) < 2 ^ 63"
    and "0 \<le> offset" and "0 \<le> n" and "offset + n \<le> int (length F)"
    and body: "DownloadResponse_Body download b \<lparr>gi_Offset = offset, gi_Count = n, gi_ETag = etag\<rparr>
                 (download_options maxRetry) = Return rd"
  shows "bs_rem b = (if n = CountToEnd then drop (nat offset) F else take (nat n) (drop (nat offset) F))"
    and "reader_inv F rd (bs_rem b)" and "steady b \<Longrightarrow> steady_reader rd"
proof -
  have b: "\<not> bs_closed b" "bs_rem b = (if n = CountToEnd then drop (nat offset) F else take (nat n) (drop (nat offset) F))"
    using assms(1-6) select_range_pointers [of offset n F] unfolding serves_file_def
    by (fastforce, fastforce)
  then show "bs_rem b = (if n = CountToEnd then drop (nat offset) F else take (nat n) (drop (nat offset) F))" by simp
  have "reader_inv F rd (bs_rem b) \<and> (steady b \<longrightarrow> steady_reader rd)"
  proof (cases "maxRetry = 0")
    case True
    with body b show ?thesis by (auto simp: DownloadResponse_Body_def download_options_def)
  next
    case False
    with body assms(5) have "rd = RetryBody \<lparr>rr_info = \<lparr>gi_Offset = offset, gi_Count = n, gi_ETag = etag\<rparr>,
        rr_countWasBounded = (n \<noteq> CountToEnd), rr_o = download_options maxRetry, rr_response = Some b\<rparr>"
      by (auto simp: DownloadResponse_Body_def download_options_def NewRetryReader_def split: if_splits)
    with b assms(3-6) show ?thesis by (auto simp: reader_ok_def range_rest_def Let_def)
  qed
  then show "reader_inv F rd (bs_rem b)" "steady b \<Longrightarrow> steady_reader rd" by simp_all
qed

lemma download_chunk_spec:
  assumes "download_chunk download maxRetry offset n buf w = Some (Return (buf', r, w'))"
    and "serves_file F download" and "int (length F) < 2 ^ 63"
    and "0 \<le> offset" and "0 \<le> n" and "offset + n \<le> int (length F)"
  shows "\<exists>d rest. buf' = put_bytes buf offset d \<and> drop (nat offset) F = d @ rest \<and> int (length d) \<le> n
     \<and> (r = None \<longrightarrow> int (length d) = n)"
proof -
  from assms(1) obtain b etag w1 rd d where dl: "download offset n w = (Inr (b, etag), w1)"
    and body: "DownloadResponse_Body download b \<lparr>gi_Offset = offset, gi_Count = n, gi_ETag = etag\<rparr>
                  (download_options maxRetry) = Return rd"
    and rf: "ReadFull (download_getter download) (nat n) [] rd w1 = Some (Return (d, r, w'))"
    and buf': "buf' = put_bytes buf offset d"
    by (auto simp: download_chunk_def nil_deref_def split: prod.splits sum.splits exec.splits)
  note b = download_body [OF dl assms(2-6) body]
  from ReadFull_spec [OF rf serves_download_getter [OF assms(2)] b(2)] obtain rest where
    "bs_rem b = d @ rest" "length d \<le> nat n" "r = None \<longrightarrow> nat n \<le> length d" by auto
  moreover obtain rest' where "drop (nat offset) F = bs_rem b @ rest'"
    unfolding b(1) by (metis append_Nil2 append_take_drop_id)
  ultimately show ?thesis using buf' assms(5) by (intro exI [of _ d] exI [of _ "rest @ rest'"]) auto
qed

lemma range_op_download:
  assumes "serves_file F download" and "int (length F) < 2 ^ 63"
  shows "range_op F (download_op download maxRetry)"
  unfolding range_op_def download_op_def
proof (intro allI impI, elim exE)
  fix offset n buf r buf' w w'
  assume c: "download_chunk download maxRetry offset n buf w = Some (Return (buf', r, w'))"
    and o: "0 \<le> offset" "0 \<le> n" "offset + n \<le> int (length F)" and len: "length buf = length F"
  from download_chunk_spec [OF c assms o] obtain d rest where d: "buf' = put_bytes buf offset d"
    "drop (nat offset) F = d @ rest" "int (length d) \<le> n" "r = None \<longrightarrow> int (length d) = n" by blast
  have fit: "nat offset + length d \<le> length F" using d(3) o by linarith
  have at: "d ! j = F ! (nat offset + j)" if "j < length d" for j
    using that d(2) fit by (metis nth_append nth_drop add_leD1)
  show "length buf' = length F
      \<and> (\<forall>i < length F. \<not> (offset \<le> int i \<and> int i < offset + n) \<longrightarrow> buf' ! i = buf ! i)
      \<and> (r = None \<longrightarrow> (\<forall>i < length F. offset \<le> int i \<and> int i < offset + n \<longrightarrow> buf' ! i = F ! i))"
    using fit len o d(3,4) at
    by (auto simp: d(1) put_bytes_def nth_append nat_le_iff)
qed

lemma batch_ok_download:
  assumes "0 \<le> do_RangeSize o'" and "do_RangeSize o' < 2 ^ 63" and "0 < sz" and "sz < 2 ^ 63"
  shows "batch_ok (download_batch o' sz)"
  using assms by (auto simp: batch_ok_def download_batch_def FileMaxUploadRangeBytes_def)

lemma download_exact:
  assumes "downloadAzureFileToBuffer props download p b o' (Return (Inr sz)) b'"
    and "serves_file F download" and "int (length F) < 2 ^ 63" and "do_RangeSize o' < 2 ^ 63"
    and "(case p of None \<Rightarrow> props = Inr (int (length F)) | Some s \<Rightarrow> s = int (length F))"
    and "length b = length F"
  shows "b' = F"
proof (cases "length F = 0")
  case True
  with assms(1,5,6) show ?thesis
    by (auto simp: downloadAzureFileToBuffer_def split: if_splits option.splits sum.splits)
next
  case False
  with assms(1,5,6) have rs: "0 \<le> do_RangeSize o'"
    and bt: "doBatchTransfer (download_batch o' (int (length F)))
        (download_op download (do_MaxRetryRequestsPerRange o')) b None b'"
    by (auto simp: downloadAzureFileToBuffer_def split: if_splits option.splits sum.splits)
  have ok: "batch_ok (download_batch o' (int (length F)))"
    using rs False assms(3,4) by (intro batch_ok_download) auto
  have "int (length b) = bto_transferSize (download_batch o' (int (length F)))" "length F = length b"
    using assms(6) by (simp_all add: download_batch_def)
  then show ?thesis by (rule doBatchTransfer_copies [OF bt ok range_op_download [OF assms(2,3)]])
qed

text \<open>
  C5: A parallel download that succeeds has read the file: if the service answers every
  range request with the bytes of the file that the range header selects, then after a
  successful download of a file into a buffer of its size the buffer is the file, byte for
  byte, however connections break, whether or not broken reads are retried, and however the
  goroutines interleave.
\<close>

theorem download_reads_file:
  assumes "DownloadAzureFileToBuffer (Inr (int (length F))) download b o' (Return (Inr sz)) b'"
    and "serves_file F download" and "int (length F) < 2 ^ 63" and "do_RangeSize o' < 2 ^ 63"
    and "length b = length F"
  shows "b' = F"
  using assms(1)
  unfolding DownloadAzureFileToBuffer_def
  by (rule download_exact) (use assms(2-5) in simp_all)

section \<open>A download ends\<close>

lemma steady_body_Read:
  assumes "body_Read plen b = (data, res, b')" and "steady b" and "0 < plen"
  shows "steady b'" and "res = NoErr \<Longrightarrow> data \<noteq> []"
  using assms
  by (fastforce simp: body_Read_def deliver_def Let_def steady_def split: list.splits read_script.splits if_splits)+

lemma steady_obtain:
  assumes "obtain_response (download_getter download) s w = Return (Inr b, gs, w')" and "steady_download download"
    and "\<And>b. rr_response s = Some b \<Longrightarrow> steady b"
  shows "steady b"
  using assms
  unfolding obtain_response_def download_getter_def steady_download_def
  by (fastforce split: option.splits prod.splits sum.splits)

lemma steady_read_loop:
  assumes "read_loop (download_getter download) plen tries s gets noted w = Return r" and "steady_download download"
    and "\<And>b. rr_response s = Some b \<Longrightarrow> steady b" and "0 < plen"
  shows "(\<forall>b. rr_response (rd_reader r) = Some b \<longrightarrow> steady b) \<and> (rd_outcome r = Got NoErr \<longrightarrow> rd_data r \<noteq> [])"
  using assms(1,3)
proof (induction "nat (rro_MaxRetryRequests (rr_o s) - tries)" arbitrary: tries s gets noted w rule: less_induct)
  case less
  show ?case
  proof (cases "rr_countWasBounded s \<and> gi_Count (rr_info s) = CountToEnd")
    case True
    with less.prems show ?thesis by (auto simp: read_loop.simps [of _ _ tries s])
  next
    case more: False
    note unf = less.prems(1) [unfolded read_loop.simps [of _ _ tries s] if_not_P [OF more]]
    show ?thesis
    proof (cases "\<exists>b gs w'. obtain_response (download_getter download) s w = Return (Inr b, gs, w')")
      case False
      with unf less.prems(2) show ?thesis by (auto split: exec.splits sum.splits)
    next
      case True
      then obtain b gs w' where ob: "obtain_response (download_getter download) s w = Return (Inr b, gs, w')" by blast
      obtain data res b' where rd: "body_Read plen b = (data, res, b')" by (cases "body_Read plen b") auto
      note st = steady_body_Read [OF rd steady_obtain [OF ob assms(2) less.prems(2)] assms(4)]
      define res' where "res' = (if rro_doInjectError (rr_o s) \<and> tries = rro_doInjectErrorRound (rr_o s)
                        then Failed injected else res)"
      note unf' = unf [unfolded ob exec.case prod.case sum.case rd Let_def res'_def [symmetric]]
      show ?thesis
      proof (cases res')
        case (Failed err)
        with unf' show ?thesis
          by (auto split: if_splits dest!: less.hyps [rotated])
      qed (use unf' st in \<open>auto simp: res'_def split: if_splits\<close>)
    qed
  qed
qed

lemma reader_Read_steady:
  assumes "reader_Read (download_getter download) plen rd w = Return (data, res, rd', w')"
    and "steady_download download" and "steady_reader rd" and "0 < plen"
  shows "steady_reader rd'" and "res = Got NoErr \<Longrightarrow> data \<noteq> []"
proof -
  have "steady_reader rd' \<and> (res = Got NoErr \<longrightarrow> data \<noteq> [])"
  proof (cases rd)
    case (RawBody b)
    with assms show ?thesis by (auto simp: reader_Read_def dest: steady_body_Read split: prod.splits)
  next
    case (RetryBody s)
    with assms obtain r where "read_loop (download_getter download) plen 0 s [] [] w = Return r"
      "data = rd_data r" "res = rd_outcome r" "rd' = RetryBody (rd_reader r)"
      by (auto simp: reader_Read_def retryReader_Read_def)
    with steady_read_loop [OF this(1) assms(2) _ assms(4)] assms(3) RetryBody show ?thesis by simp
  qed
  then show "steady_reader rd'" "res = Got NoErr \<Longrightarrow> data \<noteq> []" by simp_all
qed

lemma reader_Read_returns:
  assumes "serves F getter" and "reader_inv F rd rest"
  shows "\<exists>x. reader_Read getter plen rd w = Return x"
proof (cases rd)
  case (RetryBody s)
  with assms(2) read_loop_spec [OF assms(1), of s plen 0 "[]" "[]" w] show ?thesis
    by (auto simp: reader_Read_def retryReader_Read_def)
qed (auto simp: reader_Read_def split: prod.splits)

lemma ReadFull_returns:
  assumes "serves_file F download" and "steady_download download" and "reader_inv F rd rest" and "steady_reader rd"
  shows "\<exists>x. ReadFull (download_getter download) n acc rd w = Some (Return x)"
  using assms(3,4)
proof (induction "n - length acc" arbitrary: acc rd rest w rule: less_induct)
  case less
  note srv = serves_download_getter [OF assms(1)]
  show ?case
  proof (cases "length acc < n")
    case False
    then show ?thesis by (simp add: ReadFull.simps)
  next
    case True
    obtain data res rd' w' where rd: "reader_Read (download_getter download) (n - length acc) rd w = Return (data, res, rd', w')"
      using reader_Read_returns [OF srv less.prems(1), of "n - length acc" w] by fastforce
    from reader_Read_spec [OF srv less.prems(1) rd] obtain rest' where
      inv: "res = Got NoErr \<longrightarrow> reader_inv F rd' rest'" by blast
    note st = reader_Read_steady [OF rd assms(2) less.prems(2)]
    show ?thesis
    proof (cases "res = Got NoErr")
      case noerr: True
      have "n - length (acc @ data) < n - length acc" using st(2) noerr True by (cases data) auto
      from less.hyps [OF this, of rd' rest' w'] inv noerr st(1) True rd show ?thesis
        by (simp add: ReadFull.simps [of _ n acc])
    next
      case False
      with True rd show ?thesis by (simp add: ReadFull.simps [of _ n acc])
    qed
  qed
qed

text \<open>Every request for a range of the file is answered.\<close>

definition answers :: "string \<Rightarrow> 'n download_op \<Rightarrow> bool" where
  "answers F download \<longleftrightarrow>
     (\<forall>offset n w. 0 \<le> offset \<longrightarrow> 0 < n \<longrightarrow> offset + n \<le> int (length F) \<longrightarrow>
        (\<exists>b etag w'. download offset n w = (Inr (b, etag), w')))"

lemma download_chunk_returns:
  assumes "serves_file F download" and "steady_download download" and "answers F download"
    and "int (length F) < 2 ^ 63" and "0 \<le> maxRetry" and "0 \<le> offset" and "0 < n" and "offset + n \<le> int (length F)"
  shows "\<exists>r buf' w'. download_chunk download maxRetry offset n buf w = Some (Return (buf', r, w'))"
proof -
  from assms(3,6-8) obtain b etag w1 where dl: "download offset n w = (Inr (b, etag), w1)" unfolding answers_def by blast
  obtain rd where body: "DownloadResponse_Body download b \<lparr>gi_Offset = offset, gi_Count = n, gi_ETag = etag\<rparr>
      (download_options maxRetry) = Return rd"
    using assms(5,7) that
    by (cases "maxRetry = 0") (auto simp: DownloadResponse_Body_def download_options_def NewRetryReader_def)
  have "0 \<le> n" "steady b" using assms(2,7) dl unfolding steady_download_def by (simp, blast)
  with download_body [OF dl assms(1,4,6) _ assms(8) body] have rd: "reader_inv F rd (bs_rem b)" "steady_reader rd" by simp_all
  from ReadFull_returns [OF assms(1,2) rd, of "nat n" "[]" w1] dl body show ?thesis
    by (auto simp: download_chunk_def)
qed

text \<open>
  C9: A download ends. If the service answers every request for a range of the file, and the
  connections, which may break at any point, do not deliver nothing for ever, then under every
  schedule of the goroutines the transfer makes progress until the caller returns, within a
  bounded number of steps, and \<open>DownloadAzureFileToBuffer\<close> returns, with the file or with an
  error. A request that is not answered is another matter: the goroutine panics on it.
\<close>

theorem download_returns:
  fixes download :: "'n download_op"
  assumes "serves_file F download" and "steady_download download" and "answers F download"
    and "int (length F) < 2 ^ 63" and "0 \<le> do_RangeSize o'" and "do_RangeSize o' < 2 ^ 63"
    and "0 \<le> do_MaxRetryRequestsPerRange o'" and "F \<noteq> []" and "length F \<le> length b"
    and "opts = download_batch o' (int (length F))" and "op = download_op download (do_MaxRetryRequestsPerRange o')"
    and "batch_reach opts op (batch_init opts b) s k"
  shows "k \<le> 5 * nat (numChunks opts) + bto_parallelism opts + 2
     \<and> (has_returned (bt_caller s) \<or> (\<exists>s'. batch_step opts op s s'))
     \<and> (\<exists>m s'. (batch_step opts op ^^ m) s s' \<and> has_returned (bt_caller s'))
     \<and> (\<exists>res b'. DownloadAzureFileToBuffer (Inr (int (length F))) download b o' (Return res) b')"
proof -
  have ok: "batch_ok opts" unfolding assms(10) using assms(4-6,8) by (intro batch_ok_download) auto
  have tot: "\<exists>r b'. op (chunk_offset opts c) (chunk_size opts c) buf r b'" if "int c < numChunks opts" for c buf
  proof -
    have "0 \<le> chunk_offset opts c" "0 < chunk_size opts c" "chunk_offset opts c + chunk_size opts c \<le> int (length F)"
      using chunk_facts [OF ok that] ok by (auto simp: batch_ok_def assms(10) download_batch_def)
    from download_chunk_returns [OF assms(1-4,7) this] show ?thesis unfolding assms(11) download_op_def by blast
  qed
  have par: "0 < bto_parallelism opts" by (simp add: assms(10) download_batch_def defaultParallelCount_def)
  have "\<exists>r b'. doBatchTransfer opts op b r b'" using par tot by (rule doBatchTransfer_total)
  then obtain r b' where "doBatchTransfer opts op b r b'" by blast
  then have "DownloadAzureFileToBuffer (Inr (int (length F))) download b o'
      (Return (case r of Some err \<Rightarrow> Inl err | None \<Rightarrow> Inr (int (length F)))) b'"
    using assms(5,8,9) by (auto simp: DownloadAzureFileToBuffer_def downloadAzureFileToBuffer_def assms(10,11))
  moreover have "k \<le> 5 * nat (numChunks opts) + bto_parallelism opts + 2"
    "has_returned (bt_caller s) \<or> (\<exists>s'. batch_step opts op s s')"
    "\<exists>m s'. (batch_step opts op ^^ m) s s' \<and> has_returned (bt_caller s')"
    using assms(12) par tot by (rule batch_returns; simp)+
  ultimately show ?thesis by blast
qed

text \<open>
  A failed request for a range is not reported as an error: the operation that downloads
  a chunk calls a method of the nil response before it looks at the error, so it panics, for
  every error of the request.
\<close>

theorem download_chunk_error_panics:
  "download offset n w = (Inl err, w') \<Longrightarrow>
     download_chunk download maxRetry offset n buf w = Some nil_deref
     \<and> \<not> (\<exists>r buf' w2. download_chunk download maxRetry offset n buf w = Some (Return (buf', r, w2)))"
  by (simp add: download_chunk_def nil_deref_def)

definition failing_download :: "unit download_op" where
  "failing_download offset n w = (Inl (PlainErr ''connection refused''), w)"

theorem download_chunk_error_panics_witness:
  "download_chunk failing_download 3 0 4 ''----'' () = Some nil_deref"
  using download_chunk_error_panics [of failing_download 0 4 "()" "PlainErr ''connection refused''" "()" 3 "''----''"]
  by (simp add: failing_download_def)

text \<open>A service that serves a file and breaks every connection after one read.\<close>

definition flaky_download :: "string \<Rightarrow> unit download_op" where
  "flaky_download F offset n w =
     (case select_range (httpRange_pointers \<lparr>hr_offset = offset, hr_count = n\<rparr>) F of
        Some d \<Rightarrow> (Inr (\<lparr>bs_rem = d, bs_script = [Deliver 1 False, Fail 0 injected], bs_closed = False\<rparr>, ''e''), w)
      | None \<Rightarrow> (Inl (PlainErr ''InvalidRange''), w))"

lemma flaky_serves: "serves_file F (flaky_download F)"
  by (auto simp: serves_file_def flaky_download_def split: option.splits)

definition example_download :: DownloadFromAzureFileOptions where
  "example_download = \<lparr>do_RangeSize = 0, do_Progress = False, do_Parallelism = 1, do_MaxRetryRequestsPerRange = 2\<rparr>"

lemma example_chunk: "download_chunk (flaky_download ''hi'') 2 0 2 ''??'' () = Some (Return (''hi'', None, ()))"
  by code_simp

lemma example_download_run:
  "doBatchTransfer (download_batch example_download 2) (download_op (flaky_download ''hi'') 2) ''??'' None ''hi''"
proof -
  let ?o = "download_batch example_download 2"
  have n: "numChunks ?o = 1" "chunk_offset ?o 0 = 0" "chunk_size ?o 0 = 2" "bto_parallelism ?o = 1"
    by code_simp+
  have "download_op (flaky_download ''hi'') 2 0 2 ''??'' None ''hi''"
    unfolding download_op_def using example_chunk by blast
  with n have "batch_reach ?o (download_op (flaky_download ''hi'') 2) (batch_init ?o ''??'') (single_end ''hi'') 7"
    by (intro single_chunk_run) simp_all
  then show ?thesis unfolding doBatchTransfer_def
    by (intro exI [of _ "single_end ''hi''"] exI [of _ 7]) (simp add: single_end_def)
qed

theorem download_reads_file_witness:
  "\<exists>b'. DownloadAzureFileToBuffer (Inr 2) (flaky_download ''hi'') ''??'' example_download (Return (Inr 2)) b' \<and> b' = ''hi''"
proof -
  have run: "DownloadAzureFileToBuffer (Inr (int (length ''hi''))) (flaky_download ''hi'') ''??'' example_download (Return (Inr 2)) ''hi''"
    using example_download_run
    by (auto simp: DownloadAzureFileToBuffer_def downloadAzureFileToBuffer_def example_download_def
        intro!: exI [of _ "None :: go_error option"])
  have "''hi'' = ''hi''"
    by (rule download_reads_file [OF run flaky_serves]) (simp_all add: example_download_def)
  with run show ?thesis by auto
qed

lemma flaky_steady: "steady_download (flaky_download F)"
  by (auto simp: steady_download_def steady_def flaky_download_def split: option.splits)

lemma flaky_answers:
  assumes "int (length F) < 2 ^ 63"
  shows "answers F (flaky_download F)"
  unfolding answers_def
proof (intro allI impI)
  fix offset n w
  assume "0 \<le> offset" "0 < n" "offset + n \<le> int (length F)"
  with assms select_range_pointers [of offset n F]
  show "\<exists>b etag w'. flaky_download F offset n w = (Inr (b, etag), w')" by (simp add: flaky_download_def)
qed

theorem download_returns_witness:
  "\<exists>res b'. DownloadAzureFileToBuffer (Inr (int (length ''hello''))) (flaky_download ''hello'') ''-----''
       example_download (Return res) b'"
proof -
  let ?o = "download_batch example_download (int (length ''hello''))"
  let ?op = "download_op (flaky_download ''hello'') (do_MaxRetryRequestsPerRange example_download)"
  have "batch_reach ?o ?op (batch_init ?o ''-----'') (batch_init ?o ''-----'') 0" by (rule batch_reach.start)
  with download_returns [of "''hello''" "flaky_download ''hello''" example_download "''-----''" ?o ?op
      "batch_init ?o ''-----''" 0] flaky_serves flaky_steady flaky_answers [of "''hello''"]
  show ?thesis by (simp add: example_download_def)
qed

end
