(* ===== verification/Upload_Stack.thy ===== *)
theory Upload_Stack
  imports Pipeline Api Highlevel
begin

text \<open>
  A parallel upload through the whole stack: \<open>UploadBufferToAzureFile\<close> on \<open>FileURL.Create\<close> and
  \<open>FileURL.UploadRange\<close>, these on the generated client, and the client on a pipeline made by
  \<open>NewPipeline\<close>. Only the HTTP exchange with the service remains a hypothesis: what a request
  that is answered with success has done to the file.
\<close>

section \<open>What a request asks of the service\<close>

definition range_put :: "http_request \<Rightarrow> (nat \<times> string) option" where
  "range_put req =
     (if rq_Method req = ''PUT'' \<and> param req ''comp'' = Some [''range''] \<and> hdr req ''x-ms-write'' = FileRangeWriteUpdate
      then (case (read_range (hdr req ''x-ms-range''), rq_Body req) of
              (Some (a, Some b), Some d) \<Rightarrow> if Suc b = a + length d then Some (a, d) else None
            | _ \<Rightarrow> None)
      else None)"

definition file_create :: "http_request \<Rightarrow> nat option" where
  "file_create req =
     (if rq_Method req = ''PUT'' \<and> hdr req ''x-ms-type'' = ''file'' \<and> all_digits (hdr req ''x-ms-content-length'')
      then Some (dec_val (hdr req ''x-ms-content-length'')) else None)"

text \<open>
  The effect on the content of the file: a range write changes nothing outside its range, and
  when it succeeds the range holds the body; creating a file gives it the stated length.
\<close>

type_synonym 's effect = "http_request \<Rightarrow> bool \<Rightarrow> 's \<Rightarrow> 's \<Rightarrow> bool"

definition effect :: "string effect" where
  "effect req ok s s' \<longleftrightarrow>
     (\<forall>a d. range_put req = Some (a, d) \<longrightarrow> a + length d \<le> length s \<longrightarrow>
        length s' = length s
        \<and> (\<forall>i < length s. \<not> (a \<le> i \<and> i < a + length d) \<longrightarrow> s' ! i = s ! i)
        \<and> (ok \<longrightarrow> (\<forall>i < length d. s' ! (a + i) = d ! i)))
     \<and> (\<forall>n. file_create req = Some n \<longrightarrow> ok \<longrightarrow> length s' = n)"

lemma effect_weaken: "effect req ok s s' \<Longrightarrow> (ok' \<Longrightarrow> ok) \<Longrightarrow> effect req ok' s s'"
  by (auto simp: effect_def)

lemma effect_range:
  assumes "effect req ok s s'" and "range_put req = Some (a, d)" and "a + length d \<le> length s"
  shows "length s' = length s \<and> (\<forall>i < length s. \<not> (a \<le> i \<and> i < a + length d) \<longrightarrow> s' ! i = s ! i)
    \<and> (ok \<longrightarrow> (\<forall>i < length d. s' ! (a + i) = d ! i))"
  using assms by (simp add: effect_def)

lemma effect_refl [simp]: "effect req False s s"
  by (simp add: effect_def)

lemma effect_trans: "effect req False s s1 \<Longrightarrow> effect req ok s1 s2 \<Longrightarrow> effect req ok s s2"
  by (auto simp: effect_def)

text \<open>The stages leave alone what the service looks at.\<close>

definition same_order :: "http_request \<Rightarrow> http_request \<Rightarrow> bool" where
  "same_order r r' \<longleftrightarrow> range_put r = range_put r' \<and> file_create r = file_create r'"

lemma effect_same_order: "same_order r r' \<Longrightarrow> effect r ok s s' = effect r' ok s s'"
  by (simp add: effect_def same_order_def)

lemma same_order_intros:
  "same_order (with_timeout t r) r" "same_order (authorize d a r) r"
  "same_order (set_header ''User-Agent'' v r) r" "same_order (set_header xMsClientRequestID v r) r"
  by (simp_all add: same_order_def range_put_def file_create_def with_timeout_query hdr_authorize hdr_set_header
      canonical_stage_names)

section \<open>Stages\<close>

text \<open>
  The content of the file is a function of the part of the world that the log does not use.
\<close>

definition content :: "('a \<Rightarrow> 's) \<Rightarrow> 'a log_world_scheme \<Rightarrow> 's" where
  "content file w = file (log_world.more w)"

lemma content_log [simp]:
  "content file (w\<lparr>lg_try := t\<rparr>) = content file w" "content file (w\<lparr>lg_operationStart := t\<rparr>) = content file w"
  "content file (po_Log l e w) = content file w" "content file (ForceLog l e w) = content file w"
  "content file (requestLog_New w) = content file w"
  by (simp_all add: content_def po_Log_def ForceLog_def requestLog_New_def)

text \<open>The service behind the wire, and a stage that has turned bad statuses into errors.\<close>

definition wire_ok :: "'s effect \<Rightarrow> ('a \<Rightarrow> 's) \<Rightarrow> 'a log_world_scheme sender \<Rightarrow> bool" where
  "wire_ok E file wire \<longleftrightarrow>
     (\<forall>req w rep w'. wire req w = Return (rep, w') \<longrightarrow>
        E req (rp_error rep = None \<and> reply_status rep \<in> {Some 200, Some 201}) (content file w) (content file w'))"

definition stage_ok :: "'s effect \<Rightarrow> ('a \<Rightarrow> 's) \<Rightarrow> 'a log_world_scheme sender \<Rightarrow> bool" where
  "stage_ok E file s \<longleftrightarrow>
     (\<forall>req w rep w'. s req w = Return (rep, w') \<longrightarrow>
        E req (rp_error rep = None) (content file w) (content file w'))"

text \<open>The surroundings do not write to the file.\<close>

definition neutral :: "('a \<Rightarrow> 's) \<Rightarrow> 'a log_world_scheme host \<Rightarrow> bool" where
  "neutral file h \<longleftrightarrow>
     (\<forall>l m w. content file (h_log h l m w) = content file w)
     \<and> (\<forall>w. content file (snd (h_random h w)) = content file w)
     \<and> (\<forall>w. content file (snd (env_jitter (h_retry h) w)) = content file w)
     \<and> (\<forall>d w. content file (env_sleep (h_retry h) d w) = content file w)
     \<and> (\<forall>r w. content file (snd (env_rewind (h_retry h) r w)) = content file w)"

lemma discard_accepts:
  assumes "discard_responder lib codes v resp = Return rep" and "rp_error rep = None"
  shows "\<exists>r. resp = Some (Some r) \<and> rs_StatusCode r \<in> set codes"
  using assms
  by (auto simp: discard_responder_def validateResponse_def split: option.splits if_splits prod.splits)

lemma log_try_content:
  assumes "log_try shouldLog thr n logged start rep w = Return (rep', w')"
  shows "content file w' = content file w"
proof -
  define slow where "slow \<longleftrightarrow> thr > 0 \<and> time_Sub (lg_now w) start > thr"
  obtain level force where lf: "try_level slow rep = Return (level, force)"
    using assms unfolding log_try_def Let_def slow_def [symmetric] by (cases "try_level slow rep") auto
  from assms [unfolded log_try_def Let_def slow_def [symmetric] lf bind_exec.simps, simplified]
  show ?thesis by (auto split: if_splits option.splits)
qed

lemma retry_step_world:
  assumes "retry_step opts (env\<lparr>env_next := \<lambda>_. s\<rparr>) request st = Return res" and "\<not> rt_considerSecondary st"
    and "\<And>w. content file (snd (env_jitter env w)) = content file w"
    and "\<And>d w. content file (env_sleep env d w) = content file w"
    and "\<And>r w. content file (snd (env_rewind env r w)) = content file w"
  shows "\<exists>t w1 rep w2 st'. content file w1 = content file (rt_world st) \<and> s (with_timeout t request) w1 = Return (rep, w2)
     \<and> (res = Again st' \<or> res = Done st') \<and> rt_reply st' = rep \<and> rt_world st' = w2 \<and> \<not> rt_considerSecondary st'"
proof -
  let ?e = "env\<lparr>env_next := \<lambda>_. s\<rparr>"
  obtain j w where j: "env_jitter env (rt_world st) = (j, w)" by fastforce
  define delay where "delay = calcDelay (env_ovf env) j opts (wrap32 (rt_primaryTry st + 1))"
  obtain e w1 where e: "env_rewind env request (env_sleep env delay w) = (e, w1)" by fastforce
  define t where "t = try_timeout opts (env_deadline env w1)"
  from assms(1) obtain rep w2 where s: "s (with_timeout t request) w1 = Return (rep, w2)"
    and f: "finish_try env True delay t (with_timeout t request) rep w2
      (st\<lparr>rt_primaryTry := wrap32 (rt_primaryTry st + 1)\<rparr>) = Return res"
    by (cases e) (auto simp: retry_step_def Let_def assms(2) j e delay_def [symmetric] t_def [symmetric])
  have "content file w1 = content file (rt_world st)"
    using assms(3) [of "rt_world st"] assms(4) [of delay w] assms(5) [of request "env_sleep env delay w"]
    by (simp add: j e)
  moreover from f assms(2) obtain st' where "res = Again st' \<or> res = Done st'" "rt_reply st' = rep" "rt_world st' = w2"
    "\<not> rt_considerSecondary st'" by (auto elim!: finish_try_cases)
  ultimately show ?thesis using s by blast
qed

text \<open>
  What the policies need of an effect: success is the stronger statement, doing nothing is a
  failed try, a failed try may precede another one, and the headers and the parameter the
  policies set are none of its business.
\<close>

locale pipeline_effect =
  fixes E :: "'s effect"
  assumes weaken: "E req ok s s' \<Longrightarrow> (ok' \<Longrightarrow> ok) \<Longrightarrow> E req ok' s s'"
    and no_change: "E req False s s"
    and trans: "E req False s s1 \<Longrightarrow> E req ok s1 s2 \<Longrightarrow> E req ok s s2"
    and timeout: "E (with_timeout t r) ok s s' = E r ok s s'"
    and authorized: "E (authorize d a r) ok s s' = E r ok s s'"
    and agent: "E (set_header ''User-Agent'' v r) ok s s' = E r ok s s'"
    and ident: "E (set_header xMsClientRequestID v r) ok s s' = E r ok s s'"
begin

lemma stage_okD:
  "stage_ok E file s \<Longrightarrow> s req w = Return (rep, w') \<Longrightarrow>
     E req (rp_error rep = None) (content file w) (content file w')"
  by (simp add: stage_ok_def)

lemma stage_responder:
  assumes "wire_ok E file wire"
  shows "stage_ok E file (responderPolicy_Do (discard_responder lib [200, 201] v) wire)"
  unfolding stage_ok_def
proof (intro allI impI)
  fix req w rep w'
  assume "responderPolicy_Do (discard_responder lib [200, 201] v) wire req w = Return (rep, w')"
  then obtain rep0 where wire: "wire req w = Return (rep0, w')"
    and rep: "if rp_error rep0 \<noteq> None then rep = rep0 else discard_responder lib [200, 201] v (rp_response rep0) = Return rep"
    by (auto simp: responderPolicy_Do_def split: if_splits)
  have "E req (rp_error rep0 = None \<and> reply_status rep0 \<in> {Some 200, Some 201}) (content file w) (content file w')"
    using assms wire unfolding wire_ok_def by blast
  then show "E req (rp_error rep = None) (content file w) (content file w')"
  proof (rule weaken)
    assume "rp_error rep = None"
    with rep show "rp_error rep0 = None \<and> reply_status rep0 \<in> {Some 200, Some 201}"
      using discard_accepts [of lib "[200, 201]" v "rp_response rep0" rep] by (auto simp: reply_status_def split: if_splits)
  qed
qed

lemma stage_log:
  assumes "stage_ok E file s"
  shows "stage_ok E file (requestLog_Do u p l opts s)"
  unfolding stage_ok_def
proof (intro allI impI)
  fix req w rep w'
  assume run: "requestLog_Do u p l opts s req w = Return (rep, w')"
  define t where "t = wrap32 (lg_try w + 1)"
  define w1 where "w1 = (if l LogInfo then po_Log LogInfo (OutgoingRequest t (prepareRequestForLogging u p req))
      (w\<lparr>lg_try := t\<rparr>) else w\<lparr>lg_try := t\<rparr>)"
  from run obtain rep1 w2 where s: "s req w1 = Return (rep1, w2)"
    and fin: "log_try l (rlo_LogWarningIfTryOverThreshold (RequestLogOptions_defaults opts)) t
      (prepareRequestForLogging u p req) (lg_now w1) rep1 w2 = Return (rep, w')"
    unfolding requestLog_Do_def Let_def t_def [symmetric] w1_def [symmetric] by (cases "s req w1") auto
  have "content file w1 = content file w" by (simp add: w1_def)
  moreover have "content file w' = content file w2" using fin by (rule log_try_content)
  ultimately
  show "E req (rp_error rep = None) (content file w) (content file w')"
    using stage_okD [OF assms s] log_try_entries(1) [OF fin] by simp
qed

lemma stage_shared_key:
  assumes "stage_ok E file s" and "\<And>l m w. content file (lg l m w) = content file w"
  shows "stage_ok E file (SharedKeyCredential_New u mac now lg f s)"
  unfolding stage_ok_def
proof (intro allI impI)
  fix req w rep w'
  assume "SharedKeyCredential_New u mac now lg f s req w = Return (rep, w')"
  then obtain sts w1 where s: "s (authorize (now w) (auth_header mac f sts) req) w = Return (rep, w1)"
    and w': "content file w' = content file w1"
    using assms(2) by (auto simp: SharedKeyCredential_New_def Let_def authorize_def split: if_splits)
  from stage_okD [OF assms(1) s] w' show "E req (rp_error rep = None) (content file w) (content file w')"
    by (simp add: authorized)
qed

lemma stage_credential:
  assumes "stage_ok E file s" and "neutral file h" and "\<And>p. c \<noteq> CredentialFunc p"
  shows "stage_ok E file (credential_stage h c s)"
proof (cases c)
  case (SharedKey f)
  with assms(1,2) show ?thesis
    by (simp add: credential_stage_def credential_New_def stage_shared_key neutral_def)
qed (use assms in \<open>simp_all add: credential_stage_def\<close>)

lemma retry_loop_effect:
  assumes "retry_loop opts (env\<lparr>env_next := \<lambda>_. s\<rparr>) request st = Some (Return st')" and "stage_ok E file s"
    and "\<And>w. content file (snd (env_jitter env w)) = content file w"
    and "\<And>d w. content file (env_sleep env d w) = content file w"
    and "\<And>r w. content file (snd (env_rewind env r w)) = content file w"
    and "\<not> rt_considerSecondary st" and "E request False c0 (content file (rt_world st))"
    and "\<not> rt_try st \<le> ro_MaxTries opts \<Longrightarrow>
      E request (rp_error (rt_reply st) = None) c0 (content file (rt_world st))"
  shows "E request (rp_error (rt_reply st') = None) c0 (content file (rt_world st'))"
proof -
  let ?e = "env\<lparr>env_next := \<lambda>_. s\<rparr>"
  let ?full = "\<lambda>st. E request (rp_error (rt_reply st) = None) c0 (content file (rt_world st))"
  let ?P = "\<lambda>p e r st y. e = ?e \<longrightarrow> r = request \<longrightarrow> p = opts \<longrightarrow> \<not> rt_considerSecondary st
    \<longrightarrow> E request False c0 (content file (rt_world st)) \<longrightarrow> (\<not> rt_try st \<le> ro_MaxTries opts \<longrightarrow> ?full st)
    \<longrightarrow> (\<forall>st'. y = Return st' \<longrightarrow> ?full st')"
  have "?P opts ?e request st (Return st')"
  proof (rule retry_loop.raw_induct [where P = ?P, OF _ assms(1)], intro impI allI)
    fix loop p e r st y st'
    assume IH: "\<And>p e r st y. loop p e r st = Some y \<Longrightarrow> ?P p e r st y"
      and run: "(if rt_try st \<le> ro_MaxTries p then
        (case retry_step p e r st of
           Return (Again st') \<Rightarrow> loop p e r st' | Return (Done st') \<Rightarrow> Some (Return st') | Panic m \<Rightarrow> Some (Panic m))
        else Some (Return st)) = Some y"
      and eq: "e = ?e" "r = request" "p = opts" and prim: "\<not> rt_considerSecondary st"
      and so_far: "E request False c0 (content file (rt_world st))" "\<not> rt_try st \<le> ro_MaxTries opts \<longrightarrow> ?full st"
      and y: "y = Return st'"
    show "?full st'"
    proof (cases "rt_try st \<le> ro_MaxTries opts")
      case True
      with run eq y obtain res where res: "retry_step opts ?e request st = Return res"
        by (cases "retry_step opts ?e request st") auto
      from retry_step_world [OF this prim assms(3-5)] obtain t w1 rep w2 st1 where
        w1: "content file w1 = content file (rt_world st)" and s: "s (with_timeout t request) w1 = Return (rep, w2)"
        and st1: "res = Again st1 \<or> res = Done st1" "rt_reply st1 = rep" "rt_world st1 = w2" "\<not> rt_considerSecondary st1"
        by blast
      have "E request (rp_error rep = None) (content file (rt_world st)) (content file w2)"
        using stage_okD [OF assms(2) s] by (simp add: w1 timeout)
      with so_far(1) have full: "?full st1" using st1 by (auto intro: trans)
      then have "E request False c0 (content file (rt_world st1))" by (rule weaken) simp
      with full st1 IH [of opts ?e request st1 "Return st'"] run eq y True res show ?thesis by auto
    qed (use run eq y so_far(2) in auto)
  qed
  with assms(6-8) show ?thesis by blast
qed

lemma stage_retry:
  assumes "stage_ok E file s" and "neutral file h" and "0 \<le> ro_MaxTries opts"
  shows "stage_ok E file (retry_Do opts (h_retry h) s)"
  unfolding stage_ok_def
proof (intro allI impI)
  fix req w rep w'
  assume "retry_Do opts (h_retry h) s req w = Return (rep, w')"
  then obtain st where st: "retry_loop (RetryOptions_defaults opts) ((h_retry h)\<lparr>env_next := \<lambda>_. s\<rparr>) req
      (initial_state (RetryOptions_defaults opts) req w) = Some (Return st)" "rep = rt_reply st" "w' = rt_world st"
    by (auto simp: retry_Do_def retry_policy_def Let_def split: option.splits exec.splits)
  have "1 \<le> ro_MaxTries (RetryOptions_defaults opts)"
    using assms(3) by (simp add: RetryOptions_defaults_def Let_def)
  moreover have "E req False (content file w) (content file w)" by (rule no_change)
  ultimately show "E req (rp_error rep = None) (content file w) (content file w')"
    unfolding st(2,3) using assms(2)
    by (intro retry_loop_effect [OF st(1) assms(1)])
      (simp_all add: neutral_def initial_state_def retryReadsFromSecondaryHost_def)
qed

lemma pipeline_stage:
  assumes "builds wire pipeline" and "wire_ok E file wire" and "neutral file h" and "\<And>p. c \<noteq> CredentialFunc p"
    and "0 \<le> ro_MaxTries (plo_Retry opts)"
  shows "stage_ok E file (NewPipeline pipeline h c opts (responderPolicy_Do (discard_responder lib [200, 201] v)))"
  unfolding stage_ok_def
proof (intro allI impI)
  fix req w rep w'
  let ?s = "retry_Do (plo_Retry opts) (h_retry h) (credential_stage h c
    (requestLog_Do (h_unicode h) (h_parse h) (plo_ShouldLog opts) (plo_RequestLog opts)
      (responderPolicy_Do (discard_responder lib [200, 201] v) wire)))"
  assume run: "NewPipeline pipeline h c opts (responderPolicy_Do (discard_responder lib [200, 201] v)) req w = Return (rep, w')"
  have s: "stage_ok E file ?s"
    using assms(2-5) by (intro stage_retry stage_credential stage_log stage_responder)
  have "content file (snd (h_random h w)) = content file w" for w
    using assms(3) by (simp add: neutral_def)
  moreover obtain r x where "?s r x = Return (rep, w')" "\<And>ok s s'. E r ok s s' = E req ok s s'"
    "x = requestLog_New w \<or> x = snd (h_random h (requestLog_New w))"
    using run agent ident unfolding NewPipeline_eq [OF assms(1)]
    by (auto simp: telemetry_Do_def uniqueRequestID_Do_def Let_def split: if_splits prod.splits)
  ultimately show "E req (rp_error rep = None) (content file w) (content file w')"
    using stage_okD [OF s, of r x rep w'] by auto
qed

end

interpretation fileEffect: pipeline_effect effect
  by unfold_locales
    (auto intro: effect_weaken effect_trans simp: effect_same_order [OF same_order_intros(1)]
      effect_same_order [OF same_order_intros(2)] effect_same_order [OF same_order_intros(3)]
      effect_same_order [OF same_order_intros(4)])

section \<open>Transfers seen through a part of the world\<close>

definition view :: "('w \<Rightarrow> 's) \<Rightarrow> ('w, 'e) batch_state \<Rightarrow> ('s, 'e) batch_state" where
  "view g s = \<lparr>bt_next = bt_next s, bt_caller = bt_caller s, bt_closed = bt_closed s, bt_queue = bt_queue s,
     bt_workers = bt_workers s, bt_responses = bt_responses s, bt_received = bt_received s,
     bt_finished = bt_finished s, bt_world = g (bt_world s)\<rparr>"

definition seen :: "('w \<Rightarrow> 's) \<Rightarrow> ('w, 'e) operation \<Rightarrow> ('s, 'e) operation" where
  "seen g op offset n s r s' \<longleftrightarrow> (\<exists>w w'. g w = s \<and> g w' = s' \<and> op offset n w r w')"

lemma view_fields [simp]:
  "bt_next (view g s) = bt_next s" "bt_caller (view g s) = bt_caller s" "bt_closed (view g s) = bt_closed s"
  "bt_queue (view g s) = bt_queue s" "bt_workers (view g s) = bt_workers s"
  "bt_responses (view g s) = bt_responses s" "bt_received (view g s) = bt_received s"
  "bt_finished (view g s) = bt_finished s" "bt_world (view g s) = g (bt_world s)"
  by (simp_all add: view_def)

lemma view_init: "view g (batch_init opts w) = batch_init opts (g w)"
  by (simp add: view_def batch_init_def)

lemma view_updates:
  "view g (s\<lparr>bt_next := a\<rparr>) = (view g s)\<lparr>bt_next := a\<rparr>" "view g (s\<lparr>bt_caller := b\<rparr>) = (view g s)\<lparr>bt_caller := b\<rparr>"
  "view g (s\<lparr>bt_closed := c\<rparr>) = (view g s)\<lparr>bt_closed := c\<rparr>" "view g (s\<lparr>bt_queue := d\<rparr>) = (view g s)\<lparr>bt_queue := d\<rparr>"
  "view g (s\<lparr>bt_workers := e\<rparr>) = (view g s)\<lparr>bt_workers := e\<rparr>"
  "view g (s\<lparr>bt_responses := f\<rparr>) = (view g s)\<lparr>bt_responses := f\<rparr>"
  "view g (s\<lparr>bt_received := a\<rparr>) = (view g s)\<lparr>bt_received := a\<rparr>"
  "view g (s\<lparr>bt_finished := h\<rparr>) = (view g s)\<lparr>bt_finished := h\<rparr>"
  "view g (s\<lparr>bt_world := w\<rparr>) = (view g s)\<lparr>bt_world := g w\<rparr>"
  by (simp_all add: view_def)

lemma batch_step_view:
  assumes "batch_step opts op s s'"
  shows "batch_step opts (seen g op) (view g s) (view g s')"
  using assms
proof cases
  case send
  then show ?thesis using batch_step.send [of "view g s" opts "seen g op"] by (simp add: view_updates)
next
  case closeChannel
  then show ?thesis using batch_step.closeChannel [of "view g s" opts "seen g op"] by (simp add: view_updates)
next
  case (take x c q)
  then show ?thesis using batch_step.take [of x "view g s" c q opts "seen g op"] by (simp add: view_updates)
next
  case (exit x)
  then show ?thesis using batch_step.exit [of x "view g s" opts "seen g op"] by (simp add: view_updates)
next
  case (run x c r w')
  then have "seen g op (chunk_offset opts c) (chunk_size opts c) (bt_world (view g s)) r (g w')"
    by (auto simp: seen_def)
  with run show ?thesis using batch_step.run [of x "view g s" c "seen g op" opts r "g w'"] by (simp add: view_updates)
next
  case (respond x c r)
  then show ?thesis using batch_step.respond [of x "view g s" c r opts "seen g op"] by (simp add: view_updates)
next
  case (receive rs)
  then show ?thesis using batch_step.receive [of "view g s" opts rs "seen g op"] by (simp add: view_updates)
next
  case (fail err rs)
  then show ?thesis using batch_step.fail [of "view g s" opts err rs "seen g op"] by (simp add: view_updates)
next
  case succeed
  then show ?thesis using batch_step.succeed [of "view g s" opts "seen g op"] by (simp add: view_updates)
qed

lemma batch_reach_view:
  assumes "batch_reach opts op s0 s k"
  shows "batch_reach opts (seen g op) (view g s0) (view g s) k"
  using assms
  by (induction rule: batch_reach.induct) (auto intro: batch_reach.intros batch_step_view)

lemma doBatchTransfer_view:
  assumes "doBatchTransfer opts op w res w'"
  shows "doBatchTransfer opts (seen g op) (g w) res (g w')"
proof -
  from assms obtain s k where s: "batch_reach opts op (batch_init opts w) s k" "bt_caller s = Returned res" "bt_world s = w'"
    unfolding doBatchTransfer_def by blast
  from batch_reach_view [OF s(1), of g] s(2,3) show ?thesis
    unfolding doBatchTransfer_def view_init by (intro exI [of _ "view g s"] exI [of _ k]) simp
qed

section \<open>The operations of the file URL\<close>

text \<open>
  \<open>FileURL.Create\<close> and \<open>FileURL.UploadRange\<close> as the transfer calls them, the latter on a reader
  over the slice of the buffer. \<open>err_of\<close> is the error interface value of a failed call.
\<close>

definition client_create ::
    "lib \<Rightarrow> (api_error \<Rightarrow> go_error) \<Rightarrow> 'w FileURL \<Rightarrow> 'w create_op" where
  "client_create lib err_of f sz h metadata w r w' \<longleftrightarrow>
     (\<exists>resp err. FileURL_Create lib f sz h metadata w = Return ((resp, err), w') \<and> r = map_option err_of err)"

definition client_upload :: "lib \<Rightarrow> (api_error \<Rightarrow> go_error) \<Rightarrow> 'w FileURL \<Rightarrow> 'w upload_range_op" where
  "client_upload lib err_of f offset d w r w' \<longleftrightarrow>
     (\<exists>resp err. FileURL_UploadRange lib bytes_Seek br_s f offset (Some (bytes_NewReader d)) None w = Return ((resp, err), w')
        \<and> r = map_option err_of err)"

lemma timeout_check_None: "validate regexp [timeout_check None] = Return None"
  using validate_optional_minimum [of regexp None "''timeout''" 0] by (simp add: timeout_check_def)

lemma client_call_sends:
  assumes "client_call lib client [timeout_check None] (req, None) responder is_type w = Return ((resp, err), w')"
  shows "\<exists>rep. mc_p client (responderPolicy_Do responder) req w = Return (rep, w') \<and> (err = None \<longrightarrow> rp_error rep = None)"
  using assms
  by (auto simp: client_call_def timeout_check_None split: option.splits if_splits prod.splits)

lemma upload_request:
  assumes "new_request_ok lib" and "0 \<le> offset" and "d \<noteq> []" and "offset + int (length d) \<le> 2 ^ 63"
  shows "\<exists>req. fileClient_uploadRangePreparer lib f (toRange offset (int (length d))) FileRangeWriteUpdate (int (length d))
      (Some d) None None = (req, None) \<and> range_put req = Some (nat offset, d)"
proof -
  obtain r where r: "rq_Method r = ''PUT''" "rq_URL r = mc_url f" "rq_Body r = Some d"
    "\<And>k. start_request lib ''PUT'' f (Some d) k = k r"
    by (rule start_request_ok [OF assms(1), of "''PUT''" f "Some d"]) blast
  have n: "int (length d) \<noteq> CountToEnd" using assms(3) by (simp add: CountToEnd_def)
  have "read_range (toRange offset (int (length d))) = Some (nat offset, Some (nat (offset + int (length d) - 1)))"
    using toRange_denotes [OF assms(2) _ assms(4)] n by simp
  moreover have "Suc (nat (offset + int (length d) - 1)) = nat offset + length d"
    using assms(2,3) by (cases d) auto
  moreover have "params_ok (Values_Set (opt_param ''timeout'' None (URL_Query (rq_URL r))) ''comp'' ''range'')" by simp
  ultimately show ?thesis
    by (simp add: fileClient_uploadRangePreparer_def r Let_def range_put_def hdr_set_header param_set_query
        map_of_Values_Set map_of_opt_param opt_header_def)
qed

lemma create_request:
  assumes "new_request_ok lib" and "0 \<le> sz"
  shows "\<exists>req. fileClient_createPreparer lib f sz None ct ce cl cc cm cd metadata = (req, None)
     \<and> file_create req = Some (nat sz)"
proof -
  obtain r where r: "rq_Method r = ''PUT''" "rq_URL r = mc_url f" "rq_Body r = None"
    "\<And>k. start_request lib ''PUT'' f None k = k r"
    by (rule start_request_ok [OF assms(1), of "''PUT''" f None]) blast
  have "not_meta ''x-ms-type''" "not_meta ''x-ms-content-length''" by (simp_all add: not_meta_def)
  with assms(2) show ?thesis
    by (simp add: fileClient_createPreparer_def r Let_def file_create_def hdr_set_header hdr_metadata_headers FormatInt_def)
qed

lemma count_new_reader:
  "validateSeekableStreamAt0AndGetCount bytes_Seek (Some (bytes_NewReader d)) = Return (int (length d), Some (bytes_NewReader d))"
  using bytesReader.get_count_ok [of "bytes_NewReader d"] by (auto simp: bytes_reader_ok_def bytes_NewReader_def)

text \<open>A client whose pipeline reports success only for requests the service has carried out.\<close>

definition honest :: "('a \<Rightarrow> string) \<Rightarrow> lib \<Rightarrow> 'a log_world_scheme FileURL \<Rightarrow> bool" where
  "honest file lib f \<longleftrightarrow> (\<forall>v. stage_ok effect file (mc_p f (responderPolicy_Do (discard_responder lib [200, 201] v))))"

lemma honestD:
  assumes "honest file lib f"
    and "mc_p f (responderPolicy_Do (discard_responder lib [200, 201] v)) req w = Return (rep, w')"
  shows "effect req (rp_error rep = None) (content file w) (content file w')"
  using assms fileEffect.stage_okD unfolding honest_def by blast

lemma br_s_new_reader [simp]: "br_s (bytes_NewReader d) = d"
  by (simp add: bytes_NewReader_def)

lemma client_create_effect:
  assumes "client_create lib err_of f sz h metadata w None w'" and "honest file lib f" and "new_request_ok lib" and "0 \<le> sz"
  shows "int (length (content file w')) = sz"
proof -
  from assms(1) obtain resp where run: "FileURL_Create lib f sz h metadata w = Return ((resp, None), w')"
    by (auto simp: client_create_def)
  obtain req where req: "fileClient_createPreparer lib f sz None (Some (fh_ContentType h)) (Some (fh_ContentEncoding h))
      (Some (fh_ContentLanguage h)) (Some (fh_CacheControl h)) (fh_ContentMD5 h) (Some (fh_ContentDisposition h)) metadata
      = (req, None)" "file_create req = Some (nat sz)"
    using create_request [OF assms(3,4)] by blast
  from run obtain rep where rep: "mc_p f (responderPolicy_Do (discard_responder lib [200, 201] FileCreateResponse)) req w = Return (rep, w')"
    "rp_error rep = None"
    using client_call_sends by (fastforce simp: FileURL_Create_def fileClient_Create_def fileClient_createResponder_def req)
  have "effect req True (content file w) (content file w')"
    using honestD [OF assms(2) rep(1)] rep(2) by simp
  with req(2) assms(4) show ?thesis by (simp add: effect_def)
qed

lemma client_upload_effect:
  assumes "client_upload lib err_of f offset d w r w'" and "honest file lib f" and "new_request_ok lib"
    and "0 \<le> offset" and "offset + int (length d) \<le> 2 ^ 63" and "offset + int (length d) \<le> int (length (content file w))"
  shows "length (content file w') = length (content file w)
    \<and> (\<forall>i < length (content file w). \<not> (offset \<le> int i \<and> int i < offset + int (length d)) \<longrightarrow>
         content file w' ! i = content file w ! i)
    \<and> (r = None \<longrightarrow> (\<forall>i < length d. content file w' ! (nat offset + i) = d ! i))"
proof (cases "d = []")
  case True
  with assms(1) show ?thesis
    by (auto simp: client_upload_def FileURL_UploadRange_def count_new_reader)
next
  case False
  from assms(1) obtain resp err where
    run: "FileURL_UploadRange lib bytes_Seek br_s f offset (Some (bytes_NewReader d)) None w = Return ((resp, err), w')"
    and r: "r = map_option err_of err" by (auto simp: client_upload_def)
  obtain req where req: "fileClient_uploadRangePreparer lib f (toRange offset (int (length d))) FileRangeWriteUpdate
      (int (length d)) (Some d) None None = (req, None)" "range_put req = Some (nat offset, d)"
    using upload_request [OF assms(3,4) False assms(5)] by blast
  have "client_call lib f [timeout_check None] (req, None) (discard_responder lib [200, 201] FileUploadRangeResponse)
      ((=) FileUploadRangeResponse) w = Return ((resp, err), w')"
    using run False by (simp add: FileURL_UploadRange_def count_new_reader fileClient_UploadRange_def req
        fileClient_uploadRangeResponder_def)
  from client_call_sends [OF this] obtain rep where
    rep: "mc_p f (responderPolicy_Do (discard_responder lib [200, 201] FileUploadRangeResponse)) req w = Return (rep, w')"
    "err = None \<longrightarrow> rp_error rep = None" by blast
  have "effect req (rp_error rep = None) (content file w) (content file w')"
    using assms(2) rep(1) by (rule honestD)
  then have "effect req (r = None) (content file w) (content file w')"
    by (rule effect_weaken) (use r rep(2) in simp)
  moreover have "nat offset + length d \<le> length (content file w)" using assms(4,6) by linarith
  ultimately have range: "length (content file w') = length (content file w)
      \<and> (\<forall>i < length (content file w). \<not> (nat offset \<le> i \<and> i < nat offset + length d) \<longrightarrow>
          content file w' ! i = content file w ! i)
      \<and> (r = None \<longrightarrow> (\<forall>i < length d. content file w' ! (nat offset + i) = d ! i))"
    using effect_range req(2) by blast
  have "(nat offset \<le> i \<and> i < nat offset + length d) = (offset \<le> int i \<and> int i < offset + int (length d))" for i
    using assms(4) by linarith
  with range show ?thesis by simp
qed

section \<open>The upload\<close>

lemma range_op_client:
  assumes "honest file lib f" and "new_request_ok lib" and "int (length b) < 2 ^ 63"
  shows "range_op b (seen (content file) (upload_op (client_upload lib err_of f) b))"
  unfolding range_op_def
proof (intro allI impI)
  fix offset n s r s'
  assume "seen (content file) (upload_op (client_upload lib err_of f) b) offset n s r s'"
    and o: "0 \<le> offset" "0 \<le> n" "offset + n \<le> int (length b)" and len: "length s = length b"
  then obtain w w' where w: "content file w = s" "content file w' = s'"
    and up: "client_upload lib err_of f offset (slice b offset n) w r w'"
    by (auto simp: seen_def upload_op_def)
  have d: "int (length (slice b offset n)) = n" using o by (simp add: slice_def)
  have "length s' = length s
    \<and> (\<forall>i < length s. \<not> (offset \<le> int i \<and> int i < offset + n) \<longrightarrow> s' ! i = s ! i)
    \<and> (r = None \<longrightarrow> (\<forall>i < length (slice b offset n). s' ! (nat offset + i) = slice b offset n ! i))"
    using client_upload_effect [OF up assms(1,2) o(1)] o len assms(3) by (simp add: w d)
  moreover have "s' ! i = b ! i"
    if "\<forall>i < length (slice b offset n). s' ! (nat offset + i) = slice b offset n ! i"
      "i < length b" "offset \<le> int i" "int i < offset + n" for i
  proof -
    have "i - nat offset < length (slice b offset n)" using that o d by linarith
    with that o show ?thesis by (auto simp: slice_def dest!: spec [of _ "i - nat offset"])
  qed
  ultimately show "length s' = length b
      \<and> (\<forall>i < length b. \<not> (offset \<le> int i \<and> int i < offset + n) \<longrightarrow> s' ! i = s ! i)
      \<and> (r = None \<longrightarrow> (\<forall>i < length b. offset \<le> int i \<and> int i < offset + n \<longrightarrow> s' ! i = b ! i))"
    using len by simp
qed

lemma upload_honest_client:
  assumes "UploadBufferToAzureFile (client_create lib err_of f) (client_upload lib err_of f) b o' w None w'"
    and "honest file lib f" and "new_request_ok lib" and "int (length b) < 2 ^ 63"
  shows "content file w' = b"
proof -
  from assms(1) obtain w1 where rs: "0 \<le> uo_RangeSize o'" "uo_RangeSize o' \<le> FileMaxUploadRangeBytes"
    and c: "client_create lib err_of f (int (length b)) (uo_FileHTTPHeaders o') (uo_Metadata o') w None w1"
    and rest: "if length b = 0 then w' = w1 else doBatchTransfer (upload_batch o' (int (length b)))
      (upload_op (client_upload lib err_of f) b) w1 None w'"
    by (auto simp: UploadBufferToAzureFile_def Let_def split: if_splits option.splits)
  have len: "length (content file w1) = length b" using client_create_effect [OF c assms(2,3)] by simp
  show ?thesis
  proof (cases "length b = 0")
    case True
    with rest len show ?thesis by simp
  next
    case False
    then have ok: "batch_ok (upload_batch o' (int (length b)))"
      using rs assms(4) by (intro batch_ok_upload) auto
    from False rest have "doBatchTransfer (upload_batch o' (int (length b)))
        (upload_op (client_upload lib err_of f) b) w1 None w'" by simp
    then have "doBatchTransfer (upload_batch o' (int (length b)))
        (seen (content file) (upload_op (client_upload lib err_of f) b)) (content file w1) None (content file w')"
      by (rule doBatchTransfer_view)
    then show ?thesis
    proof (rule doBatchTransfer_copies [OF _ ok range_op_client [OF assms(2-4)]])
      show "int (length (content file w1)) = bto_transferSize (upload_batch o' (int (length b)))"
        using len by (simp add: upload_batch_def)
    qed (use len in simp)
  qed
qed

text \<open>
  C1: An upload that reports success has stored the buffer, from \<open>UploadBufferToAzureFile\<close> down
  to the wire: through the requests the generated client prepares, the policies \<open>NewPipeline\<close>
  stacks, retries included, and the validation of the responses. All that is assumed of the
  service is that a range write changes nothing outside its range and that a request answered
  with 200 or 201 has been carried out; a request that failed, or whose answer was lost, may
  have left anything in its range.
\<close>

theorem upload_through_pipeline:
  assumes "builds wire pipeline" and "wire_ok effect file wire" and "neutral file h" and "\<And>p. c \<noteq> CredentialFunc p"
    and "0 \<le> ro_MaxTries (plo_Retry opts)" and "new_request_ok lib" and "int (length b) < 2 ^ 63"
    and "f = NewFileURL url (NewPipeline pipeline h c opts)"
    and "UploadBufferToAzureFile (client_create lib err_of f) (client_upload lib err_of f) b o' w None w'"
  shows "content file w' = b"
proof -
  have "honest file lib f"
    using fileEffect.pipeline_stage [OF assms(1-5)]
    by (simp add: honest_def assms(8) NewFileURL_def newManagementClient_def)
  from upload_honest_client [OF assms(9) this assms(6,7)] show ?thesis .
qed

section \<open>A service\<close>

text \<open>A service that keeps one file in the world and refuses what is neither order or both.\<close>

definition refused_reply :: reply where
  "refused_reply = \<lparr>rp_response = Some (Some \<lparr>rs_StatusCode = 400, rs_Status = [], rs_Header = [],
      rs_Body = Some \<lparr>b_data = [], b_error = None\<rparr>\<rparr>), rp_value = HTTPResponse, rp_error = None\<rparr>"

definition store_wire :: "string log_world_scheme sender" where
  "store_wire req w =
     (case (file_create req, range_put req) of
        (Some n, None) \<Rightarrow> Return (created_reply, log_world.more_update (\<lambda>_. replicate n (CHR 0x00)) w)
      | (None, Some (a, d)) \<Rightarrow>
          Return (created_reply, log_world.more_update (\<lambda>s. take a s @ d @ drop (a + length d) s) w)
      | _ \<Rightarrow> Return (refused_reply, w))"

lemma content_more_update [simp]: "content (\<lambda>s. s) (log_world.more_update g w) = g (content (\<lambda>s. s) w)"
  by (simp add: content_def)

lemma store_wire_ok: "wire_ok effect (\<lambda>s. s) store_wire"
  unfolding wire_ok_def
proof (intro allI impI)
  fix req w rep w'
  assume "store_wire req w = Return (rep, w')"
  then show "effect req (rp_error rep = None \<and> reply_status rep \<in> {Some 200, Some 201})
      (content (\<lambda>s. s) w) (content (\<lambda>s. s) w')"
    by (auto simp: store_wire_def effect_def nth_append refused_reply_def reply_status_def split: option.splits prod.splits)
qed

definition store_host :: "string log_world_scheme host" where
  "store_host = \<lparr>h_unicode = ascii_tables, h_mac = example_mac, h_parse = (\<lambda>_. None),
     h_platform = \<lparr>pf_GOOS = ''linux'', pf_Version = ''go1.10'', pf_OS = []\<rparr>,
     h_date = (\<lambda>w. ''Mon, 02 Jan 2006 15:04:05 GMT''), h_log = (\<lambda>l m w. w),
     h_random = (\<lambda>w. (replicate 16 0, w)), h_retry = example_retry\<rparr>"

lemma store_host_neutral: "neutral (\<lambda>s. s) store_host"
  by (simp add: neutral_def store_host_def example_retry_def)

definition store_pipeline :: "string log_world_scheme pipeline" where
  "store_pipeline = NewPipeline (example_pipeline store_wire) store_host AnonymousCredential example_pipeline_options"

lemma retry_Do_success:
  assumes "\<And>t. next (with_timeout t req) w = Return (rep, w')" and "rp_error rep = None" and "has_response rep"
  shows "retry_Do (plo_Retry example_pipeline_options) example_retry next req w = Return (rep, w')"
proof -
  have "retry_action b True rep = (''NoRetry: successful HTTP request'', False) \<or> hd (fst (retry_action b True rep)) \<noteq> CHR ''R''" for b
    using assms(2) by (simp add: retry_action_def split: if_splits)
  with assms show ?thesis
    unfolding retry_Do_def retry_policy_def Let_def
    by (subst retry_loop.simps)
      (simp add: retry_step_def initial_state_def retryReadsFromSecondaryHost_def example_retry_def Let_def finish_try_def
        RetryOptions_defaults_def example_pipeline_options_def IfDefault_def retry_action_def)
qed

lemma quiet_log_stage:
  assumes "s req (w\<lparr>lg_try := wrap32 (lg_try w + 1)\<rparr>) = Return (rep, w')" and "rp_error rep = None"
    and "reply_status rep = Some n" and "n < 400"
  shows "requestLog_Do u p (\<lambda>_. False) \<lparr>rlo_LogWarningIfTryOverThreshold = - 1\<rparr> s req w = Return (rep, w')"
proof -
  obtain r where "rp_response rep = Some (Some r)" "rs_StatusCode r = n"
    using assms(3) by (auto simp: reply_status_def split: option.splits)
  with assms(1,2,4) show ?thesis
    by (simp add: requestLog_Do_def Let_def RequestLogOptions_defaults_def log_try_def try_level_def error_status_def)
qed

text \<open>A request that is answered at the first try, with the same reply whatever the policies set.\<close>

lemma quiet_pipeline:
  assumes "h_retry h = example_retry" and reply: "\<And>w. \<exists>w'. \<forall>q. I q \<longrightarrow> m wire q w = Return (rep, w')" and "I req"
    and stages: "\<And>q t. I q \<Longrightarrow> I (with_timeout t q)" "\<And>q v. I q \<Longrightarrow> I (set_header ''User-Agent'' v q)"
      "\<And>q v. I q \<Longrightarrow> I (set_header xMsClientRequestID v q)"
    and rep: "rp_error rep = None" "reply_status rep = Some n" "n < 400"
  shows "\<exists>w'. NewPipeline (example_pipeline wire) h AnonymousCredential example_pipeline_options m req w = Return (rep, w')"
proof -
  let ?next = "requestLog_Do (h_unicode h) (h_parse h) (\<lambda>_. False) \<lparr>rlo_LogWarningIfTryOverThreshold = - 1\<rparr> (m wire)"
  have resp: "has_response rep" using rep(2) by (auto simp: reply_status_def has_response_def split: option.splits)
  have retry: "\<exists>w'. retry_Do (plo_Retry example_pipeline_options) example_retry ?next q w = Return (rep, w')" if "I q" for q w
  proof -
    obtain w' where w': "\<And>q. I q \<Longrightarrow> m wire q (w\<lparr>lg_try := wrap32 (lg_try w + 1)\<rparr>) = Return (rep, w')"
      using reply by blast
    have "?next (with_timeout t q) w = Return (rep, w')" for t
      using w' [OF stages(1) [OF that]] rep by (intro quiet_log_stage)
    then have "retry_Do (plo_Retry example_pipeline_options) example_retry ?next q w = Return (rep, w')"
      by (rule retry_Do_success) (rule rep(1) resp)+
    then show ?thesis by blast
  qed
  show ?thesis
    unfolding NewPipeline_eq [OF example_pipeline_builds]
    using retry [OF stages(3) [OF stages(2) [OF assms(3)]]] retry [OF stages(2) [OF assms(3)]]
    by (simp add: telemetry_Do_def uniqueRequestID_Do_def credential_stage_def assms(1) Let_def case_prod_beta
        example_pipeline_options_def)
qed

definition accepted :: "response_value \<Rightarrow> reply" where
  "accepted v = \<lparr>rp_response = Some (Some \<lparr>rs_StatusCode = 201, rs_Status = [], rs_Header = [], rs_Body = Some closed_body\<rparr>),
     rp_value = v, rp_error = None\<rparr>"

lemma accepted_simps:
  "rp_error (accepted v) = None" "reply_status (accepted v) = Some 201" "has_response (accepted v)"
  by (simp_all add: accepted_def reply_status_def has_response_def)

definition served :: "http_request \<Rightarrow> bool" where
  "served req \<longleftrightarrow> (file_create req = None) \<noteq> (range_put req = None)"

lemma store_responder:
  assumes "served req"
  shows "\<exists>w'. \<forall>req'. same_order req' req \<longrightarrow>
    responderPolicy_Do (discard_responder lib [200, 201] v) store_wire req' w = Return (accepted v, w')"
proof -
  obtain w' where w': "\<And>req'. same_order req' req \<Longrightarrow> store_wire req' w = Return (created_reply, w')"
    using assms by (cases "file_create req"; cases "range_put req") (auto simp: served_def store_wire_def same_order_def)
  have "discard_responder lib [200, 201] v (rp_response created_reply) = Return (accepted v)"
    by (simp add: discard_responder_def validateResponse_def created_reply_def accepted_def consumed_def)
  with w' show ?thesis by (intro exI [of _ w']) (simp add: responderPolicy_Do_def created_reply_def)
qed

lemma store_accepts:
  assumes "served req"
  shows "\<exists>w'. store_pipeline (responderPolicy_Do (discard_responder lib [200, 201] v)) req w = Return (accepted v, w')"
proof -
  have order: "same_order q req \<Longrightarrow> same_order (with_timeout t q) req" "same_order q req \<Longrightarrow> same_order (set_header ''User-Agent'' a q) req"
    "same_order q req \<Longrightarrow> same_order (set_header xMsClientRequestID a q) req" for q t a
    using same_order_intros by (simp_all add: same_order_def)
  show ?thesis
    unfolding store_pipeline_def
    by (rule quiet_pipeline [where I = "\<lambda>q. same_order q req"])
      (simp_all add: store_responder [OF assms] order accepted_simps store_host_def, simp_all add: same_order_def)
qed

definition store_file :: "string log_world_scheme FileURL" where
  "store_file = NewFileURL example_url store_pipeline"

lemma store_file_p [simp]: "mc_p store_file = store_pipeline"
  by (simp add: store_file_def NewFileURL_def newManagementClient_def)

lemma client_call_store:
  assumes "served req"
  shows "\<exists>resp w'. client_call lib store_file [timeout_check None] (req, None)
    (discard_responder lib [200, 201] v) ((=) v) w = Return ((Some resp, None), w')"
proof -
  obtain w' where "store_pipeline (responderPolicy_Do (discard_responder lib [200, 201] v)) req w = Return (accepted v, w')"
    using store_accepts [OF assms] by blast
  then show ?thesis by (simp add: client_call_def timeout_check_None accepted_def)
qed

lemma example_start: "start_request example_lib m client b k =
    k \<lparr>rq_Method = m, rq_URL = mc_url client, rq_Host = u_Host (mc_url client), rq_Header = [], rq_Body = b\<rparr>"
  by (simp add: start_request_def example_lib_def)

lemma Header_Get_Nil: "Header_Get [] k = []"
  by (simp add: Header_Get_def)

lemma store_create_order:
  "\<exists>req. fileClient_createPreparer example_lib store_file 2 None (Some []) (Some []) (Some []) (Some []) None (Some []) []
      = (req, None) \<and> served req"
proof -
  obtain req where req: "fileClient_createPreparer example_lib store_file 2 None (Some []) (Some []) (Some []) (Some []) None
      (Some []) [] = (req, None)" "file_create req = Some (nat 2)"
    using create_request [OF example_lib_ok(1), of 2 store_file "Some []" "Some []" "Some []" "Some []" None "Some []" "[]"]
    by auto
  have "hdr req ''x-ms-write'' = []"
    using req(1) by (auto simp: fileClient_createPreparer_def example_start Let_def hdr_set_header metadata_headers_def
        Header_Get_Nil)
  then have "range_put req = None" by (simp add: range_put_def FileRangeWriteUpdate_def)
  with req show ?thesis by (auto simp: served_def)
qed

lemma store_upload_order:
  "\<exists>req. fileClient_uploadRangePreparer example_lib store_file (toRange 0 2) FileRangeWriteUpdate 2 (Some ''hi'') None None
      = (req, None) \<and> served req"
proof -
  obtain req where req: "fileClient_uploadRangePreparer example_lib store_file (toRange 0 2) FileRangeWriteUpdate 2
      (Some ''hi'') None None = (req, None)" "range_put req = Some (0, ''hi'')"
    using upload_request [OF example_lib_ok(1), of 0 "''hi''" store_file] by auto
  have "hdr req ''x-ms-type'' = []"
    using req(1) by (auto simp: fileClient_uploadRangePreparer_def example_start Let_def hdr_set_header opt_header_def
        Header_Get_Nil)
  then have "file_create req = None" by (simp add: file_create_def)
  with req show ?thesis by (auto simp: served_def)
qed

definition no_headers :: FileHTTPHeaders where
  "no_headers = \<lparr>fh_ContentType = [], fh_ContentMD5 = None, fh_ContentEncoding = [], fh_ContentLanguage = [],
     fh_ContentDisposition = [], fh_CacheControl = []\<rparr>"

lemma store_create: "\<exists>w'. client_create example_lib err_of store_file 2 no_headers [] w None w'"
proof -
  obtain req where req: "fileClient_createPreparer example_lib store_file 2 None (Some []) (Some []) (Some []) (Some []) None
      (Some []) [] = (req, None)" "served req" using store_create_order by blast
  with client_call_store [OF req(2), of example_lib FileCreateResponse w] show ?thesis
    by (auto simp: client_create_def FileURL_Create_def fileClient_Create_def fileClient_createResponder_def no_headers_def)
qed

lemma store_upload: "\<exists>w'. client_upload example_lib err_of store_file 0 ''hi'' w None w'"
proof -
  obtain req where req: "fileClient_uploadRangePreparer example_lib store_file (toRange 0 2) FileRangeWriteUpdate 2
      (Some ''hi'') None None = (req, None)" "served req" using store_upload_order by blast
  with client_call_store [OF req(2), of example_lib FileUploadRangeResponse w] show ?thesis
    by (auto simp: client_upload_def FileURL_UploadRange_def fileClient_UploadRange_def count_new_reader
        fileClient_uploadRangeResponder_def)
qed

theorem upload_through_pipeline_witness:
  "\<exists>w'. UploadBufferToAzureFile (client_create example_lib (\<lambda>_. PlainErr []) store_file)
       (client_upload example_lib (\<lambda>_. PlainErr []) store_file) ''hi'' \<lparr>uo_RangeSize = 0, uo_Progress = False, uo_Parallelism = 1, uo_FileHTTPHeaders = no_headers, uo_Metadata = []\<rparr>
       \<lparr>lg_try = 0, lg_operationStart = 0, lg_now = 0, lg_log = [], lg_forced = [], \<dots> = ''old''\<rparr> None w'
     \<and> content (\<lambda>s. s) w' = ''hi''"
proof -
  let ?create = "client_create example_lib (\<lambda>_. PlainErr []) store_file"
  let ?up = "client_upload example_lib (\<lambda>_. PlainErr []) store_file"
  let ?o = "\<lparr>uo_RangeSize = 0, uo_Progress = False, uo_Parallelism = 1, uo_FileHTTPHeaders = no_headers, uo_Metadata = []\<rparr>"
  let ?w = "\<lparr>lg_try = 0, lg_operationStart = 0, lg_now = 0, lg_log = [], lg_forced = [], \<dots> = ''old''\<rparr>"
  obtain w1 where c: "?create 2 no_headers [] ?w None w1" using store_create by blast
  obtain w' where u: "?up 0 ''hi'' w1 None w'" using store_upload by blast
  have n: "numChunks (upload_batch ?o 2) = 1" "bto_parallelism (upload_batch ?o 2) = 1"
    "chunk_offset (upload_batch ?o 2) 0 = 0" "chunk_size (upload_batch ?o 2) 0 = 2" by code_simp+
  have "batch_reach (upload_batch ?o 2) (upload_op ?up ''hi'') (batch_init (upload_batch ?o 2) w1) (single_end w') 7"
    using u by (intro single_chunk_run) (simp_all add: n [simplified] upload_op_def slice_def)
  then have "doBatchTransfer (upload_batch ?o 2) (upload_op ?up ''hi'') w1 None w'"
    unfolding doBatchTransfer_def by (intro exI [of _ "single_end w'"] exI [of _ 7]) (simp add: single_end_def)
  with c have up: "UploadBufferToAzureFile ?create ?up ''hi'' ?o ?w None w'"
    by (auto simp: UploadBufferToAzureFile_def FileMaxUploadRangeBytes_def
        intro!: exI [of _ "None :: go_error option"] exI [of _ w1])
  have "content (\<lambda>s. s) w' = ''hi''"
    by (rule upload_through_pipeline [OF example_pipeline_builds store_wire_ok store_host_neutral _ _ example_lib_ok(1) _ _ up])
      (simp_all add: example_pipeline_options_def store_file_def store_pipeline_def)
  with up show ?thesis by blast
qed

end
