(* ===== verification/Answers.thy ===== *)
theory Answers
  imports Upload_Stack
begin

text \<open>
  What the replies of a pipeline have in common with the replies of its innermost stage: a
  property of requests and successful replies that the policies do not disturb passes from
  the responder on the wire to the whole pipeline. Its first use is that the type assertions
  in the methods of the generated clients never fail.
\<close>

section \<open>Properties of replies\<close>

definition answers :: "(http_request \<Rightarrow> reply \<Rightarrow> bool) \<Rightarrow> 'w sender \<Rightarrow> bool" where
  "answers P s \<longleftrightarrow>
     (\<forall>req w rep w'. s req w = Return (rep, w') \<longrightarrow> rp_error rep = None \<longrightarrow> P req rep)"

lemma answersI:
  "(\<And>req w rep w'. s req w = Return (rep, w') \<Longrightarrow> rp_error rep = None \<Longrightarrow> P req rep) \<Longrightarrow> answers P s"
  by (simp add: answers_def)

lemma answersD: "answers P s \<Longrightarrow> s req w = Return (rep, w') \<Longrightarrow> rp_error rep = None \<Longrightarrow> P req rep"
  unfolding answers_def by blast

text \<open>The headers and the parameter that the policies set are none of the property's business.\<close>

locale answer =
  fixes P :: "http_request \<Rightarrow> reply \<Rightarrow> bool"
  assumes timeout: "P (with_timeout t r) rep = P r rep"
    and authorized: "P (authorize d a r) rep = P r rep"
    and agent: "P (set_header ''User-Agent'' v r) rep = P r rep"
    and ident: "P (set_header xMsClientRequestID v r) rep = P r rep"
begin

lemma log_answers: "answers P s \<Longrightarrow> answers P (requestLog_Do u p l opts s)"
  by (rule answersI) (auto elim!: requestLog_Do_cases dest: answersD)

lemma shared_key_answers:
  assumes "answers P s"
  shows "answers P (SharedKeyCredential_New u mac now lg f s)"
proof (rule answersI)
  fix req w rep w'
  assume "SharedKeyCredential_New u mac now lg f s req w = Return (rep, w')" and err: "rp_error rep = None"
  then obtain sts w1 where "s (authorize (now w) (auth_header mac f sts) req) w = Return (rep, w1)"
    by (auto simp: SharedKeyCredential_New_def Let_def authorize_def split: if_splits)
  from answersD [OF assms this err] show "P req rep" by (simp add: authorized)
qed

lemma credential_answers:
  assumes "answers P s" and "\<And>p. c \<noteq> CredentialFunc p"
  shows "answers P (credential_stage h c s)"
proof (cases c)
  case (SharedKey f)
  then show ?thesis by (simp add: credential_stage_def credential_New_def shared_key_answers [OF assms(1)])
qed (use assms in \<open>simp_all add: credential_stage_def\<close>)

lemma retry_loop_answers:
  fixes s :: "'a log_world_scheme sender"
  assumes "retry_loop opts (env\<lparr>env_next := \<lambda>_. s\<rparr>) request st = Some (Return st')" and "answers P s"
    and "\<not> rt_considerSecondary st"
    and "\<not> rt_try st \<le> ro_MaxTries opts \<Longrightarrow> rp_error (rt_reply st) = None \<Longrightarrow> P request (rt_reply st)"
  shows "rp_error (rt_reply st') = None \<longrightarrow> P request (rt_reply st')"
proof -
  let ?e = "env\<lparr>env_next := \<lambda>_. s\<rparr>"
  let ?good = "\<lambda>st. rp_error (rt_reply st) = None \<longrightarrow> P request (rt_reply st)"
  let ?Q = "\<lambda>p e r st y. e = ?e \<longrightarrow> r = request \<longrightarrow> p = opts \<longrightarrow> \<not> rt_considerSecondary st
    \<longrightarrow> (\<not> rt_try st \<le> ro_MaxTries opts \<longrightarrow> ?good st) \<longrightarrow> (\<forall>st'. y = Return st' \<longrightarrow> ?good st')"
  have "?Q opts ?e request st (Return st')"
  proof (rule retry_loop.raw_induct [where P = ?Q, OF _ assms(1)], intro impI allI)
    fix loop p e r st y st'
    assume IH: "\<And>p e r st y. loop p e r st = Some y \<Longrightarrow> ?Q p e r st y"
      and run: "(if rt_try st \<le> ro_MaxTries p then
        (case retry_step p e r st of
           Return (Again st') \<Rightarrow> loop p e r st' | Return (Done st') \<Rightarrow> Some (Return st') | Panic m \<Rightarrow> Some (Panic m))
        else Some (Return st)) = Some y"
      and eq: "e = ?e" "r = request" "p = opts" and prim: "\<not> rt_considerSecondary st"
      and so_far: "\<not> rt_try st \<le> ro_MaxTries opts \<longrightarrow> ?good st"
      and y: "y = Return st'" and err: "rp_error (rt_reply st') = None"
    show "P request (rt_reply st')"
    proof (cases "rt_try st \<le> ro_MaxTries opts")
      case True
      with run eq y obtain res where res: "retry_step opts ?e request st = Return res"
        by (cases "retry_step opts ?e request st") auto
      have any: "content (\<lambda>_. ()) x = content (\<lambda>_. ()) x'" for x x' by (simp add: content_def)
      from retry_step_world [OF res prim any any any] obtain t w1 rep w2 st1 where
        s: "s (with_timeout t request) w1 = Return (rep, w2)"
        and st1: "res = Again st1 \<or> res = Done st1" "rt_reply st1 = rep" "\<not> rt_considerSecondary st1"
        by blast
      have "?good st1" using answersD [OF assms(2) s] st1(2) by (simp add: timeout)
      with st1 err IH [of opts ?e request st1 "Return st'"] run eq y True res show ?thesis by auto
    qed (use run eq y so_far err in auto)
  qed
  note step = this [THEN mp, OF refl, THEN mp, OF refl, THEN mp, OF refl, THEN mp, OF assms(3)]
  have "\<not> rt_try st \<le> ro_MaxTries opts \<longrightarrow> ?good st" using assms(4) by blast
  from step [THEN mp, OF this, THEN spec, THEN mp, OF refl] show ?thesis .
qed

lemma retry_answers:
  fixes s :: "'a log_world_scheme sender"
  assumes "answers P s" and "0 \<le> ro_MaxTries opts"
  shows "answers P (retry_Do opts env s)"
proof (rule answersI)
  fix req w rep w'
  assume "retry_Do opts env s req w = Return (rep, w')" and err: "rp_error rep = None"
  then obtain st where st: "retry_loop (RetryOptions_defaults opts) (env\<lparr>env_next := \<lambda>_. s\<rparr>) req
      (initial_state (RetryOptions_defaults opts) req w) = Some (Return st)" "rep = rt_reply st"
    by (auto simp: retry_Do_def retry_policy_def Let_def split: option.splits exec.splits)
  have "1 \<le> ro_MaxTries (RetryOptions_defaults opts)"
    using assms(2) by (simp add: RetryOptions_defaults_def Let_def)
  with retry_loop_answers [OF st(1) assms(1)] err st(2) show "P req rep"
    by (simp add: initial_state_def retryReadsFromSecondaryHost_def)
qed

lemma pipeline_answers:
  assumes "builds wire pipeline" and "answers P (m wire)" and "\<And>p. c \<noteq> CredentialFunc p"
    and "0 \<le> ro_MaxTries (plo_Retry opts)"
  shows "answers P (NewPipeline pipeline h c opts m)"
proof (rule answersI)
  fix req w rep w'
  let ?s = "retry_Do (plo_Retry opts) (h_retry h) (credential_stage h c
    (requestLog_Do (h_unicode h) (h_parse h) (plo_ShouldLog opts) (plo_RequestLog opts) (m wire)))"
  assume run: "NewPipeline pipeline h c opts m req w = Return (rep, w')" and err: "rp_error rep = None"
  have s: "answers P ?s" using assms by (intro retry_answers credential_answers log_answers)
  obtain r x where "?s r x = Return (rep, w')" "P r rep = P req rep"
    using run agent ident unfolding NewPipeline_eq [OF assms(1)]
    by (auto simp: telemetry_Do_def uniqueRequestID_Do_def Let_def split: if_splits prod.splits)
  with answersD [OF s _ err] show "P req rep" by blast
qed

end

section \<open>Types of responses\<close>

text \<open>The methods of the clients, their responders, and the types they assert.\<close>

fun operation_call :: "lib \<Rightarrow> 'w managementClient \<Rightarrow> Api.operation \<Rightarrow> 'w \<Rightarrow> (api_result \<times> 'w) exec" where
  "operation_call lib client (File_AbortCopy copyID timeout) = fileClient_AbortCopy lib client copyID
      timeout"
| "operation_call lib client (File_Create fileContentLength timeout fileContentType
      fileContentEncoding fileContentLanguage fileCacheControl fileContentMD5 fileContentDisposition
      metadata) = fileClient_Create lib client fileContentLength timeout fileContentType
      fileContentEncoding fileContentLanguage fileCacheControl fileContentMD5 fileContentDisposition
      metadata"
| "operation_call lib client (File_Delete timeout) = fileClient_Delete lib client timeout"
| "operation_call lib client (File_Download timeout rangeParameter rangeGetContentMD5) =
      fileClient_Download lib client timeout rangeParameter rangeGetContentMD5"
| "operation_call lib client (File_GetProperties sharesnapshot timeout) = fileClient_GetProperties lib
      client sharesnapshot timeout"
| "operation_call lib client (File_GetRangeList sharesnapshot timeout rangeParameter) =
      fileClient_GetRangeList lib client sharesnapshot timeout rangeParameter"
| "operation_call lib client (File_SetHTTPHeaders timeout fileContentLength fileContentType
      fileContentEncoding fileContentLanguage fileCacheControl fileContentMD5 fileContentDisposition) =
      fileClient_SetHTTPHeaders lib client timeout fileContentLength fileContentType fileContentEncoding
      fileContentLanguage fileCacheControl fileContentMD5 fileContentDisposition"
| "operation_call lib client (File_SetMetadata timeout metadata) = fileClient_SetMetadata lib client
      timeout metadata"
| "operation_call lib client (File_StartCopy copySource timeout metadata) = fileClient_StartCopy lib
      client copySource timeout metadata"
| "operation_call lib client (File_UploadRange rangeParameter fileRangeWrite contentLength body
      timeout contentMD5) = fileClient_UploadRange lib client rangeParameter fileRangeWrite contentLength
      body timeout contentMD5"
| "operation_call lib client (Share_Create timeout metadata quota) = shareClient_Create lib client
      timeout metadata quota"
| "operation_call lib client (Share_CreateSnapshot timeout metadata) = shareClient_CreateSnapshot lib
      client timeout metadata"
| "operation_call lib client (Share_Delete sharesnapshot timeout deleteSnapshots) = shareClient_Delete
      lib client sharesnapshot timeout deleteSnapshots"
| "operation_call lib client (Share_GetAccessPolicy timeout) = shareClient_GetAccessPolicy lib client
      timeout"
| "operation_call lib client (Share_GetProperties sharesnapshot timeout) = shareClient_GetProperties
      lib client sharesnapshot timeout"
| "operation_call lib client (Share_GetStatistics timeout) = shareClient_GetStatistics lib client
      timeout"
| "operation_call lib client (Share_SetAccessPolicy shareACL timeout) = shareClient_SetAccessPolicy
      lib client shareACL timeout"
| "operation_call lib client (Share_SetMetadata timeout metadata) = shareClient_SetMetadata lib client
      timeout metadata"
| "operation_call lib client (Share_SetQuota timeout quota) = shareClient_SetQuota lib client timeout
      quota"
| "operation_call lib client (Directory_Create timeout metadata) = directoryClient_Create lib client
      timeout metadata"
| "operation_call lib client (Directory_Delete timeout) = directoryClient_Delete lib client timeout"
| "operation_call lib client (Directory_GetProperties sharesnapshot timeout) =
      directoryClient_GetProperties lib client sharesnapshot timeout"
| "operation_call lib client (Directory_ListFilesAndDirectoriesSegment prefix' sharesnapshot marker
      maxresults timeout) = directoryClient_ListFilesAndDirectoriesSegment lib client prefix'
      sharesnapshot marker maxresults timeout"
| "operation_call lib client (Directory_SetMetadata timeout metadata) = directoryClient_SetMetadata
      lib client timeout metadata"
| "operation_call lib client (Service_GetProperties timeout) = serviceClient_GetProperties lib client
      timeout"
| "operation_call lib client (Service_ListSharesSegment prefix' marker maxresults include' timeout) =
      serviceClient_ListSharesSegment lib client prefix' marker maxresults include' timeout"
| "operation_call lib client (Service_SetProperties storageServiceProperties timeout) =
      serviceClient_SetProperties lib client storageServiceProperties timeout"

fun operation_responder :: "lib \<Rightarrow> Api.operation \<Rightarrow> http_response option option \<Rightarrow> reply exec" where
  "operation_responder lib (File_AbortCopy _ _) = fileClient_abortCopyResponder lib"
| "operation_responder lib (File_Create _ _ _ _ _ _ _ _ _) = fileClient_createResponder lib"
| "operation_responder lib (File_Delete _) = fileClient_deleteResponder lib"
| "operation_responder lib (File_Download _ _ _) = fileClient_downloadResponder lib"
| "operation_responder lib (File_GetProperties _ _) = fileClient_getPropertiesResponder lib"
| "operation_responder lib (File_GetRangeList _ _ _) = fileClient_getRangeListResponder lib"
| "operation_responder lib (File_SetHTTPHeaders _ _ _ _ _ _ _ _) = fileClient_setHTTPHeadersResponder lib"
| "operation_responder lib (File_SetMetadata _ _) = fileClient_setMetadataResponder lib"
| "operation_responder lib (File_StartCopy _ _ _) = fileClient_startCopyResponder lib"
| "operation_responder lib (File_UploadRange _ _ _ _ _ _) = fileClient_uploadRangeResponder lib"
| "operation_responder lib (Share_Create _ _ _) = shareClient_createResponder lib"
| "operation_responder lib (Share_CreateSnapshot _ _) = shareClient_createSnapshotResponder lib"
| "operation_responder lib (Share_Delete _ _ _) = shareClient_deleteResponder lib"
| "operation_responder lib (Share_GetAccessPolicy _) = shareClient_getAccessPolicyResponder lib"
| "operation_responder lib (Share_GetProperties _ _) = shareClient_getPropertiesResponder lib"
| "operation_responder lib (Share_GetStatistics _) = shareClient_getStatisticsResponder lib"
| "operation_responder lib (Share_SetAccessPolicy _ _) = shareClient_setAccessPolicyResponder lib"
| "operation_responder lib (Share_SetMetadata _ _) = shareClient_setMetadataResponder lib"
| "operation_responder lib (Share_SetQuota _ _) = shareClient_setQuotaResponder lib"
| "operation_responder lib (Directory_Create _ _) = directoryClient_createResponder lib"
| "operation_responder lib (Directory_Delete _) = directoryClient_deleteResponder lib"
| "operation_responder lib (Directory_GetProperties _ _) = directoryClient_getPropertiesResponder lib"
| "operation_responder lib (Directory_ListFilesAndDirectoriesSegment _ _ _ _ _) = directoryClient_listFilesAndDirectoriesSegmentResponder lib"
| "operation_responder lib (Directory_SetMetadata _ _) = directoryClient_setMetadataResponder lib"
| "operation_responder lib (Service_GetProperties _) = serviceClient_getPropertiesResponder lib"
| "operation_responder lib (Service_ListSharesSegment _ _ _ _ _) = serviceClient_listSharesSegmentResponder lib"
| "operation_responder lib (Service_SetProperties _ _) = serviceClient_setPropertiesResponder lib"

fun operation_type :: "Api.operation \<Rightarrow> response_value \<Rightarrow> bool" where
  "operation_type (File_AbortCopy _ _) = ((=) FileAbortCopyResponse)"
| "operation_type (File_Create _ _ _ _ _ _ _ _ _) = ((=) FileCreateResponse)"
| "operation_type (File_Delete _) = ((=) FileDeleteResponse)"
| "operation_type (File_Download _ _ _) = ((=) DownloadResponse)"
| "operation_type (File_GetProperties _ _) = ((=) FileGetPropertiesResponse)"
| "operation_type (File_GetRangeList _ _ _) = is_Ranges"
| "operation_type (File_SetHTTPHeaders _ _ _ _ _ _ _ _) = ((=) FileSetHTTPHeadersResponse)"
| "operation_type (File_SetMetadata _ _) = ((=) FileSetMetadataResponse)"
| "operation_type (File_StartCopy _ _ _) = ((=) FileStartCopyResponse)"
| "operation_type (File_UploadRange _ _ _ _ _ _) = ((=) FileUploadRangeResponse)"
| "operation_type (Share_Create _ _ _) = ((=) ShareCreateResponse)"
| "operation_type (Share_CreateSnapshot _ _) = ((=) ShareCreateSnapshotResponse)"
| "operation_type (Share_Delete _ _ _) = ((=) ShareDeleteResponse)"
| "operation_type (Share_GetAccessPolicy _) = is_SignedIdentifiers"
| "operation_type (Share_GetProperties _ _) = ((=) ShareGetPropertiesResponse)"
| "operation_type (Share_GetStatistics _) = is_ShareStats"
| "operation_type (Share_SetAccessPolicy _ _) = ((=) ShareSetAccessPolicyResponse)"
| "operation_type (Share_SetMetadata _ _) = ((=) ShareSetMetadataResponse)"
| "operation_type (Share_SetQuota _ _) = ((=) ShareSetQuotaResponse)"
| "operation_type (Directory_Create _ _) = ((=) DirectoryCreateResponse)"
| "operation_type (Directory_Delete _) = ((=) DirectoryDeleteResponse)"
| "operation_type (Directory_GetProperties _ _) = ((=) DirectoryGetPropertiesResponse)"
| "operation_type (Directory_ListFilesAndDirectoriesSegment _ _ _ _ _) = is_ListFilesAndDirectoriesSegmentResponse"
| "operation_type (Directory_SetMetadata _ _) = ((=) DirectorySetMetadataResponse)"
| "operation_type (Service_GetProperties _) = is_ServiceProperties"
| "operation_type (Service_ListSharesSegment _ _ _ _ _) = is_ListSharesResponse"
| "operation_type (Service_SetProperties _ _) = ((=) ServiceSetPropertiesResponse)"

lemmas method_defs =
  fileClient_AbortCopy_def
  fileClient_Create_def
  fileClient_Delete_def
  fileClient_Download_def
  fileClient_GetProperties_def
  fileClient_GetRangeList_def
  fileClient_SetHTTPHeaders_def
  fileClient_SetMetadata_def
  fileClient_StartCopy_def
  fileClient_UploadRange_def
  shareClient_Create_def
  shareClient_CreateSnapshot_def
  shareClient_Delete_def
  shareClient_GetAccessPolicy_def
  shareClient_GetProperties_def
  shareClient_GetStatistics_def
  shareClient_SetAccessPolicy_def
  shareClient_SetMetadata_def
  shareClient_SetQuota_def
  directoryClient_Create_def
  directoryClient_Delete_def
  directoryClient_GetProperties_def
  directoryClient_ListFilesAndDirectoriesSegment_def
  directoryClient_SetMetadata_def
  serviceClient_GetProperties_def
  serviceClient_ListSharesSegment_def
  serviceClient_SetProperties_def

lemmas responder_defs =
  fileClient_abortCopyResponder_def
  fileClient_createResponder_def
  fileClient_deleteResponder_def
  fileClient_downloadResponder_def
  fileClient_getPropertiesResponder_def
  fileClient_getRangeListResponder_def
  fileClient_setHTTPHeadersResponder_def
  fileClient_setMetadataResponder_def
  fileClient_startCopyResponder_def
  fileClient_uploadRangeResponder_def
  shareClient_createResponder_def
  shareClient_createSnapshotResponder_def
  shareClient_deleteResponder_def
  shareClient_getAccessPolicyResponder_def
  shareClient_getPropertiesResponder_def
  shareClient_getStatisticsResponder_def
  shareClient_setAccessPolicyResponder_def
  shareClient_setMetadataResponder_def
  shareClient_setQuotaResponder_def
  directoryClient_createResponder_def
  directoryClient_deleteResponder_def
  directoryClient_getPropertiesResponder_def
  directoryClient_listFilesAndDirectoriesSegmentResponder_def
  directoryClient_setMetadataResponder_def
  serviceClient_getPropertiesResponder_def
  serviceClient_listSharesSegmentResponder_def
  serviceClient_setPropertiesResponder_def

text \<open>Every method validates, prepares, sends and asserts in this order.\<close>

lemma operation_call_shape:
  "\<exists>checks. operation_call lib client op =
     client_call lib client checks (prepare lib client op) (operation_responder lib op) (operation_type op)"
  by (cases op) (auto simp: method_defs)

definition has_dynamic_type :: "(response_value \<Rightarrow> bool) \<Rightarrow> http_request \<Rightarrow> reply \<Rightarrow> bool" where
  "has_dynamic_type ty req rep \<longleftrightarrow> rp_response rep \<noteq> None \<and> ty (rp_value rep)"

interpretation typed: answer "has_dynamic_type ty" for ty
  by unfold_locales (simp_all add: has_dynamic_type_def)

lemma responder_typed:
  assumes "\<And>resp rep. r resp = Return rep \<Longrightarrow> rp_error rep = None \<Longrightarrow> rp_response rep \<noteq> None \<and> ty (rp_value rep)"
  shows "answers (has_dynamic_type ty) (responderPolicy_Do r wire)"
  by (rule answersI) (auto simp: responderPolicy_Do_def has_dynamic_type_def assms split: if_splits dest!: assms)

lemma discard_typed:
  "discard_responder lib codes v resp = Return rep \<Longrightarrow> rp_error rep = None \<Longrightarrow> rp_response rep \<noteq> None \<and> rp_value rep = v"
  by (auto simp: discard_responder_def validateResponse_def NewResponseError_def newStorageError_def nil_deref_def
      split: option.splits if_splits prod.splits)

lemma stream_typed:
  "stream_responder lib codes v resp = Return rep \<Longrightarrow> rp_error rep = None \<Longrightarrow> rp_response rep \<noteq> None \<and> rp_value rep = v"
  by (auto simp: stream_responder_def validateResponse_def NewResponseError_def newStorageError_def nil_deref_def
      split: option.splits if_splits prod.splits)

lemma xml_typed:
  "xml_responder lib codes wrap zero decode resp = Return rep \<Longrightarrow> rp_error rep = None \<Longrightarrow>
     rp_response rep \<noteq> None \<and> (\<exists>v. rp_value rep = wrap v)"
  by (auto simp: xml_responder_def validateResponse_def NewResponseError_def newStorageError_def nil_deref_def Let_def
      split: option.splits if_splits prod.splits)

lemma operation_responder_typed:
  assumes "operation_responder lib op resp = Return rep" and "rp_error rep = None"
  shows "rp_response rep \<noteq> None \<and> operation_type op (rp_value rep)"
  using assms
  by (cases op) (auto simp: responder_defs dest: discard_typed stream_typed xml_typed)

text \<open>
  C16: The responses of the operations have the types the methods assert: on a client of a
  pipeline made by \<open>NewPipeline\<close>, whatever the wire answers and however often the request is
  tried, a reply without an error is not nil and holds the response structure of the
  operation, so that the type assertion at the end of the method cannot fail. A method
  returns a response of its type and no error, or an error and no response.
\<close>

theorem responses_typed:
  assumes "builds wire pipeline" and "\<And>p. c \<noteq> CredentialFunc p" and "0 \<le> ro_MaxTries (plo_Retry opts)"
    and "client = newManagementClient url (NewPipeline pipeline h c opts)"
  shows "answers (has_dynamic_type (operation_type op)) (mc_p client (responderPolicy_Do (operation_responder lib op)))
     \<and> (operation_call lib client op w = Return ((resp, err), w') \<longrightarrow>
          (case resp of Some r \<Rightarrow> err = None \<and> operation_type op (ar_value r) | None \<Rightarrow> err \<noteq> None))"
proof
  show "answers (has_dynamic_type (operation_type op)) (mc_p client (responderPolicy_Do (operation_responder lib op)))"
    unfolding assms(4) newManagementClient_def
    using typed.pipeline_answers [OF assms(1) responder_typed [OF operation_responder_typed] assms(2,3)] by simp
  obtain checks where call: "operation_call lib client op = client_call lib client checks (prepare lib client op)
      (operation_responder lib op) (operation_type op)" using operation_call_shape by blast
  show "operation_call lib client op w = Return ((resp, err), w') \<longrightarrow>
      (case resp of Some r \<Rightarrow> err = None \<and> operation_type op (ar_value r) | None \<Rightarrow> err \<noteq> None)"
    unfolding call client_call_def
    by (auto split: option.splits prod.splits if_splits)
qed

definition store_world :: "string log_world_scheme" where
  "store_world = \<lparr>lg_try = 0, lg_operationStart = 0, lg_now = 0, lg_log = [], lg_forced = [], \<dots> = ''old''\<rparr>"

theorem responses_typed_witness:
  "\<exists>resp w'. operation_call example_lib store_file
       (File_Create 2 None (Some []) (Some []) (Some []) (Some []) None (Some []) []) store_world = Return ((Some resp, None), w')
     \<and> ar_value resp = FileCreateResponse"
proof -
  let ?op = "File_Create 2 None (Some []) (Some []) (Some []) (Some []) None (Some []) []"
  obtain req where req: "fileClient_createPreparer example_lib store_file 2 None (Some []) (Some []) (Some []) (Some []) None
      (Some []) [] = (req, None)" "served req" using store_create_order by blast
  with client_call_store [OF req(2), of example_lib FileCreateResponse store_world]
  obtain resp w' where run: "operation_call example_lib store_file ?op store_world = Return ((Some resp, None), w')"
    by (auto simp: fileClient_Create_def fileClient_createResponder_def)
  have client: "store_file = newManagementClient example_url
      (NewPipeline (example_pipeline store_wire) store_host AnonymousCredential example_pipeline_options)"
    by (simp add: store_file_def NewFileURL_def store_pipeline_def)
  have "operation_type ?op (ar_value resp)"
    using responses_typed [OF example_pipeline_builds _ _ client, of ?op example_lib store_world "Some resp" None w'] run
    by (simp add: example_pipeline_options_def)
  with run show ?thesis by auto
qed

end
