(* ===== verification/Go_Rfc1123.thy ===== *)
theory Go_Rfc1123
  imports Go_Time
begin

text \<open>
  \<open>time.Parse(time.RFC1123, s)\<close> and printing in the form HTTP headers have, \<open>http.TimeFormat\<close>.
  Parsing follows Go 1.12, the version the repository is built with. A zone
  abbreviation is looked up in the machine's local zone, which is the argument \<open>local\<close>: for
  an abbreviation that zone knows it gives the time as that zone shows it.
\<close>

type_synonym local_zone = "string \<Rightarrow> go_time \<Rightarrow> go_time option"

section \<open>Names\<close>

definition shortDayNames :: "string list" where
  "shortDayNames = [''Sun'', ''Mon'', ''Tue'', ''Wed'', ''Thu'', ''Fri'', ''Sat'']"

definition shortMonthNames :: "string list" where
  "shortMonthNames = [''Jan'', ''Feb'', ''Mar'', ''Apr'', ''May'', ''Jun'', ''Jul'', ''Aug'', ''Sep'', ''Oct'',
     ''Nov'', ''Dec'']"

definition letter_lower :: "char \<Rightarrow> bool" where
  "letter_lower c \<longleftrightarrow> 97 \<le> byte_of c \<and> byte_of c \<le> 122"

definition match_name :: "string \<Rightarrow> string \<Rightarrow> bool" where
  "match_name s1 s2 = list_all2 (\<lambda>a b. a = b \<or> lower_char a = lower_char b \<and> letter_lower (lower_char a)) s1 s2"

fun lookup_name :: "string list \<Rightarrow> string \<Rightarrow> (nat \<times> string) option" where
  "lookup_name [] val = None"
| "lookup_name (v # tab) val =
     (if length v \<le> length val \<and> match_name (take (length v) val) v then Some (0, drop (length v) val)
      else map_option (\<lambda>(i, r). (Suc i, r)) (lookup_name tab val))"

section \<open>Literal text\<close>

text \<open>A space in the layout stands for any number of spaces.\<close>

function skip_text :: "string \<Rightarrow> string \<Rightarrow> string option" where
  "skip_text val [] = Some val"
| "skip_text val (p # ps) =
     (if p = CHR '' '' then
        if val \<noteq> [] \<and> hd val \<noteq> CHR '' '' then None
        else skip_text (dropWhile (\<lambda>c. c = CHR '' '') val) (dropWhile (\<lambda>c. c = CHR '' '') ps)
      else case val of c # cs \<Rightarrow> if c = p then skip_text cs ps else None | [] \<Rightarrow> None)"
  by pat_completeness auto
termination
  by (relation "measure (\<lambda>(_, ps). length ps)") (auto simp: le_imp_less_Suc length_dropWhile_le)

section \<open>Zones\<close>

definition leading_int :: "string \<Rightarrow> nat \<times> string" where
  "leading_int s = (dec_val (takeWhile is_digit s), dropWhile is_digit s)"

text \<open>The length of a signed offset; a number that does not fit 64 bits is no offset.\<close>

definition parseSignedOffset :: "string \<Rightarrow> nat" where
  "parseSignedOffset val =
     (case val of
        sign # rest \<Rightarrow>
          if sign \<noteq> CHR ''-'' \<and> sign \<noteq> CHR ''+'' then 0
          else (case leading_int rest of (x, rem) \<Rightarrow> if 23 < x then 0 else length val - length rem)
      | [] \<Rightarrow> 0)"

definition parseGMT :: "string \<Rightarrow> nat" where
  "parseGMT val = (let rest = drop 3 val in if rest = [] then 3 else 3 + parseSignedOffset rest)"

definition is_upper :: "char \<Rightarrow> bool" where
  "is_upper c \<longleftrightarrow> 65 \<le> byte_of c \<and> byte_of c \<le> 90"

definition parseTimeZone :: "string \<Rightarrow> nat option" where
  "parseTimeZone val =
     (if length val < 3 then None
      else if 4 \<le> length val \<and> (take 4 val = ''ChST'' \<or> take 4 val = ''MeST'') then Some 4
      else if take 3 val = ''GMT'' then Some (parseGMT val)
      else if hd val = CHR ''+'' \<or> hd val = CHR ''-'' then
        (let n = parseSignedOffset val in if n > 0 then Some n else None)
      else
        let nUpper = length (takeWhile is_upper (take 6 val)) in
        if nUpper = 5 then (if val ! 4 = CHR ''T'' then Some 5 else None)
        else if nUpper = 4 then (if val ! 3 = CHR ''T'' \<or> take 4 val = ''WITA'' then Some 4 else None)
        else if nUpper = 3 then Some 3 else None)"

text \<open>The offset written after GMT, in seconds.\<close>

definition gmt_offset :: "string \<Rightarrow> int" where
  "gmt_offset name =
     (if 3 < length name \<and> take 3 name = ''GMT'' then
        let rest = drop 3 name; n = int (dec_val (drop 1 rest))
        in if drop 1 rest = [] then 0 else 3600 * (if hd rest = CHR ''-'' then - n else n)
      else 0)"

definition in_zone :: "local_zone \<Rightarrow> string \<Rightarrow> go_time \<Rightarrow> go_time" where
  "in_zone local name t = (case local name t of Some t' \<Rightarrow> t' | None \<Rightarrow> t\<lparr>t_offset := gmt_offset name\<rparr>)"

definition parse_zone :: "local_zone \<Rightarrow> go_time \<Rightarrow> string \<Rightarrow> (go_time \<times> string) option" where
  "parse_zone local t val =
     (if take 3 val = ''UTC'' then Some (t, drop 3 val)
      else map_option (\<lambda>n. (in_zone local (take n val) t, drop n val)) (parseTimeZone val))"

section \<open>Parsing and printing\<close>

definition day_fits :: "go_time \<Rightarrow> bool" where
  "day_fits t \<longleftrightarrow> 1 \<le> t_day t \<and> t_day t \<le> days_in_month (t_year t) (t_month t)"

definition chunk_then :: "chunk \<Rightarrow> (go_time \<times> string \<Rightarrow> 'a option) \<Rightarrow> go_time \<times> string \<Rightarrow> 'a option" where
  "chunk_then c k tv = Option.bind (parse_chunk c tv) k"

definition month_then :: "(go_time \<times> string \<Rightarrow> 'a option) \<Rightarrow> go_time \<times> string \<Rightarrow> 'a option" where
  "month_then k tv =
     Option.bind (lookup_name shortMonthNames (snd tv)) (\<lambda>(i, v). k ((fst tv)\<lparr>t_month := Suc i\<rparr>, v))"

definition lit_then :: "string \<Rightarrow> (go_time \<times> string \<Rightarrow> 'a option) \<Rightarrow> go_time \<times> string \<Rightarrow> 'a option" where
  "lit_then lit k tv = Option.bind (skip_text (snd tv) lit) (\<lambda>v. k (fst tv, v))"

definition zone_end :: "local_zone \<Rightarrow> go_time \<times> string \<Rightarrow> go_time option" where
  "zone_end local tv =
     Option.bind (parse_zone local (fst tv) (snd tv)) (\<lambda>(t, v).
       if v \<noteq> [] \<or> \<not> day_fits (fst tv) then None else Some t)"

definition parse_start :: go_time where
  "parse_start = \<lparr>t_year = 0, t_month = 1, t_day = 1, t_hour = 0, t_min = 0, t_sec = 0, t_nsec = 0, t_offset = 0\<rparr>"

definition time_Parse_RFC1123 :: "local_zone \<Rightarrow> string \<Rightarrow> go_time option" where
  "time_Parse_RFC1123 local val =
     Option.bind (lookup_name shortDayNames val) (\<lambda>(_, v).
       lit_then '', '' (chunk_then StdDay (lit_then '' '' (month_then (lit_then '' '' (chunk_then StdYear
         (lit_then '' '' (chunk_then StdHour (lit_then '':'' (chunk_then StdMin (lit_then '':'' (chunk_then StdSec
           (lit_then '' '' (zone_end local)))))))))))))
         (parse_start, v))"

text \<open>The weekday of a date, Sunday first; January 1 of year 1 was a Monday.\<close>

definition weekday :: "go_time \<Rightarrow> nat" where
  "weekday t = nat ((days_before_year (t_year t) + days_before_month (t_year t) (t_month t) + int (t_day t)) mod 7)"

text \<open>\<open>t.Format(http.TimeFormat)\<close> for a time in UTC.\<close>

definition http_date :: "go_time \<Rightarrow> string" where
  "http_date t =
     shortDayNames ! weekday t @ '', '' @ append_int 2 (int (t_day t)) @ '' '' @ shortMonthNames ! (t_month t - 1) @ '' ''
     @ append_int 4 (t_year t) @ '' '' @ append_int 2 (int (t_hour t)) @ '':'' @ append_int 2 (int (t_min t)) @ '':''
     @ append_int 2 (int (t_sec t)) @ '' GMT''"

end
