(* ===== verification/Response.thy ===== *)
theory Response
  imports Go_Rfc1123 File_Url
begin

text \<open>
  What the accessors of the response types share (zz\_generated\_models.go,
  zz\_response\_helpers.go): a raw response that can be nil, a header read as a string, a
  number, bytes or a time, and the metadata among the headers. A response structure whose
  only field is \<open>rawResponse\<close> is identified with that field.
\<close>

section \<open>Reading a header\<close>

definition raw :: "http_response option \<Rightarrow> (http_response \<Rightarrow> 'a) \<Rightarrow> 'a exec" where
  "raw r f = (case r of None \<Rightarrow> nil_deref | Some resp \<Rightarrow> Return (f resp))"

definition header_string :: "string \<Rightarrow> http_response option \<Rightarrow> string exec" where
  "header_string key r = raw r (\<lambda>resp. Header_Get (rs_Header resp) key)"

text \<open>\<open>strconv.ParseInt(s, 10, bits)\<close>; \<open>None\<close> is a syntax or range error.\<close>

definition ParseInt :: "string \<Rightarrow> nat \<Rightarrow> int option" where
  "ParseInt s bits =
     (case s of
        [] \<Rightarrow> None
      | c # cs \<Rightarrow>
          let neg = (c = CHR ''-''); digits = (if c = CHR ''+'' \<or> neg then cs else s);
              n = int (dec_val digits)
          in if \<not> all_digits digits then None
             else if neg then (if 2 ^ (bits - 1) < n then None else Some (- n))
             else if 2 ^ (bits - 1) \<le> n then None else Some n)"

definition header_int :: "nat \<Rightarrow> string \<Rightarrow> http_response option \<Rightarrow> int exec" where
  "header_int bits key r = raw r (\<lambda>resp.
     let s = Header_Get (rs_Header resp) key in
     if s = [] then - 1 else case ParseInt s bits of Some i \<Rightarrow> i | None \<Rightarrow> 0)"

definition header_bytes :: "string \<Rightarrow> http_response option \<Rightarrow> string option exec" where
  "header_bytes key r = raw r (\<lambda>resp.
     let s = Header_Get (rs_Header resp) key in if s = [] then None else DecodeString s)"

definition header_time :: "local_zone \<Rightarrow> string \<Rightarrow> http_response option \<Rightarrow> go_time exec" where
  "header_time local key r = raw r (\<lambda>resp.
     let s = Header_Get (rs_Header resp) key in
     if s = [] then zero_time else case time_Parse_RFC1123 local s of Some t \<Rightarrow> t | None \<Rightarrow> zero_time)"

definition header_time_or_panic :: "local_zone \<Rightarrow> string \<Rightarrow> http_response option \<Rightarrow> go_time exec" where
  "header_time_or_panic local key r =
     (case r of
        None \<Rightarrow> nil_deref
      | Some resp \<Rightarrow>
          let s = Header_Get (rs_Header resp) key in
          if s = [] then Return zero_time
          else case time_Parse_RFC1123 local s of Some t \<Rightarrow> Return t | None \<Rightarrow> Panic (''parsing time '' @ s))"

section \<open>Metadata\<close>

definition mdPrefix :: string where
  "mdPrefix = ''x-ms-meta-''"

definition mdPrefixLen :: nat where
  "mdPrefixLen = length mdPrefix"

definition is_meta :: "unicode_tables \<Rightarrow> string \<Rightarrow> bool" where
  "is_meta u k \<longleftrightarrow> mdPrefixLen < length k \<and> EqualFold u (take mdPrefixLen k) mdPrefix"

fun metadata_loop :: "unicode_tables \<Rightarrow> header \<Rightarrow> Metadata \<Rightarrow> Metadata exec" where
  "metadata_loop u [] md = Return md"
| "metadata_loop u ((k, v) # h) md =
     (if is_meta u k then
        (case v of
           [] \<Rightarrow> index_panic
         | x # _ \<Rightarrow> metadata_loop u h (AList.update (ToLower u (drop mdPrefixLen k)) x md))
      else metadata_loop u h md)"

definition NewMetadata :: "unicode_tables \<Rightarrow> http_response option \<Rightarrow> Metadata exec" where
  "NewMetadata u r = (case r of None \<Rightarrow> nil_deref | Some resp \<Rightarrow> metadata_loop u (rs_Header resp) [])"

text \<open>Metadata in a list of shares: one turn of the loop of \<open>Metadata.UnmarshalXML\<close>.\<close>

fun metadata_token :: "unicode_tables \<Rightarrow> xml_token \<Rightarrow> string \<times> Metadata option \<Rightarrow> string \<times> Metadata option" where
  "metadata_token u (StartElement n) (tokName, md) = (ToLower u n, md)"
| "metadata_token u (CharData s) (tokName, md) =
     (tokName, Some (AList.update tokName s (case md of None \<Rightarrow> [] | Some m \<Rightarrow> m)))"
| "metadata_token u (EndElement n) (tokName, md) = (tokName, md)"
| "metadata_token u OtherToken (tokName, md) = (tokName, md)"

definition Metadata_UnmarshalXML :: "unicode_tables \<Rightarrow> xml_token list \<Rightarrow> Metadata option \<Rightarrow> Metadata option" where
  "Metadata_UnmarshalXML u ts md = snd (fold (metadata_token u) ts ([], md))"

section \<open>Times read back\<close>

lemma match_name_lower: "match_name a b \<Longrightarrow> map lower_char a = map lower_char b"
  unfolding match_name_def by (induction rule: list_all2_induct) auto

lemma lookup_name_nth:
  assumes "n < length tab" and "list_all (\<lambda>x. length x = 3) tab" and "distinct (map (map lower_char) tab)"
  shows "lookup_name tab (tab ! n @ v) = Some (n, v)"
  using assms
proof (induction tab arbitrary: n)
  case (Cons y tab)
  show ?case
  proof (cases n)
    case 0
    with Cons.prems(2) show ?thesis by (simp add: match_name_def list_all2_refl)
  next
    case (Suc m)
    then have m: "m < length tab" using Cons.prems(1) by simp
    then have "map lower_char (tab ! m) \<noteq> map lower_char y" using Cons.prems(3) by (metis distinct.simps(2)
        image_eqI list.simps(9) list.set_map nth_mem)
    then have "\<not> match_name (tab ! m) y" using match_name_lower by blast
    moreover have "length y = 3" "length (tab ! m) = 3" using Cons.prems(2) m by (simp_all add: list_all_iff)
    ultimately show ?thesis using Cons.IH [of m] Cons.prems m Suc by simp
  qed
qed simp

lemma name_tables:
  "length shortDayNames = 7" "list_all (\<lambda>x. length x = 3) shortDayNames" "distinct (map (map lower_char) shortDayNames)"
  "length shortMonthNames = 12" "list_all (\<lambda>x. length x = 3) shortMonthNames"
  "distinct (map (map lower_char) shortMonthNames)"
  by code_simp+

lemma lookup_names:
  "n < 7 \<Longrightarrow> lookup_name shortDayNames (shortDayNames ! n @ v) = Some (n, v)"
  "n < 12 \<Longrightarrow> lookup_name shortMonthNames (shortMonthNames ! n @ v) = Some (n, v)"
  using name_tables by (simp_all add: lookup_name_nth)

text \<open>The steps of the parser on printed fields.\<close>

definition solid :: "string \<Rightarrow> bool" where
  "solid v \<longleftrightarrow> v \<noteq> [] \<and> hd v \<noteq> CHR '' ''"

lemma solid_fields:
  assumes "date_ok t"
  shows "solid (append_int 2 (int (t_day t)) @ v)" "solid (append_int 4 (t_year t) @ v)"
    "solid (append_int 2 (int (t_hour t)) @ v)" "solid (shortMonthNames ! (t_month t - 1) @ v)" "solid ''GMT''"
proof -
  have "digit_char n \<noteq> CHR '' ''" if "n < 10" for n
  proof
    assume "digit_char n = CHR '' ''"
    then have "byte_of (digit_char n) = 32" by (simp add: byte_of_def)
    with that show False by (simp add: digit_char_def byte_of_def)
  qed
  then have "digit_char (n div 10) \<noteq> CHR '' ''" if "n < 100" for n using that by auto
  moreover have "digit_char (nat y div 1000) \<noteq> CHR '' ''" if "y \<le> 9999" for y
    using that \<open>\<And>n. n < 10 \<Longrightarrow> digit_char n \<noteq> CHR '' ''\<close> by auto
  ultimately show "solid (append_int 2 (int (t_day t)) @ v)" "solid (append_int 4 (t_year t) @ v)"
    "solid (append_int 2 (int (t_hour t)) @ v)"
    using date_ok_bounds [OF assms] assms by (simp_all add: solid_def append_int_2 append_int_4 date_ok_def)
  have "list_all (\<lambda>x. x \<noteq> [] \<and> hd x \<noteq> CHR '' '') shortMonthNames" by code_simp
  moreover have "t_month t - 1 < length shortMonthNames" using assms by (auto simp: date_ok_def name_tables(4))
  ultimately show "solid (shortMonthNames ! (t_month t - 1) @ v)" by (auto simp: solid_def list_all_length)
qed (simp add: solid_def)

lemma lit_steps:
  "solid v \<Longrightarrow> lit_then '' '' k (s, CHR '' '' # v) = k (s, v)"
  "solid v \<Longrightarrow> lit_then '', '' k (s, CHR '','' # CHR '' '' # v) = k (s, v)"
  "lit_then '':'' k (s, CHR '':'' # v) = k (s, v)"
  by (cases v; simp add: solid_def lit_then_def)+

lemma chunk_steps:
  assumes "date_ok t"
  shows "chunk_then StdYear k (s, append_int 4 (t_year t) @ v) = k (s\<lparr>t_year := t_year t\<rparr>, v)"
    and "chunk_then StdDay k (s, append_int 2 (int (t_day t)) @ v) = k (s\<lparr>t_day := t_day t\<rparr>, v)"
    and "chunk_then StdHour k (s, append_int 2 (int (t_hour t)) @ v) = k (s\<lparr>t_hour := t_hour t\<rparr>, v)"
    and "chunk_then StdMin k (s, append_int 2 (int (t_min t)) @ v) = k (s\<lparr>t_min := t_min t\<rparr>, v)"
    and "chunk_then StdSec k (s, append_int 2 (int (t_sec t)) @ CHR '' '' # v) =
      k (s\<lparr>t_sec := t_sec t, t_nsec := 0\<rparr>, CHR '' '' # v)"
    and "month_then k (s, shortMonthNames ! (t_month t - 1) @ v) = k (s\<lparr>t_month := t_month t\<rparr>, v)"
proof -
  have "t_month t - 1 < 12" "Suc (t_month t - 1) = t_month t" using assms by (auto simp: date_ok_def)
  then show "month_then k (s, shortMonthNames ! (t_month t - 1) @ v) = k (s\<lparr>t_month := t_month t\<rparr>, v)"
    by (simp add: month_then_def lookup_names)
qed (use parse_fields [OF assms] in \<open>simp_all add: chunk_then_def\<close>)

lemma zone_step:
  assumes "day_fits t" and "local ''GMT'' t \<in> {None, Some t}" and "t_offset t = 0"
  shows "zone_end local (t, ''GMT'') = Some t"
proof -
  have "parseTimeZone ''GMT'' = Some 3" "gmt_offset ''GMT'' = 0" by code_simp+
  moreover have "t\<lparr>t_offset := 0\<rparr> = t" using assms(3) by simp
  ultimately show ?thesis using assms by (auto simp: zone_end_def parse_zone_def in_zone_def)
qed

text \<open>A date that ends in a zone which leaves it as it is.\<close>

lemma rfc1123_read:
  assumes "date_ok t" and "t_nsec t = 0" and "t_offset t = 0" and "solid z" and "zone_end local (t, z) = Some t"
  shows "time_Parse_RFC1123 local
     (shortDayNames ! weekday t @ '', '' @ append_int 2 (int (t_day t)) @ '' '' @ shortMonthNames ! (t_month t - 1) @ '' ''
      @ append_int 4 (t_year t) @ '' '' @ append_int 2 (int (t_hour t)) @ '':'' @ append_int 2 (int (t_min t)) @ '':''
      @ append_int 2 (int (t_sec t)) @ '' '' @ z) = Some t"
proof -
  have w: "weekday t < 7" by (simp add: weekday_def nat_less_iff)
  have "parse_start\<lparr>t_day := t_day t, t_month := t_month t, t_year := t_year t, t_hour := t_hour t,
      t_min := t_min t, t_sec := t_sec t, t_nsec := 0\<rparr> = t" using assms(2,3) by (simp add: parse_start_def)
  then show ?thesis
    using assms(4,5) unfolding time_Parse_RFC1123_def
    by (simp add: lookup_names w lit_steps chunk_steps [OF assms(1)] solid_fields [OF assms(1)]
        del: One_nat_def)
qed

lemma date_ok_day_fits: "date_ok t \<Longrightarrow> day_fits t"
  by (simp add: date_ok_def day_fits_def)

text \<open>A header date in UTC is read back exactly, unless the local zone knows another GMT.\<close>

lemma http_date_read:
  assumes "date_ok t" and "t_nsec t = 0" and "t_offset t = 0" and "local ''GMT'' t \<in> {None, Some t}"
  shows "time_Parse_RFC1123 local (http_date t) = Some t"
  using rfc1123_read [OF assms(1-3), of "''GMT''" "local"] zone_step [of t "local"] date_ok_day_fits [OF assms(1)] assms(3,4)
  by (simp add: http_date_def solid_def)

section \<open>Numbers read back\<close>

lemma ParseInt_FormatInt:
  assumes "- (2 ^ (bits - 1)) \<le> i" and "i < 2 ^ (bits - 1)"
  shows "ParseInt (FormatInt i) bits = Some i"
proof -
  have d: "all_digits (dec_nat n)" for n using dec_nat_digits [of n] by (simp add: all_digits_def)
  show ?thesis
  proof (cases "i < 0")
    case True
    then show ?thesis using assms d [of "nat (- i)"] by (simp add: ParseInt_def FormatInt_def)
  next
    case False
    then obtain c cs where c: "dec_nat (nat i) = c # cs" by (cases "dec_nat (nat i)") auto
    have "is_digit c" using dec_nat_digits [of "nat i"] by (simp add: c)
    then have "c \<noteq> CHR ''-''" "c \<noteq> CHR ''+''" by (auto simp: is_digit_def byte_of_def)
    moreover have "dec_val (c # cs) = nat i" using dec_val_dec_nat [of "nat i"] by (simp add: c)
    ultimately show ?thesis using assms False d [of "nat i"] by (simp add: ParseInt_def FormatInt_def c)
  qed
qed

section \<open>Metadata read back\<close>

lemma lower_canonical_loop: "map lower_char (canonical_loop b s) = map lower_char s"
proof (induction s arbitrary: b)
  case (Cons c s)
  have "lower_char (char_of (byte_of c - 32)) = lower_char c" if "97 \<le> byte_of c" "byte_of c \<le> 122"
  proof -
    from that obtain n where "byte_of c = n + 32" "65 \<le> n" "n \<le> 90" by (intro that [of "byte_of c - 32"]) auto
    then show ?thesis by (simp flip: byte_of_eq_iff) (simp add: lower_byte_def byte_of_def)
  qed
  moreover have "lower_char (char_of (byte_of c + 32)) = lower_char c" if "65 \<le> byte_of c" "byte_of c \<le> 90"
    using that by (simp add: lower_char_def lower_byte_def byte_of_def)
  ultimately show ?case using Cons by (simp add: Let_def)
qed simp

lemma EqualFold_meta: "EqualFold u ''X-Ms-Meta-'' mdPrefix" "EqualFold u ''x-ms-meta-'' mdPrefix"
proof -
  have "runes ''X-Ms-Meta-'' = [88, 45, 77, 115, 45, 77, 101, 116, 97, 45]"
    "runes mdPrefix = [120, 45, 109, 115, 45, 109, 101, 116, 97, 45]" by code_simp+
  then show "EqualFold u ''X-Ms-Meta-'' mdPrefix" by (simp add: EqualFold_def rune_fold_def)
qed (simp add: mdPrefix_def)

definition meta_name_ok :: "string \<Rightarrow> bool" where
  "meta_name_ok k \<longleftrightarrow> k \<noteq> [] \<and> ascii k \<and> map lower_char k = k"

abbreviation meta_header :: "string \<Rightarrow> string" where
  "meta_header k \<equiv> CanonicalMIMEHeaderKey (''x-ms-meta-'' @ k)"

lemma meta_header_read:
  assumes "meta_name_ok k"
  shows "is_meta u (meta_header k)" "ToLower u (drop mdPrefixLen (meta_header k)) = k"
proof -
  let ?c = "canonical_loop True k"
  have low: "map lower_char ?c = k" using assms lower_canonical_loop by (simp add: meta_name_ok_def)
  then have "ascii ?c" "?c \<noteq> []" using assms ascii_map_lower [of ?c] by (auto simp: meta_name_ok_def)
  with low have c: "is_meta u (''X-Ms-Meta-'' @ ?c)" "ToLower u (drop mdPrefixLen (''X-Ms-Meta-'' @ ?c)) = k"
    using EqualFold_meta(1) [of u] by (simp_all add: is_meta_def mdPrefixLen_def mdPrefix_def ToLower_ascii)
  have "is_meta u (''x-ms-meta-'' @ k)" "ToLower u (drop mdPrefixLen (''x-ms-meta-'' @ k)) = k"
    using EqualFold_meta(2) [of u] assms
    by (simp_all add: is_meta_def mdPrefixLen_def mdPrefix_def ToLower_ascii meta_name_ok_def)
  with c meta_key [of k] show "is_meta u (meta_header k)" "ToLower u (drop mdPrefixLen (meta_header k)) = k"
    by auto
qed

lemma meta_header_inject: "meta_name_ok k \<Longrightarrow> meta_name_ok k' \<Longrightarrow> meta_header k = meta_header k' \<longleftrightarrow> k = k'"
  using meta_header_read(2) [of k ascii_tables] meta_header_read(2) [of k' ascii_tables] by metis

definition meta_part :: "unicode_tables \<Rightarrow> header \<Rightarrow> (string \<times> string) list" where
  "meta_part u h = map (\<lambda>(k, v). (ToLower u (drop mdPrefixLen k), hd v)) (filter (\<lambda>e. is_meta u (fst e)) h)"

lemma meta_part_simps [simp]:
  "meta_part u [] = []"
  "meta_part u ((k, v) # h) =
     (if is_meta u k then (ToLower u (drop mdPrefixLen k), hd v) # meta_part u h else meta_part u h)"
  by (simp_all add: meta_part_def)

lemma metadata_loop_reads:
  assumes "\<And>k v. (k, v) \<in> set h \<Longrightarrow> is_meta u k \<Longrightarrow> v \<noteq> []" and "distinct (map fst (meta_part u h))"
  shows "\<exists>m. metadata_loop u h md = Return m \<and> map_of m = map_of md ++ map_of (meta_part u h)"
  using assms
proof (induction h arbitrary: md)
  case (Cons e h)
  obtain k v where e: "e = (k, v)" by (cases e)
  show ?case
  proof (cases "is_meta u k")
    case True
    then obtain x xs where v: "v = x # xs" using Cons.prems(1) [of k v] by (cases v) (auto simp: e)
    let ?n = "ToLower u (drop mdPrefixLen k)"
    have "?n \<notin> fst ` set (meta_part u h)" "distinct (map fst (meta_part u h))"
      using Cons.prems(2) True by (simp_all add: e)
    moreover from this(1) have "map_of (meta_part u h) ?n = None" by (simp add: map_of_eq_None_iff)
    moreover obtain m where "metadata_loop u h (AList.update ?n x md) = Return m"
      "map_of m = map_of (AList.update ?n x md) ++ map_of (meta_part u h)"
      using Cons.IH [of "AList.update ?n x md"] Cons.prems(1) calculation(2) by (auto simp: e)
    ultimately show ?thesis using True
      by (auto simp: e v map_of_update_alist map_add_def fun_eq_iff split: option.splits)
  next
    case False
    with Cons.IH [of md] Cons.prems show ?thesis by (auto simp: e)
  qed
qed simp

lemma metadata_headers_map:
  assumes "distinct (map fst md)" and "list_all meta_name_ok (map fst md)"
  shows "(k, x) \<in> set md \<Longrightarrow> map_of (rq_Header (metadata_headers md req)) (meta_header k) = Some [x]"
    and "key \<notin> meta_header ` fst ` set md \<Longrightarrow>
      map_of (rq_Header (metadata_headers md req)) key = map_of (rq_Header req) key"
proof -
  have other: "key \<notin> meta_header ` fst ` set md \<Longrightarrow>
      map_of (rq_Header (metadata_headers md req)) key = map_of (rq_Header req) key" for md key req
    unfolding metadata_headers_def
    by (induction md arbitrary: req) (auto simp: set_header_def Header_Set_def map_of_update_alist)
  then show "key \<notin> meta_header ` fst ` set md \<Longrightarrow>
      map_of (rq_Header (metadata_headers md req)) key = map_of (rq_Header req) key" .
  show "map_of (rq_Header (metadata_headers md req)) (meta_header k) = Some [x]" if "(k, x) \<in> set md"
    using that assms
  proof (induction md arbitrary: req)
    case (Cons e md)
    obtain n y where e: "e = (n, y)" by (cases e)
    have step: "metadata_headers (e # md) req = metadata_headers md (set_header (''x-ms-meta-'' @ n) y req)"
      by (simp add: metadata_headers_def e)
    show ?case
    proof (cases "(k, x) \<in> set md")
      case True
      with Cons show ?thesis by (simp only: step) simp
    next
      case False
      with Cons.prems have eq: "k = n" "x = y" by (auto simp: e)
      have "meta_header n \<notin> meta_header ` fst ` set md"
        using Cons.prems(2,3) meta_header_inject [of n] by (auto simp: e list_all_iff)
      from other [OF this] show ?thesis
        by (simp only: step) (simp add: eq set_header_def Header_Set_def map_of_update_alist)
    qed
  qed simp
qed

text \<open>The metadata headers of a response that has them from the request.\<close>

lemma meta_part_request:
  assumes "go_map_ok md" and "list_all meta_name_ok (map fst md)" and "go_map_ok (rq_Header req)"
    and "list_all (\<lambda>e. \<not> is_meta u (fst e)) (rq_Header req)"
    and "mset (filter (\<lambda>e. is_meta u (fst e)) h) = mset (filter (\<lambda>e. is_meta u (fst e)) (rq_Header (metadata_headers md req)))"
  shows "set (filter (\<lambda>e. is_meta u (fst e)) h) = (\<lambda>(k, x). (meta_header k, [x])) ` set md"
    and "distinct (filter (\<lambda>e. is_meta u (fst e)) h)"
proof -
  let ?H = "rq_Header (metadata_headers md req)"
  have dist: "distinct (map fst md)" using assms(1) by (simp add: go_map_ok_def)
  have "go_map_ok ?H"
    unfolding metadata_headers_def using assms(3)
    by (induction md arbitrary: req) (auto simp: set_header_def)
  then have H: "distinct (map fst ?H)" by (simp add: go_map_ok_def)
  have "set (filter (\<lambda>e. is_meta u (fst e)) ?H) = (\<lambda>(k, x). (meta_header k, [x])) ` set md" (is "?L = ?R")
  proof
    show "?L \<subseteq> ?R"
    proof
      fix e assume e: "e \<in> ?L"
      then have m: "map_of ?H (fst e) = Some (snd e)" "is_meta u (fst e)" using H by auto
      have "fst e \<in> meta_header ` fst ` set md"
      proof (rule ccontr)
        assume no: "fst e \<notin> meta_header ` fst ` set md"
        from metadata_headers_map(2) [OF dist assms(2) no] m(1) have "map_of (rq_Header req) (fst e) = Some (snd e)" by simp
        then have "(fst e, snd e) \<in> set (rq_Header req)" by (rule map_of_SomeD)
        with assms(4) m(2) show False by (auto simp: list_all_iff)
      qed
      then obtain k x where kx: "(k, x) \<in> set md" "fst e = meta_header k" by force
      with metadata_headers_map(1) [OF dist assms(2) kx(1)] m(1) have "e = (meta_header k, [x])" by (cases e) simp
      with kx(1) show "e \<in> ?R" by force
    qed
    show "?R \<subseteq> ?L"
    proof (clarify)
      fix k x assume kx: "(k, x) \<in> set md"
      then have "meta_name_ok k" using assms(2) by (force simp: list_all_iff)
      with metadata_headers_map(1) [OF dist assms(2) kx] meta_header_read(1) show "(meta_header k, [x]) \<in> ?L"
        by (auto dest: map_of_SomeD)
    qed
  qed
  then show "set (filter (\<lambda>e. is_meta u (fst e)) h) = (\<lambda>(k, x). (meta_header k, [x])) ` set md"
    using mset_eq_setD [OF assms(5)] by simp
  have "distinct ?H" using H by (simp add: distinct_map)
  then show "distinct (filter (\<lambda>e. is_meta u (fst e)) h)"
    using mset_eq_imp_distinct_iff [OF assms(5)] by simp
qed

text \<open>
  C20: Metadata comes back: for names in lower case, what \<open>NewMetadata\<close> reads from a response
  whose metadata headers are those of the request that set them, in any order and beside
  any other headers, is the metadata that was set.
\<close>

theorem metadata_roundtrip:
  assumes "go_map_ok md" and "list_all meta_name_ok (map fst md)" and "go_map_ok (rq_Header req)"
    and "list_all (\<lambda>e. \<not> is_meta u (fst e)) (rq_Header req)"
    and "mset (filter (\<lambda>e. is_meta u (fst e)) (rs_Header resp)) =
      mset (filter (\<lambda>e. is_meta u (fst e)) (rq_Header (metadata_headers md req)))"
  shows "\<exists>m. NewMetadata u (Some resp) = Return m \<and> map_of m = map_of md"
proof -
  let ?h = "rs_Header resp"
  note part = meta_part_request [OF assms]
  have name: "meta_name_ok k" if "(k, x) \<in> set md" for k x using assms(2) that by (force simp: list_all_iff)
  have "v \<noteq> []" if "(k, v) \<in> set ?h" "is_meta u k" for k v
  proof -
    from that have "(k, v) \<in> set (filter (\<lambda>e. is_meta u (fst e)) ?h)" by simp
    then have "(k, v) \<in> (\<lambda>(k, x). (meta_header k, [x])) ` set md" by (simp only: part(1))
    then show ?thesis by auto
  qed
  moreover have set: "set (meta_part u ?h) = set md"
  proof -
    have "set (meta_part u ?h) = (\<lambda>e. e) ` set md"
      unfolding meta_part_def list.set_map part(1) image_image
      by (rule image_cong) (auto simp: meta_header_read(2) simp del: append.simps dest: name)
    then show ?thesis by simp
  qed
  moreover have dist: "distinct (map fst (meta_part u ?h))"
  proof -
    have "inj_on (fst \<circ> (\<lambda>(k, v). (ToLower u (drop mdPrefixLen k), hd v))) (set (filter (\<lambda>e. is_meta u (fst e)) ?h))"
      unfolding part(1) using name meta_header_read(2) assms(1)
      by (auto simp: inj_on_def go_map_ok_def dest: eq_key_imp_eq_value)
    then show ?thesis unfolding meta_part_def map_map distinct_map using part(2) by simp
  qed
  ultimately obtain m where "metadata_loop u ?h [] = Return m" "map_of m = map_of [] ++ map_of (meta_part u ?h)"
    using metadata_loop_reads [of ?h u "[]"] by blast
  moreover have "map_of (meta_part u ?h) = map_of md"
    using set dist assms(1) by (simp add: map_of_inject_set go_map_ok_def)
  ultimately show ?thesis by (simp add: NewMetadata_def)
qed

definition meta_response :: http_response where
  "meta_response = \<lparr>rs_StatusCode = 200, rs_Status = ''200 OK'',
     rs_Header = [(''X-Ms-Meta-Year'', [''2019'']), (''Etag'', [''x'']), (''X-Ms-Meta-Owner'', [''me''])], rs_Body = None\<rparr>"

theorem metadata_roundtrip_witness:
  "\<exists>m. NewMetadata ascii_tables (Some meta_response) = Return m
     \<and> map_of m = map_of [(''owner'', ''me''), (''year'', ''2019'')]"
proof (rule metadata_roundtrip)
  let ?req = "\<lparr>rq_Method = ''PUT'', rq_URL = empty_url, rq_Host = [], rq_Header = [], rq_Body = None\<rparr>"
  show "go_map_ok [(''owner'', ''me''), (''year'', ''2019'')]" by (simp add: go_map_ok_def)
  show "list_all meta_name_ok (map fst [(''owner'', ''me''), (''year'', ''2019'')])" by code_simp
  show "go_map_ok (rq_Header ?req)" by (simp add: go_map_ok_def)
  show "list_all (\<lambda>e. \<not> is_meta ascii_tables (fst e)) (rq_Header ?req)" by simp
  have "rq_Header (metadata_headers [(''owner'', ''me''), (''year'', ''2019'')] ?req) =
    [(''X-Ms-Meta-Owner'', [''me'']), (''X-Ms-Meta-Year'', [''2019''])]" by code_simp
  moreover have "is_meta ascii_tables ''X-Ms-Meta-Owner''" "is_meta ascii_tables ''X-Ms-Meta-Year''"
    "\<not> is_meta ascii_tables ''Etag''" by code_simp+
  ultimately show "mset (filter (\<lambda>e. is_meta ascii_tables (fst e)) (rs_Header meta_response)) =
      mset (filter (\<lambda>e. is_meta ascii_tables (fst e))
        (rq_Header (metadata_headers [(''owner'', ''me''), (''year'', ''2019'')] ?req)))"
    by (simp add: meta_response_def)
qed

end
