(* ===== verification/Responses.thy ===== *)
theory Responses
  imports Response
begin

text \<open>
  The accessors of the response types, one definition for each method of
  zz\_generated\_models.go and zz\_response\_helpers.go.
\<close>

section \<open>DirectoryCreateResponse\<close>

type_synonym DirectoryCreateResponse = "http_response option"

definition DirectoryCreateResponse_Response :: "DirectoryCreateResponse \<Rightarrow> http_response option" where
  "DirectoryCreateResponse_Response r = r"

definition DirectoryCreateResponse_StatusCode :: "DirectoryCreateResponse \<Rightarrow> int exec" where
  "DirectoryCreateResponse_StatusCode r = raw r rs_StatusCode"

definition DirectoryCreateResponse_Status :: "DirectoryCreateResponse \<Rightarrow> string exec" where
  "DirectoryCreateResponse_Status r = raw r rs_Status"

definition DirectoryCreateResponse_Date :: "local_zone \<Rightarrow> DirectoryCreateResponse \<Rightarrow> go_time exec" where
  "DirectoryCreateResponse_Date local r = header_time local ''Date'' r"

definition DirectoryCreateResponse_ErrorCode :: "DirectoryCreateResponse \<Rightarrow> string exec" where
  "DirectoryCreateResponse_ErrorCode r = header_string ''x-ms-error-code'' r"

definition DirectoryCreateResponse_ETag :: "DirectoryCreateResponse \<Rightarrow> ETag exec" where
  "DirectoryCreateResponse_ETag r = header_string ''ETag'' r"

definition DirectoryCreateResponse_IsServerEncrypted :: "DirectoryCreateResponse \<Rightarrow> string exec" where
  "DirectoryCreateResponse_IsServerEncrypted r = header_string ''x-ms-request-server-encrypted'' r"

definition DirectoryCreateResponse_LastModified :: "local_zone \<Rightarrow> DirectoryCreateResponse \<Rightarrow> go_time exec" where
  "DirectoryCreateResponse_LastModified local r = header_time local ''Last-Modified'' r"

definition DirectoryCreateResponse_RequestID :: "DirectoryCreateResponse \<Rightarrow> string exec" where
  "DirectoryCreateResponse_RequestID r = header_string ''x-ms-request-id'' r"

definition DirectoryCreateResponse_Version :: "DirectoryCreateResponse \<Rightarrow> string exec" where
  "DirectoryCreateResponse_Version r = header_string ''x-ms-version'' r"

section \<open>DirectoryDeleteResponse\<close>

type_synonym DirectoryDeleteResponse = "http_response option"

definition DirectoryDeleteResponse_Response :: "DirectoryDeleteResponse \<Rightarrow> http_response option" where
  "DirectoryDeleteResponse_Response r = r"

definition DirectoryDeleteResponse_StatusCode :: "DirectoryDeleteResponse \<Rightarrow> int exec" where
  "DirectoryDeleteResponse_StatusCode r = raw r rs_StatusCode"

definition DirectoryDeleteResponse_Status :: "DirectoryDeleteResponse \<Rightarrow> string exec" where
  "DirectoryDeleteResponse_Status r = raw r rs_Status"

definition DirectoryDeleteResponse_Date :: "local_zone \<Rightarrow> DirectoryDeleteResponse \<Rightarrow> go_time exec" where
  "DirectoryDeleteResponse_Date local r = header_time local ''Date'' r"

definition DirectoryDeleteResponse_ErrorCode :: "DirectoryDeleteResponse \<Rightarrow> string exec" where
  "DirectoryDeleteResponse_ErrorCode r = header_string ''x-ms-error-code'' r"

definition DirectoryDeleteResponse_RequestID :: "DirectoryDeleteResponse \<Rightarrow> string exec" where
  "DirectoryDeleteResponse_RequestID r = header_string ''x-ms-request-id'' r"

definition DirectoryDeleteResponse_Version :: "DirectoryDeleteResponse \<Rightarrow> string exec" where
  "DirectoryDeleteResponse_Version r = header_string ''x-ms-version'' r"

section \<open>DirectoryGetPropertiesResponse\<close>

type_synonym DirectoryGetPropertiesResponse = "http_response option"

definition DirectoryGetPropertiesResponse_NewMetadata :: "unicode_tables \<Rightarrow> DirectoryGetPropertiesResponse \<Rightarrow> Metadata exec" where
  "DirectoryGetPropertiesResponse_NewMetadata u r = NewMetadata u r"

definition DirectoryGetPropertiesResponse_Response :: "DirectoryGetPropertiesResponse \<Rightarrow> http_response option" where
  "DirectoryGetPropertiesResponse_Response r = r"

definition DirectoryGetPropertiesResponse_StatusCode :: "DirectoryGetPropertiesResponse \<Rightarrow> int exec" where
  "DirectoryGetPropertiesResponse_StatusCode r = raw r rs_StatusCode"

definition DirectoryGetPropertiesResponse_Status :: "DirectoryGetPropertiesResponse \<Rightarrow> string exec" where
  "DirectoryGetPropertiesResponse_Status r = raw r rs_Status"

definition DirectoryGetPropertiesResponse_Date :: "local_zone \<Rightarrow> DirectoryGetPropertiesResponse \<Rightarrow> go_time exec" where
  "DirectoryGetPropertiesResponse_Date local r = header_time local ''Date'' r"

definition DirectoryGetPropertiesResponse_ErrorCode :: "DirectoryGetPropertiesResponse \<Rightarrow> string exec" where
  "DirectoryGetPropertiesResponse_ErrorCode r = header_string ''x-ms-error-code'' r"

definition DirectoryGetPropertiesResponse_ETag :: "DirectoryGetPropertiesResponse \<Rightarrow> ETag exec" where
  "DirectoryGetPropertiesResponse_ETag r = header_string ''ETag'' r"

definition DirectoryGetPropertiesResponse_IsServerEncrypted :: "DirectoryGetPropertiesResponse \<Rightarrow> string exec" where
  "DirectoryGetPropertiesResponse_IsServerEncrypted r = header_string ''x-ms-server-encrypted'' r"

definition DirectoryGetPropertiesResponse_LastModified :: "local_zone \<Rightarrow> DirectoryGetPropertiesResponse \<Rightarrow> go_time exec" where
  "DirectoryGetPropertiesResponse_LastModified local r = header_time local ''Last-Modified'' r"

definition DirectoryGetPropertiesResponse_RequestID :: "DirectoryGetPropertiesResponse \<Rightarrow> string exec" where
  "DirectoryGetPropertiesResponse_RequestID r = header_string ''x-ms-request-id'' r"

definition DirectoryGetPropertiesResponse_Version :: "DirectoryGetPropertiesResponse \<Rightarrow> string exec" where
  "DirectoryGetPropertiesResponse_Version r = header_string ''x-ms-version'' r"

section \<open>DirectorySetMetadataResponse\<close>

type_synonym DirectorySetMetadataResponse = "http_response option"

definition DirectorySetMetadataResponse_Response :: "DirectorySetMetadataResponse \<Rightarrow> http_response option" where
  "DirectorySetMetadataResponse_Response r = r"

definition DirectorySetMetadataResponse_StatusCode :: "DirectorySetMetadataResponse \<Rightarrow> int exec" where
  "DirectorySetMetadataResponse_StatusCode r = raw r rs_StatusCode"

definition DirectorySetMetadataResponse_Status :: "DirectorySetMetadataResponse \<Rightarrow> string exec" where
  "DirectorySetMetadataResponse_Status r = raw r rs_Status"

definition DirectorySetMetadataResponse_Date :: "local_zone \<Rightarrow> DirectorySetMetadataResponse \<Rightarrow> go_time exec" where
  "DirectorySetMetadataResponse_Date local r = header_time local ''Date'' r"

definition DirectorySetMetadataResponse_ErrorCode :: "DirectorySetMetadataResponse \<Rightarrow> string exec" where
  "DirectorySetMetadataResponse_ErrorCode r = header_string ''x-ms-error-code'' r"

definition DirectorySetMetadataResponse_ETag :: "DirectorySetMetadataResponse \<Rightarrow> ETag exec" where
  "DirectorySetMetadataResponse_ETag r = header_string ''ETag'' r"

definition DirectorySetMetadataResponse_IsServerEncrypted :: "DirectorySetMetadataResponse \<Rightarrow> string exec" where
  "DirectorySetMetadataResponse_IsServerEncrypted r = header_string ''x-ms-request-server-encrypted'' r"

definition DirectorySetMetadataResponse_RequestID :: "DirectorySetMetadataResponse \<Rightarrow> string exec" where
  "DirectorySetMetadataResponse_RequestID r = header_string ''x-ms-request-id'' r"

definition DirectorySetMetadataResponse_Version :: "DirectorySetMetadataResponse \<Rightarrow> string exec" where
  "DirectorySetMetadataResponse_Version r = header_string ''x-ms-version'' r"

section \<open>downloadResponse\<close>

type_synonym downloadResponse = "http_response option"

definition downloadResponse_NewMetadata :: "unicode_tables \<Rightarrow> downloadResponse \<Rightarrow> Metadata exec" where
  "downloadResponse_NewMetadata u r = NewMetadata u r"

definition downloadResponse_Response :: "downloadResponse \<Rightarrow> http_response option" where
  "downloadResponse_Response r = r"

definition downloadResponse_StatusCode :: "downloadResponse \<Rightarrow> int exec" where
  "downloadResponse_StatusCode r = raw r rs_StatusCode"

definition downloadResponse_Status :: "downloadResponse \<Rightarrow> string exec" where
  "downloadResponse_Status r = raw r rs_Status"

definition downloadResponse_Body :: "downloadResponse \<Rightarrow> body option exec" where
  "downloadResponse_Body r = raw r rs_Body"

definition downloadResponse_AcceptRanges :: "downloadResponse \<Rightarrow> string exec" where
  "downloadResponse_AcceptRanges r = header_string ''Accept-Ranges'' r"

definition downloadResponse_CacheControl :: "downloadResponse \<Rightarrow> string exec" where
  "downloadResponse_CacheControl r = header_string ''Cache-Control'' r"

definition downloadResponse_ContentDisposition :: "downloadResponse \<Rightarrow> string exec" where
  "downloadResponse_ContentDisposition r = header_string ''Content-Disposition'' r"

definition downloadResponse_ContentEncoding :: "downloadResponse \<Rightarrow> string exec" where
  "downloadResponse_ContentEncoding r = header_string ''Content-Encoding'' r"

definition downloadResponse_ContentLanguage :: "downloadResponse \<Rightarrow> string exec" where
  "downloadResponse_ContentLanguage r = header_string ''Content-Language'' r"

definition downloadResponse_ContentLength :: "downloadResponse \<Rightarrow> int exec" where
  "downloadResponse_ContentLength r = header_int 64 ''Content-Length'' r"

definition downloadResponse_ContentMD5 :: "downloadResponse \<Rightarrow> string option exec" where
  "downloadResponse_ContentMD5 r = header_bytes ''Content-MD5'' r"

definition downloadResponse_ContentRange :: "downloadResponse \<Rightarrow> string exec" where
  "downloadResponse_ContentRange r = header_string ''Content-Range'' r"

definition downloadResponse_ContentType :: "downloadResponse \<Rightarrow> string exec" where
  "downloadResponse_ContentType r = header_string ''Content-Type'' r"

definition downloadResponse_CopyCompletionTime :: "local_zone \<Rightarrow> downloadResponse \<Rightarrow> go_time exec" where
  "downloadResponse_CopyCompletionTime local r = header_time local ''x-ms-copy-completion-time'' r"

definition downloadResponse_CopyID :: "downloadResponse \<Rightarrow> string exec" where
  "downloadResponse_CopyID r = header_string ''x-ms-copy-id'' r"

definition downloadResponse_CopyProgress :: "downloadResponse \<Rightarrow> string exec" where
  "downloadResponse_CopyProgress r = header_string ''x-ms-copy-progress'' r"

definition downloadResponse_CopySource :: "downloadResponse \<Rightarrow> string exec" where
  "downloadResponse_CopySource r = header_string ''x-ms-copy-source'' r"

definition downloadResponse_CopyStatus :: "downloadResponse \<Rightarrow> CopyStatusType exec" where
  "downloadResponse_CopyStatus r = header_string ''x-ms-copy-status'' r"

definition downloadResponse_CopyStatusDescription :: "downloadResponse \<Rightarrow> string exec" where
  "downloadResponse_CopyStatusDescription r = header_string ''x-ms-copy-status-description'' r"

definition downloadResponse_Date :: "local_zone \<Rightarrow> downloadResponse \<Rightarrow> go_time exec" where
  "downloadResponse_Date local r = header_time local ''Date'' r"

definition downloadResponse_ErrorCode :: "downloadResponse \<Rightarrow> string exec" where
  "downloadResponse_ErrorCode r = header_string ''x-ms-error-code'' r"

definition downloadResponse_ETag :: "downloadResponse \<Rightarrow> ETag exec" where
  "downloadResponse_ETag r = header_string ''ETag'' r"

definition downloadResponse_FileContentMD5 :: "downloadResponse \<Rightarrow> string option exec" where
  "downloadResponse_FileContentMD5 r = header_bytes ''x-ms-content-md5'' r"

definition downloadResponse_IsServerEncrypted :: "downloadResponse \<Rightarrow> string exec" where
  "downloadResponse_IsServerEncrypted r = header_string ''x-ms-server-encrypted'' r"

definition downloadResponse_LastModified :: "local_zone \<Rightarrow> downloadResponse \<Rightarrow> go_time exec" where
  "downloadResponse_LastModified local r = header_time local ''Last-Modified'' r"

definition downloadResponse_RequestID :: "downloadResponse \<Rightarrow> string exec" where
  "downloadResponse_RequestID r = header_string ''x-ms-request-id'' r"

definition downloadResponse_Version :: "downloadResponse \<Rightarrow> string exec" where
  "downloadResponse_Version r = header_string ''x-ms-version'' r"

section \<open>FileAbortCopyResponse\<close>

type_synonym FileAbortCopyResponse = "http_response option"

definition FileAbortCopyResponse_Response :: "FileAbortCopyResponse \<Rightarrow> http_response option" where
  "FileAbortCopyResponse_Response r = r"

definition FileAbortCopyResponse_StatusCode :: "FileAbortCopyResponse \<Rightarrow> int exec" where
  "FileAbortCopyResponse_StatusCode r = raw r rs_StatusCode"

definition FileAbortCopyResponse_Status :: "FileAbortCopyResponse \<Rightarrow> string exec" where
  "FileAbortCopyResponse_Status r = raw r rs_Status"

definition FileAbortCopyResponse_Date :: "local_zone \<Rightarrow> FileAbortCopyResponse \<Rightarrow> go_time exec" where
  "FileAbortCopyResponse_Date local r = header_time local ''Date'' r"

definition FileAbortCopyResponse_ErrorCode :: "FileAbortCopyResponse \<Rightarrow> string exec" where
  "FileAbortCopyResponse_ErrorCode r = header_string ''x-ms-error-code'' r"

definition FileAbortCopyResponse_RequestID :: "FileAbortCopyResponse \<Rightarrow> string exec" where
  "FileAbortCopyResponse_RequestID r = header_string ''x-ms-request-id'' r"

definition FileAbortCopyResponse_Version :: "FileAbortCopyResponse \<Rightarrow> string exec" where
  "FileAbortCopyResponse_Version r = header_string ''x-ms-version'' r"

section \<open>FileCreateResponse\<close>

type_synonym FileCreateResponse = "http_response option"

definition FileCreateResponse_Response :: "FileCreateResponse \<Rightarrow> http_response option" where
  "FileCreateResponse_Response r = r"

definition FileCreateResponse_StatusCode :: "FileCreateResponse \<Rightarrow> int exec" where
  "FileCreateResponse_StatusCode r = raw r rs_StatusCode"

definition FileCreateResponse_Status :: "FileCreateResponse \<Rightarrow> string exec" where
  "FileCreateResponse_Status r = raw r rs_Status"

definition FileCreateResponse_Date :: "local_zone \<Rightarrow> FileCreateResponse \<Rightarrow> go_time exec" where
  "FileCreateResponse_Date local r = header_time local ''Date'' r"

definition FileCreateResponse_ErrorCode :: "FileCreateResponse \<Rightarrow> string exec" where
  "FileCreateResponse_ErrorCode r = header_string ''x-ms-error-code'' r"

definition FileCreateResponse_ETag :: "FileCreateResponse \<Rightarrow> ETag exec" where
  "FileCreateResponse_ETag r = header_string ''ETag'' r"

definition FileCreateResponse_IsServerEncrypted :: "FileCreateResponse \<Rightarrow> string exec" where
  "FileCreateResponse_IsServerEncrypted r = header_string ''x-ms-request-server-encrypted'' r"

definition FileCreateResponse_LastModified :: "local_zone \<Rightarrow> FileCreateResponse \<Rightarrow> go_time exec" where
  "FileCreateResponse_LastModified local r = header_time local ''Last-Modified'' r"

definition FileCreateResponse_RequestID :: "FileCreateResponse \<Rightarrow> string exec" where
  "FileCreateResponse_RequestID r = header_string ''x-ms-request-id'' r"

definition FileCreateResponse_Version :: "FileCreateResponse \<Rightarrow> string exec" where
  "FileCreateResponse_Version r = header_string ''x-ms-version'' r"

section \<open>FileDeleteResponse\<close>

type_synonym FileDeleteResponse = "http_response option"

definition FileDeleteResponse_Response :: "FileDeleteResponse \<Rightarrow> http_response option" where
  "FileDeleteResponse_Response r = r"

definition FileDeleteResponse_StatusCode :: "FileDeleteResponse \<Rightarrow> int exec" where
  "FileDeleteResponse_StatusCode r = raw r rs_StatusCode"

definition FileDeleteResponse_Status :: "FileDeleteResponse \<Rightarrow> string exec" where
  "FileDeleteResponse_Status r = raw r rs_Status"

definition FileDeleteResponse_Date :: "local_zone \<Rightarrow> FileDeleteResponse \<Rightarrow> go_time exec" where
  "FileDeleteResponse_Date local r = header_time local ''Date'' r"

definition FileDeleteResponse_ErrorCode :: "FileDeleteResponse \<Rightarrow> string exec" where
  "FileDeleteResponse_ErrorCode r = header_string ''x-ms-error-code'' r"

definition FileDeleteResponse_RequestID :: "FileDeleteResponse \<Rightarrow> string exec" where
  "FileDeleteResponse_RequestID r = header_string ''x-ms-request-id'' r"

definition FileDeleteResponse_Version :: "FileDeleteResponse \<Rightarrow> string exec" where
  "FileDeleteResponse_Version r = header_string ''x-ms-version'' r"

section \<open>FileGetPropertiesResponse\<close>

type_synonym FileGetPropertiesResponse = "http_response option"

definition FileGetPropertiesResponse_NewMetadata :: "unicode_tables \<Rightarrow> FileGetPropertiesResponse \<Rightarrow> Metadata exec" where
  "FileGetPropertiesResponse_NewMetadata u r = NewMetadata u r"

definition FileGetPropertiesResponse_Response :: "FileGetPropertiesResponse \<Rightarrow> http_response option" where
  "FileGetPropertiesResponse_Response r = r"

definition FileGetPropertiesResponse_StatusCode :: "FileGetPropertiesResponse \<Rightarrow> int exec" where
  "FileGetPropertiesResponse_StatusCode r = raw r rs_StatusCode"

definition FileGetPropertiesResponse_Status :: "FileGetPropertiesResponse \<Rightarrow> string exec" where
  "FileGetPropertiesResponse_Status r = raw r rs_Status"

definition FileGetPropertiesResponse_CacheControl :: "FileGetPropertiesResponse \<Rightarrow> string exec" where
  "FileGetPropertiesResponse_CacheControl r = header_string ''Cache-Control'' r"

definition FileGetPropertiesResponse_ContentDisposition :: "FileGetPropertiesResponse \<Rightarrow> string exec" where
  "FileGetPropertiesResponse_ContentDisposition r = header_string ''Content-Disposition'' r"

definition FileGetPropertiesResponse_ContentEncoding :: "FileGetPropertiesResponse \<Rightarrow> string exec" where
  "FileGetPropertiesResponse_ContentEncoding r = header_string ''Content-Encoding'' r"

definition FileGetPropertiesResponse_ContentLanguage :: "FileGetPropertiesResponse \<Rightarrow> string exec" where
  "FileGetPropertiesResponse_ContentLanguage r = header_string ''Content-Language'' r"

definition FileGetPropertiesResponse_ContentLength :: "FileGetPropertiesResponse \<Rightarrow> int exec" where
  "FileGetPropertiesResponse_ContentLength r = header_int 64 ''Content-Length'' r"

definition FileGetPropertiesResponse_ContentMD5 :: "FileGetPropertiesResponse \<Rightarrow> string option exec" where
  "FileGetPropertiesResponse_ContentMD5 r = header_bytes ''Content-MD5'' r"

definition FileGetPropertiesResponse_ContentType :: "FileGetPropertiesResponse \<Rightarrow> string exec" where
  "FileGetPropertiesResponse_ContentType r = header_string ''Content-Type'' r"

definition FileGetPropertiesResponse_CopyCompletionTime :: "local_zone \<Rightarrow> FileGetPropertiesResponse \<Rightarrow> go_time exec" where
  "FileGetPropertiesResponse_CopyCompletionTime local r = header_time local ''x-ms-copy-completion-time'' r"

definition FileGetPropertiesResponse_CopyID :: "FileGetPropertiesResponse \<Rightarrow> string exec" where
  "FileGetPropertiesResponse_CopyID r = header_string ''x-ms-copy-id'' r"

definition FileGetPropertiesResponse_CopyProgress :: "FileGetPropertiesResponse \<Rightarrow> string exec" where
  "FileGetPropertiesResponse_CopyProgress r = header_string ''x-ms-copy-progress'' r"

definition FileGetPropertiesResponse_CopySource :: "FileGetPropertiesResponse \<Rightarrow> string exec" where
  "FileGetPropertiesResponse_CopySource r = header_string ''x-ms-copy-source'' r"

definition FileGetPropertiesResponse_CopyStatus :: "FileGetPropertiesResponse \<Rightarrow> CopyStatusType exec" where
  "FileGetPropertiesResponse_CopyStatus r = header_string ''x-ms-copy-status'' r"

definition FileGetPropertiesResponse_CopyStatusDescription :: "FileGetPropertiesResponse \<Rightarrow> string exec" where
  "FileGetPropertiesResponse_CopyStatusDescription r = header_string ''x-ms-copy-status-description'' r"

definition FileGetPropertiesResponse_Date :: "local_zone \<Rightarrow> FileGetPropertiesResponse \<Rightarrow> go_time exec" where
  "FileGetPropertiesResponse_Date local r = header_time local ''Date'' r"

definition FileGetPropertiesResponse_ErrorCode :: "FileGetPropertiesResponse \<Rightarrow> string exec" where
  "FileGetPropertiesResponse_ErrorCode r = header_string ''x-ms-error-code'' r"

definition FileGetPropertiesResponse_ETag :: "FileGetPropertiesResponse \<Rightarrow> ETag exec" where
  "FileGetPropertiesResponse_ETag r = header_string ''ETag'' r"

definition FileGetPropertiesResponse_IsServerEncrypted :: "FileGetPropertiesResponse \<Rightarrow> string exec" where
  "FileGetPropertiesResponse_IsServerEncrypted r = header_string ''x-ms-server-encrypted'' r"

definition FileGetPropertiesResponse_LastModified :: "local_zone \<Rightarrow> FileGetPropertiesResponse \<Rightarrow> go_time exec" where
  "FileGetPropertiesResponse_LastModified local r = header_time local ''Last-Modified'' r"

definition FileGetPropertiesResponse_RequestID :: "FileGetPropertiesResponse \<Rightarrow> string exec" where
  "FileGetPropertiesResponse_RequestID r = header_string ''x-ms-request-id'' r"

definition FileGetPropertiesResponse_Version :: "FileGetPropertiesResponse \<Rightarrow> string exec" where
  "FileGetPropertiesResponse_Version r = header_string ''x-ms-version'' r"

definition FileGetPropertiesResponse_FileType :: "FileGetPropertiesResponse \<Rightarrow> string exec" where
  "FileGetPropertiesResponse_FileType r = header_string ''x-ms-type'' r"

section \<open>FileSetHTTPHeadersResponse\<close>

type_synonym FileSetHTTPHeadersResponse = "http_response option"

definition FileSetHTTPHeadersResponse_Response :: "FileSetHTTPHeadersResponse \<Rightarrow> http_response option" where
  "FileSetHTTPHeadersResponse_Response r = r"

definition FileSetHTTPHeadersResponse_StatusCode :: "FileSetHTTPHeadersResponse \<Rightarrow> int exec" where
  "FileSetHTTPHeadersResponse_StatusCode r = raw r rs_StatusCode"

definition FileSetHTTPHeadersResponse_Status :: "FileSetHTTPHeadersResponse \<Rightarrow> string exec" where
  "FileSetHTTPHeadersResponse_Status r = raw r rs_Status"

definition FileSetHTTPHeadersResponse_Date :: "local_zone \<Rightarrow> FileSetHTTPHeadersResponse \<Rightarrow> go_time exec" where
  "FileSetHTTPHeadersResponse_Date local r = header_time local ''Date'' r"

definition FileSetHTTPHeadersResponse_ErrorCode :: "FileSetHTTPHeadersResponse \<Rightarrow> string exec" where
  "FileSetHTTPHeadersResponse_ErrorCode r = header_string ''x-ms-error-code'' r"

definition FileSetHTTPHeadersResponse_ETag :: "FileSetHTTPHeadersResponse \<Rightarrow> ETag exec" where
  "FileSetHTTPHeadersResponse_ETag r = header_string ''ETag'' r"

definition FileSetHTTPHeadersResponse_IsServerEncrypted :: "FileSetHTTPHeadersResponse \<Rightarrow> string exec" where
  "FileSetHTTPHeadersResponse_IsServerEncrypted r = header_string ''x-ms-request-server-encrypted'' r"

definition FileSetHTTPHeadersResponse_LastModified :: "local_zone \<Rightarrow> FileSetHTTPHeadersResponse \<Rightarrow> go_time exec" where
  "FileSetHTTPHeadersResponse_LastModified local r = header_time local ''Last-Modified'' r"

definition FileSetHTTPHeadersResponse_RequestID :: "FileSetHTTPHeadersResponse \<Rightarrow> string exec" where
  "FileSetHTTPHeadersResponse_RequestID r = header_string ''x-ms-request-id'' r"

definition FileSetHTTPHeadersResponse_Version :: "FileSetHTTPHeadersResponse \<Rightarrow> string exec" where
  "FileSetHTTPHeadersResponse_Version r = header_string ''x-ms-version'' r"

section \<open>FileSetMetadataResponse\<close>

type_synonym FileSetMetadataResponse = "http_response option"

definition FileSetMetadataResponse_Response :: "FileSetMetadataResponse \<Rightarrow> http_response option" where
  "FileSetMetadataResponse_Response r = r"

definition FileSetMetadataResponse_StatusCode :: "FileSetMetadataResponse \<Rightarrow> int exec" where
  "FileSetMetadataResponse_StatusCode r = raw r rs_StatusCode"

definition FileSetMetadataResponse_Status :: "FileSetMetadataResponse \<Rightarrow> string exec" where
  "FileSetMetadataResponse_Status r = raw r rs_Status"

definition FileSetMetadataResponse_Date :: "local_zone \<Rightarrow> FileSetMetadataResponse \<Rightarrow> go_time exec" where
  "FileSetMetadataResponse_Date local r = header_time local ''Date'' r"

definition FileSetMetadataResponse_ErrorCode :: "FileSetMetadataResponse \<Rightarrow> string exec" where
  "FileSetMetadataResponse_ErrorCode r = header_string ''x-ms-error-code'' r"

definition FileSetMetadataResponse_ETag :: "FileSetMetadataResponse \<Rightarrow> ETag exec" where
  "FileSetMetadataResponse_ETag r = header_string ''ETag'' r"

definition FileSetMetadataResponse_IsServerEncrypted :: "FileSetMetadataResponse \<Rightarrow> string exec" where
  "FileSetMetadataResponse_IsServerEncrypted r = header_string ''x-ms-request-server-encrypted'' r"

definition FileSetMetadataResponse_RequestID :: "FileSetMetadataResponse \<Rightarrow> string exec" where
  "FileSetMetadataResponse_RequestID r = header_string ''x-ms-request-id'' r"

definition FileSetMetadataResponse_Version :: "FileSetMetadataResponse \<Rightarrow> string exec" where
  "FileSetMetadataResponse_Version r = header_string ''x-ms-version'' r"

section \<open>FileStartCopyResponse\<close>

type_synonym FileStartCopyResponse = "http_response option"

definition FileStartCopyResponse_Response :: "FileStartCopyResponse \<Rightarrow> http_response option" where
  "FileStartCopyResponse_Response r = r"

definition FileStartCopyResponse_StatusCode :: "FileStartCopyResponse \<Rightarrow> int exec" where
  "FileStartCopyResponse_StatusCode r = raw r rs_StatusCode"

definition FileStartCopyResponse_Status :: "FileStartCopyResponse \<Rightarrow> string exec" where
  "FileStartCopyResponse_Status r = raw r rs_Status"

definition FileStartCopyResponse_CopyID :: "FileStartCopyResponse \<Rightarrow> string exec" where
  "FileStartCopyResponse_CopyID r = header_string ''x-ms-copy-id'' r"

definition FileStartCopyResponse_CopyStatus :: "FileStartCopyResponse \<Rightarrow> CopyStatusType exec" where
  "FileStartCopyResponse_CopyStatus r = header_string ''x-ms-copy-status'' r"

definition FileStartCopyResponse_Date :: "local_zone \<Rightarrow> FileStartCopyResponse \<Rightarrow> go_time exec" where
  "FileStartCopyResponse_Date local r = header_time local ''Date'' r"

definition FileStartCopyResponse_ErrorCode :: "FileStartCopyResponse \<Rightarrow> string exec" where
  "FileStartCopyResponse_ErrorCode r = header_string ''x-ms-error-code'' r"

definition FileStartCopyResponse_ETag :: "FileStartCopyResponse \<Rightarrow> ETag exec" where
  "FileStartCopyResponse_ETag r = header_string ''ETag'' r"

definition FileStartCopyResponse_LastModified :: "local_zone \<Rightarrow> FileStartCopyResponse \<Rightarrow> go_time exec" where
  "FileStartCopyResponse_LastModified local r = header_time local ''Last-Modified'' r"

definition FileStartCopyResponse_RequestID :: "FileStartCopyResponse \<Rightarrow> string exec" where
  "FileStartCopyResponse_RequestID r = header_string ''x-ms-request-id'' r"

definition FileStartCopyResponse_Version :: "FileStartCopyResponse \<Rightarrow> string exec" where
  "FileStartCopyResponse_Version r = header_string ''x-ms-version'' r"

section \<open>FileUploadRangeResponse\<close>

type_synonym FileUploadRangeResponse = "http_response option"

definition FileUploadRangeResponse_Response :: "FileUploadRangeResponse \<Rightarrow> http_response option" where
  "FileUploadRangeResponse_Response r = r"

definition FileUploadRangeResponse_StatusCode :: "FileUploadRangeResponse \<Rightarrow> int exec" where
  "FileUploadRangeResponse_StatusCode r = raw r rs_StatusCode"

definition FileUploadRangeResponse_Status :: "FileUploadRangeResponse \<Rightarrow> string exec" where
  "FileUploadRangeResponse_Status r = raw r rs_Status"

definition FileUploadRangeResponse_ContentMD5 :: "FileUploadRangeResponse \<Rightarrow> string option exec" where
  "FileUploadRangeResponse_ContentMD5 r = header_bytes ''Content-MD5'' r"

definition FileUploadRangeResponse_Date :: "local_zone \<Rightarrow> FileUploadRangeResponse \<Rightarrow> go_time exec" where
  "FileUploadRangeResponse_Date local r = header_time local ''Date'' r"

definition FileUploadRangeResponse_ErrorCode :: "FileUploadRangeResponse \<Rightarrow> string exec" where
  "FileUploadRangeResponse_ErrorCode r = header_string ''x-ms-error-code'' r"

definition FileUploadRangeResponse_ETag :: "FileUploadRangeResponse \<Rightarrow> ETag exec" where
  "FileUploadRangeResponse_ETag r = header_string ''ETag'' r"

definition FileUploadRangeResponse_IsServerEncrypted :: "FileUploadRangeResponse \<Rightarrow> string exec" where
  "FileUploadRangeResponse_IsServerEncrypted r = header_string ''x-ms-request-server-encrypted'' r"

definition FileUploadRangeResponse_LastModified :: "local_zone \<Rightarrow> FileUploadRangeResponse \<Rightarrow> go_time exec" where
  "FileUploadRangeResponse_LastModified local r = header_time local ''Last-Modified'' r"

definition FileUploadRangeResponse_RequestID :: "FileUploadRangeResponse \<Rightarrow> string exec" where
  "FileUploadRangeResponse_RequestID r = header_string ''x-ms-request-id'' r"

definition FileUploadRangeResponse_Version :: "FileUploadRangeResponse \<Rightarrow> string exec" where
  "FileUploadRangeResponse_Version r = header_string ''x-ms-version'' r"

section \<open>ListSharesResponse\<close>

definition ListSharesResponse_Response :: "http_response option \<Rightarrow> http_response option" where
  "ListSharesResponse_Response r = r"

definition ListSharesResponse_StatusCode :: "http_response option \<Rightarrow> int exec" where
  "ListSharesResponse_StatusCode r = raw r rs_StatusCode"

definition ListSharesResponse_Status :: "http_response option \<Rightarrow> string exec" where
  "ListSharesResponse_Status r = raw r rs_Status"

definition ListSharesResponse_ErrorCode :: "http_response option \<Rightarrow> string exec" where
  "ListSharesResponse_ErrorCode r = header_string ''x-ms-error-code'' r"

definition ListSharesResponse_RequestID :: "http_response option \<Rightarrow> string exec" where
  "ListSharesResponse_RequestID r = header_string ''x-ms-request-id'' r"

definition ListSharesResponse_Version :: "http_response option \<Rightarrow> string exec" where
  "ListSharesResponse_Version r = header_string ''x-ms-version'' r"

section \<open>Ranges\<close>

definition Ranges_Response :: "http_response option \<Rightarrow> http_response option" where
  "Ranges_Response r = r"

definition Ranges_StatusCode :: "http_response option \<Rightarrow> int exec" where
  "Ranges_StatusCode r = raw r rs_StatusCode"

definition Ranges_Status :: "http_response option \<Rightarrow> string exec" where
  "Ranges_Status r = raw r rs_Status"

definition Ranges_Date :: "local_zone \<Rightarrow> http_response option \<Rightarrow> go_time exec" where
  "Ranges_Date local r = header_time local ''Date'' r"

definition Ranges_ErrorCode :: "http_response option \<Rightarrow> string exec" where
  "Ranges_ErrorCode r = header_string ''x-ms-error-code'' r"

definition Ranges_ETag :: "http_response option \<Rightarrow> ETag exec" where
  "Ranges_ETag r = header_string ''ETag'' r"

definition Ranges_FileContentLength :: "http_response option \<Rightarrow> int exec" where
  "Ranges_FileContentLength r = header_int 64 ''x-ms-content-length'' r"

definition Ranges_LastModified :: "local_zone \<Rightarrow> http_response option \<Rightarrow> go_time exec" where
  "Ranges_LastModified local r = header_time local ''Last-Modified'' r"

definition Ranges_RequestID :: "http_response option \<Rightarrow> string exec" where
  "Ranges_RequestID r = header_string ''x-ms-request-id'' r"

definition Ranges_Version :: "http_response option \<Rightarrow> string exec" where
  "Ranges_Version r = header_string ''x-ms-version'' r"

section \<open>ServiceSetPropertiesResponse\<close>

type_synonym ServiceSetPropertiesResponse = "http_response option"

definition ServiceSetPropertiesResponse_Response :: "ServiceSetPropertiesResponse \<Rightarrow> http_response option" where
  "ServiceSetPropertiesResponse_Response r = r"

definition ServiceSetPropertiesResponse_StatusCode :: "ServiceSetPropertiesResponse \<Rightarrow> int exec" where
  "ServiceSetPropertiesResponse_StatusCode r = raw r rs_StatusCode"

definition ServiceSetPropertiesResponse_Status :: "ServiceSetPropertiesResponse \<Rightarrow> string exec" where
  "ServiceSetPropertiesResponse_Status r = raw r rs_Status"

definition ServiceSetPropertiesResponse_ErrorCode :: "ServiceSetPropertiesResponse \<Rightarrow> string exec" where
  "ServiceSetPropertiesResponse_ErrorCode r = header_string ''x-ms-error-code'' r"

definition ServiceSetPropertiesResponse_RequestID :: "ServiceSetPropertiesResponse \<Rightarrow> string exec" where
  "ServiceSetPropertiesResponse_RequestID r = header_string ''x-ms-request-id'' r"

definition ServiceSetPropertiesResponse_Version :: "ServiceSetPropertiesResponse \<Rightarrow> string exec" where
  "ServiceSetPropertiesResponse_Version r = header_string ''x-ms-version'' r"

section \<open>ShareCreateResponse\<close>

type_synonym ShareCreateResponse = "http_response option"

definition ShareCreateResponse_Response :: "ShareCreateResponse \<Rightarrow> http_response option" where
  "ShareCreateResponse_Response r = r"

definition ShareCreateResponse_StatusCode :: "ShareCreateResponse \<Rightarrow> int exec" where
  "ShareCreateResponse_StatusCode r = raw r rs_StatusCode"

definition ShareCreateResponse_Status :: "ShareCreateResponse \<Rightarrow> string exec" where
  "ShareCreateResponse_Status r = raw r rs_Status"

definition ShareCreateResponse_Date :: "local_zone \<Rightarrow> ShareCreateResponse \<Rightarrow> go_time exec" where
  "ShareCreateResponse_Date local r = header_time local ''Date'' r"

definition ShareCreateResponse_ErrorCode :: "ShareCreateResponse \<Rightarrow> string exec" where
  "ShareCreateResponse_ErrorCode r = header_string ''x-ms-error-code'' r"

definition ShareCreateResponse_ETag :: "ShareCreateResponse \<Rightarrow> ETag exec" where
  "ShareCreateResponse_ETag r = header_string ''ETag'' r"

definition ShareCreateResponse_LastModified :: "local_zone \<Rightarrow> ShareCreateResponse \<Rightarrow> go_time exec" where
  "ShareCreateResponse_LastModified local r = header_time local ''Last-Modified'' r"

definition ShareCreateResponse_RequestID :: "ShareCreateResponse \<Rightarrow> string exec" where
  "ShareCreateResponse_RequestID r = header_string ''x-ms-request-id'' r"

definition ShareCreateResponse_Version :: "ShareCreateResponse \<Rightarrow> string exec" where
  "ShareCreateResponse_Version r = header_string ''x-ms-version'' r"

section \<open>ShareCreateSnapshotResponse\<close>

type_synonym ShareCreateSnapshotResponse = "http_response option"

definition ShareCreateSnapshotResponse_Response :: "ShareCreateSnapshotResponse \<Rightarrow> http_response option" where
  "ShareCreateSnapshotResponse_Response r = r"

definition ShareCreateSnapshotResponse_StatusCode :: "ShareCreateSnapshotResponse \<Rightarrow> int exec" where
  "ShareCreateSnapshotResponse_StatusCode r = raw r rs_StatusCode"

definition ShareCreateSnapshotResponse_Status :: "ShareCreateSnapshotResponse \<Rightarrow> string exec" where
  "ShareCreateSnapshotResponse_Status r = raw r rs_Status"

definition ShareCreateSnapshotResponse_Date :: "local_zone \<Rightarrow> ShareCreateSnapshotResponse \<Rightarrow> go_time exec" where
  "ShareCreateSnapshotResponse_Date local r = header_time local ''Date'' r"

definition ShareCreateSnapshotResponse_ErrorCode :: "ShareCreateSnapshotResponse \<Rightarrow> string exec" where
  "ShareCreateSnapshotResponse_ErrorCode r = header_string ''x-ms-error-code'' r"

definition ShareCreateSnapshotResponse_ETag :: "ShareCreateSnapshotResponse \<Rightarrow> ETag exec" where
  "ShareCreateSnapshotResponse_ETag r = header_string ''ETag'' r"

definition ShareCreateSnapshotResponse_LastModified :: "local_zone \<Rightarrow> ShareCreateSnapshotResponse \<Rightarrow> go_time exec" where
  "ShareCreateSnapshotResponse_LastModified local r = header_time local ''Last-Modified'' r"

definition ShareCreateSnapshotResponse_RequestID :: "ShareCreateSnapshotResponse \<Rightarrow> string exec" where
  "ShareCreateSnapshotResponse_RequestID r = header_string ''x-ms-request-id'' r"

definition ShareCreateSnapshotResponse_Snapshot :: "ShareCreateSnapshotResponse \<Rightarrow> string exec" where
  "ShareCreateSnapshotResponse_Snapshot r = header_string ''x-ms-snapshot'' r"

definition ShareCreateSnapshotResponse_Version :: "ShareCreateSnapshotResponse \<Rightarrow> string exec" where
  "ShareCreateSnapshotResponse_Version r = header_string ''x-ms-version'' r"

section \<open>ShareDeleteResponse\<close>

type_synonym ShareDeleteResponse = "http_response option"

definition ShareDeleteResponse_Response :: "ShareDeleteResponse \<Rightarrow> http_response option" where
  "ShareDeleteResponse_Response r = r"

definition ShareDeleteResponse_StatusCode :: "ShareDeleteResponse \<Rightarrow> int exec" where
  "ShareDeleteResponse_StatusCode r = raw r rs_StatusCode"

definition ShareDeleteResponse_Status :: "ShareDeleteResponse \<Rightarrow> string exec" where
  "ShareDeleteResponse_Status r = raw r rs_Status"

definition ShareDeleteResponse_Date :: "local_zone \<Rightarrow> ShareDeleteResponse \<Rightarrow> go_time exec" where
  "ShareDeleteResponse_Date local r = header_time local ''Date'' r"

definition ShareDeleteResponse_ErrorCode :: "ShareDeleteResponse \<Rightarrow> string exec" where
  "ShareDeleteResponse_ErrorCode r = header_string ''x-ms-error-code'' r"

definition ShareDeleteResponse_RequestID :: "ShareDeleteResponse \<Rightarrow> string exec" where
  "ShareDeleteResponse_RequestID r = header_string ''x-ms-request-id'' r"

definition ShareDeleteResponse_Version :: "ShareDeleteResponse \<Rightarrow> string exec" where
  "ShareDeleteResponse_Version r = header_string ''x-ms-version'' r"

section \<open>ShareGetPropertiesResponse\<close>

type_synonym ShareGetPropertiesResponse = "http_response option"

definition ShareGetPropertiesResponse_NewMetadata :: "unicode_tables \<Rightarrow> ShareGetPropertiesResponse \<Rightarrow> Metadata exec" where
  "ShareGetPropertiesResponse_NewMetadata u r = NewMetadata u r"

definition ShareGetPropertiesResponse_Response :: "ShareGetPropertiesResponse \<Rightarrow> http_response option" where
  "ShareGetPropertiesResponse_Response r = r"

definition ShareGetPropertiesResponse_StatusCode :: "ShareGetPropertiesResponse \<Rightarrow> int exec" where
  "ShareGetPropertiesResponse_StatusCode r = raw r rs_StatusCode"

definition ShareGetPropertiesResponse_Status :: "ShareGetPropertiesResponse \<Rightarrow> string exec" where
  "ShareGetPropertiesResponse_Status r = raw r rs_Status"

definition ShareGetPropertiesResponse_Date :: "local_zone \<Rightarrow> ShareGetPropertiesResponse \<Rightarrow> go_time exec" where
  "ShareGetPropertiesResponse_Date local r = header_time local ''Date'' r"

definition ShareGetPropertiesResponse_ErrorCode :: "ShareGetPropertiesResponse \<Rightarrow> string exec" where
  "ShareGetPropertiesResponse_ErrorCode r = header_string ''x-ms-error-code'' r"

definition ShareGetPropertiesResponse_ETag :: "ShareGetPropertiesResponse \<Rightarrow> ETag exec" where
  "ShareGetPropertiesResponse_ETag r = header_string ''ETag'' r"

definition ShareGetPropertiesResponse_LastModified :: "local_zone \<Rightarrow> ShareGetPropertiesResponse \<Rightarrow> go_time exec" where
  "ShareGetPropertiesResponse_LastModified local r = header_time local ''Last-Modified'' r"

definition ShareGetPropertiesResponse_Quota :: "ShareGetPropertiesResponse \<Rightarrow> int exec" where
  "ShareGetPropertiesResponse_Quota r = header_int 32 ''x-ms-share-quota'' r"

definition ShareGetPropertiesResponse_RequestID :: "ShareGetPropertiesResponse \<Rightarrow> string exec" where
  "ShareGetPropertiesResponse_RequestID r = header_string ''x-ms-request-id'' r"

definition ShareGetPropertiesResponse_Version :: "ShareGetPropertiesResponse \<Rightarrow> string exec" where
  "ShareGetPropertiesResponse_Version r = header_string ''x-ms-version'' r"

section \<open>ShareSetAccessPolicyResponse\<close>

type_synonym ShareSetAccessPolicyResponse = "http_response option"

definition ShareSetAccessPolicyResponse_Response :: "ShareSetAccessPolicyResponse \<Rightarrow> http_response option" where
  "ShareSetAccessPolicyResponse_Response r = r"

definition ShareSetAccessPolicyResponse_StatusCode :: "ShareSetAccessPolicyResponse \<Rightarrow> int exec" where
  "ShareSetAccessPolicyResponse_StatusCode r = raw r rs_StatusCode"

definition ShareSetAccessPolicyResponse_Status :: "ShareSetAccessPolicyResponse \<Rightarrow> string exec" where
  "ShareSetAccessPolicyResponse_Status r = raw r rs_Status"

definition ShareSetAccessPolicyResponse_Date :: "local_zone \<Rightarrow> ShareSetAccessPolicyResponse \<Rightarrow> go_time exec" where
  "ShareSetAccessPolicyResponse_Date local r = header_time local ''Date'' r"

definition ShareSetAccessPolicyResponse_ErrorCode :: "ShareSetAccessPolicyResponse \<Rightarrow> string exec" where
  "ShareSetAccessPolicyResponse_ErrorCode r = header_string ''x-ms-error-code'' r"

definition ShareSetAccessPolicyResponse_ETag :: "ShareSetAccessPolicyResponse \<Rightarrow> ETag exec" where
  "ShareSetAccessPolicyResponse_ETag r = header_string ''ETag'' r"

definition ShareSetAccessPolicyResponse_LastModified :: "local_zone \<Rightarrow> ShareSetAccessPolicyResponse \<Rightarrow> go_time exec" where
  "ShareSetAccessPolicyResponse_LastModified local r = header_time local ''Last-Modified'' r"

definition ShareSetAccessPolicyResponse_RequestID :: "ShareSetAccessPolicyResponse \<Rightarrow> string exec" where
  "ShareSetAccessPolicyResponse_RequestID r = header_string ''x-ms-request-id'' r"

definition ShareSetAccessPolicyResponse_Version :: "ShareSetAccessPolicyResponse \<Rightarrow> string exec" where
  "ShareSetAccessPolicyResponse_Version r = header_string ''x-ms-version'' r"

section \<open>ShareSetMetadataResponse\<close>

type_synonym ShareSetMetadataResponse = "http_response option"

definition ShareSetMetadataResponse_Response :: "ShareSetMetadataResponse \<Rightarrow> http_response option" where
  "ShareSetMetadataResponse_Response r = r"

definition ShareSetMetadataResponse_StatusCode :: "ShareSetMetadataResponse \<Rightarrow> int exec" where
  "ShareSetMetadataResponse_StatusCode r = raw r rs_StatusCode"

definition ShareSetMetadataResponse_Status :: "ShareSetMetadataResponse \<Rightarrow> string exec" where
  "ShareSetMetadataResponse_Status r = raw r rs_Status"

definition ShareSetMetadataResponse_Date :: "local_zone \<Rightarrow> ShareSetMetadataResponse \<Rightarrow> go_time exec" where
  "ShareSetMetadataResponse_Date local r = header_time local ''Date'' r"

definition ShareSetMetadataResponse_ErrorCode :: "ShareSetMetadataResponse \<Rightarrow> string exec" where
  "ShareSetMetadataResponse_ErrorCode r = header_string ''x-ms-error-code'' r"

definition ShareSetMetadataResponse_ETag :: "ShareSetMetadataResponse \<Rightarrow> ETag exec" where
  "ShareSetMetadataResponse_ETag r = header_string ''ETag'' r"

definition ShareSetMetadataResponse_LastModified :: "local_zone \<Rightarrow> ShareSetMetadataResponse \<Rightarrow> go_time exec" where
  "ShareSetMetadataResponse_LastModified local r = header_time local ''Last-Modified'' r"

definition ShareSetMetadataResponse_RequestID :: "ShareSetMetadataResponse \<Rightarrow> string exec" where
  "ShareSetMetadataResponse_RequestID r = header_string ''x-ms-request-id'' r"

definition ShareSetMetadataResponse_Version :: "ShareSetMetadataResponse \<Rightarrow> string exec" where
  "ShareSetMetadataResponse_Version r = header_string ''x-ms-version'' r"

section \<open>ShareSetQuotaResponse\<close>

type_synonym ShareSetQuotaResponse = "http_response option"

definition ShareSetQuotaResponse_Response :: "ShareSetQuotaResponse \<Rightarrow> http_response option" where
  "ShareSetQuotaResponse_Response r = r"

definition ShareSetQuotaResponse_StatusCode :: "ShareSetQuotaResponse \<Rightarrow> int exec" where
  "ShareSetQuotaResponse_StatusCode r = raw r rs_StatusCode"

definition ShareSetQuotaResponse_Status :: "ShareSetQuotaResponse \<Rightarrow> string exec" where
  "ShareSetQuotaResponse_Status r = raw r rs_Status"

definition ShareSetQuotaResponse_Date :: "local_zone \<Rightarrow> ShareSetQuotaResponse \<Rightarrow> go_time exec" where
  "ShareSetQuotaResponse_Date local r = header_time local ''Date'' r"

definition ShareSetQuotaResponse_ErrorCode :: "ShareSetQuotaResponse \<Rightarrow> string exec" where
  "ShareSetQuotaResponse_ErrorCode r = header_string ''x-ms-error-code'' r"

definition ShareSetQuotaResponse_ETag :: "ShareSetQuotaResponse \<Rightarrow> ETag exec" where
  "ShareSetQuotaResponse_ETag r = header_string ''ETag'' r"

definition ShareSetQuotaResponse_LastModified :: "local_zone \<Rightarrow> ShareSetQuotaResponse \<Rightarrow> go_time exec" where
  "ShareSetQuotaResponse_LastModified local r = header_time local ''Last-Modified'' r"

definition ShareSetQuotaResponse_RequestID :: "ShareSetQuotaResponse \<Rightarrow> string exec" where
  "ShareSetQuotaResponse_RequestID r = header_string ''x-ms-request-id'' r"

definition ShareSetQuotaResponse_Version :: "ShareSetQuotaResponse \<Rightarrow> string exec" where
  "ShareSetQuotaResponse_Version r = header_string ''x-ms-version'' r"

section \<open>ShareStats\<close>

definition ShareStats_Response :: "http_response option \<Rightarrow> http_response option" where
  "ShareStats_Response r = r"

definition ShareStats_StatusCode :: "http_response option \<Rightarrow> int exec" where
  "ShareStats_StatusCode r = raw r rs_StatusCode"

definition ShareStats_Status :: "http_response option \<Rightarrow> string exec" where
  "ShareStats_Status r = raw r rs_Status"

definition ShareStats_Date :: "local_zone \<Rightarrow> http_response option \<Rightarrow> go_time exec" where
  "ShareStats_Date local r = header_time local ''Date'' r"

definition ShareStats_ErrorCode :: "http_response option \<Rightarrow> string exec" where
  "ShareStats_ErrorCode r = header_string ''x-ms-error-code'' r"

definition ShareStats_ETag :: "http_response option \<Rightarrow> ETag exec" where
  "ShareStats_ETag r = header_string ''ETag'' r"

definition ShareStats_LastModified :: "local_zone \<Rightarrow> http_response option \<Rightarrow> go_time exec" where
  "ShareStats_LastModified local r = header_time local ''Last-Modified'' r"

definition ShareStats_RequestID :: "http_response option \<Rightarrow> string exec" where
  "ShareStats_RequestID r = header_string ''x-ms-request-id'' r"

definition ShareStats_Version :: "http_response option \<Rightarrow> string exec" where
  "ShareStats_Version r = header_string ''x-ms-version'' r"

section \<open>SignedIdentifiers\<close>

definition SignedIdentifiers_Response :: "http_response option \<Rightarrow> http_response option" where
  "SignedIdentifiers_Response r = r"

definition SignedIdentifiers_StatusCode :: "http_response option \<Rightarrow> int exec" where
  "SignedIdentifiers_StatusCode r = raw r rs_StatusCode"

definition SignedIdentifiers_Status :: "http_response option \<Rightarrow> string exec" where
  "SignedIdentifiers_Status r = raw r rs_Status"

definition SignedIdentifiers_Date :: "local_zone \<Rightarrow> http_response option \<Rightarrow> go_time exec" where
  "SignedIdentifiers_Date local r = header_time local ''Date'' r"

definition SignedIdentifiers_ErrorCode :: "http_response option \<Rightarrow> string exec" where
  "SignedIdentifiers_ErrorCode r = header_string ''x-ms-error-code'' r"

definition SignedIdentifiers_ETag :: "http_response option \<Rightarrow> ETag exec" where
  "SignedIdentifiers_ETag r = header_string ''ETag'' r"

definition SignedIdentifiers_LastModified :: "local_zone \<Rightarrow> http_response option \<Rightarrow> go_time exec" where
  "SignedIdentifiers_LastModified local r = header_time local ''Last-Modified'' r"

definition SignedIdentifiers_RequestID :: "http_response option \<Rightarrow> string exec" where
  "SignedIdentifiers_RequestID r = header_string ''x-ms-request-id'' r"

definition SignedIdentifiers_Version :: "http_response option \<Rightarrow> string exec" where
  "SignedIdentifiers_Version r = header_string ''x-ms-version'' r"

section \<open>StorageServiceProperties\<close>

definition StorageServiceProperties_Response :: "http_response option \<Rightarrow> http_response option" where
  "StorageServiceProperties_Response r = r"

definition StorageServiceProperties_StatusCode :: "http_response option \<Rightarrow> int exec" where
  "StorageServiceProperties_StatusCode r = raw r rs_StatusCode"

definition StorageServiceProperties_Status :: "http_response option \<Rightarrow> string exec" where
  "StorageServiceProperties_Status r = raw r rs_Status"

definition StorageServiceProperties_ErrorCode :: "http_response option \<Rightarrow> string exec" where
  "StorageServiceProperties_ErrorCode r = header_string ''x-ms-error-code'' r"

definition StorageServiceProperties_RequestID :: "http_response option \<Rightarrow> string exec" where
  "StorageServiceProperties_RequestID r = header_string ''x-ms-request-id'' r"

definition StorageServiceProperties_Version :: "http_response option \<Rightarrow> string exec" where
  "StorageServiceProperties_Version r = header_string ''x-ms-version'' r"

section \<open>ListFilesAndDirectoriesSegmentResponse\<close>

definition ListFilesAndDirectoriesSegmentResponse_Response :: "http_response option \<Rightarrow> http_response option" where
  "ListFilesAndDirectoriesSegmentResponse_Response r = r"

definition ListFilesAndDirectoriesSegmentResponse_StatusCode :: "http_response option \<Rightarrow> int exec" where
  "ListFilesAndDirectoriesSegmentResponse_StatusCode r = raw r rs_StatusCode"

definition ListFilesAndDirectoriesSegmentResponse_Status :: "http_response option \<Rightarrow> string exec" where
  "ListFilesAndDirectoriesSegmentResponse_Status r = raw r rs_Status"

definition ListFilesAndDirectoriesSegmentResponse_ContentType :: "http_response option \<Rightarrow> string exec" where
  "ListFilesAndDirectoriesSegmentResponse_ContentType r = header_string ''Content-Type'' r"

definition ListFilesAndDirectoriesSegmentResponse_Date :: "local_zone \<Rightarrow> http_response option \<Rightarrow> go_time exec" where
  "ListFilesAndDirectoriesSegmentResponse_Date local r = header_time_or_panic local ''Date'' r"

definition ListFilesAndDirectoriesSegmentResponse_RequestID :: "http_response option \<Rightarrow> string exec" where
  "ListFilesAndDirectoriesSegmentResponse_RequestID r = header_string ''x-ms-request-id'' r"

definition ListFilesAndDirectoriesSegmentResponse_Version :: "http_response option \<Rightarrow> string exec" where
  "ListFilesAndDirectoriesSegmentResponse_Version r = header_string ''x-ms-version'' r"

definition ListFilesAndDirectoriesSegmentResponse_ErrorCode :: "http_response option \<Rightarrow> string exec" where
  "ListFilesAndDirectoriesSegmentResponse_ErrorCode r = header_string ''x-ms-error-code'' r"

section \<open>FileServiceProperties\<close>

definition FileServiceProperties_Response :: "http_response option \<Rightarrow> http_response option" where
  "FileServiceProperties_Response r = r"

definition FileServiceProperties_StatusCode :: "http_response option \<Rightarrow> int exec" where
  "FileServiceProperties_StatusCode r = raw r rs_StatusCode"

definition FileServiceProperties_Status :: "http_response option \<Rightarrow> string exec" where
  "FileServiceProperties_Status r = raw r rs_Status"

definition FileServiceProperties_RequestID :: "http_response option \<Rightarrow> string exec" where
  "FileServiceProperties_RequestID r = header_string ''x-ms-request-id'' r"

definition FileServiceProperties_Version :: "http_response option \<Rightarrow> string exec" where
  "FileServiceProperties_Version r = header_string ''x-ms-version'' r"

section \<open>DownloadResponse\<close>

definition DownloadResponse_Response :: "DownloadInfo \<Rightarrow> http_response option" where
  "DownloadResponse_Response dr = downloadResponse_Response (Some (dl_rawResponse dr))"

definition DownloadResponse_StatusCode :: "DownloadInfo \<Rightarrow> int exec" where
  "DownloadResponse_StatusCode dr = downloadResponse_StatusCode (Some (dl_rawResponse dr))"

definition DownloadResponse_Status :: "DownloadInfo \<Rightarrow> string exec" where
  "DownloadResponse_Status dr = downloadResponse_Status (Some (dl_rawResponse dr))"

definition DownloadResponse_AcceptRanges :: "DownloadInfo \<Rightarrow> string exec" where
  "DownloadResponse_AcceptRanges dr = downloadResponse_AcceptRanges (Some (dl_rawResponse dr))"

definition DownloadResponse_CacheControl :: "DownloadInfo \<Rightarrow> string exec" where
  "DownloadResponse_CacheControl dr = downloadResponse_CacheControl (Some (dl_rawResponse dr))"

definition DownloadResponse_ContentDisposition :: "DownloadInfo \<Rightarrow> string exec" where
  "DownloadResponse_ContentDisposition dr = downloadResponse_ContentDisposition (Some (dl_rawResponse dr))"

definition DownloadResponse_ContentEncoding :: "DownloadInfo \<Rightarrow> string exec" where
  "DownloadResponse_ContentEncoding dr = downloadResponse_ContentEncoding (Some (dl_rawResponse dr))"

definition DownloadResponse_ContentLanguage :: "DownloadInfo \<Rightarrow> string exec" where
  "DownloadResponse_ContentLanguage dr = downloadResponse_ContentLanguage (Some (dl_rawResponse dr))"

definition DownloadResponse_ContentLength :: "DownloadInfo \<Rightarrow> int exec" where
  "DownloadResponse_ContentLength dr = downloadResponse_ContentLength (Some (dl_rawResponse dr))"

definition DownloadResponse_ContentRange :: "DownloadInfo \<Rightarrow> string exec" where
  "DownloadResponse_ContentRange dr = downloadResponse_ContentRange (Some (dl_rawResponse dr))"

definition DownloadResponse_ContentType :: "DownloadInfo \<Rightarrow> string exec" where
  "DownloadResponse_ContentType dr = downloadResponse_ContentType (Some (dl_rawResponse dr))"

definition DownloadResponse_CopyCompletionTime :: "local_zone \<Rightarrow> DownloadInfo \<Rightarrow> go_time exec" where
  "DownloadResponse_CopyCompletionTime local dr = downloadResponse_CopyCompletionTime local (Some (dl_rawResponse dr))"

definition DownloadResponse_CopyID :: "DownloadInfo \<Rightarrow> string exec" where
  "DownloadResponse_CopyID dr = downloadResponse_CopyID (Some (dl_rawResponse dr))"

definition DownloadResponse_CopyProgress :: "DownloadInfo \<Rightarrow> string exec" where
  "DownloadResponse_CopyProgress dr = downloadResponse_CopyProgress (Some (dl_rawResponse dr))"

definition DownloadResponse_CopySource :: "DownloadInfo \<Rightarrow> string exec" where
  "DownloadResponse_CopySource dr = downloadResponse_CopySource (Some (dl_rawResponse dr))"

definition DownloadResponse_CopyStatus :: "DownloadInfo \<Rightarrow> CopyStatusType exec" where
  "DownloadResponse_CopyStatus dr = downloadResponse_CopyStatus (Some (dl_rawResponse dr))"

definition DownloadResponse_CopyStatusDescription :: "DownloadInfo \<Rightarrow> string exec" where
  "DownloadResponse_CopyStatusDescription dr = downloadResponse_CopyStatusDescription (Some (dl_rawResponse dr))"

definition DownloadResponse_Date :: "local_zone \<Rightarrow> DownloadInfo \<Rightarrow> go_time exec" where
  "DownloadResponse_Date local dr = downloadResponse_Date local (Some (dl_rawResponse dr))"

definition DownloadResponse_ETag :: "DownloadInfo \<Rightarrow> ETag exec" where
  "DownloadResponse_ETag dr = downloadResponse_ETag (Some (dl_rawResponse dr))"

definition DownloadResponse_IsServerEncrypted :: "DownloadInfo \<Rightarrow> string exec" where
  "DownloadResponse_IsServerEncrypted dr = downloadResponse_IsServerEncrypted (Some (dl_rawResponse dr))"

definition DownloadResponse_LastModified :: "local_zone \<Rightarrow> DownloadInfo \<Rightarrow> go_time exec" where
  "DownloadResponse_LastModified local dr = downloadResponse_LastModified local (Some (dl_rawResponse dr))"

definition DownloadResponse_RequestID :: "DownloadInfo \<Rightarrow> string exec" where
  "DownloadResponse_RequestID dr = downloadResponse_RequestID (Some (dl_rawResponse dr))"

definition DownloadResponse_Version :: "DownloadInfo \<Rightarrow> string exec" where
  "DownloadResponse_Version dr = downloadResponse_Version (Some (dl_rawResponse dr))"

definition DownloadResponse_NewMetadata :: "unicode_tables \<Rightarrow> DownloadInfo \<Rightarrow> Metadata exec" where
  "DownloadResponse_NewMetadata u dr = downloadResponse_NewMetadata u (Some (dl_rawResponse dr))"

definition DownloadResponse_FileContentMD5 :: "DownloadInfo \<Rightarrow> string option exec" where
  "DownloadResponse_FileContentMD5 dr = downloadResponse_FileContentMD5 (Some (dl_rawResponse dr))"

definition DownloadResponse_ContentMD5 :: "DownloadInfo \<Rightarrow> string option exec" where
  "DownloadResponse_ContentMD5 dr = downloadResponse_ContentMD5 (Some (dl_rawResponse dr))"

definition DownloadResponse_NewHTTPHeaders :: "DownloadInfo \<Rightarrow> FileHTTPHeaders exec" where
  "DownloadResponse_NewHTTPHeaders dr =
     bind_exec (DownloadResponse_ContentType dr) (\<lambda>aContentType.
     bind_exec (DownloadResponse_ContentEncoding dr) (\<lambda>aContentEncoding.
     bind_exec (DownloadResponse_ContentLanguage dr) (\<lambda>aContentLanguage.
     bind_exec (DownloadResponse_ContentDisposition dr) (\<lambda>aContentDisposition.
     bind_exec (DownloadResponse_CacheControl dr) (\<lambda>aCacheControl.
     bind_exec (DownloadResponse_ContentMD5 dr) (\<lambda>aContentMD5.
     Return \<lparr>fh_ContentType = aContentType, fh_ContentMD5 = aContentMD5, fh_ContentEncoding = aContentEncoding, fh_ContentLanguage = aContentLanguage, fh_ContentDisposition = aContentDisposition, fh_CacheControl = aCacheControl\<rparr>))))))"

definition FileGetPropertiesResponse_NewHTTPHeaders :: "http_response option \<Rightarrow> FileHTTPHeaders exec" where
  "FileGetPropertiesResponse_NewHTTPHeaders r =
     bind_exec (FileGetPropertiesResponse_ContentType r) (\<lambda>aContentType.
     bind_exec (FileGetPropertiesResponse_ContentEncoding r) (\<lambda>aContentEncoding.
     bind_exec (FileGetPropertiesResponse_ContentLanguage r) (\<lambda>aContentLanguage.
     bind_exec (FileGetPropertiesResponse_ContentDisposition r) (\<lambda>aContentDisposition.
     bind_exec (FileGetPropertiesResponse_CacheControl r) (\<lambda>aCacheControl.
     bind_exec (FileGetPropertiesResponse_ContentMD5 r) (\<lambda>aContentMD5.
     Return \<lparr>fh_ContentType = aContentType, fh_ContentMD5 = aContentMD5, fh_ContentEncoding = aContentEncoding, fh_ContentLanguage = aContentLanguage, fh_ContentDisposition = aContentDisposition, fh_CacheControl = aCacheControl\<rparr>))))))"

section \<open>What the accessors return\<close>

lemma EncodeToString_Nil: "EncodeToString d = [] \<Longrightarrow> d = []"
proof -
  assume "EncodeToString d = []"
  moreover have "DecodeString [] = Some []" by code_simp
  ultimately show "d = []" using DecodeString_EncodeToString [of d] by simp
qed

lemma header_bytes_read:
  assumes "Header_Get (rs_Header resp) key = (case b of Some d \<Rightarrow> EncodeToString d | None \<Rightarrow> [])" and "b \<noteq> Some []"
  shows "header_bytes key (Some resp) = Return b"
  using assms EncodeToString_Nil by (cases b) (auto simp: header_bytes_def raw_def Let_def)

text \<open>
  The properties a file was given come back with it: when a response to \<open>GetProperties\<close> or
  to \<open>Download\<close> has them in its headers, the hash in base64, \<open>NewHTTPHeaders\<close> returns exactly
  these properties, ready to be written again.
\<close>

theorem file_headers_roundtrip:
  assumes "Header_Get (rs_Header resp) ''Content-Type'' = fh_ContentType h"
    and "Header_Get (rs_Header resp) ''Content-Encoding'' = fh_ContentEncoding h"
    and "Header_Get (rs_Header resp) ''Content-Language'' = fh_ContentLanguage h"
    and "Header_Get (rs_Header resp) ''Content-Disposition'' = fh_ContentDisposition h"
    and "Header_Get (rs_Header resp) ''Cache-Control'' = fh_CacheControl h"
    and "Header_Get (rs_Header resp) ''Content-MD5'' = (case fh_ContentMD5 h of Some d \<Rightarrow> EncodeToString d | None \<Rightarrow> [])"
    and "fh_ContentMD5 h \<noteq> Some []"
  shows "FileGetPropertiesResponse_NewHTTPHeaders (Some resp) = Return h
     \<and> DownloadResponse_NewHTTPHeaders \<lparr>dl_rawResponse = resp, dl_info = info\<rparr> = Return h"
  using assms header_bytes_read [OF assms(6,7)]
  by (simp add: FileGetPropertiesResponse_NewHTTPHeaders_def DownloadResponse_NewHTTPHeaders_def header_string_def raw_def
      FileGetPropertiesResponse_ContentType_def FileGetPropertiesResponse_ContentEncoding_def
      FileGetPropertiesResponse_ContentLanguage_def FileGetPropertiesResponse_ContentDisposition_def
      FileGetPropertiesResponse_CacheControl_def FileGetPropertiesResponse_ContentMD5_def
      DownloadResponse_ContentType_def DownloadResponse_ContentEncoding_def DownloadResponse_ContentLanguage_def
      DownloadResponse_ContentDisposition_def DownloadResponse_CacheControl_def DownloadResponse_ContentMD5_def
      downloadResponse_ContentType_def downloadResponse_ContentEncoding_def downloadResponse_ContentLanguage_def
      downloadResponse_ContentDisposition_def downloadResponse_CacheControl_def downloadResponse_ContentMD5_def)

definition typed_response :: http_response where
  "typed_response = \<lparr>rs_StatusCode = 200, rs_Status = ''200 OK'',
     rs_Header = [(''Content-Type'', [''text/plain'']), (''Content-Md5'', [''aGk='']),
       (''Last-Modified'', [''Mon, 02 Jan 2006 15:04:05 GMT'']), (''Date'', [''yesterday''])], rs_Body = None\<rparr>"

theorem file_headers_roundtrip_witness:
  "FileGetPropertiesResponse_NewHTTPHeaders (Some typed_response) =
     Return \<lparr>fh_ContentType = ''text/plain'', fh_ContentMD5 = Some ''hi'', fh_ContentEncoding = [],
       fh_ContentLanguage = [], fh_ContentDisposition = [], fh_CacheControl = []\<rparr>"
proof -
  let ?h = "\<lparr>fh_ContentType = ''text/plain'', fh_ContentMD5 = Some ''hi'', fh_ContentEncoding = [],
    fh_ContentLanguage = [], fh_ContentDisposition = [], fh_CacheControl = []\<rparr>"
  have "Header_Get (rs_Header typed_response) ''Content-Type'' = fh_ContentType ?h"
    "Header_Get (rs_Header typed_response) ''Content-Encoding'' = fh_ContentEncoding ?h"
    "Header_Get (rs_Header typed_response) ''Content-Language'' = fh_ContentLanguage ?h"
    "Header_Get (rs_Header typed_response) ''Content-Disposition'' = fh_ContentDisposition ?h"
    "Header_Get (rs_Header typed_response) ''Cache-Control'' = fh_CacheControl ?h"
    "Header_Get (rs_Header typed_response) ''Content-MD5'' = (case fh_ContentMD5 ?h of Some d \<Rightarrow> EncodeToString d | None \<Rightarrow> [])"
    by code_simp+
  from file_headers_roundtrip [OF this] show ?thesis by simp
qed



end
