(* ===== verification/Download_Stack.thy ===== *)
theory Download_Stack
  imports Answers Responses
begin

text \<open>
  A parallel download through the whole stack: \<open>DownloadAzureFileToBuffer\<close> on
  \<open>FileURL.GetProperties\<close> and \<open>FileURL.Download\<close>, these on the generated client, and the client
  on a pipeline made by \<open>NewPipeline\<close>. What remains a hypothesis is the HTTP exchange: how the
  service answers a request for the file, and that the bodies it sends deliver these bytes.
\<close>

section \<open>What a request asks for\<close>

definition file_request :: "string \<Rightarrow> http_request \<Rightarrow> bool" where
  "file_request method req \<longleftrightarrow> rq_Method req = method \<and> param req ''comp'' = None"

definition asked_range :: "http_request \<Rightarrow> string option" where
  "asked_range req = (if hdr req ''x-ms-range'' = [] then None else Some (hdr req ''x-ms-range''))"

text \<open>
  \<open>stream\<close> tells what reading the body of a response delivers, now and after breaks of the
  connection; the service holds the file \<open>F\<close>.
\<close>

definition delivers :: "string \<Rightarrow> (http_response \<Rightarrow> body_stream) \<Rightarrow> http_request \<Rightarrow> http_response \<Rightarrow> bool" where
  "delivers F stream req r \<longleftrightarrow>
     (file_request ''GET'' req \<longrightarrow>
        \<not> bs_closed (stream r) \<and> select_range (asked_range req) F = Some (bs_rem (stream r)))"

definition measures :: "string \<Rightarrow> http_request \<Rightarrow> http_response \<Rightarrow> bool" where
  "measures F req r \<longleftrightarrow>
     (file_request ''HEAD'' req \<longrightarrow> Header_Get (rs_Header r) ''Content-Length'' = FormatInt (int (length F)))"

definition wire_serves :: "string \<Rightarrow> (http_response \<Rightarrow> body_stream) \<Rightarrow> 'w sender \<Rightarrow> bool" where
  "wire_serves F stream wire \<longleftrightarrow>
     (\<forall>req w rep w' r. wire req w = Return (rep, w') \<longrightarrow> rp_error rep = None \<longrightarrow> rp_response rep = Some (Some r) \<longrightarrow>
        (rs_StatusCode r \<in> {200, 206} \<longrightarrow> delivers F stream req r) \<and> (rs_StatusCode r = 200 \<longrightarrow> measures F req r))"

lemma file_request_stages:
  "file_request m (with_timeout t r) = file_request m r" "file_request m (authorize d a r) = file_request m r"
  "file_request m (set_header k v r) = file_request m r"
  by (simp_all add: file_request_def with_timeout_query authorize_def with_date_def set_header_def Let_def)

lemma asked_range_stages:
  "asked_range (with_timeout t r) = asked_range r" "asked_range (authorize d a r) = asked_range r"
  "asked_range (set_header ''User-Agent'' v r) = asked_range r"
  "asked_range (set_header xMsClientRequestID v r) = asked_range r"
  by (simp_all add: asked_range_def hdr_authorize hdr_set_header canonical_stage_names)

definition reply_with :: "(http_request \<Rightarrow> http_response \<Rightarrow> bool) \<Rightarrow> http_request \<Rightarrow> reply \<Rightarrow> bool" where
  "reply_with P req rep \<longleftrightarrow> (\<exists>r. rp_response rep = Some (Some r) \<and> P req r)"

interpretation delivered: answer "reply_with (delivers F stream)" for F stream
  by unfold_locales (simp_all add: reply_with_def delivers_def file_request_stages asked_range_stages)

interpretation measured: answer "reply_with (measures F)" for F
  by unfold_locales (simp_all add: reply_with_def measures_def file_request_stages)

section \<open>Responders\<close>

lemma stream_accepts:
  assumes "stream_responder lib codes v resp = Return rep" and "rp_error rep = None"
  shows "\<exists>r. resp = Some (Some r) \<and> rs_StatusCode r \<in> set codes \<and> rp_response rep = Some (Some r)"
  using assms
  by (auto simp: stream_responder_def validateResponse_def NewResponseError_def newStorageError_def nil_deref_def
      split: option.splits if_splits prod.splits)

lemma discard_keeps:
  assumes "discard_responder lib codes v resp = Return rep" and "rp_error rep = None"
  shows "\<exists>r. resp = Some (Some r) \<and> rs_StatusCode r \<in> set codes \<and> rp_response rep = Some (Some (consumed r))"
  using assms
  by (auto simp: discard_responder_def validateResponse_def NewResponseError_def newStorageError_def nil_deref_def
      split: option.splits if_splits prod.splits)

lemma download_answers:
  assumes "wire_serves F stream wire"
  shows "answers (reply_with (delivers F stream)) (responderPolicy_Do (fileClient_downloadResponder lib) wire)"
proof (rule answersI)
  fix req w rep w'
  assume "responderPolicy_Do (fileClient_downloadResponder lib) wire req w = Return (rep, w')" "rp_error rep = None"
  then obtain rep0 where "wire req w = Return (rep0, w')" "rp_error rep0 = None"
    "stream_responder lib [200, 206] DownloadResponse (rp_response rep0) = Return rep"
    by (auto simp: responderPolicy_Do_def fileClient_downloadResponder_def split: if_splits)
  with stream_accepts [OF this(3) \<open>rp_error rep = None\<close>] assms show "reply_with (delivers F stream) req rep"
    unfolding wire_serves_def reply_with_def by fastforce
qed

lemma properties_answers:
  assumes "wire_serves F stream wire"
  shows "answers (reply_with (measures F)) (responderPolicy_Do (fileClient_getPropertiesResponder lib) wire)"
proof (rule answersI)
  fix req w rep w'
  assume "responderPolicy_Do (fileClient_getPropertiesResponder lib) wire req w = Return (rep, w')" "rp_error rep = None"
  then obtain rep0 where wire: "wire req w = Return (rep0, w')" "rp_error rep0 = None"
    and resp: "discard_responder lib [200] FileGetPropertiesResponse (rp_response rep0) = Return rep"
    by (auto simp: responderPolicy_Do_def fileClient_getPropertiesResponder_def split: if_splits)
  from discard_keeps [OF resp \<open>rp_error rep = None\<close>] obtain r where
    r: "rp_response rep0 = Some (Some r)" "rs_StatusCode r = 200" "rp_response rep = Some (Some (consumed r))" by auto
  with wire assms have "measures F req r" unfolding wire_serves_def by blast
  then show "reply_with (measures F) req rep" by (simp add: reply_with_def r(3) measures_def consumed_def)
qed

section \<open>Requests\<close>

text \<open>Requests start without headers, which the documentation of \<open>NewRequest\<close> implies.\<close>

definition fresh_requests :: "lib \<Rightarrow> bool" where
  "fresh_requests lib \<longleftrightarrow> new_request_ok lib \<and> (\<forall>m u b. rq_Header (fst (lib_NewRequest lib m u b)) = [])"

lemma start_fresh:
  assumes "fresh_requests lib"
  obtains req where "rq_Method req = m" "rq_URL req = mc_url client" "rq_Header req = []"
    and "\<And>k. start_request lib m client b k = k req"
proof -
  from assms obtain req where "lib_NewRequest lib m (mc_url client) b = (req, None)"
    and "rq_Method req = m" "rq_URL req = mc_url client" unfolding fresh_requests_def new_request_ok_def by blast
  moreover from this(1) assms have "rq_Header req = []" unfolding fresh_requests_def by (metis fst_conv)
  ultimately show ?thesis by (intro that [of req]) (simp_all add: start_request_def)
qed

lemma pointers_nonempty: "httpRange_pointers r \<noteq> Some []"
  by (simp add: httpRange_pointers_def toRange_def Let_def)

lemma download_request:
  assumes "fresh_requests lib" and "map_of (URL_Query (mc_url f)) ''comp'' = None" and "rng \<noteq> Some []"
  shows "\<exists>req. fileClient_downloadPreparer lib f None rng None = (req, None)
     \<and> file_request ''GET'' req \<and> asked_range req = rng"
proof -
  obtain r where r: "rq_Method r = ''GET''" "rq_URL r = mc_url f" "rq_Header r = []"
    "\<And>k. start_request lib ''GET'' f None k = k r"
    by (rule start_fresh [OF assms(1), of "''GET''" f None]) blast
  show ?thesis
    using assms(2,3)
    by (cases rng)
      (simp_all add: fileClient_downloadPreparer_def r Let_def file_request_def asked_range_def hdr_set_header
        param_set_query map_of_opt_param opt_header_def Header_Get_Nil)
qed

lemma properties_request:
  assumes "fresh_requests lib" and "map_of (URL_Query (mc_url f)) ''comp'' = None"
  shows "\<exists>req. fileClient_getPropertiesPreparer lib f None None = (req, None) \<and> file_request ''HEAD'' req"
proof -
  obtain r where r: "rq_Method r = ''HEAD''" "rq_URL r = mc_url f" "rq_Header r = []"
    "\<And>k. start_request lib ''HEAD'' f None k = k r"
    by (rule start_fresh [OF assms(1), of "''HEAD''" f None]) blast
  show ?thesis
    using assms(2)
    by (simp add: fileClient_getPropertiesPreparer_def r Let_def file_request_def param_set_query map_of_opt_param)
qed

lemma client_call_reply:
  assumes "client_call lib client [timeout_check None] (req, None) responder is_type w = Return ((Some resp, err), w')"
  shows "\<exists>rep. mc_p client (responderPolicy_Do responder) req w = Return (rep, w') \<and> rp_error rep = None
     \<and> rp_response rep = Some (ar_rawResponse resp)"
  using assms
  by (auto simp: client_call_def timeout_check_None split: option.splits if_splits prod.splits)

section \<open>The operations of the file URL\<close>

text \<open>
  \<open>FileURL.Download\<close> and \<open>FileURL.GetProperties\<close> as the transfer calls them; \<open>err_of\<close> is the error
  interface value of a failed call. A call that panics does not return; where the transfer
  wants a value, it is counted as a failure.
\<close>

definition client_download ::
    "lib \<Rightarrow> (api_error \<Rightarrow> go_error) \<Rightarrow> (http_response \<Rightarrow> body_stream) \<Rightarrow> 'w FileURL \<Rightarrow> 'w download_op" where
  "client_download lib err_of stream f offset n w =
     (case FileURL_Download lib f offset n False w of
        Return ((Some d, None), w') \<Rightarrow> (Inr (stream (dl_rawResponse d), gi_ETag (dl_info d)), w')
      | Return ((_, Some e), w') \<Rightarrow> (Inl (err_of e), w')
      | Return ((None, None), w') \<Rightarrow> (Inl (PlainErr []), w')
      | Panic m \<Rightarrow> (Inl (PlainErr m), w))"

definition client_properties :: "lib \<Rightarrow> (api_error \<Rightarrow> go_error) \<Rightarrow> 'w FileURL \<Rightarrow> 'w \<Rightarrow> go_error + int" where
  "client_properties lib err_of f w =
     (case FileURL_GetProperties lib f w of
        Return ((Some resp, None), w') \<Rightarrow>
          (case FileGetPropertiesResponse_ContentLength (ar_rawResponse resp) of
             Return n \<Rightarrow> Inr n
           | Panic m \<Rightarrow> Inl (PlainErr m))
      | Return ((_, Some e), w') \<Rightarrow> Inl (err_of e)
      | Return ((None, None), w') \<Rightarrow> Inl (PlainErr [])
      | Panic m \<Rightarrow> Inl (PlainErr m))"

lemma client_download_serves:
  assumes "answers (reply_with (delivers F stream)) (mc_p f (responderPolicy_Do (fileClient_downloadResponder lib)))"
    and "fresh_requests lib" and "map_of (URL_Query (mc_url f)) ''comp'' = None"
  shows "serves_file F (client_download lib err_of stream f)"
  unfolding serves_file_def
proof (intro allI impI)
  fix offset n w b etag w'
  let ?range = "httpRange_pointers \<lparr>hr_offset = offset, hr_count = n\<rparr>"
  assume "client_download lib err_of stream f offset n w = (Inr (b, etag), w')"
  then obtain d where d: "FileURL_Download lib f offset n False w = Return ((Some d, None), w')" "b = stream (dl_rawResponse d)"
    by (auto simp: client_download_def split: exec.splits prod.splits option.splits)
  obtain req where req: "fileClient_downloadPreparer lib f None ?range None = (req, None)" "file_request ''GET'' req"
    "asked_range req = ?range"
    using download_request [OF assms(2,3) pointers_nonempty] by blast
  from d(1) obtain resp err where "fileClient_Download lib f None ?range None w = Return ((Some resp, err), w')"
    "ar_rawResponse resp = Some (dl_rawResponse d)"
    by (auto simp: FileURL_Download_def nil_deref_def split: option.splits prod.splits)
  then obtain rep where "mc_p f (responderPolicy_Do (fileClient_downloadResponder lib)) req w = Return (rep, w')"
    "rp_error rep = None" "rp_response rep = Some (Some (dl_rawResponse d))"
    using client_call_reply by (fastforce simp: fileClient_Download_def req(1))
  with answersD [OF assms(1)] have "delivers F stream req (dl_rawResponse d)" by (fastforce simp: reply_with_def)
  with req(2,3) show "\<not> bs_closed b \<and> select_range ?range F = Some (bs_rem b)" by (simp add: delivers_def d(2))
qed

lemma client_properties_size:
  assumes "answers (reply_with (measures F)) (mc_p f (responderPolicy_Do (fileClient_getPropertiesResponder lib)))"
    and "fresh_requests lib" and "map_of (URL_Query (mc_url f)) ''comp'' = None" and "int (length F) < 2 ^ 63"
    and "client_properties lib err_of f w = Inr n"
  shows "n = int (length F)"
proof -
  obtain req where req: "fileClient_getPropertiesPreparer lib f None None = (req, None)" "file_request ''HEAD'' req"
    using properties_request [OF assms(2,3)] by blast
  from assms(5) obtain resp w' where call: "fileClient_GetProperties lib f None None w = Return ((Some resp, None), w')"
    and n: "FileGetPropertiesResponse_ContentLength (ar_rawResponse resp) = Return n"
    by (auto simp: client_properties_def FileURL_GetProperties_def split: exec.splits prod.splits option.splits)
  then obtain rep where "mc_p f (responderPolicy_Do (fileClient_getPropertiesResponder lib)) req w = Return (rep, w')"
    "rp_error rep = None" "rp_response rep = Some (ar_rawResponse resp)"
    using client_call_reply by (fastforce simp: fileClient_GetProperties_def req(1))
  with answersD [OF assms(1)] obtain r where "ar_rawResponse resp = Some r" "measures F req r"
    by (fastforce simp: reply_with_def)
  with req(2) n assms(4) ParseInt_FormatInt [of 64 "int (length F)"] show ?thesis
    by (simp add: measures_def FileGetPropertiesResponse_ContentLength_def header_int_def raw_def Let_def FormatInt_def)
qed

text \<open>
  C2: A download that reports success has read the file, from \<open>DownloadAzureFileToBuffer\<close> down to
  the wire: through the size asked of the service, the range requests the generated client
  prepares, the policies \<open>NewPipeline\<close> stacks, retries included, the validation of the
  responses, and the readers that reconnect. All that is assumed of the service is that an
  accepted request for a range is answered with the bytes of that range, and an accepted
  request for the properties with the length of the file.
\<close>

theorem download_through_pipeline:
  assumes "builds wire pipeline" and "wire_serves F stream wire" and "\<And>p. c \<noteq> CredentialFunc p"
    and "0 \<le> ro_MaxTries (plo_Retry opts)" and "fresh_requests lib" and "map_of (URL_Query url) ''comp'' = None"
    and "int (length F) < 2 ^ 63" and "do_RangeSize o' < 2 ^ 63" and "length b = length F"
    and "f = NewFileURL url (NewPipeline pipeline h c opts)"
    and "DownloadAzureFileToBuffer (client_properties lib err_of f w) (client_download lib err_of stream f) b o'
      (Return (Inr sz)) b'"
  shows "b' = F \<and> sz = int (length F)"
proof -
  have f: "mc_p f = NewPipeline pipeline h c opts" "mc_url f = url"
    by (simp_all add: assms(10) NewFileURL_def newManagementClient_def)
  have url: "map_of (URL_Query (mc_url f)) ''comp'' = None" using assms(6) by (simp add: f)
  have "answers (reply_with (delivers F stream)) (mc_p f (responderPolicy_Do (fileClient_downloadResponder lib)))"
    unfolding f by (intro delivered.pipeline_answers [OF assms(1)] download_answers [OF assms(2)] assms(3,4))
  then have serves: "serves_file F (client_download lib err_of stream f)"
    using assms(5) url by (rule client_download_serves)
  have "answers (reply_with (measures F)) (mc_p f (responderPolicy_Do (fileClient_getPropertiesResponder lib)))"
    unfolding f by (intro measured.pipeline_answers [OF assms(1)] properties_answers [OF assms(2)] assms(3,4))
  note size = client_properties_size [OF this assms(5) url assms(7), of err_of w]
  from assms(11) obtain n where n: "client_properties lib err_of f w = Inr n" "sz = n"
    by (auto simp: DownloadAzureFileToBuffer_def downloadAzureFileToBuffer_def sanityCheckFailed_def
        split: if_splits sum.splits option.splits)
  with size have "client_properties lib err_of f w = Inr (int (length F))" by simp
  with assms(11) have "downloadAzureFileToBuffer (Inr (int (length F))) (client_download lib err_of stream f) None b o'
      (Return (Inr sz)) b'" by (simp add: DownloadAzureFileToBuffer_def)
  then have "b' = F" by (rule download_exact [OF _ serves assms(7,8)]) (simp_all add: assms(9))
  with size n show ?thesis by simp
qed

section \<open>A service\<close>

definition ok_reply :: "int \<Rightarrow> header \<Rightarrow> string \<Rightarrow> reply" where
  "ok_reply status h d = \<lparr>rp_response = Some (Some \<lparr>rs_StatusCode = status, rs_Status = [], rs_Header = h,
      rs_Body = Some \<lparr>b_data = d, b_error = None\<rparr>\<rparr>), rp_value = HTTPResponse, rp_error = None\<rparr>"

definition serve_reply :: "string \<Rightarrow> http_request \<Rightarrow> reply" where
  "serve_reply F q =
     (if file_request ''HEAD'' q then ok_reply 200 [(''Content-Length'', [FormatInt (int (length F))])] []
      else if file_request ''GET'' q then
        (case select_range (asked_range q) F of Some d \<Rightarrow> ok_reply 206 [] d | None \<Rightarrow> refused_reply)
      else refused_reply)"

definition serve_wire :: "string \<Rightarrow> 'w sender" where
  "serve_wire F q w = Return (serve_reply F q, w)"

definition body_of :: "http_response \<Rightarrow> body_stream" where
  "body_of r = \<lparr>bs_rem = (case rs_Body r of Some b \<Rightarrow> b_data b | None \<Rightarrow> []), bs_script = [], bs_closed = False\<rparr>"

lemma file_request_method: "file_request m q \<Longrightarrow> file_request m' q \<longleftrightarrow> m' = m"
  by (auto simp: file_request_def)

lemma serve_wire_serves: "wire_serves F body_of (serve_wire F)"
  unfolding wire_serves_def
proof (intro allI impI)
  fix req w rep w' r
  assume "serve_wire F req w = Return (rep, w')" "rp_response rep = Some (Some r)"
  then have rep: "rp_response (serve_reply F req) = Some (Some r)" by (simp add: serve_wire_def)
  have "CanonicalMIMEHeaderKey ''Content-Length'' = ''Content-Length''" by code_simp
  then have "Header_Get [(''Content-Length'', [x])] ''Content-Length'' = x" for x by (simp add: Header_Get_def)
  with rep show "(rs_StatusCode r \<in> {200, 206} \<longrightarrow> delivers F body_of req r) \<and> (rs_StatusCode r = 200 \<longrightarrow> measures F req r)"
    using file_request_method [of "''HEAD''" req "''GET''"] file_request_method [of "''GET''" req "''HEAD''"]
    by (auto simp: serve_reply_def delivers_def measures_def ok_reply_def refused_reply_def body_of_def
        split: if_splits option.splits)
qed

definition serve_pipeline :: "string \<Rightarrow> log_world pipeline" where
  "serve_pipeline F = NewPipeline (example_pipeline (serve_wire F)) example_host AnonymousCredential example_pipeline_options"

lemma serve_replies:
  assumes "r (rp_response (serve_reply F req)) = Return rep" and "rp_error (serve_reply F req) = None"
    and rep: "rp_error rep = None" "reply_status rep = Some n" "n < 400"
  shows "\<exists>w'. serve_pipeline F (responderPolicy_Do r) req w = Return (rep, w')"
proof -
  let ?I = "\<lambda>q. serve_reply F q = serve_reply F req"
  have "\<exists>w'. \<forall>q. ?I q \<longrightarrow> responderPolicy_Do r (serve_wire F) q w = Return (rep, w')" for w
    using assms(1,2) by (auto simp: responderPolicy_Do_def serve_wire_def)
  moreover have "serve_reply F (with_timeout t q) = serve_reply F q"
    "serve_reply F (set_header ''User-Agent'' v q) = serve_reply F q"
    "serve_reply F (set_header xMsClientRequestID v q) = serve_reply F q" for t v q
    by (simp_all add: serve_reply_def file_request_stages asked_range_stages)
  ultimately show ?thesis
    unfolding serve_pipeline_def using rep
    by (intro quiet_pipeline [where I = ?I]) (simp_all add: example_host_def)
qed

definition serve_url :: url where
  "serve_url = empty_url\<lparr>u_Scheme := ''https'', u_Host := ''a.file.core.windows.net'', u_Path := ''/s/f'', u_RawQuery := ''sig=abc''\<rparr>"

definition serve_file :: "log_world FileURL" where
  "serve_file = NewFileURL serve_url (serve_pipeline ''hi'')"

lemma serve_file_fields: "mc_p serve_file = serve_pipeline ''hi''" "mc_url serve_file = serve_url"
  by (simp_all add: serve_file_def NewFileURL_def newManagementClient_def)

lemma example_lib_fresh: "fresh_requests example_lib"
  using example_lib_ok(1) by (simp add: fresh_requests_def example_lib_def)

lemma serve_url_comp: "map_of (URL_Query serve_url) ''comp'' = None"
  by code_simp

lemma serve_properties: "client_properties example_lib err_of serve_file w = Inr 2"
proof -
  obtain req where req: "fileClient_getPropertiesPreparer example_lib serve_file None None = (req, None)" "file_request ''HEAD'' req"
    using properties_request [OF example_lib_fresh, of serve_file] serve_url_comp by (auto simp: serve_file_fields)
  let ?raw = "\<lparr>rs_StatusCode = 200, rs_Status = [], rs_Header = [(''Content-Length'', [FormatInt 2])], rs_Body = Some closed_body\<rparr>"
  let ?rep = "\<lparr>rp_response = Some (Some ?raw), rp_value = FileGetPropertiesResponse, rp_error = None\<rparr>"
  have "fileClient_getPropertiesResponder example_lib (rp_response (serve_reply ''hi'' req)) = Return ?rep"
    using req(2) by (simp add: fileClient_getPropertiesResponder_def serve_reply_def ok_reply_def discard_responder_def
        validateResponse_def consumed_def)
  then obtain w' where "serve_pipeline ''hi'' (responderPolicy_Do (fileClient_getPropertiesResponder example_lib)) req w = Return (?rep, w')"
    using serve_replies [of "fileClient_getPropertiesResponder example_lib" "''hi''" req ?rep 200] req(2)
    by (auto simp: serve_reply_def ok_reply_def reply_status_def)
  then have "FileURL_GetProperties example_lib serve_file w = Return ((Some \<lparr>ar_rawResponse = Some ?raw, ar_value = FileGetPropertiesResponse\<rparr>, None), w')"
    by (simp add: FileURL_GetProperties_def fileClient_GetProperties_def req(1) client_call_def timeout_check_None serve_file_fields)
  moreover have "FileGetPropertiesResponse_ContentLength (Some ?raw) = Return 2" by code_simp
  ultimately show ?thesis by (simp add: client_properties_def)
qed

definition hi_stream :: body_stream where
  "hi_stream = \<lparr>bs_rem = ''hi'', bs_script = [], bs_closed = False\<rparr>"

lemma serve_download:
  "\<exists>w'. client_download example_lib err_of body_of serve_file 0 2 w = (Inr (hi_stream, []), w')"
proof -
  let ?range = "httpRange_pointers \<lparr>hr_offset = 0, hr_count = 2\<rparr>"
  obtain req where req: "fileClient_downloadPreparer example_lib serve_file None ?range None = (req, None)" "file_request ''GET'' req"
    "asked_range req = ?range"
    using download_request [OF example_lib_fresh, of serve_file, OF _ pointers_nonempty] serve_url_comp by (auto simp: serve_file_fields)
  let ?raw = "\<lparr>rs_StatusCode = 206, rs_Status = [], rs_Header = [], rs_Body = Some \<lparr>b_data = ''hi'', b_error = None\<rparr>\<rparr>"
  let ?rep = "\<lparr>rp_response = Some (Some ?raw), rp_value = DownloadResponse, rp_error = None\<rparr>"
  have "select_range ?range ''hi'' = Some ''hi''" by code_simp
  then have reply: "serve_reply ''hi'' req = ok_reply 206 [] ''hi''"
    using req(2,3) file_request_method [OF req(2), of "''HEAD''"] by (simp add: serve_reply_def)
  then have "fileClient_downloadResponder example_lib (rp_response (serve_reply ''hi'' req)) = Return ?rep"
    by (simp add: fileClient_downloadResponder_def ok_reply_def stream_responder_def validateResponse_def)
  then obtain w' where "serve_pipeline ''hi'' (responderPolicy_Do (fileClient_downloadResponder example_lib)) req w = Return (?rep, w')"
    using serve_replies [of "fileClient_downloadResponder example_lib" "''hi''" req ?rep 206]
    by (auto simp: reply ok_reply_def reply_status_def)
  then have "fileClient_Download example_lib serve_file None ?range None w =
      Return ((Some \<lparr>ar_rawResponse = Some ?raw, ar_value = DownloadResponse\<rparr>, None), w')"
    by (simp add: fileClient_Download_def req(1) client_call_def timeout_check_None serve_file_fields)
  then have "FileURL_Download example_lib serve_file 0 2 False w =
      Return ((Some \<lparr>dl_rawResponse = ?raw, dl_info = \<lparr>gi_Offset = 0, gi_Count = 2, gi_ETag = []\<rparr>\<rparr>, None), w')"
    by (simp add: FileURL_Download_def Header_Get_Nil)
  then show ?thesis by (simp add: client_download_def body_of_def hi_stream_def)
qed

lemma serve_chunk:
  "\<exists>w'. download_chunk (client_download example_lib err_of body_of serve_file) 0 0 2 ''??'' w = Some (Return (''hi'', None, w'))"
proof -
  let ?get = "client_download example_lib err_of body_of serve_file"
  obtain w' where w': "?get 0 2 w = (Inr (hi_stream, []), w')" using serve_download by blast
  have "body_Read 2 hi_stream = (''hi'', NoErr, hi_stream\<lparr>bs_rem := []\<rparr>)" by code_simp
  then have "ReadFull (download_getter ?get) 2 [] (RawBody hi_stream) w' = Some (Return (''hi'', None, w'))"
    by (subst ReadFull.simps) (simp add: reader_Read_def, subst ReadFull.simps, simp)
  moreover have "put_bytes ''??'' 0 ''hi'' = ''hi''" by code_simp
  ultimately show ?thesis
    by (simp add: download_chunk_def w' DownloadResponse_Body_def download_options_def)
qed

theorem download_through_pipeline_witness:
  "\<exists>b'. DownloadAzureFileToBuffer (client_properties example_lib (\<lambda>_. PlainErr []) serve_file log_start)
       (client_download example_lib (\<lambda>_. PlainErr []) body_of serve_file) ''??''
       \<lparr>do_RangeSize = 0, do_Progress = False, do_Parallelism = 1, do_MaxRetryRequestsPerRange = 0\<rparr> (Return (Inr 2)) b' \<and> b' = ''hi''"
proof -
  let ?o = "\<lparr>do_RangeSize = 0, do_Progress = False, do_Parallelism = 1, do_MaxRetryRequestsPerRange = 0\<rparr>"
  let ?get = "client_download example_lib (\<lambda>_. PlainErr []) body_of serve_file"
  let ?props = "client_properties example_lib (\<lambda>_. PlainErr []) serve_file log_start"
  have n: "numChunks (download_batch ?o 2) = 1" "chunk_offset (download_batch ?o 2) 0 = 0"
    "chunk_size (download_batch ?o 2) 0 = 2" "bto_parallelism (download_batch ?o 2) = 1" by code_simp+
  have "download_op ?get 0 0 2 ''??'' None ''hi''" unfolding download_op_def using serve_chunk by blast
  with n have "batch_reach (download_batch ?o 2) (download_op ?get 0) (batch_init (download_batch ?o 2) ''??'') (single_end ''hi'') 7"
    by (intro single_chunk_run) simp_all
  then have "doBatchTransfer (download_batch ?o 2) (download_op ?get 0) ''??'' None ''hi''"
    unfolding doBatchTransfer_def by (intro exI [of _ "single_end ''hi''"] exI [of _ 7]) (simp add: single_end_def)
  then have run: "DownloadAzureFileToBuffer ?props ?get ''??'' ?o (Return (Inr 2)) ''hi''"
    by (auto simp: DownloadAzureFileToBuffer_def downloadAzureFileToBuffer_def serve_properties
        intro!: exI [of _ "None :: go_error option"])
  have "''hi'' = ''hi'' \<and> 2 = int (length ''hi'')"
    by (rule download_through_pipeline [OF example_pipeline_builds serve_wire_serves _ _ example_lib_fresh serve_url_comp _ _ _ _ run])
      (simp_all add: example_pipeline_options_def serve_file_def serve_pipeline_def)
  with run show ?thesis by blast
qed

end
