(* ===== verification/Error_Text.thy ===== *)
theory Error_Text
  imports Request_Log Storage_Error
begin

text \<open>
  The messages of errors: \<open>Error\<close> and the accessors of zz\_generated\_response\_error.go and
  zc\_storage\_error.go. Writing a request and a response as text is the argument \<open>write\<close>, and
  what \<open>pipeline.ErrorNode\<close> adds to a message the argument \<open>node_Error\<close>. The request is the one
  the response points back to. The results are that a message does not depend on the order of
  a map, and when messages and the requests in the log hide the signature of a SAS.
\<close>

section \<open>Messages\<close>

type_synonym request_writer = "http_request \<Rightarrow> http_response option \<Rightarrow> go_error option \<Rightarrow> string"

definition responseError_Response :: "storage_error \<Rightarrow> http_response option" where
  "responseError_Response e = se_response e"

definition responseError_Error :: "(string \<Rightarrow> string) \<Rightarrow> storage_error \<Rightarrow> string exec" where
  "responseError_Error node_Error e =
     (case se_response e of
        None \<Rightarrow> nil_deref
      | Some r \<Rightarrow> Return (node_Error
          (''===== RESPONSE ERROR (Code='' @ FormatInt (rs_StatusCode r) @ '') ====='' @ newline
           @ ''Status='' @ rs_Status r @ '', Description: '' @ se_description e @ newline)))"

definition storageError_ServiceCode :: "storage_error \<Rightarrow> string" where
  "storageError_ServiceCode e = se_serviceCode e"

text \<open>The details, in the order of their names.\<close>

definition details_text :: "(string \<times> string) list \<Rightarrow> string" where
  "details_text details =
     (if details = [] then ''(none)'' @ newline
      else newline @ concat (map (\<lambda>k. ''   '' @ k @ '': ''
             @ (case map_of details k of Some x \<Rightarrow> x | None \<Rightarrow> []) @ newline) (sort (map fst details))))"

definition storageError_Error ::
    "unicode_tables \<Rightarrow> url_parser \<Rightarrow> request_writer \<Rightarrow> (string \<Rightarrow> string) \<Rightarrow> http_request \<Rightarrow> storage_error
      \<Rightarrow> string exec" where
  "storageError_Error u parse write node_Error request e =
     (case se_response e of
        None \<Rightarrow> nil_deref
      | Some r \<Rightarrow> Return (node_Error
          (''===== RESPONSE ERROR (ServiceCode='' @ se_serviceCode e @ '') ====='' @ newline
           @ ''Description='' @ se_description e @ '', Details: '' @ details_text (se_details e)
           @ write (prepareRequestForLogging u parse request) (Some r) None)))"

text \<open>The details are a map, and what is printed depends on the map only.\<close>

lemma details_text_order:
  assumes "go_map_ok d" and "map_of d = map_of d'" and "go_map_ok d'"
  shows "details_text d = details_text d'"
proof -
  have "d = [] \<longleftrightarrow> d' = []" using assms(2) by (metis map_of_eq_empty_iff)
  moreover have "sort (map fst d) = sort (map fst d')" using assms by (rule sort_keys_order)
  ultimately show ?thesis by (simp add: details_text_def assms(2))
qed

section \<open>The lower-case form of an encoded query\<close>

lemma unhex_lower:
  assumes "n < 16"
  shows "ishex (lower_char (upperhex n))" and "unhex (lower_char (upperhex n)) = n"
proof -
  have "byte_of (upperhex n) = (if n < 10 then 48 + n else 55 + n)"
    using assms by (simp add: upperhex_def)
  with assms show "ishex (lower_char (upperhex n))" "unhex (lower_char (upperhex n)) = n"
    by (simp_all add: ishex_def unhex_def lower_byte_def)
qed

lemma lower_char_other: "byte_of c < 65 \<or> 90 < byte_of c \<Longrightarrow> lower_char c = c"
  by (auto simp: lower_char_def lower_byte_def)

lemma unescape_lower_char:
  "unescape EncodeQueryComponent (map lower_char (escape_char EncodeQueryComponent c) @ s) =
     map_option (Cons (lower_char c)) (unescape EncodeQueryComponent s)"
proof (cases "c = CHR '' ''")
  case True
  have "lower_char (CHR ''+'') = CHR ''+''" "lower_char (CHR '' '') = CHR '' ''" by code_simp+
  with True show ?thesis by (simp add: escape_char_def)
next
  case False
  show ?thesis
  proof (cases "shouldEscape EncodeQueryComponent c")
    case True
    then have "\<not> is_alnum c" by (auto simp: shouldEscape_def)
    then have c: "lower_char c = c" by (intro lower_char_other) (auto simp: is_alnum_def)
    have "lower_char (CHR ''%'') = CHR ''%''" by code_simp
    with True False c show ?thesis
      using unhex_lower [OF byte_div_16 [of c]] unhex_lower [of "byte_of c mod 16"]
      by (simp add: escape_char_def hex_pair_byte)
  next
    case no: False
    then have "is_alnum c \<or> c \<in> set ''-_.~''" by (rule not_shouldEscape_query)
    then have "lower_byte (byte_of c) \<noteq> byte_of (CHR ''%'')" "lower_byte (byte_of c) \<noteq> byte_of (CHR ''+'')"
      by (auto simp: is_alnum_def lower_byte_def byte_of_def)
    then have "lower_char c \<noteq> CHR ''%''" "lower_char c \<noteq> CHR ''+''"
      by (metis byte_of_lower_char)+
    with no False show ?thesis by (simp add: escape_char_def)
  qed
qed

lemma QueryUnescape_lower: "QueryUnescape (map lower_char (QueryEscape s)) = Some (map lower_char s)"
proof (induction s)
  case (Cons c s)
  then show ?case
    using unescape_lower_char [of c "map lower_char (escape EncodeQueryComponent s)"]
    by (simp add: QueryUnescape_def QueryEscape_def escape_def)
qed (simp add: QueryUnescape_def QueryEscape_def escape_def)

definition lower_pair :: "string \<times> string \<Rightarrow> string \<times> string" where
  "lower_pair p = (map lower_char (fst p), map lower_char (snd p))"

lemma lower_sep: "lower_char c = d \<Longrightarrow> d \<in> set ''&;='' \<Longrightarrow> c = d"
proof -
  assume "lower_char c = d" "d \<in> set ''&;=''"
  then have "byte_of d < 65" by (auto simp: byte_of_def)
  moreover have "lower_byte (byte_of c) = byte_of d"
    using \<open>lower_char c = d\<close> byte_of_lower_char [of c] by simp
  ultimately have "byte_of c < 65" by (auto simp: lower_byte_def split: if_splits)
  with \<open>lower_char c = d\<close> show "c = d" by (simp add: lower_char_other)
qed

lemma lower_QueryEscape_no_sep:
  "d \<in> set ''&;='' \<Longrightarrow> d \<notin> set (map lower_char (QueryEscape s))"
proof
  assume d: "d \<in> set ''&;=''" and "d \<in> set (map lower_char (QueryEscape s))"
  then obtain c where "c \<in> set (QueryEscape s)" "lower_char c = d" by auto
  with lower_sep [OF this(2) d] d show False by auto
qed

lemma lower_encode_pair:
  "map lower_char (encode_pair p) =
     map lower_char (QueryEscape (fst p)) @ ''='' @ map lower_char (QueryEscape (snd p))"
proof -
  have "lower_char (CHR ''='') = CHR ''=''" by code_simp
  then show ?thesis by (simp add: encode_pair_def)
qed

lemma parse_lower_pair:
  "parse_piece (map lower_char (encode_pair p)) (m, err) =
     (Values_Add m (map lower_char (fst p)) (map lower_char (snd p)), err)"
proof -
  have "split_pair (map lower_char (encode_pair p)) =
      (map lower_char (QueryEscape (fst p)), map lower_char (QueryEscape (snd p)))"
    unfolding lower_encode_pair split_pair_def
    using lower_QueryEscape_no_sep [of "CHR ''=''" "fst p"] by (simp add: IndexByte_append)
  moreover have "map lower_char (encode_pair p) \<noteq> []" by (simp add: lower_encode_pair)
  ultimately show ?thesis by (simp add: parse_piece_def QueryUnescape_lower)
qed

lemma clean_lower_pair: "clean_piece (map lower_char (encode_pair p))"
proof -
  have "\<not> query_sep c" if "c \<in> set (map lower_char (QueryEscape s))" for c s
    using that lower_QueryEscape_no_sep [of c s] by (auto simp: query_sep_def)
  moreover have "\<not> query_sep (CHR ''='')" by (simp add: query_sep_def)
  ultimately show ?thesis unfolding clean_piece_def lower_encode_pair by (auto simp del: set_map)
qed

lemma lower_Join: "map lower_char (Join ss ''&'') = Join (map (map lower_char) ss) ''&''"
proof -
  have "lower_char (CHR ''&'') = CHR ''&''" by code_simp
  then show ?thesis by (induction ss rule: induct_list012) simp_all
qed

text \<open>Parsing it gives the parameters in lower case.\<close>

lemma ParseQuery_lower:
  "fst (ParseQuery (ToLower u (Values_Encode v))) = add_pairs (map lower_pair (Values_pairs v)) []"
proof -
  have "fold parse_piece (map (\<lambda>p. map lower_char (encode_pair p)) ps) (m, err) =
      (add_pairs (map lower_pair ps) m, err)" for ps m err
    by (induction ps arbitrary: m) (auto simp: parse_lower_pair add_pairs_def lower_pair_def)
  moreover have "query_pieces (ToLower u (Values_Encode v)) =
      map (\<lambda>p. map lower_char (encode_pair p)) (Values_pairs v)"
    unfolding ToLower_ascii [OF encoded_query_ascii] unfolding Values_Encode_def lower_Join map_map comp_def
    by (rule query_pieces_Join) (simp add: list_all_iff clean_lower_pair)
  ultimately show ?thesis by (simp add: ParseQuery_def)
qed

section \<open>When signatures are hidden\<close>

text \<open>
  Two queries that differ in the value of the signature at most. Some parameter sorts before
  \<open>sig\<close>, as \<open>se\<close> or \<open>si\<close> do in every SAS.
\<close>

definition differ_in_sig :: "Values \<Rightarrow> Values \<Rightarrow> bool" where
  "differ_in_sig v v' \<longleftrightarrow> go_map_ok v \<and> go_map_ok v' \<and> (\<forall>k. k \<noteq> ''sig'' \<longrightarrow> map_of v k = map_of v' k)
     \<and> (\<exists>x xs. map_of v ''sig'' = Some (x # xs)) \<and> (\<exists>x xs. map_of v' ''sig'' = Some (x # xs))
     \<and> (\<exists>k y ys. k < ''sig'' \<and> map_of v k = Some (y # ys))"

lemma other_pairs:
  assumes "go_map_ok v" and "go_map_ok v'" and "\<forall>k. k \<noteq> ''sig'' \<longrightarrow> map_of v k = map_of v' k"
    and "dom (map_of v) = dom (map_of v')"
  shows "filter (\<lambda>p. fst p \<noteq> ''sig'') (Values_pairs v) = filter (\<lambda>p. fst p \<noteq> ''sig'') (Values_pairs v')"
proof -
  have "set (map fst v) = set (map fst v')" using assms(4) by (simp add: dom_map_of_conv_image_fst)
  with assms(1,2) have keys: "sort (map fst v) = sort (map fst v')"
    unfolding go_map_ok_def by (intro sort_mset_cong) (metis set_eq_iff_mset_eq_distinct)
  have "filter (\<lambda>p. fst p \<noteq> ''sig'') (map (Pair k) (case map_of v k of Some xs \<Rightarrow> xs | None \<Rightarrow> [])) =
      filter (\<lambda>p. fst p \<noteq> ''sig'') (map (Pair k) (case map_of v' k of Some xs \<Rightarrow> xs | None \<Rightarrow> []))" for k
    using assms(3) by (cases "k = ''sig''") (simp_all add: filter_map comp_def)
  then show ?thesis by (simp add: Values_pairs_def keys filter_concat comp_def)
qed

lemma redaction_hides:
  assumes "differ_in_sig v v'"
  shows "RedactSigQueryParam u (Values_Encode v) = RedactSigQueryParam u (Values_Encode v')"
proof -
  let ?f = "\<lambda>v. fst (ParseQuery (ToLower u (Values_Encode v)))"
  let ?r = "\<lambda>v. map (\<lambda>(name, x). (name, if EqualFold u name ''sig'' then [''REDACTED''] else x)) (?f v)"
  from assms have ok: "go_map_ok v" "go_map_ok v'" and same: "\<forall>k. k \<noteq> ''sig'' \<longrightarrow> map_of v k = map_of v' k"
    by (auto simp: differ_in_sig_def)
  obtain x xs x' xs' k y ys where s: "map_of v ''sig'' = Some (x # xs)" "map_of v' ''sig'' = Some (x' # xs')"
    and k: "k < ''sig''" "map_of v k = Some (y # ys)" using assms by (auto simp: differ_in_sig_def)
  have k': "map_of v' k = Some (y # ys)" using k same by auto
  have "dom (map_of v) = dom (map_of v')"
    using same s by (intro set_eqI) (metis domIff option.distinct(1))
  note others = other_pairs [OF ok same this]
  have low_sig: "map lower_char ''sig'' = ''sig''" by code_simp
  have fold_sig: "EqualFold u ''sig'' ''sig''" by simp
  have eq: "map_of (?f v) n = map_of (?f v') n" if "n \<noteq> ''sig''" for n
  proof -
    have "filter (\<lambda>p. fst p = n) (map lower_pair ps) =
        map lower_pair (filter (\<lambda>p. map lower_char (fst p) = n) (filter (\<lambda>p. fst p \<noteq> ''sig'') ps))" for ps
      using that low_sig by (induction ps) (auto simp: lower_pair_def)
    moreover have "n \<in> fst ` set (map lower_pair ps) \<longleftrightarrow> filter (\<lambda>p. fst p = n) (map lower_pair ps) \<noteq> []" for ps
      by (force simp: filter_empty_conv)
    ultimately show ?thesis by (simp add: ParseQuery_lower map_of_add_pairs others del: filter_filter)
  qed
  have "''sig'' \<in> fst ` set (map lower_pair (Values_pairs v))"
    "''sig'' \<in> fst ` set (map lower_pair (Values_pairs v'))"
    using Values_pairs_split [OF k(2) s(1) k(1) ok(1)] Values_pairs_split [OF k' s(2) k(1) ok(2)] low_sig
    by (auto simp: lower_pair_def image_iff)
  then have "map_of (?r v) n = map_of (?r v') n" for n
    using eq [of n] fold_sig
    by (cases "n = ''sig''") (simp_all add: map_of_redact ParseQuery_lower map_of_add_pairs)
  then have "Values_Encode (?r v) = Values_Encode (?r v')"
    using go_map_ok_redact [of "\<lambda>k v. if EqualFold u k ''sig'' then [''REDACTED''] else v"]
    by (intro Values_Encode_cong ext) simp_all
  moreover have "Contains (ToLower u (Values_Encode v)) ''&sig=''" "Contains (ToLower u (Values_Encode v')) ''&sig=''"
    using encoded_sig_found [OF k(2) s(1) k(1) ok(1)] encoded_sig_found [OF k' s(2) k(1) ok(2)] by simp_all
  ultimately show ?thesis by (simp add: RedactSigQueryParam_def Let_def)
qed

text \<open>
  The other way round: what \<open>RedactSigQueryParam\<close> looks for in the lower-case query is a
  parameter that is not the first and whose name is \<open>sig\<close> in lower case.
\<close>

lemma prefix_of_piece:
  assumes "t @ post = Join (q # qs) ''&''" and "CHR ''&'' \<notin> set t"
  shows "\<exists>r. q = t @ r"
proof (cases qs)
  case Nil
  with assms(1) show ?thesis by auto
next
  case (Cons q' qs')
  with assms(1) have "t @ post = q @ CHR ''&'' # Join qs ''&''" by simp
  then obtain us where "t = q @ us \<and> us @ post = CHR ''&'' # Join qs ''&'' \<or> t @ us = q"
    by (auto simp: append_eq_append_conv2)
  with assms(2) show ?thesis by (cases us) auto
qed

lemma Contains_in_piece:
  assumes "Contains (Join (p # ps) ''&'') (CHR ''&'' # t)" and "CHR ''&'' \<notin> set p" and "CHR ''&'' \<notin> set t"
    and "\<And>q. q \<in> set ps \<Longrightarrow> CHR ''&'' \<notin> set q"
  shows "\<exists>q \<in> set ps. \<exists>r. q = t @ r"
  using assms
proof (induction ps arbitrary: p)
  case Nil
  then show ?case by (auto simp: Contains_iff)
next
  case (Cons q qs)
  from Cons.prems(1) obtain a b where "p @ CHR ''&'' # Join (q # qs) ''&'' = a @ CHR ''&'' # t @ b"
    by (auto simp: Contains_iff)
  then obtain us where "a = p @ us \<and> CHR ''&'' # Join (q # qs) ''&'' = us @ CHR ''&'' # t @ b
      \<or> p = a @ us \<and> us @ CHR ''&'' # Join (q # qs) ''&'' = CHR ''&'' # t @ b"
    by (auto simp: append_eq_append_conv2)
  with Cons.prems(2) consider "Join (q # qs) ''&'' = t @ b"
    | us' where "Join (q # qs) ''&'' = us' @ CHR ''&'' # t @ b"
    by (cases us) auto
  then show ?case
  proof cases
    case 1
    from prefix_of_piece [OF 1 [symmetric] Cons.prems(3)] show ?thesis by auto
  next
    case 2
    then have "Contains (Join (q # qs) ''&'') (CHR ''&'' # t)" by (auto simp: Contains_iff)
    from Cons.IH [OF this] Cons.prems(3,4) show ?thesis by auto
  qed
qed

lemma lower_is_sig:
  assumes "map lower_char k = ''sig''"
  shows "k \<le> ''sig''"
proof -
  have b: "c = d \<or> byte_of c + 32 = byte_of d" if "lower_char c = d" for c d
    using that byte_of_lower_char [of c] by (auto simp: lower_char_def lower_byte_def split: if_splits)
  have le: "c \<le> d" if "lower_char c = d" for c d
    using b [OF that] by (auto simp: less_eq_char_def byte_of_def)
  from assms obtain a b c where k: "k = [a, b, c]" "lower_char a = CHR ''s''" "lower_char b = CHR ''i''"
    "lower_char c = CHR ''g''" by auto
  with le [of a] le [of b] le [of c] show ?thesis by (auto simp: order.order_iff_strict)
qed

lemma lower_sig_piece:
  assumes "map lower_char (encode_pair p) = ''sig='' @ r"
  shows "map lower_char (fst p) = ''sig''"
proof -
  let ?n = "map lower_char (QueryEscape (fst p))"
  have "CHR ''='' \<notin> set ?n" using lower_QueryEscape_no_sep [of "CHR ''=''" "fst p"] by simp
  then have "IndexByte (?n @ CHR ''='' # map lower_char (QueryEscape (snd p))) (CHR ''='') = Some (length ?n)"
    by (rule IndexByte_append)
  moreover have eq: "?n @ CHR ''='' # map lower_char (QueryEscape (snd p)) = ''sig'' @ CHR ''='' # r"
    using assms by (simp add: lower_encode_pair)
  ultimately have "length ?n = length ''sig''" by simp
  with eq have "?n = ''sig''" by (metis append_eq_append_conv)
  then have "Some (map lower_char (fst p)) = QueryUnescape ''sig''" using QueryUnescape_lower [of "fst p"] by simp
  moreover have "QueryUnescape ''sig'' = Some ''sig''" by code_simp
  ultimately show ?thesis by simp
qed

lemma Values_pairs_sig_first:
  assumes "go_map_ok v" and "map_of v ''sig'' = Some [x]" and "\<And>k. k \<in> fst ` set v \<Longrightarrow> \<not> k < ''sig''"
  shows "\<exists>R. Values_pairs v = (''sig'', x) # R \<and> (\<forall>p \<in> set R. ''sig'' < fst p)"
proof -
  let ?g = "\<lambda>k. map (Pair k) (case map_of v k of Some xs \<Rightarrow> xs | None \<Rightarrow> [])"
  have "sorted_wrt (<) (sort (map fst v))" using assms(1) by (simp add: go_map_ok_def strict_sorted_iff)
  moreover have sig: "''sig'' \<in> set (sort (map fst v))" using assms(2) by (force dest: map_of_SomeD)
  moreover have "\<not> k < ''sig''" if "k \<in> set (sort (map fst v))" for k using that assms(3) by simp
  ultimately obtain ks where ks: "sort (map fst v) = ''sig'' # ks" "\<forall>k \<in> set ks. ''sig'' < k"
    by (cases "sort (map fst v)") auto
  then have "Values_pairs v = (''sig'', x) # concat (map ?g ks)" by (simp add: Values_pairs_def assms(2))
  moreover have "\<forall>p \<in> set (concat (map ?g ks)). ''sig'' < fst p" using ks(2) by auto
  ultimately show ?thesis by blast
qed

lemma encoded_no_question_mark: "CHR ''?'' \<notin> set (map lower_char (Values_Encode v))"
proof
  have J: "c \<in> set (Join ss ''&'') \<Longrightarrow> c = CHR ''&'' \<or> (\<exists>s \<in> set ss. c \<in> set s)" for c ss
    by (induction ss rule: induct_list012) auto
  assume "CHR ''?'' \<in> set (map lower_char (Values_Encode v))"
  then obtain d where d: "d \<in> set (Values_Encode v)" "lower_char d = CHR ''?''" by auto
  then have "query_safe d \<or> d = CHR ''&'' \<or> d = CHR ''=''"
    using QueryEscape_safe by (auto simp: Values_Encode_def encode_pair_def dest!: J)
  moreover have "lower_byte (byte_of d) = byte_of (CHR ''?'')" using d(2) byte_of_lower_char [of d] by simp
  ultimately show False
    by (auto simp: query_safe_def is_alnum_def lower_byte_def byte_of_def split: if_splits)
qed

lemma leading_sig_not_found:
  assumes "go_map_ok v" and "map_of v ''sig'' = Some [x]" and "\<And>k. k \<in> fst ` set v \<Longrightarrow> \<not> k < ''sig''"
  shows "\<not> fst (RedactSigQueryParam u (Values_Encode v))"
proof -
  let ?l = "map lower_char (Values_Encode v)"
  obtain R where R: "Values_pairs v = (''sig'', x) # R" "\<And>p. p \<in> set R \<Longrightarrow> ''sig'' < fst p"
    using Values_pairs_sig_first [OF assms] by blast
  have l: "?l = Join (map lower_char (encode_pair (''sig'', x)) # map (\<lambda>p. map lower_char (encode_pair p)) R) ''&''"
    unfolding Values_Encode_def lower_Join by (simp add: R(1) comp_def)
  have no: "CHR ''&'' \<notin> set (map lower_char (encode_pair p))" for p
    using clean_lower_pair [of p] by (auto simp: clean_piece_def query_sep_def)
  have "\<not> Contains ?l ''&sig=''"
  proof
    assume "Contains ?l ''&sig=''"
    then have "\<exists>q \<in> set (map (\<lambda>p. map lower_char (encode_pair p)) R). \<exists>r. q = ''sig='' @ r"
      unfolding l by (rule Contains_in_piece) (use no in auto)
    then obtain p r where p: "p \<in> set R" "map lower_char (encode_pair p) = ''sig='' @ r" by auto
    then have "fst p \<le> ''sig''" by (intro lower_is_sig lower_sig_piece)
    with R(2) [OF p(1)] show False by simp
  qed
  moreover have "\<not> Contains ?l ''?sig=''"
    using encoded_no_question_mark [of v] unfolding Contains_iff by (metis append_Cons in_set_conv_decomp)
  ultimately show ?thesis
    using ToLower_ascii [OF encoded_query_ascii, of u v] by (simp add: RedactSigQueryParam_def Let_def)
qed

lemma sig_found:
  assumes "go_map_ok v" and "map_of v ''sig'' = Some (x # xs)" and "k < ''sig''" and "map_of v k = Some (y # ys)"
  obtains q where "RedactSigQueryParam u (Values_Encode v) = (True, q)"
proof -
  have "fst (RedactSigQueryParam u (Values_Encode v))"
    using encoded_sig_found [OF assms(4,2,3,1)] by (simp add: RedactSigQueryParam_def Let_def)
  then show ?thesis using that by (metis prod.collapse)
qed

lemma prepared_hides:
  assumes "differ_in_sig v v'" and "u_RawQuery (rq_URL req) = Values_Encode v"
  shows "sig_hidden u (prepareRequestForLogging u parse req)"
    and "prepareRequestForLogging u parse (req\<lparr>rq_URL := (rq_URL req)\<lparr>u_RawQuery := Values_Encode v'\<rparr>\<rparr>)
       = prepareRequestForLogging u parse req"
proof -
  obtain q where q: "RedactSigQueryParam u (Values_Encode v) = (True, q)"
    using assms(1) unfolding differ_in_sig_def by (meson sig_found)
  with assms(2) show "sig_hidden u (prepareRequestForLogging u parse req)"
    by (intro prepared_sig_hidden) simp
  from q have "RedactSigQueryParam u (Values_Encode v') = (True, q)" by (simp add: redaction_hides [OF assms(1)])
  with q show "prepareRequestForLogging u parse (req\<lparr>rq_URL := (rq_URL req)\<lparr>u_RawQuery := Values_Encode v'\<rparr>\<rparr>)
      = prepareRequestForLogging u parse req"
    by (simp add: prepareRequestForLogging_def assms(2))
qed

lemma storageError_Error_prepared:
  "prepareRequestForLogging u parse req' = prepareRequestForLogging u parse req \<Longrightarrow>
     storageError_Error u parse write node_Error req' err = storageError_Error u parse write node_Error req err"
  by (simp add: storageError_Error_def split: option.split)

lemma differ_in_sig_update:
  assumes "go_map_ok v" and "[] \<notin> snd ` set v" and "map_of v ''sig'' = Some [x]"
    and "k \<in> fst ` set v" and "k < ''sig''"
  shows "differ_in_sig v (AList.update ''sig'' [y] v)"
proof -
  obtain ys where "map_of v k = Some ys" using assms(4) by (metis domD dom_map_of_conv_image_fst)
  moreover from this assms(2) have "ys \<noteq> []" by (metis image_eqI map_of_SomeD snd_conv)
  ultimately have "\<exists>y ys. map_of v k = Some (y # ys)" by (cases ys) auto
  with assms(1,3,5) show ?thesis by (auto simp: differ_in_sig_def map_of_update_alist)
qed

text \<open>
  C17: What the request log and the messages of errors show of the signature of a SAS, for a
  request whose query is an encoded map with one value of \<open>sig\<close>. Every entry the log policy
  writes, before and after the request, forced or not, shows the prepared request, and so does the
  message of an error. If some parameter sorts before \<open>sig\<close>, as \<open>se\<close> or \<open>si\<close> do in a SAS, then in
  the prepared request every spelling of \<open>sig\<close> reads REDACTED, and the prepared request and the
  message are the same for every other signature; otherwise the signature is the first parameter,
  is not recognised, and the URL is shown as it is. Only the request is prepared: the text of an
  error value that the rest of the pipeline returns is logged as it is.
\<close>

theorem signature_redaction:
  fixes req u parse
  defines "logged \<equiv> prepareRequestForLogging u parse req"
  assumes "go_map_ok v" and "[] \<notin> snd ` set v" and "map_of v ''sig'' = Some [x]"
    and "u_RawQuery (rq_URL req) = Values_Encode v"
  shows "(\<forall>rep w'. requestLog_Do u parse shouldLog opts next req w = Return (rep, w') \<longrightarrow>
       (\<exists>w1 w2 out fin forced. next req w1 = Return (rep, w2)
         \<and> lg_log w1 = lg_log w @ out \<and> lg_forced w1 = lg_forced w
         \<and> lg_log w' = lg_log w2 @ fin \<and> lg_forced w' = lg_forced w2 @ forced
         \<and> (\<forall>(l, e) \<in> set (out @ fin @ forced). entry_request e = logged)))
     \<and> (if \<exists>k \<in> fst ` set v. k < ''sig''
        then sig_hidden u logged
          \<and> (\<forall>y. let req' = req\<lparr>rq_URL := (rq_URL req)\<lparr>u_RawQuery := Values_Encode (AList.update ''sig'' [y] v)\<rparr>\<rparr> in
               prepareRequestForLogging u parse req' = logged
               \<and> storageError_Error u parse write node_Error req' err = storageError_Error u parse write node_Error req err)
        else rq_URL logged = rq_URL req)"
proof
  show "\<forall>rep w'. requestLog_Do u parse shouldLog opts next req w = Return (rep, w') \<longrightarrow>
       (\<exists>w1 w2 out fin forced. next req w1 = Return (rep, w2)
         \<and> lg_log w1 = lg_log w @ out \<and> lg_forced w1 = lg_forced w
         \<and> lg_log w' = lg_log w2 @ fin \<and> lg_forced w' = lg_forced w2 @ forced
         \<and> (\<forall>(l, e) \<in> set (out @ fin @ forced). entry_request e = logged))"
  proof (intro allI impI)
    fix rep w'
    assume "requestLog_Do u parse shouldLog opts next req w = Return (rep, w')"
    then show "\<exists>w1 w2 out fin forced. next req w1 = Return (rep, w2)
         \<and> lg_log w1 = lg_log w @ out \<and> lg_forced w1 = lg_forced w
         \<and> lg_log w' = lg_log w2 @ fin \<and> lg_forced w' = lg_forced w2 @ forced
         \<and> (\<forall>(l, e) \<in> set (out @ fin @ forced). entry_request e = logged)"
      unfolding logged_def by (rule requestLog_Do_cases) blast
  qed
  show "if \<exists>k \<in> fst ` set v. k < ''sig''
        then sig_hidden u logged
          \<and> (\<forall>y. let req' = req\<lparr>rq_URL := (rq_URL req)\<lparr>u_RawQuery := Values_Encode (AList.update ''sig'' [y] v)\<rparr>\<rparr> in
               prepareRequestForLogging u parse req' = logged
               \<and> storageError_Error u parse write node_Error req' err = storageError_Error u parse write node_Error req err)
        else rq_URL logged = rq_URL req"
  proof (cases "\<exists>k \<in> fst ` set v. k < ''sig''")
    case True
    then obtain k where "k \<in> fst ` set v" "k < ''sig''" by blast
    note hides = prepared_hides [OF differ_in_sig_update [OF assms(2-4) this] assms(5), of u parse]
    show ?thesis
      unfolding if_P [OF True] Let_def logged_def
      by (intro conjI allI hides storageError_Error_prepared)
  next
    case False
    then have "\<not> fst (RedactSigQueryParam u (Values_Encode v))"
      using leading_sig_not_found [OF assms(2,4)] by blast
    then show ?thesis
      unfolding if_not_P [OF False]
      by (auto simp: logged_def prepareRequestForLogging_def assms(5) split: prod.splits bool.splits)
  qed
qed

definition example_error :: storage_error where
  "example_error = \<lparr>se_response = Some \<lparr>rs_StatusCode = 404, rs_Status = ''404 Not Found'', rs_Header = [], rs_Body = None\<rparr>,
     se_description = ''missing'', se_serviceCode = ''ResourceNotFound'', se_details = [], se_node_temporary = False,
     se_node_timeout = False\<rparr>"

theorem signature_redaction_witness:
  "storageError_Error ascii_tables (\<lambda>_. None) (\<lambda>req _ _. u_RawQuery (rq_URL req)) (\<lambda>s. s)
     (log_example\<lparr>rq_URL := empty_url\<lparr>u_RawQuery := ''se=2030&sig=other''\<rparr>\<rparr>) example_error =
   storageError_Error ascii_tables (\<lambda>_. None) (\<lambda>req _ _. u_RawQuery (rq_URL req)) (\<lambda>s. s) log_example example_error
   \<and> (\<exists>w'. requestLog_Do ascii_tables (\<lambda>_. None) (\<lambda>_. True) \<lparr>rlo_LogWarningIfTryOverThreshold = 0\<rparr>
         (\<lambda>req w. Return (log_reply, w)) log_example log_start = Return (log_reply, w')
       \<and> length (lg_log w') = 2 \<and> length (lg_forced w') = 1
       \<and> (\<forall>(l, e) \<in> set (lg_log w' @ lg_forced w'). sig_hidden ascii_tables (entry_request e)))
   \<and> u_RawQuery (rq_URL (prepareRequestForLogging ascii_tables (\<lambda>_. None)
        (log_example\<lparr>rq_URL := empty_url\<lparr>u_RawQuery := ''sig=secret''\<rparr>\<rparr>))) = ''sig=secret''"
proof -
  let ?v = "\<lambda>s. [(''se'', [''2030'']), (''sig'', [s])]"
  let ?req = "log_example\<lparr>rq_URL := empty_url\<lparr>u_RawQuery := ''sig=secret''\<rparr>\<rparr>"
  have q: "u_RawQuery (rq_URL log_example) = Values_Encode (?v ''secret'')"
    "''se=2030&sig=other'' = Values_Encode (AList.update ''sig'' [''other''] (?v ''secret''))"
    "u_RawQuery (rq_URL ?req) = Values_Encode [(''sig'', [''secret''])]"
    by code_simp+
  have lt: "\<exists>k \<in> fst ` set (?v ''secret''). k < ''sig''" by code_simp
  have ok: "go_map_ok (?v ''secret'')" "[] \<notin> snd ` set (?v ''secret'')" "map_of (?v ''secret'') ''sig'' = Some [''secret'']"
    by (simp_all add: go_map_ok_def)
  have first: "go_map_ok [(''sig'', [''secret''])]" "[] \<notin> snd ` set [(''sig'', [''secret''])]"
    "map_of [(''sig'', [''secret''])] ''sig'' = Some [''secret'']" by (simp_all add: go_map_ok_def)
  note se = signature_redaction [OF ok(1-3) q(1), of ascii_tables "\<lambda>_. None" "\<lambda>_. True"
      "\<lparr>rlo_LogWarningIfTryOverThreshold = 0\<rparr>" "\<lambda>req w. Return (log_reply, w)" log_start
      "\<lambda>req _ _. u_RawQuery (rq_URL req)" "\<lambda>s. s" example_error]
  note hidden = se [THEN conjunct2, unfolded if_P [OF lt]]
  have URL: "log_example\<lparr>rq_URL := (rq_URL log_example)\<lparr>u_RawQuery := s\<rparr>\<rparr>
      = log_example\<lparr>rq_URL := empty_url\<lparr>u_RawQuery := s\<rparr>\<rparr>" for s
    by (simp add: log_example_def)
  obtain w' where w': "requestLog_Do ascii_tables (\<lambda>_. None) (\<lambda>_. True) \<lparr>rlo_LogWarningIfTryOverThreshold = 0\<rparr>
      (\<lambda>req w. Return (log_reply, w)) log_example log_start = Return (log_reply, w')"
    "length (lg_log w') = 2" "length (lg_forced w') = 1" using log_example_run by blast
  have "entry_request e = prepareRequestForLogging ascii_tables (\<lambda>_. None) log_example"
    if "(l, e) \<in> set (lg_log w' @ lg_forced w')" for l e
    using se [THEN conjunct1, rule_format, OF w'(1)] that by (auto simp: log_start_def)
  then have "\<forall>(l, e) \<in> set (lg_log w' @ lg_forced w'). sig_hidden ascii_tables (entry_request e)"
    using hidden [THEN conjunct1] by (metis (mono_tags, lifting) case_prodI2)
  moreover have "rq_URL (prepareRequestForLogging ascii_tables (\<lambda>_. None) ?req) = rq_URL ?req"
    using signature_redaction [OF first q(3), THEN conjunct2, of ascii_tables "\<lambda>_. None"] by simp
  ultimately show ?thesis
    using hidden [THEN conjunct2, rule_format, of "''other''", unfolded Let_def, THEN conjunct2] w'
    by (simp add: URL q(2))
qed

end
