(* ===== verification/Xml_Models.thy ===== *)
theory Xml_Models
  imports Response
begin

text \<open>
  The XML form of access policies and share properties (zz\_generated\_models.go): their times are
  written and read through the twin structures \<open>accessPolicy\<close> and \<open>shareProperties\<close>, whose text
  forms are \<open>timeRFC3339\<close> and \<open>timeRFC1123\<close>. A structure and its twin have the same fields, so the
  cast between them is not visible here. An element is given by its children, each with its
  name and its character data: \<open>encoding/xml\<close> writes the fields in order, leaving out nil
  pointers, and reads each child into the field with its name, ignoring the others.
  Character data is taken as it is: the escaping, and the replacement of characters that XML
  does not allow, are part of \<open>encoding/xml\<close>.
\<close>

section \<open>Times as in RFC 3339\<close>

text \<open>The layout is \<open>2006-01-02T15:04:05.0000000Z07:00\<close>, seven digits after the seconds.\<close>

definition format_nano :: "nat \<Rightarrow> nat \<Rightarrow> string" where
  "format_nano n nsec = ''.'' @ take n (append_int 9 (int nsec))"

definition format_zone :: "int \<Rightarrow> string" where
  "format_zone offset =
     (if offset = 0 then ''Z''
      else let zone = \<bar>offset\<bar> div 60
        in (if offset \<le> - 60 then ''-'' else ''+'') @ append_int 2 (zone div 60) @ '':'' @ append_int 2 (zone mod 60))"

definition format_rfc3339 :: "go_time \<Rightarrow> string" where
  "format_rfc3339 t =
     append_int 4 (t_year t) @ ''-'' @ append_int 2 (int (t_month t)) @ ''-'' @ append_int 2 (int (t_day t)) @ ''T''
     @ append_int 2 (int (t_hour t)) @ '':'' @ append_int 2 (int (t_min t)) @ '':'' @ append_int 2 (int (t_sec t))
     @ format_nano 7 (t_nsec t) @ format_zone (t_offset t)"

text \<open>\<open>atoi\<close> of the package \<open>time\<close>: a sign is accepted, and no digits are zero.\<close>

definition time_atoi :: "string \<Rightarrow> int option" where
  "time_atoi s =
     (let signed = (s \<noteq> [] \<and> (hd s = CHR ''-'' \<or> hd s = CHR ''+''));
          neg = (signed \<and> hd s = CHR ''-'')
      in case leading_int (if signed then tl s else s) of (q, rem) \<Rightarrow>
        if rem \<noteq> [] then None else Some (if neg then - int q else int q))"

text \<open>Seconds when the layout has a fraction of its own, the fraction, and the zone.\<close>

definition sec_then :: "(go_time \<times> string \<Rightarrow> 'a option) \<Rightarrow> go_time \<times> string \<Rightarrow> 'a option" where
  "sec_then k tv =
     Option.bind (getnum (snd tv) True) (\<lambda>(n, v). if 60 \<le> n then None else k ((fst tv)\<lparr>t_sec := n\<rparr>, v))"

definition frac_then :: "nat \<Rightarrow> (go_time \<times> string \<Rightarrow> 'a option) \<Rightarrow> go_time \<times> string \<Rightarrow> 'a option" where
  "frac_then n k tv =
     (case tv of (t, v) \<Rightarrow>
        if length v < Suc n \<or> hd v \<noteq> CHR ''.'' then None
        else Option.bind (time_atoi (take n (tl v))) (\<lambda>ns.
          if ns < 0 \<or> 10 ^ 9 \<le> ns then None
          else k (t\<lparr>t_nsec := nat ns * 10 ^ (9 - n)\<rparr>, drop n (tl v))))"

definition parse_colon_zone :: "string \<Rightarrow> (int \<times> string) option" where
  "parse_colon_zone v =
     (if v \<noteq> [] \<and> hd v = CHR ''Z'' then Some (0, tl v)
      else if length v < 6 \<or> v ! 3 \<noteq> CHR '':'' then None
      else Option.bind (time_atoi [v ! 1, v ! 2]) (\<lambda>hr.
        Option.bind (time_atoi [v ! 4, v ! 5]) (\<lambda>mm.
          let zoneOffset = (hr * 60 + mm) * 60 in
          if hd v = CHR ''+'' then Some (zoneOffset, drop 6 v)
          else if hd v = CHR ''-'' then Some (- zoneOffset, drop 6 v)
          else None)))"

definition colon_zone_end :: "go_time \<times> string \<Rightarrow> go_time option" where
  "colon_zone_end tv =
     Option.bind (parse_colon_zone (snd tv)) (\<lambda>(off, v).
       if v \<noteq> [] \<or> \<not> day_fits (fst tv) then None else Some ((fst tv)\<lparr>t_offset := off\<rparr>))"

definition parse_rfc3339 :: "string \<Rightarrow> go_time option" where
  "parse_rfc3339 v =
     chunk_then StdYear (lit_then ''-'' (chunk_then StdMonth (lit_then ''-'' (chunk_then StdDay (lit_then ''T''
       (chunk_then StdHour (lit_then '':'' (chunk_then StdMin (lit_then '':'' (sec_then (frac_then 7 colon_zone_end)))))))))))
       (parse_start, v)"

text \<open>The text forms; a time that cannot be read leaves the zero time behind.\<close>

definition timeRFC3339_MarshalText :: "go_time \<Rightarrow> string" where
  "timeRFC3339_MarshalText t = format_rfc3339 t"

definition timeRFC3339_UnmarshalText :: "string \<Rightarrow> go_time \<times> bool" where
  "timeRFC3339_UnmarshalText data = (case parse_rfc3339 data of Some t \<Rightarrow> (t, True) | None \<Rightarrow> (zero_time, False))"

section \<open>Times as in RFC 1123\<close>

text \<open>
  \<open>Format\<close> with the layout \<open>Mon, 02 Jan 2006 15:04:05 MST\<close> prints the abbreviation of the time's
  zone, which is the argument \<open>name\<close>, or the offset when there is none.
\<close>

definition zone_offset_text :: "int \<Rightarrow> string" where
  "zone_offset_text offset =
     (let zone = \<bar>offset\<bar> div 60
      in (if offset \<le> - 60 then ''-'' else ''+'') @ append_int 2 (zone div 60) @ append_int 2 (zone mod 60))"

definition format_rfc1123 :: "string \<Rightarrow> go_time \<Rightarrow> string" where
  "format_rfc1123 name t =
     shortDayNames ! weekday t @ '', '' @ append_int 2 (int (t_day t)) @ '' '' @ shortMonthNames ! (t_month t - 1) @ '' ''
     @ append_int 4 (t_year t) @ '' '' @ append_int 2 (int (t_hour t)) @ '':'' @ append_int 2 (int (t_min t)) @ '':''
     @ append_int 2 (int (t_sec t)) @ '' '' @ (if name \<noteq> [] then name else zone_offset_text (t_offset t))"

definition timeRFC1123_MarshalText :: "string \<Rightarrow> go_time \<Rightarrow> string" where
  "timeRFC1123_MarshalText name t = format_rfc1123 name t"

definition timeRFC1123_UnmarshalText :: "local_zone \<Rightarrow> string \<Rightarrow> go_time \<times> bool" where
  "timeRFC1123_UnmarshalText local data =
     (case time_Parse_RFC1123 local data of Some t \<Rightarrow> (t, True) | None \<Rightarrow> (zero_time, False))"

section \<open>Elements\<close>

type_synonym children = "(string \<times> string) list"

definition opt_child :: "string \<Rightarrow> string option \<Rightarrow> children" where
  "opt_child name x = (case x of Some s \<Rightarrow> [(name, s)] | None \<Rightarrow> [])"

definition AccessPolicy_MarshalXML :: "AccessPolicy \<Rightarrow> children" where
  "AccessPolicy_MarshalXML ap =
     opt_child ''Start'' (map_option timeRFC3339_MarshalText (ap_Start ap))
     @ opt_child ''Expiry'' (map_option timeRFC3339_MarshalText (ap_Expiry ap))
     @ opt_child ''Permission'' (ap_Permission ap)"

text \<open>Reading stops at the first child that cannot be read; the flag tells that there was none.\<close>

fun AccessPolicy_UnmarshalXML :: "children \<Rightarrow> AccessPolicy \<Rightarrow> AccessPolicy \<times> bool" where
  "AccessPolicy_UnmarshalXML [] ap = (ap, True)"
| "AccessPolicy_UnmarshalXML ((name, data) # cs) ap =
     (if name = ''Start'' then
        (case timeRFC3339_UnmarshalText data of (t, ok) \<Rightarrow>
           let ap = ap\<lparr>ap_Start := Some t\<rparr> in if ok then AccessPolicy_UnmarshalXML cs ap else (ap, False))
      else if name = ''Expiry'' then
        (case timeRFC3339_UnmarshalText data of (t, ok) \<Rightarrow>
           let ap = ap\<lparr>ap_Expiry := Some t\<rparr> in if ok then AccessPolicy_UnmarshalXML cs ap else (ap, False))
      else if name = ''Permission'' then AccessPolicy_UnmarshalXML cs (ap\<lparr>ap_Permission := Some data\<rparr>)
      else AccessPolicy_UnmarshalXML cs ap)"

definition ShareProperties_MarshalXML :: "string \<Rightarrow> ShareProperties \<Rightarrow> children" where
  "ShareProperties_MarshalXML zone sp =
     [(''Last-Modified'', timeRFC1123_MarshalText zone (shp_LastModified sp)), (''Etag'', shp_Etag sp),
      (''Quota'', FormatInt (shp_Quota sp))]"

fun ShareProperties_UnmarshalXML :: "local_zone \<Rightarrow> children \<Rightarrow> ShareProperties \<Rightarrow> ShareProperties \<times> bool" where
  "ShareProperties_UnmarshalXML local [] sp = (sp, True)"
| "ShareProperties_UnmarshalXML local ((name, data) # cs) sp =
     (if name = ''Last-Modified'' then
        (case timeRFC1123_UnmarshalText local data of (t, ok) \<Rightarrow>
           let sp = sp\<lparr>shp_LastModified := t\<rparr> in
           if ok then ShareProperties_UnmarshalXML local cs sp else (sp, False))
      else if name = ''Etag'' then ShareProperties_UnmarshalXML local cs (sp\<lparr>shp_Etag := data\<rparr>)
      else if name = ''Quota'' then
        (if data = [] then ShareProperties_UnmarshalXML local cs (sp\<lparr>shp_Quota := 0\<rparr>)
         else (case ParseInt (TrimSpace data) 32 of
             Some n \<Rightarrow> ShareProperties_UnmarshalXML local cs (sp\<lparr>shp_Quota := n\<rparr>)
           | None \<Rightarrow> (sp, False)))
      else ShareProperties_UnmarshalXML local cs sp)"

section \<open>Reading back what was written\<close>

lemma dec_val_split: "dec_val (s @ s') = dec_val s * 10 ^ length s' + dec_val s'"
proof (induction s' rule: rev_induct)
  case Nil
  then show ?case by (simp add: dec_val_def)
next
  case (snoc c s')
  then show ?case using dec_val_append [of "s @ s'" c] by (simp add: dec_val_append)
qed

lemma dec_val_zeros: "dec_val (replicate k (CHR ''0'') @ s) = dec_val s"
proof -
  have "dec_val (replicate k (CHR ''0'')) = 0"
    by (induction k) (simp_all add: dec_val_def digit_char_0)
  then show ?thesis by (simp add: dec_val_split)
qed

lemma dec_val_bound: "list_all is_digit s \<Longrightarrow> dec_val s < 10 ^ length s"
proof (induction s rule: rev_induct)
  case (snoc c s)
  then have "digit_val c < 10" by (auto simp: is_digit_def digit_val_def)
  with snoc show ?case by (simp add: dec_val_append)
qed (simp add: dec_val_def)

lemma length_dec_nat: "n < 10 ^ Suc k \<Longrightarrow> length (dec_nat n) \<le> Suc k"
proof (induction k arbitrary: n)
  case 0
  then show ?case by (simp add: dec_nat_1)
next
  case (Suc k)
  show ?case
  proof (cases "n < 10")
    case False
    then have "length (dec_nat (n div 10)) \<le> Suc k" using Suc.prems by (intro Suc.IH) (simp add: div_less_iff_less_mult)
    with False show ?thesis by (simp add: dec_nat_step)
  qed (simp add: dec_nat_1)
qed

lemma append_int_digits:
  assumes "n < 10 ^ Suc k"
  shows "length (append_int (Suc k) (int n)) = Suc k" and "list_all is_digit (append_int (Suc k) (int n))"
    and "dec_val (append_int (Suc k) (int n)) = n"
proof -
  have "is_digit (CHR ''0'')" by (simp add: digit_char_0)
  then have "list_all is_digit (replicate m (CHR ''0''))" for m by (simp add: list_all_iff)
  then show "length (append_int (Suc k) (int n)) = Suc k" "list_all is_digit (append_int (Suc k) (int n))"
    "dec_val (append_int (Suc k) (int n)) = n"
    using length_dec_nat [OF assms] dec_nat_digits [of n]
    by (simp_all add: append_int_def Let_def dec_val_zeros)
qed

lemma time_atoi_digits:
  assumes "list_all is_digit s"
  shows "time_atoi s = Some (int (dec_val s))"
proof -
  have "takeWhile is_digit s = s" "dropWhile is_digit s = []" using assms by (auto simp: list_all_iff)
  then have "leading_int s = (dec_val s, [])" by (simp only: leading_int_def)
  moreover have "\<not> is_digit (CHR ''-'')" "\<not> is_digit (CHR ''+'')" by (simp_all add: is_digit_def byte_of_def)
  then have "\<not> (s \<noteq> [] \<and> (hd s = CHR ''-'' \<or> hd s = CHR ''+''))" using assms by (cases s) auto
  ultimately show ?thesis by (auto simp: time_atoi_def Let_def)
qed

lemma frac_step:
  assumes "n < 10 ^ 9"
  shows "frac_then 7 k (t, format_nano 7 n @ v) = k (t\<lparr>t_nsec := n div 100 * 100\<rparr>, v)"
proof -
  let ?s = "append_int 9 (int n)"
  have s: "length ?s = 9" "list_all is_digit ?s" "dec_val ?s = n"
    using append_int_digits [of n 8] assms by simp_all
  have d: "list_all is_digit (take 7 ?s)" "list_all is_digit (drop 7 ?s)"
    using s(2) by (auto simp: list_all_iff dest: in_set_takeD in_set_dropD)
  have "n = dec_val (take 7 ?s) * 10 ^ length (drop 7 ?s) + dec_val (drop 7 ?s)"
    using dec_val_split [of "take 7 ?s" "drop 7 ?s"] s(3) by simp
  moreover have "dec_val (drop 7 ?s) < 10 ^ length (drop 7 ?s)" using d(2) by (rule dec_val_bound)
  ultimately have "dec_val (take 7 ?s) = n div 100" using s(1) by simp
  then show ?thesis
    using s(1) assms time_atoi_digits [OF d(1)] by (auto simp: frac_then_def format_nano_def)
qed

text \<open>The offset a printed zone stands for: whole minutes.\<close>

definition minutes :: "int \<Rightarrow> int" where
  "minutes off = (if off < 0 then - (\<bar>off\<bar> div 60 * 60) else \<bar>off\<bar> div 60 * 60)"

lemma parse_printed_zone:
  assumes "\<bar>off\<bar> < 360000"
  shows "parse_colon_zone (format_zone off) = Some (minutes off, [])"
proof (cases "off = 0")
  case True
  then show ?thesis by (simp add: parse_colon_zone_def format_zone_def minutes_def)
next
  case False
  define h m where "h = nat (\<bar>off\<bar> div 60 div 60)" and "m = nat (\<bar>off\<bar> div 60 mod 60)"
  have b: "h < 100" "m < 100" using assms by (auto simp: h_def m_def)
  have i: "\<bar>off\<bar> div 60 div 60 = int h" "\<bar>off\<bar> div 60 mod 60 = int m" by (simp_all add: h_def m_def)
  have sum: "\<bar>off\<bar> div 60 = int h * 60 + int m" unfolding i [symmetric] by simp
  have "\<bar>off\<bar> div 60 = 0" if "off < 0" "\<not> off \<le> - 60" using that by auto
  then have off: "minutes off = (if off \<le> - 60 then - ((int h * 60 + int m) * 60) else (int h * 60 + int m) * 60)"
    using sum by (auto simp: minutes_def)
  let ?d = "\<lambda>n. [digit_char (n div 10), digit_char (n mod 10)]"
  have atoi: "time_atoi (?d n) = Some (int n)" if "n < 100" for n
  proof -
    have "list_all is_digit (?d n)" "dec_val (?d n) = n" using that by (simp_all add: dec_val_def)
    then show ?thesis by (simp only: time_atoi_digits)
  qed
  have "format_zone off = (if off \<le> - 60 then CHR ''-'' else CHR ''+'') # ?d h @ CHR '':'' # ?d m"
    using False b by (simp add: format_zone_def Let_def i append_int_2)
  then show ?thesis
    using atoi [OF b(1)] atoi [OF b(2)] off False
    by (cases "off \<le> - 60") (simp_all add: parse_colon_zone_def)
qed

lemma lit_char_step: "c \<noteq> CHR '' '' \<Longrightarrow> lit_then [c] k (s, c # v) = k (s, v)"
  by (simp add: lit_then_def)

lemma month_step:
  "date_ok t \<Longrightarrow> chunk_then StdMonth k (s, append_int 2 (int (t_month t)) @ v) = k (s\<lparr>t_month := t_month t\<rparr>, v)"
  by (simp only: chunk_then_def parse_fields Option.bind.bind_lunit)

lemma sec_step:
  "date_ok t \<Longrightarrow> sec_then k (s, append_int 2 (int (t_sec t)) @ v) = k (s\<lparr>t_sec := t_sec t\<rparr>, v)"
  by (auto simp: sec_then_def getnum_append_int date_ok_def)

text \<open>What the text form keeps of a time: tenths of microseconds and minutes of the zone.\<close>

definition rounded :: "go_time \<Rightarrow> go_time" where
  "rounded t = t\<lparr>t_nsec := t_nsec t div 100 * 100, t_offset := minutes (t_offset t)\<rparr>"

definition policy_time_ok :: "go_time \<Rightarrow> bool" where
  "policy_time_ok t \<longleftrightarrow> date_ok t \<and> t_nsec t < 10 ^ 9 \<and> \<bar>t_offset t\<bar> < 360000"

lemma rfc3339_read:
  assumes "policy_time_ok t"
  shows "timeRFC3339_UnmarshalText (timeRFC3339_MarshalText t) = (rounded t, True)"
proof -
  from assms have ok: "date_ok t" "t_nsec t < 10 ^ 9" "\<bar>t_offset t\<bar> < 360000" by (simp_all add: policy_time_ok_def)
  let ?t = "parse_start\<lparr>t_year := t_year t, t_month := t_month t, t_day := t_day t, t_hour := t_hour t,
      t_min := t_min t, t_sec := t_sec t, t_nsec := t_nsec t div 100 * 100\<rparr>"
  have "day_fits ?t" using ok(1) by (simp add: date_ok_def day_fits_def)
  moreover have "?t\<lparr>t_offset := minutes (t_offset t)\<rparr> = rounded t" by (simp add: rounded_def parse_start_def)
  ultimately have "colon_zone_end (?t, format_zone (t_offset t)) = Some (rounded t)"
    by (simp add: colon_zone_end_def parse_printed_zone [OF ok(3)])
  then have "parse_rfc3339 (format_rfc3339 t) = Some (rounded t)"
    unfolding parse_rfc3339_def format_rfc3339_def
    by (simp add: chunk_steps(1,2,3,4) [OF ok(1)] month_step [OF ok(1)] sec_step [OF ok(1)] frac_step [OF ok(2)]
        lit_char_step)
  then show ?thesis by (simp add: timeRFC3339_UnmarshalText_def timeRFC3339_MarshalText_def)
qed

text \<open>
  C21: A stored access policy that is written and read again is the same policy, except that its
  times are cut to tenths of microseconds, and their zones to minutes: permissions that are
  missing stay missing, and an empty permission stays empty. Reading ignores what it does
  not know and whatever the policy held before under the names that are written.
\<close>

theorem access_policy_roundtrip:
  assumes "pred_option policy_time_ok (ap_Start ap)" and "pred_option policy_time_ok (ap_Expiry ap)"
    and "list_all (\<lambda>c. fst c \<notin> {''Start'', ''Expiry'', ''Permission''}) unknown"
  shows "AccessPolicy_UnmarshalXML (AccessPolicy_MarshalXML ap @ unknown)
       \<lparr>ap_Start = None, ap_Expiry = None, ap_Permission = None\<rparr> =
     (\<lparr>ap_Start = map_option rounded (ap_Start ap), ap_Expiry = map_option rounded (ap_Expiry ap),
       ap_Permission = ap_Permission ap\<rparr>, True)"
proof -
  have "AccessPolicy_UnmarshalXML unknown p = (p, True)" for p using assms(3) by (induction unknown) auto
  then show ?thesis
    using assms(1,2)
    by (cases ap; cases "ap_Start ap"; cases "ap_Expiry ap"; cases "ap_Permission ap")
      (simp_all add: AccessPolicy_MarshalXML_def opt_child_def rfc3339_read)
qed

definition example_policy :: AccessPolicy where
  "example_policy = \<lparr>ap_Start = Some \<lparr>t_year = 2018, t_month = 3, t_day = 28, t_hour = 23, t_min = 59, t_sec = 58,
       t_nsec = 123456789, t_offset = - 12600\<rparr>, ap_Expiry = None, ap_Permission = Some ''r''\<rparr>"

theorem access_policy_roundtrip_witness:
  "AccessPolicy_UnmarshalXML (AccessPolicy_MarshalXML example_policy @ [(''Other'', ''x'')])
       \<lparr>ap_Start = None, ap_Expiry = None, ap_Permission = None\<rparr> =
     (example_policy\<lparr>ap_Start := map_option rounded (ap_Start example_policy)\<rparr>, True)"
proof -
  have "pred_option policy_time_ok (ap_Start example_policy)" "pred_option policy_time_ok (ap_Expiry example_policy)"
    by (simp_all add: example_policy_def policy_time_ok_def date_ok_def days_in_month_def)
  from access_policy_roundtrip [OF this, of "[(''Other'', ''x'')]"] show ?thesis by (simp add: example_policy_def)
qed

text \<open>Share properties: a time in UTC, which prints its zone as UTC, an entity tag and a quota.\<close>

lemma rune_pieces_ascii: "ascii s \<Longrightarrow> rune_pieces s = map (\<lambda>c. (byte_of c, [c])) s"
  by (induction s) (simp_all add: rune_pieces_ascii_Cons ascii_def del: rune_pieces.simps(2))

lemma TrimSpace_solid:
  assumes "ascii s" and "list_all (\<lambda>c. \<not> IsSpace (byte_of c)) s"
  shows "TrimSpace s = s"
proof -
  let ?p = "\<lambda>p :: rune \<times> string. IsSpace (fst p)"
  have none: "dropWhile ?p (rune_pieces s) = rune_pieces s" "dropWhile ?p (rev (rune_pieces s)) = rev (rune_pieces s)"
    using assms(2) hd_in_set [of s] last_in_set [of s]
    by (auto simp: rune_pieces_ascii [OF assms(1)] list_all_iff dropWhile_eq_self_iff hd_rev hd_map last_map)
  then show ?thesis by (simp add: TrimSpace_def rune_pieces_ascii [OF assms(1)] comp_def)
qed

lemma FormatInt_chars: "c \<in> set (FormatInt i) \<Longrightarrow> is_digit c \<or> c = CHR ''-''"
  using dec_nat_digits by (auto simp: FormatInt_def list_all_iff split: if_splits)

lemma TrimSpace_FormatInt: "TrimSpace (FormatInt i) = FormatInt i"
proof (rule TrimSpace_solid)
  have "byte_of c < 128 \<and> \<not> IsSpace (byte_of c)" if "c \<in> set (FormatInt i)" for c
    using FormatInt_chars [OF that] by (auto simp: is_digit_def IsSpace_def byte_of_def)
  then show "ascii (FormatInt i)" "list_all (\<lambda>c. \<not> IsSpace (byte_of c)) (FormatInt i)"
    by (auto simp: ascii_def list_all_iff)
qed

lemma share_properties_roundtrip:
  assumes "date_ok (shp_LastModified sp)" and "t_nsec (shp_LastModified sp) = 0" and "t_offset (shp_LastModified sp) = 0"
    and "- (2 ^ 31) \<le> shp_Quota sp" and "shp_Quota sp < 2 ^ 31"
  shows "ShareProperties_UnmarshalXML local (ShareProperties_MarshalXML ''UTC'' sp) sp0 = (sp, True)"
proof -
  let ?t = "shp_LastModified sp"
  have "zone_end local (?t, ''UTC'') = Some ?t"
    using date_ok_day_fits [OF assms(1)] by (simp add: zone_end_def parse_zone_def)
  then have "timeRFC1123_UnmarshalText local (timeRFC1123_MarshalText ''UTC'' ?t) = (?t, True)"
    using rfc1123_read [OF assms(1-3), of "''UTC''" "local"]
    by (simp add: timeRFC1123_UnmarshalText_def timeRFC1123_MarshalText_def format_rfc1123_def solid_def)
  moreover have "FormatInt (shp_Quota sp) \<noteq> []" by (simp add: FormatInt_def)
  ultimately show ?thesis
    using ParseInt_FormatInt [of 32 "shp_Quota sp"] assms(4,5)
    by (simp add: ShareProperties_MarshalXML_def TrimSpace_FormatInt)
qed

end
