(* ===== verification/Service_Codes.thy ===== *)
theory Service_Codes
  imports Storage_Error
begin

text \<open>
  The service codes of zc\_service\_codes\_common.go and service\_codes\_file.go: the strings that
  \<open>ServiceCode\<close> of a storage error is compared with.
\<close>

type_synonym ServiceCodeType = string

definition ServiceCodeNone :: ServiceCodeType where
  "ServiceCodeNone = []"
definition ServiceCodeAccountAlreadyExists :: ServiceCodeType where
  "ServiceCodeAccountAlreadyExists = ''AccountAlreadyExists''"
definition ServiceCodeAccountBeingCreated :: ServiceCodeType where
  "ServiceCodeAccountBeingCreated = ''AccountBeingCreated''"
definition ServiceCodeAccountIsDisabled :: ServiceCodeType where
  "ServiceCodeAccountIsDisabled = ''AccountIsDisabled''"
definition ServiceCodeAuthenticationFailed :: ServiceCodeType where
  "ServiceCodeAuthenticationFailed = ''AuthenticationFailed''"
definition ServiceCodeConditionHeadersNotSupported :: ServiceCodeType where
  "ServiceCodeConditionHeadersNotSupported = ''ConditionHeadersNotSupported''"
definition ServiceCodeConditionNotMet :: ServiceCodeType where
  "ServiceCodeConditionNotMet = ''ConditionNotMet''"
definition ServiceCodeEmptyMetadataKey :: ServiceCodeType where
  "ServiceCodeEmptyMetadataKey = ''EmptyMetadataKey''"
definition ServiceCodeInsufficientAccountPermissions :: ServiceCodeType where
  "ServiceCodeInsufficientAccountPermissions = ''InsufficientAccountPermissions''"
definition ServiceCodeInternalError :: ServiceCodeType where
  "ServiceCodeInternalError = ''InternalError''"
definition ServiceCodeInvalidAuthenticationInfo :: ServiceCodeType where
  "ServiceCodeInvalidAuthenticationInfo = ''InvalidAuthenticationInfo''"
definition ServiceCodeInvalidHeaderValue :: ServiceCodeType where
  "ServiceCodeInvalidHeaderValue = ''InvalidHeaderValue''"
definition ServiceCodeInvalidHTTPVerb :: ServiceCodeType where
  "ServiceCodeInvalidHTTPVerb = ''InvalidHttpVerb''"
definition ServiceCodeInvalidInput :: ServiceCodeType where
  "ServiceCodeInvalidInput = ''InvalidInput''"
definition ServiceCodeInvalidMd5 :: ServiceCodeType where
  "ServiceCodeInvalidMd5 = ''InvalidMd5''"
definition ServiceCodeInvalidMetadata :: ServiceCodeType where
  "ServiceCodeInvalidMetadata = ''InvalidMetadata''"
definition ServiceCodeInvalidQueryParameterValue :: ServiceCodeType where
  "ServiceCodeInvalidQueryParameterValue = ''InvalidQueryParameterValue''"
definition ServiceCodeInvalidRange :: ServiceCodeType where
  "ServiceCodeInvalidRange = ''InvalidRange''"
definition ServiceCodeInvalidResourceName :: ServiceCodeType where
  "ServiceCodeInvalidResourceName = ''InvalidResourceName''"
definition ServiceCodeInvalidURI :: ServiceCodeType where
  "ServiceCodeInvalidURI = ''InvalidUri''"
definition ServiceCodeInvalidXMLDocument :: ServiceCodeType where
  "ServiceCodeInvalidXMLDocument = ''InvalidXmlDocument''"
definition ServiceCodeInvalidXMLNodeValue :: ServiceCodeType where
  "ServiceCodeInvalidXMLNodeValue = ''InvalidXmlNodeValue''"
definition ServiceCodeMd5Mismatch :: ServiceCodeType where
  "ServiceCodeMd5Mismatch = ''Md5Mismatch''"
definition ServiceCodeMetadataTooLarge :: ServiceCodeType where
  "ServiceCodeMetadataTooLarge = ''MetadataTooLarge''"
definition ServiceCodeMissingContentLengthHeader :: ServiceCodeType where
  "ServiceCodeMissingContentLengthHeader = ''MissingContentLengthHeader''"
definition ServiceCodeMissingRequiredQueryParameter :: ServiceCodeType where
  "ServiceCodeMissingRequiredQueryParameter = ''MissingRequiredQueryParameter''"
definition ServiceCodeMissingRequiredHeader :: ServiceCodeType where
  "ServiceCodeMissingRequiredHeader = ''MissingRequiredHeader''"
definition ServiceCodeMissingRequiredXMLNode :: ServiceCodeType where
  "ServiceCodeMissingRequiredXMLNode = ''MissingRequiredXmlNode''"
definition ServiceCodeMultipleConditionHeadersNotSupported :: ServiceCodeType where
  "ServiceCodeMultipleConditionHeadersNotSupported = ''MultipleConditionHeadersNotSupported''"
definition ServiceCodeOperationTimedOut :: ServiceCodeType where
  "ServiceCodeOperationTimedOut = ''OperationTimedOut''"
definition ServiceCodeOutOfRangeInput :: ServiceCodeType where
  "ServiceCodeOutOfRangeInput = ''OutOfRangeInput''"
definition ServiceCodeOutOfRangeQueryParameterValue :: ServiceCodeType where
  "ServiceCodeOutOfRangeQueryParameterValue = ''OutOfRangeQueryParameterValue''"
definition ServiceCodeRequestBodyTooLarge :: ServiceCodeType where
  "ServiceCodeRequestBodyTooLarge = ''RequestBodyTooLarge''"
definition ServiceCodeResourceTypeMismatch :: ServiceCodeType where
  "ServiceCodeResourceTypeMismatch = ''ResourceTypeMismatch''"
definition ServiceCodeRequestURLFailedToParse :: ServiceCodeType where
  "ServiceCodeRequestURLFailedToParse = ''RequestUrlFailedToParse''"
definition ServiceCodeResourceAlreadyExists :: ServiceCodeType where
  "ServiceCodeResourceAlreadyExists = ''ResourceAlreadyExists''"
definition ServiceCodeResourceNotFound :: ServiceCodeType where
  "ServiceCodeResourceNotFound = ''ResourceNotFound''"
definition ServiceCodeServerBusy :: ServiceCodeType where
  "ServiceCodeServerBusy = ''ServerBusy''"
definition ServiceCodeUnsupportedHeader :: ServiceCodeType where
  "ServiceCodeUnsupportedHeader = ''UnsupportedHeader''"
definition ServiceCodeUnsupportedXMLNode :: ServiceCodeType where
  "ServiceCodeUnsupportedXMLNode = ''UnsupportedXmlNode''"
definition ServiceCodeUnsupportedQueryParameter :: ServiceCodeType where
  "ServiceCodeUnsupportedQueryParameter = ''UnsupportedQueryParameter''"
definition ServiceCodeUnsupportedHTTPVerb :: ServiceCodeType where
  "ServiceCodeUnsupportedHTTPVerb = ''UnsupportedHttpVerb''"
definition ServiceCodeCannotDeleteFileOrDirectory :: ServiceCodeType where
  "ServiceCodeCannotDeleteFileOrDirectory = ''CannotDeleteFileOrDirectory''"
definition ServiceCodeClientCacheFlushDelay :: ServiceCodeType where
  "ServiceCodeClientCacheFlushDelay = ''ClientCacheFlushDelay''"
definition ServiceCodeDeletePending :: ServiceCodeType where
  "ServiceCodeDeletePending = ''DeletePending''"
definition ServiceCodeDirectoryNotEmpty :: ServiceCodeType where
  "ServiceCodeDirectoryNotEmpty = ''DirectoryNotEmpty''"
definition ServiceCodeFileLockConflict :: ServiceCodeType where
  "ServiceCodeFileLockConflict = ''FileLockConflict''"
definition ServiceCodeInvalidFileOrDirectoryPathName :: ServiceCodeType where
  "ServiceCodeInvalidFileOrDirectoryPathName = ''InvalidFileOrDirectoryPathName''"
definition ServiceCodeParentNotFound :: ServiceCodeType where
  "ServiceCodeParentNotFound = ''ParentNotFound''"
definition ServiceCodeReadOnlyAttribute :: ServiceCodeType where
  "ServiceCodeReadOnlyAttribute = ''ReadOnlyAttribute''"
definition ServiceCodeShareAlreadyExists :: ServiceCodeType where
  "ServiceCodeShareAlreadyExists = ''ShareAlreadyExists''"
definition ServiceCodeShareBeingDeleted :: ServiceCodeType where
  "ServiceCodeShareBeingDeleted = ''ShareBeingDeleted''"
definition ServiceCodeShareDisabled :: ServiceCodeType where
  "ServiceCodeShareDisabled = ''ShareDisabled''"
definition ServiceCodeShareNotFound :: ServiceCodeType where
  "ServiceCodeShareNotFound = ''ShareNotFound''"
definition ServiceCodeSharingViolation :: ServiceCodeType where
  "ServiceCodeSharingViolation = ''SharingViolation''"
definition ServiceCodeShareSnapshotInProgress :: ServiceCodeType where
  "ServiceCodeShareSnapshotInProgress = ''ShareSnapshotInProgress''"
definition ServiceCodeShareSnapshotCountExceeded :: ServiceCodeType where
  "ServiceCodeShareSnapshotCountExceeded = ''ShareSnapshotCountExceeded''"
definition ServiceCodeShareSnapshotOperationNotSupported :: ServiceCodeType where
  "ServiceCodeShareSnapshotOperationNotSupported = ''ShareSnapshotOperationNotSupported''"
definition ServiceCodeShareHasSnapshots :: ServiceCodeType where
  "ServiceCodeShareHasSnapshots = ''ShareHasSnapshots''"

definition ServiceCodes :: "ServiceCodeType list" where
  "ServiceCodes =
     [ServiceCodeNone, ServiceCodeAccountAlreadyExists, ServiceCodeAccountBeingCreated,
      ServiceCodeAccountIsDisabled, ServiceCodeAuthenticationFailed,
      ServiceCodeConditionHeadersNotSupported, ServiceCodeConditionNotMet,
      ServiceCodeEmptyMetadataKey, ServiceCodeInsufficientAccountPermissions,
      ServiceCodeInternalError, ServiceCodeInvalidAuthenticationInfo, ServiceCodeInvalidHeaderValue,
      ServiceCodeInvalidHTTPVerb, ServiceCodeInvalidInput, ServiceCodeInvalidMd5,
      ServiceCodeInvalidMetadata, ServiceCodeInvalidQueryParameterValue, ServiceCodeInvalidRange,
      ServiceCodeInvalidResourceName, ServiceCodeInvalidURI, ServiceCodeInvalidXMLDocument,
      ServiceCodeInvalidXMLNodeValue, ServiceCodeMd5Mismatch, ServiceCodeMetadataTooLarge,
      ServiceCodeMissingContentLengthHeader, ServiceCodeMissingRequiredQueryParameter,
      ServiceCodeMissingRequiredHeader, ServiceCodeMissingRequiredXMLNode,
      ServiceCodeMultipleConditionHeadersNotSupported, ServiceCodeOperationTimedOut,
      ServiceCodeOutOfRangeInput, ServiceCodeOutOfRangeQueryParameterValue,
      ServiceCodeRequestBodyTooLarge, ServiceCodeResourceTypeMismatch,
      ServiceCodeRequestURLFailedToParse, ServiceCodeResourceAlreadyExists,
      ServiceCodeResourceNotFound, ServiceCodeServerBusy, ServiceCodeUnsupportedHeader,
      ServiceCodeUnsupportedXMLNode, ServiceCodeUnsupportedQueryParameter,
      ServiceCodeUnsupportedHTTPVerb, ServiceCodeCannotDeleteFileOrDirectory,
      ServiceCodeClientCacheFlushDelay, ServiceCodeDeletePending, ServiceCodeDirectoryNotEmpty,
      ServiceCodeFileLockConflict, ServiceCodeInvalidFileOrDirectoryPathName,
      ServiceCodeParentNotFound, ServiceCodeReadOnlyAttribute, ServiceCodeShareAlreadyExists,
      ServiceCodeShareBeingDeleted, ServiceCodeShareDisabled, ServiceCodeShareNotFound,
      ServiceCodeSharingViolation, ServiceCodeShareSnapshotInProgress,
      ServiceCodeShareSnapshotCountExceeded, ServiceCodeShareSnapshotOperationNotSupported,
      ServiceCodeShareHasSnapshots]"

text \<open>No code stands for two conditions: comparing strings tells the constants apart.\<close>

lemma distinct_ServiceCodes: "distinct ServiceCodes"
  by code_simp

end
