(* ===== verification/Progress.thy ===== *)
theory Progress
  imports Batch_Transfer
begin

text \<open>
  The progress callbacks of \<open>UploadBufferToAzureFile\<close> and \<open>downloadAzureFileToBuffer\<close> in
  highlevel.go. Each range has a callback of its own, which the pipeline package calls with the
  number of bytes of the range moved so far: it computes the difference to the last call in the
  variable \<open>rangeProgress\<close> of the range, and under the lock \<open>progressLock\<close> adds it to
  \<open>fileProgress\<close>, which all ranges share, and reports that to the receiver of the user. The
  callbacks of different ranges interleave freely, those of one range follow each other.

  What the pipeline package may call a callback with is the argument \<open>calls\<close>: the number of the
  range, the value of the last call, the value of this one. An upload that is tried again starts
  from a smaller value.
\<close>

section \<open>The callbacks\<close>

text \<open>Where a callback is: not running; the difference is computed; the lock is held; the sum is
  updated; it has been reported, and the deferred unlock is still to come.\<close>

datatype callback_pc = Quiet | Waiting int | Locked int | Added | Reported

record range_callback =
  rc_rangeProgress :: int
  rc_pc :: callback_pc

record progress_state =
  pg_ranges :: "range_callback list"
  pg_fileProgress :: int
  pg_progressLock :: "nat option"      \<comment> \<open>the range whose callback holds it\<close>
  pg_reports :: "int list"             \<comment> \<open>the calls of \<open>o.Progress\<close>\<close>

definition progress_init :: "batchTransferOptions \<Rightarrow> progress_state" where
  "progress_init opts = \<lparr>
     pg_ranges = replicate (nat (numChunks opts)) \<lparr>rc_rangeProgress = 0, rc_pc = Quiet\<rparr>,
     pg_fileProgress = 0, pg_progressLock = None, pg_reports = []\<rparr>"

definition set_range :: "nat \<Rightarrow> range_callback \<Rightarrow> progress_state \<Rightarrow> progress_state" where
  "set_range i rc s = s\<lparr>pg_ranges := (pg_ranges s)[i := rc]\<rparr>"

inductive progress_step ::
    "(nat \<Rightarrow> int \<Rightarrow> int \<Rightarrow> bool) \<Rightarrow> progress_state \<Rightarrow> progress_state \<Rightarrow> bool"
  for calls :: "nat \<Rightarrow> int \<Rightarrow> int \<Rightarrow> bool" where
  call: "i < length (pg_ranges s) \<Longrightarrow> pg_ranges s ! i = \<lparr>rc_rangeProgress = p, rc_pc = Quiet\<rparr>
    \<Longrightarrow> calls i p bytesTransferred
    \<Longrightarrow> progress_step calls s
          (set_range i \<lparr>rc_rangeProgress = bytesTransferred, rc_pc = Waiting (wrap64 (bytesTransferred - p))\<rparr> s)"
| lock: "i < length (pg_ranges s) \<Longrightarrow> pg_ranges s ! i = \<lparr>rc_rangeProgress = p, rc_pc = Waiting diff\<rparr>
    \<Longrightarrow> pg_progressLock s = None
    \<Longrightarrow> progress_step calls s
          (set_range i \<lparr>rc_rangeProgress = p, rc_pc = Locked diff\<rparr> (s\<lparr>pg_progressLock := Some i\<rparr>))"
| add: "i < length (pg_ranges s) \<Longrightarrow> pg_ranges s ! i = \<lparr>rc_rangeProgress = p, rc_pc = Locked diff\<rparr>
    \<Longrightarrow> progress_step calls s
          (set_range i \<lparr>rc_rangeProgress = p, rc_pc = Added\<rparr>
             (s\<lparr>pg_fileProgress := wrap64 (pg_fileProgress s + diff)\<rparr>))"
| report: "i < length (pg_ranges s) \<Longrightarrow> pg_ranges s ! i = \<lparr>rc_rangeProgress = p, rc_pc = Added\<rparr>
    \<Longrightarrow> progress_step calls s
          (set_range i \<lparr>rc_rangeProgress = p, rc_pc = Reported\<rparr>
             (s\<lparr>pg_reports := pg_reports s @ [pg_fileProgress s]\<rparr>))"
| unlock: "i < length (pg_ranges s) \<Longrightarrow> pg_ranges s ! i = \<lparr>rc_rangeProgress = p, rc_pc = Reported\<rparr>
    \<Longrightarrow> progress_step calls s
          (set_range i \<lparr>rc_rangeProgress = p, rc_pc = Quiet\<rparr> (s\<lparr>pg_progressLock := None\<rparr>))"

inductive_cases progress_stepE: "progress_step calls s s'"

inductive progress_reach ::
    "(nat \<Rightarrow> int \<Rightarrow> int \<Rightarrow> bool) \<Rightarrow> progress_state \<Rightarrow> progress_state \<Rightarrow> bool"
  for calls :: "nat \<Rightarrow> int \<Rightarrow> int \<Rightarrow> bool" and s0 :: progress_state where
  start: "progress_reach calls s0 s0"
| step: "progress_reach calls s0 s \<Longrightarrow> progress_step calls s s' \<Longrightarrow> progress_reach calls s0 s'"

section \<open>The invariant\<close>

fun pending :: "callback_pc \<Rightarrow> int" where
  "pending (Waiting diff) = diff"
| "pending (Locked diff) = diff"
| "pending _ = 0"

fun critical :: "callback_pc \<Rightarrow> bool" where
  "critical (Locked diff) = True"
| "critical Added = True"
| "critical Reported = True"
| "critical _ = False"

text \<open>What a range has contributed to \<open>fileProgress\<close> so far.\<close>

definition committed :: "range_callback \<Rightarrow> int" where
  "committed rc = rc_rangeProgress rc - pending (rc_pc rc)"

lemma committed_simps [simp]:
  "committed \<lparr>rc_rangeProgress = p, rc_pc = Waiting d\<rparr> = p - d" "committed \<lparr>rc_rangeProgress = p, rc_pc = Locked d\<rparr> = p - d"
  "committed \<lparr>rc_rangeProgress = p, rc_pc = Quiet\<rparr> = p" "committed \<lparr>rc_rangeProgress = p, rc_pc = Added\<rparr> = p"
  "committed \<lparr>rc_rangeProgress = p, rc_pc = Reported\<rparr> = p"
  by (simp_all add: committed_def)

definition within :: "batchTransferOptions \<Rightarrow> (nat \<Rightarrow> int \<Rightarrow> int \<Rightarrow> bool) \<Rightarrow> bool" where
  "within opts calls \<longleftrightarrow> (\<forall>i p b. calls i p b \<longrightarrow> 0 \<le> b \<and> b \<le> chunk_size opts i)"

definition growing :: "(nat \<Rightarrow> int \<Rightarrow> int \<Rightarrow> bool) \<Rightarrow> bool" where
  "growing calls \<longleftrightarrow> (\<forall>i p b. calls i p b \<longrightarrow> p \<le> b)"

definition range_ok :: "int \<Rightarrow> range_callback \<Rightarrow> bool" where
  "range_ok n rc \<longleftrightarrow> 0 \<le> rc_rangeProgress rc \<and> rc_rangeProgress rc \<le> n \<and> 0 \<le> committed rc \<and> committed rc \<le> n"

definition progress_inv :: "batchTransferOptions \<Rightarrow> progress_state \<Rightarrow> bool" where
  "progress_inv opts s \<longleftrightarrow>
     length (pg_ranges s) = nat (numChunks opts)
     \<and> (\<forall>i < length (pg_ranges s). range_ok (chunk_size opts i) (pg_ranges s ! i))
     \<and> pg_fileProgress s = sum_list (map committed (pg_ranges s))
     \<and> (\<forall>i < length (pg_ranges s). critical (rc_pc (pg_ranges s ! i)) \<longleftrightarrow> pg_progressLock s = Some i)
     \<and> (\<forall>i. pg_progressLock s = Some i \<longrightarrow> i < length (pg_ranges s))"

lemma sum_list_update_int:
  "i < length xs \<Longrightarrow> sum_list (xs[i := x]) = sum_list xs - xs ! i + (x :: int)"
  by (induction xs arbitrary: i) (auto split: nat.splits)

lemma sum_committed_update:
  "i < length rs \<Longrightarrow>
     sum_list (map committed (rs[i := rc])) = sum_list (map committed rs) - committed (rs ! i) + committed rc"
  by (simp add: map_update sum_list_update_int)

lemma sum_list_le_nth:
  assumes "length xs = length ys" and "\<And>i. i < length xs \<Longrightarrow> xs ! i \<le> (ys ! i :: int)"
  shows "sum_list xs \<le> sum_list ys"
  using assms by (auto simp: sum_list_sum_nth intro!: sum_mono)

lemma chunk_sizes_total:
  assumes "batch_ok opts"
  shows "sum_list (map (chunk_size opts) [0..<nat (numChunks opts)]) = bto_transferSize opts"
proof -
  let ?t = "bto_transferSize opts" and ?c = "bto_chunkSize opts"
  have part: "sum_list (map (chunk_size opts) [0..<k]) = min (int k * ?c) ?t" if "int k \<le> numChunks opts" for k
    using that
  proof (induction k)
    case (Suc k)
    then have k: "int k < numChunks opts" by simp
    from chunk_facts [OF assms k] Suc.IH k show ?case by (simp add: min_def algebra_simps)
  qed (use assms in \<open>simp add: batch_ok_def\<close>)
  have a: "0 \<le> ?t - 1" "0 < ?c" using assms by (simp_all add: batch_ok_def)
  have n: "numChunks opts = (?t - 1) div ?c + 1" by (rule numChunks_eq [OF assms])
  with int_div_facts(2,3) [OF a] have "?t \<le> numChunks opts * ?c" "0 \<le> numChunks opts"
    by (simp_all add: algebra_simps)
  then show ?thesis using part [of "nat (numChunks opts)"] by simp
qed

lemma chunk_size_bounds:
  assumes "batch_ok opts" and "i < nat (numChunks opts)"
  shows "0 \<le> chunk_size opts i" and "chunk_size opts i < 2 ^ 63"
proof -
  have i: "int i < numChunks opts" using assms(2) by simp
  from chunk_facts(2,3) [OF assms(1) i] assms(1)
  show "0 \<le> chunk_size opts i" "chunk_size opts i < 2 ^ 63" by (auto simp: batch_ok_def min_def)
qed

lemma committed_total:
  assumes "length rs = nat (numChunks opts)" and "\<And>i. i < length rs \<Longrightarrow> range_ok (chunk_size opts i) (rs ! i)"
    and "batch_ok opts"
  shows "0 \<le> sum_list (map committed rs)" and "sum_list (map committed rs) \<le> bto_transferSize opts"
proof -
  show "0 \<le> sum_list (map committed rs)"
    using assms(2) by (intro sum_list_nonneg) (auto simp: in_set_conv_nth range_ok_def)
  have "sum_list (map committed rs) \<le> sum_list (map (chunk_size opts) [0..<length rs])"
    using assms(2) by (intro sum_list_le_nth) (auto simp: range_ok_def)
  then show "sum_list (map committed rs) \<le> bto_transferSize opts"
    using assms(1,3) chunk_sizes_total [of opts] by simp
qed

lemma progress_inv_init: "batch_ok opts \<Longrightarrow> progress_inv opts (progress_init opts)"
  by (auto simp: progress_inv_def progress_init_def range_ok_def sum_list_replicate chunk_size_bounds)

text \<open>A step that changes range \<open>i\<close> and keeps the lock discipline keeps the invariant.\<close>

lemma progress_inv_update:
  assumes "progress_inv opts s" and "i < length (pg_ranges s)" and "range_ok (chunk_size opts i) rc"
    and "pg_ranges s' = (pg_ranges s)[i := rc]"
    and "pg_fileProgress s' = pg_fileProgress s - committed (pg_ranges s ! i) + committed rc"
    and "critical (rc_pc rc) \<longleftrightarrow> pg_progressLock s' = Some i"
    and "\<And>j. j \<noteq> i \<Longrightarrow> pg_progressLock s' = Some j \<longleftrightarrow> pg_progressLock s = Some j"
  shows "progress_inv opts s'"
proof -
  have "j < length (pg_ranges s)" if "pg_progressLock s' = Some j" for j
    using that assms(1,2,7) by (cases "j = i") (auto simp: progress_inv_def)
  with assms show ?thesis unfolding progress_inv_def
    by (auto simp: sum_committed_update nth_list_update)
qed

lemma progress_inv_range:
  assumes "progress_inv opts s" and "i < length (pg_ranges s)" and "pg_ranges s ! i = \<lparr>rc_rangeProgress = p, rc_pc = pc\<rparr>"
  shows "0 \<le> p" "p \<le> chunk_size opts i" "0 \<le> p - pending pc" "p - pending pc \<le> chunk_size opts i"
    and "critical pc \<longleftrightarrow> pg_progressLock s = Some i" and "i < nat (numChunks opts)"
  using assms unfolding progress_inv_def range_ok_def committed_def by force+

lemma set_range_simps [simp]:
  "pg_ranges (set_range i rc s) = (pg_ranges s)[i := rc]" "pg_fileProgress (set_range i rc s) = pg_fileProgress s"
  "pg_progressLock (set_range i rc s) = pg_progressLock s" "pg_reports (set_range i rc s) = pg_reports s"
  by (simp_all add: set_range_def)

text \<open>Neither difference nor sum overflows.\<close>

lemma call_diff:
  assumes "progress_inv opts s" and "batch_ok opts" and "i < length (pg_ranges s)"
    and "pg_ranges s ! i = \<lparr>rc_rangeProgress = p, rc_pc = pc\<rparr>" and "0 \<le> b" and "b \<le> chunk_size opts i"
  shows "wrap64 (b - p) = b - p"
proof -
  note r = progress_inv_range [OF assms(1,3,4)]
  show ?thesis
    using r(1,2) assms(5,6) chunk_size_bounds [OF assms(2) r(6)] by (intro wrap64_id) (simp add: is_int64_def)
qed

lemma add_sum:
  assumes "progress_inv opts s" and "batch_ok opts" and "i < length (pg_ranges s)"
    and "pg_ranges s ! i = \<lparr>rc_rangeProgress = p, rc_pc = Locked diff\<rparr>"
  shows "wrap64 (pg_fileProgress s + diff) = pg_fileProgress s + diff"
proof -
  let ?rs = "(pg_ranges s)[i := \<lparr>rc_rangeProgress = p, rc_pc = Added\<rparr>]"
  have "sum_list (map committed ?rs) = pg_fileProgress s + diff"
    using assms by (simp add: sum_committed_update progress_inv_def)
  moreover have "0 \<le> sum_list (map committed ?rs)" "sum_list (map committed ?rs) \<le> bto_transferSize opts"
    using assms(1,3) progress_inv_range [OF assms(1,3,4)]
    by (auto intro!: committed_total [OF _ _ assms(2)] simp: progress_inv_def nth_list_update range_ok_def)
  ultimately show ?thesis using assms(2) by (intro wrap64_nonneg) (simp_all add: batch_ok_def)
qed

lemma progress_inv_step:
  assumes step: "progress_step calls s s'" and inv: "progress_inv opts s" and ok: "batch_ok opts"
    and calls: "within opts calls"
  shows "progress_inv opts s'"
  using step
proof cases
  case (call i p b)
  note r = progress_inv_range [OF inv call(2,3)]
  have b: "0 \<le> b" "b \<le> chunk_size opts i" using call(4) calls by (auto simp: within_def)
  show ?thesis using b r call_diff [OF inv ok call(2,3) b] by (intro progress_inv_update [OF inv call(2)]) (auto simp: call(1,3) range_ok_def)
next
  case (lock i p diff)
  note r = progress_inv_range [OF inv lock(2,3)]
  then show ?thesis by (intro progress_inv_update [OF inv lock(2)]) (auto simp: lock(1,3,4) range_ok_def)
next
  case (add i p diff)
  note r = progress_inv_range [OF inv add(2,3)]
  show ?thesis using r add_sum [OF inv ok add(2,3)] by (intro progress_inv_update [OF inv add(2)]) (auto simp: add(1,3) range_ok_def)
next
  case (report i p)
  note r = progress_inv_range [OF inv report(2,3)]
  then show ?thesis by (intro progress_inv_update [OF inv report(2)]) (auto simp: report(1,3) range_ok_def)
next
  case (unlock i p)
  note r = progress_inv_range [OF inv unlock(2,3)]
  then show ?thesis by (intro progress_inv_update [OF inv unlock(2)]) (auto simp: unlock(1,3) range_ok_def)
qed

lemma progress_inv_reach:
  assumes "progress_reach calls (progress_init opts) s" and "batch_ok opts" and "within opts calls"
  shows "progress_inv opts s"
  using assms(1) by induction (auto intro: progress_inv_init progress_inv_step assms(2,3))

section \<open>What is reported\<close>

lemma fileProgress_bounds:
  assumes "progress_inv opts s" and "batch_ok opts"
  shows "0 \<le> pg_fileProgress s" and "pg_fileProgress s \<le> bto_transferSize opts"
  using assms committed_total [of "pg_ranges s" opts] by (auto simp: progress_inv_def)

text \<open>Every report was the value of \<open>fileProgress\<close>, and unless one is due the last one is
  its present value.\<close>

definition reports_inv :: "batchTransferOptions \<Rightarrow> progress_state \<Rightarrow> bool" where
  "reports_inv opts s \<longleftrightarrow>
     (\<forall>r \<in> set (pg_reports s). 0 \<le> r \<and> r \<le> bto_transferSize opts)
     \<and> (Added \<notin> rc_pc ` set (pg_ranges s) \<longrightarrow> last (0 # pg_reports s) = pg_fileProgress s)"

lemma Added_update:
  assumes "i < length rs" and "Added \<notin> rc_pc ` set (rs[i := rc])" and "rc_pc (rs ! i) \<noteq> Added"
  shows "Added \<notin> rc_pc ` set rs"
proof
  assume "Added \<in> rc_pc ` set rs"
  then obtain j where j: "j < length rs" "rc_pc (rs ! j) = Added" by (auto simp: in_set_conv_nth)
  with assms(3) have "rs[i := rc] ! j = rs ! j" by (cases "j = i") auto
  with j have "rs ! j \<in> set (rs[i := rc])" by (metis length_list_update nth_mem)
  with j(2) assms(2) show False by force
qed

lemma reports_inv_step:
  assumes "progress_step calls s s'" and "reports_inv opts s" and "progress_inv opts s" and "batch_ok opts"
  shows "reports_inv opts s'"
  using assms(1)
proof cases
  case (call i p b)
  with assms(2) Added_update [OF call(2)] show ?thesis by (auto simp: reports_inv_def)
next
  case (lock i p diff)
  with assms(2) Added_update [OF lock(2)] show ?thesis by (auto simp: reports_inv_def)
next
  case (add i p diff)
  then have "Added \<in> rc_pc ` set (pg_ranges s')"
    using set_update_memI [OF add(2), of "\<lparr>rc_rangeProgress = p, rc_pc = Added\<rparr>"] by (auto intro: rev_image_eqI)
  with add assms(2) show ?thesis by (auto simp: reports_inv_def)
next
  case (report i p)
  with assms(2) fileProgress_bounds [OF assms(3,4)] show ?thesis by (auto simp: reports_inv_def)
next
  case (unlock i p)
  with assms(2) Added_update [OF unlock(2)] show ?thesis by (auto simp: reports_inv_def)
qed

text \<open>When no range ever goes back, neither does the sum.\<close>

definition growing_inv :: "progress_state \<Rightarrow> bool" where
  "growing_inv s \<longleftrightarrow> (\<forall>rc \<in> set (pg_ranges s). 0 \<le> pending (rc_pc rc))
     \<and> sorted (pg_reports s) \<and> (\<forall>r \<in> set (pg_reports s). r \<le> pg_fileProgress s)"

lemma pending_update:
  assumes "\<forall>rc \<in> set rs. 0 \<le> pending (rc_pc rc)" and "0 \<le> pending (rc_pc rc)"
  shows "\<forall>rc \<in> set (rs[i := rc]). 0 \<le> pending (rc_pc rc)"
  using assms set_update_subset_insert [of rs i rc] by auto

lemma growing_inv_step:
  assumes step: "progress_step calls s s'" and inv: "growing_inv s" and "growing calls"
    and pinv: "progress_inv opts s" and ok: "batch_ok opts" and calls: "within opts calls"
  shows "growing_inv s'"
  using step
proof cases
  case (call i p b)
  have "p \<le> b" "0 \<le> b" "b \<le> chunk_size opts i"
    using call(4) assms(3) calls by (auto simp: growing_def within_def)
  with inv call_diff [OF pinv ok call(2,3)]
    pending_update [of "pg_ranges s" "\<lparr>rc_rangeProgress = b, rc_pc = Waiting (b - p)\<rparr>" i] show ?thesis
    by (simp add: growing_inv_def call(1))
next
  case (lock i p diff)
  have "0 \<le> diff" using inv nth_mem [OF lock(2)] by (auto simp: growing_inv_def lock(3))
  with inv pending_update [of "pg_ranges s" "\<lparr>rc_rangeProgress = p, rc_pc = Locked diff\<rparr>" i] show ?thesis
    by (simp add: growing_inv_def lock(1))
next
  case (add i p diff)
  have "0 \<le> diff" using inv nth_mem [OF add(2)] by (auto simp: growing_inv_def add(3))
  with inv pending_update [of "pg_ranges s" "\<lparr>rc_rangeProgress = p, rc_pc = Added\<rparr>" i] add_sum [OF pinv ok add(2,3)]
  show ?thesis by (force simp: growing_inv_def add(1))
next
  case (report i p)
  with inv pending_update [of "pg_ranges s" "\<lparr>rc_rangeProgress = p, rc_pc = Reported\<rparr>" i]
  show ?thesis by (simp add: growing_inv_def sorted_append)
next
  case (unlock i p)
  with inv pending_update [of "pg_ranges s" "\<lparr>rc_rangeProgress = p, rc_pc = Quiet\<rparr>" i]
  show ?thesis by (simp add: growing_inv_def)
qed

lemma reports_reach:
  assumes "progress_reach calls (progress_init opts) s" and "batch_ok opts" and "within opts calls"
  shows "reports_inv opts s \<and> (growing calls \<longrightarrow> growing_inv s)"
  using assms(1)
proof induction
  case start
  show ?case by (auto simp: reports_inv_def growing_inv_def progress_init_def)
next
  case (step s s')
  have inv: "progress_inv opts s" by (rule progress_inv_reach [OF step(1) assms(2,3)])
  from step reports_inv_step [OF step(2) _ inv assms(2)] growing_inv_step [OF step(2) _ _ inv assms(2,3)]
  show ?case by blast
qed

text \<open>A callback that is under way never waits for ever: one of them can go on.\<close>

lemma progress_enabled:
  assumes "progress_inv opts s" and "i < length (pg_ranges s)" and "rc_pc (pg_ranges s ! i) \<noteq> Quiet"
  shows "\<exists>s'. progress_step (\<lambda>_ _ _. False) s s'"
proof (cases "pg_progressLock s")
  case None
  with assms have "\<not> critical (rc_pc (pg_ranges s ! i))" by (simp add: progress_inv_def)
  with assms(3) obtain diff where "rc_pc (pg_ranges s ! i) = Waiting diff" by (cases "rc_pc (pg_ranges s ! i)") auto
  then have "pg_ranges s ! i = \<lparr>rc_rangeProgress = rc_rangeProgress (pg_ranges s ! i), rc_pc = Waiting diff\<rparr>" by simp
  with assms(2) None show ?thesis by (blast intro: progress_step.lock)
next
  case (Some j)
  with assms(1) have j: "j < length (pg_ranges s)" "critical (rc_pc (pg_ranges s ! j))"
    by (simp_all add: progress_inv_def)
  obtain p pc where rc: "pg_ranges s ! j = \<lparr>rc_rangeProgress = p, rc_pc = pc\<rparr>" by (cases "pg_ranges s ! j") auto
  with j show ?thesis by (cases pc) (auto intro: progress_step.intros)
qed

text \<open>
  C11: Progress reports are consistent, however the callbacks of the ranges interleave. No two
  callbacks are in the section between lock and unlock, and one that waits for the lock is
  not stuck. Every report lies between 0 and the size of the transfer; while no range starts
  again the reports do not decrease. Between callbacks the last report is the sum of what
  the ranges have moved, so a transfer whose ranges are all complete has reported its size.
\<close>

theorem progress_reports:
  assumes "progress_reach calls (progress_init opts) s" and "batch_ok opts" and "within opts calls"
  defines "pc i \<equiv> rc_pc (pg_ranges s ! i)" and "n \<equiv> nat (numChunks opts)"
  shows "(\<forall>i < n. \<forall>j < n. critical (pc i) \<and> critical (pc j) \<longrightarrow> i = j)
     \<and> ((\<exists>i < n. pc i \<noteq> Quiet) \<longrightarrow> (\<exists>s'. progress_step (\<lambda>_ _ _. False) s s'))
     \<and> (\<forall>r \<in> set (pg_reports s). 0 \<le> r \<and> r \<le> bto_transferSize opts)
     \<and> (growing calls \<longrightarrow> sorted (pg_reports s))
     \<and> ((\<forall>i < n. pc i = Quiet) \<longrightarrow>
          last (0 # pg_reports s) = sum_list (map rc_rangeProgress (pg_ranges s)))
     \<and> ((\<forall>i < n. pg_ranges s ! i = \<lparr>rc_rangeProgress = chunk_size opts i, rc_pc = Quiet\<rparr>) \<longrightarrow>
          last (0 # pg_reports s) = bto_transferSize opts)"
proof -
  have inv: "progress_inv opts s" by (rule progress_inv_reach [OF assms(1-3)])
  then have len: "length (pg_ranges s) = n" by (simp add: progress_inv_def n_def)
  have rep: "reports_inv opts s" "growing calls \<longrightarrow> growing_inv s" using reports_reach [OF assms(1-3)] by simp_all
  have quiet: "last (0 # pg_reports s) = sum_list (map rc_rangeProgress (pg_ranges s))"
    if q: "\<And>i. i < n \<Longrightarrow> pc i = Quiet"
  proof -
    have all: "rc_pc rc = Quiet" if "rc \<in> set (pg_ranges s)" for rc
      using that q len by (auto simp: in_set_conv_nth pc_def)
    then have "Added \<notin> rc_pc ` set (pg_ranges s)" by force
    moreover have "map committed (pg_ranges s) = map rc_rangeProgress (pg_ranges s)"
      using all by (simp add: committed_def)
    ultimately show ?thesis
      using rep(1) inv unfolding reports_inv_def progress_inv_def by metis
  qed
  have complete: "last (0 # pg_reports s) = bto_transferSize opts"
    if c: "\<And>i. i < n \<Longrightarrow> pg_ranges s ! i = \<lparr>rc_rangeProgress = chunk_size opts i, rc_pc = Quiet\<rparr>"
  proof -
    have "map rc_rangeProgress (pg_ranges s) = map (chunk_size opts) [0..<n]"
      using c len by (intro nth_equalityI) auto
    with quiet c chunk_sizes_total [OF assms(2)] show ?thesis by (simp add: pc_def n_def)
  qed
  show ?thesis
    using inv len rep quiet complete progress_enabled [OF inv]
    by (auto simp: progress_inv_def reports_inv_def growing_inv_def pc_def)
qed

section \<open>Running callbacks\<close>

text \<open>One move of the callback of a range; a quiet one is called with the given number of bytes.\<close>

definition progress_move ::
    "(nat \<Rightarrow> int \<Rightarrow> int \<Rightarrow> bool) \<Rightarrow> nat \<times> int \<Rightarrow> progress_state \<Rightarrow> progress_state option" where
  "progress_move calls ib s =
     (case ib of (i, b) \<Rightarrow>
        if i < length (pg_ranges s) then
          let rc = pg_ranges s ! i; p = rc_rangeProgress rc; at = (\<lambda>p pc. set_range i \<lparr>rc_rangeProgress = p, rc_pc = pc\<rparr>) in
          (case rc_pc rc of
             Quiet \<Rightarrow> if calls i p b then Some (at b (Waiting (wrap64 (b - p))) s) else None
           | Waiting diff \<Rightarrow>
               if pg_progressLock s = None then Some (at p (Locked diff) (s\<lparr>pg_progressLock := Some i\<rparr>)) else None
           | Locked diff \<Rightarrow> Some (at p Added (s\<lparr>pg_fileProgress := wrap64 (pg_fileProgress s + diff)\<rparr>))
           | Added \<Rightarrow> Some (at p Reported (s\<lparr>pg_reports := pg_reports s @ [pg_fileProgress s]\<rparr>))
           | Reported \<Rightarrow> Some (at p Quiet (s\<lparr>pg_progressLock := None\<rparr>)))
        else None)"

lemma progress_move_step:
  assumes "progress_move calls ib s = Some s'"
  shows "progress_step calls s s'"
proof -
  obtain i b where ib: "ib = (i, b)" by fastforce
  obtain p pc where rc: "pg_ranges s ! i = \<lparr>rc_rangeProgress = p, rc_pc = pc\<rparr>" by (cases "pg_ranges s ! i") auto
  from assms rc show ?thesis
    by (cases pc) (auto simp: progress_move_def ib Let_def split: if_splits intro: progress_step.intros)
qed

fun progress_run ::
    "(nat \<Rightarrow> int \<Rightarrow> int \<Rightarrow> bool) \<Rightarrow> (nat \<times> int) list \<Rightarrow> progress_state \<Rightarrow> progress_state option" where
  "progress_run calls [] s = Some s"
| "progress_run calls (m # ms) s = Option.bind (progress_move calls m s) (progress_run calls ms)"

lemma progress_run_reach:
  "progress_run calls ms s = Some s' \<Longrightarrow> progress_reach calls s0 s \<Longrightarrow> progress_reach calls s0 s'"
proof (induction ms arbitrary: s)
  case (Cons m ms)
  then obtain t where "progress_move calls m s = Some t" "progress_run calls ms t = Some s'"
    by (auto simp: Option.bind_eq_Some_conv)
  with Cons show ?case by (meson progress_reach.step progress_move_step)
qed simp

text \<open>Three bytes in ranges of two, the callbacks of the two ranges interleaved.\<close>

definition example_progress :: batchTransferOptions where
  "example_progress = \<lparr>bto_transferSize = 3, bto_chunkSize = 2, bto_parallelism = 2\<rparr>"

definition example_calls :: "nat \<Rightarrow> int \<Rightarrow> int \<Rightarrow> bool" where
  "example_calls i p b \<longleftrightarrow> p \<le> b \<and> 0 \<le> b \<and> b \<le> chunk_size example_progress i"

definition example_schedule :: "(nat \<times> int) list" where
  "example_schedule = [(0, 2), (1, 1), (1, 0), (1, 0), (1, 0), (1, 0), (0, 0), (0, 0), (0, 0), (0, 0)]"

lemma example_progress_run:
  "progress_run example_calls example_schedule (progress_init example_progress) = Some \<lparr>
     pg_ranges = [\<lparr>rc_rangeProgress = 2, rc_pc = Quiet\<rparr>, \<lparr>rc_rangeProgress = 1, rc_pc = Quiet\<rparr>],
     pg_fileProgress = 3, pg_progressLock = None, pg_reports = [1, 3]\<rparr>"
  by code_simp

theorem progress_reports_witness:
  "\<exists>s. progress_reach example_calls (progress_init example_progress) s \<and> pg_reports s = [1, 3]
     \<and> last (0 # pg_reports s) = sum_list (map rc_rangeProgress (pg_ranges s)) \<and> sorted (pg_reports s)"
proof -
  let ?s = "\<lparr>pg_ranges = [\<lparr>rc_rangeProgress = 2, rc_pc = Quiet\<rparr>, \<lparr>rc_rangeProgress = 1, rc_pc = Quiet\<rparr>],
     pg_fileProgress = 3, pg_progressLock = None, pg_reports = [1, 3]\<rparr>"
  have reach: "progress_reach example_calls (progress_init example_progress) ?s"
    by (rule progress_run_reach [OF example_progress_run progress_reach.start])
  have ok: "batch_ok example_progress" by code_simp
  have calls: "within example_progress example_calls" "growing example_calls"
    by (auto simp: within_def growing_def example_calls_def)
  have n: "nat (numChunks example_progress) = 2" by code_simp
  from progress_reports [OF reach ok calls(1)] calls(2) reach show ?thesis
    unfolding n by (intro exI [of _ ?s]) (auto simp: less_2_cases_iff)
qed

end
