(* ===== verification/Mmf.thy ===== *)
theory Mmf
  imports Go_Http "HOL-Library.Word"
begin

unbundle bit_operations_syntax

text \<open>
  zc\_mmf\_unix.go and zc\_mmf\_windows.go: memory-mapped files. A mapped file is a byte slice, of
  which only the header matters here: its address, 0 for nil, and its length. The system calls
  of the packages unix and windows are arguments, as functions of the state \<open>'s\<close> of the
  operating system.
\<close>

record mmf =
  mm_addr :: "64 word"
  mm_len :: int

definition nil_mmf :: mmf where
  "nil_mmf = \<lparr>mm_addr = 0, mm_len = 0\<rparr>"

text \<open>\<open>err.Error()\<close> of an error of the operating system; it is never a storage error.\<close>

type_synonym os_error = string

section \<open>Linux, Darwin, FreeBSD\<close>

definition PROT_READ :: "32 word" where "PROT_READ = 1"
definition PROT_WRITE :: "32 word" where "PROT_WRITE = 2"
definition MAP_SHARED :: "32 word" where "MAP_SHARED = 1"

record 's unix =
  ux_Mmap :: "int \<Rightarrow> int \<Rightarrow> int \<Rightarrow> 32 word \<Rightarrow> 32 word \<Rightarrow> 's \<Rightarrow> (mmf \<times> os_error option) \<times> 's"
  ux_Munmap :: "mmf \<Rightarrow> 's \<Rightarrow> os_error option \<times> 's"

definition unix_newMMF ::
    "'s unix \<Rightarrow> int \<Rightarrow> bool \<Rightarrow> int \<Rightarrow> int \<Rightarrow> 's \<Rightarrow> (mmf \<times> os_error option) \<times> 's" where
  "unix_newMMF sys fd writable offset len s =
     (let (prot, flags) = (if writable then (PROT_READ OR PROT_WRITE, MAP_SHARED) else (PROT_READ, MAP_SHARED)) in
      ux_Mmap sys fd offset len prot flags s)"

text \<open>The variable is nil afterwards; when the call fails the program panics.\<close>

definition unix_unmap :: "'s unix \<Rightarrow> mmf \<Rightarrow> 's \<Rightarrow> (mmf \<times> 's) exec" where
  "unix_unmap sys m s =
     (case ux_Munmap sys m s of
        (None, s') \<Rightarrow> Return (nil_mmf, s')
      | (Some err, s') \<Rightarrow> sanityCheckFailed err)"

section \<open>Windows\<close>

definition PAGE_READONLY :: "32 word" where "PAGE_READONLY = 2"
definition PAGE_READWRITE :: "32 word" where "PAGE_READWRITE = 4"
definition FILE_MAP_READ :: "32 word" where "FILE_MAP_READ = 4"
definition FILE_MAP_WRITE :: "32 word" where "FILE_MAP_WRITE = 2"

type_synonym handle = "64 word"

record 's windows =
  wn_CreateFileMapping :: "handle \<Rightarrow> 32 word \<Rightarrow> 32 word \<Rightarrow> 32 word \<Rightarrow> 's \<Rightarrow> (handle \<times> os_error option) \<times> 's"
  wn_MapViewOfFile :: "handle \<Rightarrow> 32 word \<Rightarrow> 32 word \<Rightarrow> 32 word \<Rightarrow> 64 word \<Rightarrow> 's \<Rightarrow> (64 word \<times> os_error option) \<times> 's"
  wn_CloseHandle :: "handle \<Rightarrow> 's \<Rightarrow> 's"
  wn_UnmapViewOfFile :: "64 word \<Rightarrow> 's \<Rightarrow> os_error option \<times> 's"

text \<open>\<open>uint32(x >> 32)\<close> and \<open>uint32(x & 0xffffffff)\<close> of an \<open>int64\<close>, whose shift keeps the sign.\<close>

definition high32 :: "64 word \<Rightarrow> 32 word" where
  "high32 x = ucast (signed_drop_bit 32 x)"

definition low32 :: "64 word \<Rightarrow> 32 word" where
  "low32 x = ucast (x AND 0xffffffff)"

definition NewSyscallError :: "string \<Rightarrow> os_error option \<Rightarrow> os_error option" where
  "NewSyscallError syscall err = map_option (\<lambda>e. syscall @ '': '' @ e) err"

text \<open>The error of \<open>MapViewOfFile\<close> is assigned and never looked at.\<close>

definition windows_newMMF ::
    "'s windows \<Rightarrow> handle \<Rightarrow> bool \<Rightarrow> int \<Rightarrow> int \<Rightarrow> 's \<Rightarrow> (mmf \<times> os_error option) \<times> 's" where
  "windows_newMMF sys fd writable offset len s =
     (let (prot, access) = (if writable then (PAGE_READWRITE, FILE_MAP_WRITE) else (PAGE_READONLY, FILE_MAP_READ));
          maxSize = word_of_int offset + word_of_int len in
      case wn_CreateFileMapping sys fd prot (high32 maxSize) (low32 maxSize) s of
        ((hMMF, errno), s1) \<Rightarrow>
          if hMMF = 0 then ((nil_mmf, NewSyscallError ''CreateFileMapping'' errno), s1)
          else
            (case wn_MapViewOfFile sys hMMF access (high32 (word_of_int offset)) (low32 (word_of_int offset))
                    (word_of_int len) s1 of
               ((addr, errno), s2) \<Rightarrow>
                 ((\<lparr>mm_addr = addr, mm_len = len\<rparr>, None), wn_CloseHandle sys hMMF s2)))"

text \<open>Taking the address of the first byte panics on an empty slice.\<close>

definition windows_unmap :: "'s windows \<Rightarrow> mmf \<Rightarrow> 's \<Rightarrow> (mmf \<times> 's) exec" where
  "windows_unmap sys m s =
     (if mm_len m \<le> 0 then index_panic
      else
        (case wn_UnmapViewOfFile sys (mm_addr m) s of
           (None, s') \<Rightarrow> Return (nil_mmf, s')
         | (Some err, s') \<Rightarrow> sanityCheckFailed err))"

section \<open>What the system is asked for\<close>

definition join32 :: "32 word \<Rightarrow> 32 word \<Rightarrow> int" where
  "join32 hi lo = uint hi * 2 ^ 32 + uint lo"

lemma uint_high32: "uint (high32 x) = uint x div 2 ^ 32"
proof -
  have "high32 x = ucast (drop_bit 32 x)"
    unfolding high32_def by (rule bit_word_eqI) (auto simp: bit_simps)
  then have eq: "uint (high32 x) = uint x div 2 ^ 32 mod 2 ^ 32"
    by (simp add: unsigned_ucast_eq unsigned_drop_bit_eq drop_bit_eq_div take_bit_eq_mod uint_div)
  have "uint x < 2 ^ 64" using uint_lt2p [of x] by simp
  then have "uint x div 2 ^ 32 < 2 ^ 32" by simp
  moreover have "0 \<le> uint x div 2 ^ 32" by (simp add: pos_imp_zdiv_nonneg_iff)
  ultimately show ?thesis unfolding eq by (simp add: mod_pos_pos_trivial)
qed

lemma join_halves: "join32 (high32 x) (low32 x) = uint x"
proof -
  have mask: "(0xffffffff :: 64 word) = mask 32" by (simp add: mask_eq_exp_minus_1)
  have "low32 x = ucast x"
    unfolding low32_def mask by (intro bit_word_eqI) (auto simp: bit_simps)
  then have "uint (low32 x) = uint x mod 2 ^ 32" by (simp add: unsigned_ucast_eq take_bit_eq_mod)
  then show ?thesis by (simp add: join32_def uint_high32)
qed

lemma join32_inj: "join32 hi lo = join32 hi' lo' \<longleftrightarrow> hi = hi' \<and> lo = lo'"
proof
  assume eq: "join32 hi lo = join32 hi' lo'"
  have b: "0 \<le> uint lo" "uint lo < 2 ^ 32" "0 \<le> uint lo'" "uint lo' < 2 ^ 32"
    using uint_lt2p [of lo] uint_lt2p [of lo'] by simp_all
  have "uint hi = join32 hi lo div 2 ^ 32" "uint hi' = join32 hi' lo' div 2 ^ 32"
    using b by (simp_all add: join32_def div_add1_eq)
  with eq have "uint hi = uint hi'" by simp
  with eq have "uint hi = uint hi'" "uint lo = uint lo'" by (simp_all add: join32_def)
  then show "hi = hi' \<and> lo = lo'" by (simp add: word_uint_eq_iff)
qed simp

lemma join_int64:
  "0 \<le> a \<Longrightarrow> 0 \<le> b \<Longrightarrow> a + b < 2 ^ 63 \<Longrightarrow>
     join32 (high32 (word_of_int a + word_of_int b)) (low32 (word_of_int a + word_of_int b)) = a + b"
  by (simp add: join_halves uint_word_ariths uint_word_of_int)

text \<open>
  C31: How mapping a file fails on Windows. The mapping object is asked for with the end of the
  range and the view with its start, which the two halves passed to the system denote. An error
  of \<open>CreateFileMapping\<close> is returned. But when the view cannot be made, no error is returned:
  the slice starts at address 0 and has the full length, and unmapping it panics as soon as
  the system refuses that address. The handle of the mapping object is closed either way.
\<close>

theorem windows_mapping_failures:
  assumes "0 \<le> offset" and "0 < len" and "offset + len < 2 ^ 63"
    and "wn_CreateFileMapping sys fd (if writable then PAGE_READWRITE else PAGE_READONLY) hi lo s = ((h, cerr), s1)"
    and "wn_MapViewOfFile sys h (if writable then FILE_MAP_WRITE else FILE_MAP_READ) hi' lo' (word_of_int len) s1
           = ((0, verr), s2)"
    and "join32 hi lo = offset + len" and "join32 hi' lo' = offset"
  shows "(h = 0 \<longrightarrow> windows_newMMF sys fd writable offset len s =
            ((nil_mmf, map_option ((@) ''CreateFileMapping: '') cerr), s1))
     \<and> (h \<noteq> 0 \<longrightarrow> (\<exists>m. windows_newMMF sys fd writable offset len s = ((m, None), wn_CloseHandle sys h s2)
            \<and> mm_addr m = 0 \<and> mm_len m = len
            \<and> (\<forall>t e t'. wn_UnmapViewOfFile sys 0 t = (Some e, t') \<longrightarrow> is_panic (windows_unmap sys m t))))"
proof -
  have halves: "hi = high32 (word_of_int offset + word_of_int len)" "lo = low32 (word_of_int offset + word_of_int len)"
    "hi' = high32 (word_of_int offset)" "lo' = low32 (word_of_int offset)"
    using join_int64 [OF assms(1) _ assms(3)] join_int64 [of offset 0] assms(1-3,6,7)
      join32_inj [of hi lo "high32 (word_of_int offset + word_of_int len)" "low32 (word_of_int offset + word_of_int len)"]
      join32_inj [of hi' lo' "high32 (word_of_int offset)" "low32 (word_of_int offset)"] by simp_all
  have map: "NewSyscallError ''CreateFileMapping'' cerr = map_option ((@) ''CreateFileMapping: '') cerr"
    by (cases cerr) (simp_all add: NewSyscallError_def)
  show ?thesis
    using assms(2,4,5) unfolding halves windows_newMMF_def Let_def
    by (cases writable) (auto simp: map windows_unmap_def sanityCheckFailed_def)
qed

text \<open>A system that counts its open handles and never has room for a view.\<close>

definition full_windows :: "nat windows" where
  "full_windows = \<lparr>wn_CreateFileMapping = (\<lambda>fd prot hi lo s. ((7, None), Suc s)),
     wn_MapViewOfFile = (\<lambda>h access hi lo len s. ((0, Some ''not enough memory''), s)),
     wn_CloseHandle = (\<lambda>h s. s - 1),
     wn_UnmapViewOfFile = (\<lambda>addr s. (Some ''invalid address'', s))\<rparr>"

theorem windows_mapping_failures_witness:
  "\<exists>m. windows_newMMF full_windows 3 True 0 5 0 = ((m, None), 0) \<and> mm_addr m = 0 \<and> mm_len m = 5
     \<and> is_panic (windows_unmap full_windows m 0)"
proof -
  have "join32 0 5 = 0 + 5" "join32 0 0 = 0" by (simp_all add: join32_def)
  from windows_mapping_failures [of 0 5 full_windows 3 True 0 5 0 7 None 1 0 0 "Some ''not enough memory''" 1, OF _ _ _ _ _ this]
  show ?thesis by (auto simp: full_windows_def)
qed

end
