(* ===== verification/Local_Files.thy ===== *)
theory Local_Files
  imports Highlevel Mmf
begin

unbundle bit_operations_syntax

text \<open>
  \<open>UploadFileToAzureFile\<close> and \<open>DownloadAzureFileToFile\<close> of highlevel.go: transfers between a local
  file and the service, over a memory mapping of the file made by theory Mmf. The calls on the
  open file are arguments, as functions of the state \<open>'s\<close> of the operating system; \<open>load\<close> and
  \<open>store\<close> are what reading and writing the mapped slice does. The state of the service is
  separate from it.
\<close>

section \<open>Local files\<close>

record 's local_file =
  lf_Stat :: "'s \<Rightarrow> os_error + int"
  lf_Truncate :: "int \<Rightarrow> 's \<Rightarrow> os_error option \<times> 's"
  lf_newMMF :: "bool \<Rightarrow> int \<Rightarrow> int \<Rightarrow> 's \<Rightarrow> (mmf \<times> os_error option) \<times> 's"
  lf_unmap :: "mmf \<Rightarrow> 's \<Rightarrow> (mmf \<times> 's) exec"
  lf_load :: "mmf \<Rightarrow> 's \<Rightarrow> string"
  lf_store :: "mmf \<Rightarrow> string \<Rightarrow> 's \<Rightarrow> 's"

text \<open>The file on the two kinds of systems.\<close>

definition unix_file :: "'s unix \<Rightarrow> int \<Rightarrow> 's local_file \<Rightarrow> 's local_file" where
  "unix_file sys fd f = f\<lparr>lf_newMMF := unix_newMMF sys fd, lf_unmap := unix_unmap sys\<rparr>"

definition windows_file :: "'s windows \<Rightarrow> handle \<Rightarrow> 's local_file \<Rightarrow> 's local_file" where
  "windows_file sys fd f = f\<lparr>lf_newMMF := windows_newMMF sys fd, lf_unmap := windows_unmap sys\<rparr>"

text \<open>The deferred \<open>m.unmap()\<close>: it runs last, also after a panic, and its own panic wins.\<close>

definition deferred_unmap :: "'s local_file \<Rightarrow> mmf \<Rightarrow> 's \<Rightarrow> 'r exec \<Rightarrow> 'r exec \<Rightarrow> 's \<Rightarrow> bool" where
  "deferred_unmap f m s r res s' \<longleftrightarrow>
     (case lf_unmap f m s of
        Return (m', s1) \<Rightarrow> res = r \<and> s' = s1
      | Panic e \<Rightarrow> res = Panic e \<and> s' = s)"

definition UploadFileToAzureFile ::
    "'w create_op \<Rightarrow> 'w upload_range_op \<Rightarrow> 's local_file \<Rightarrow> UploadToAzureFileOptions \<Rightarrow> 's \<times> 'w
      \<Rightarrow> go_error option exec \<Rightarrow> 's \<times> 'w \<Rightarrow> bool" where
  "UploadFileToAzureFile create uploadRange file o' sw res sw' \<longleftrightarrow>
     (case (sw, sw') of ((s, w), (s', w')) \<Rightarrow>
        case lf_Stat file s of
          Inl err \<Rightarrow> res = Return (Some (PlainErr err)) \<and> sw' = sw
        | Inr sz \<Rightarrow>
            if sz \<noteq> 0 then
              (case lf_newMMF file False 0 sz s of
                 ((m, Some err), s1) \<Rightarrow> res = Return (Some (PlainErr err)) \<and> sw' = (s1, w)
               | ((m, None), s1) \<Rightarrow>
                   \<exists>r. UploadBufferToAzureFile create uploadRange (lf_load file m s1) o' w r w'
                     \<and> deferred_unmap file m s1 (Return r) res s')
            else \<exists>r. UploadBufferToAzureFile create uploadRange [] o' w r w' \<and> res = Return r \<and> s' = s)"

definition file_Truncate :: "string \<Rightarrow> int \<Rightarrow> string" where
  "file_Truncate content n = take (nat n) content @ replicate (nat n - length content) (CHR 0x00)"

definition DownloadAzureFileToFile ::
    "(go_error + int) \<Rightarrow> 'n download_op \<Rightarrow> 's local_file option \<Rightarrow> DownloadFromAzureFileOptions \<Rightarrow> 's
      \<Rightarrow> (go_error + int) exec \<Rightarrow> 's \<Rightarrow> bool" where
  "DownloadAzureFileToFile getProperties download file o' s res s' \<longleftrightarrow>
     (case file of
        None \<Rightarrow> s' = s \<and> res = Return (Inl (PlainErr (''invalid argument, file can'' @ [CHR 0x27] @ ''t be nil'')))
      | Some f \<Rightarrow>
          (case getProperties of
             Inl err \<Rightarrow> s' = s \<and> res = Return (Inl err)
           | Inr azfileSize \<Rightarrow>
               (case lf_Stat f s of
                  Inl err \<Rightarrow> s' = s \<and> res = Return (Inl (PlainErr err))
                | Inr sz \<Rightarrow>
                    (case (if sz \<noteq> azfileSize then lf_Truncate f azfileSize s else (None, s)) of
                       (Some err, s1) \<Rightarrow> s' = s1 \<and> res = Return (Inl (PlainErr err))
                     | (None, s1) \<Rightarrow>
                         if 0 < azfileSize then
                           (case lf_newMMF f True 0 azfileSize s1 of
                              ((m, Some err), s2) \<Rightarrow> s' = s2 \<and> res = Return (Inl (PlainErr err))
                            | ((m, None), s2) \<Rightarrow>
                                \<exists>r b. downloadAzureFileToBuffer getProperties download (Some azfileSize)
                                        (lf_load f m s2) o' r b
                                  \<and> deferred_unmap f m (lf_store f m b s2) r res s')
                         else \<exists>b. downloadAzureFileToBuffer getProperties download (Some azfileSize) [] o' res b
                                \<and> s' = s1))))"

section \<open>What a mapping is\<close>

text \<open>
  The contract the transfers rely on: \<open>content\<close> is the content of the file. The size is that of
  the content; cutting and extending works as documented; a mapping of the whole file shows
  its content, and what is written through a writable one is its content afterwards.
  \<open>maps_when\<close> asks for the last two only of the mappings that are \<open>ok\<close>, \<open>maps_file\<close> of all that
  \<open>newMMF\<close> returns without an error.
\<close>

definition sizes_documented :: "('s \<Rightarrow> string) \<Rightarrow> 's local_file \<Rightarrow> bool" where
  "sizes_documented content f \<longleftrightarrow>
     (\<forall>s n. lf_Stat f s = Inr n \<longrightarrow> n = int (length (content s)))
     \<and> (\<forall>s n s'. 0 \<le> n \<longrightarrow> lf_Truncate f n s = (None, s') \<longrightarrow> content s' = file_Truncate (content s) n)"

definition maps_when :: "(mmf \<Rightarrow> bool) \<Rightarrow> ('s \<Rightarrow> string) \<Rightarrow> 's local_file \<Rightarrow> bool" where
  "maps_when ok content f \<longleftrightarrow>
     sizes_documented content f
     \<and> (\<forall>s writable n m s'. lf_newMMF f writable 0 n s = ((m, None), s') \<longrightarrow> ok m \<longrightarrow>
          0 < n \<longrightarrow> n < 2 ^ 63 \<longrightarrow> n = int (length (content s)) \<longrightarrow>
          content s' = content s \<and> lf_load f m s' = content s
          \<and> (writable \<longrightarrow> (\<forall>b. length b = length (content s) \<longrightarrow> content (lf_store f m b s') = b)))
     \<and> (\<forall>m s m' s'. lf_unmap f m s = Return (m', s') \<longrightarrow> content s' = content s)"

definition maps_file :: "('s \<Rightarrow> string) \<Rightarrow> 's local_file \<Rightarrow> bool" where
  "maps_file content f \<longleftrightarrow> maps_when (\<lambda>m. True) content f"

text \<open>What the manuals of the systems say of the calls, for the file behind \<open>fd\<close>.\<close>

definition mmap_documented :: "('s \<Rightarrow> string) \<Rightarrow> 's unix \<Rightarrow> int \<Rightarrow> 's local_file \<Rightarrow> bool" where
  "mmap_documented content sys fd f \<longleftrightarrow>
     (\<forall>n prot s m s'. ux_Mmap sys fd 0 n prot MAP_SHARED s = ((m, None), s') \<longrightarrow>
          bit prot 0 \<longrightarrow> 0 < n \<longrightarrow> n = int (length (content s)) \<longrightarrow>
          content s' = content s \<and> lf_load f m s' = content s
          \<and> (bit prot 1 \<longrightarrow> (\<forall>b. length b = length (content s) \<longrightarrow> content (lf_store f m b s') = b)))
     \<and> (\<forall>m s s'. ux_Munmap sys m s = (None, s') \<longrightarrow> content s' = content s)"

definition views_documented :: "('s \<Rightarrow> string) \<Rightarrow> 's windows \<Rightarrow> handle \<Rightarrow> 's local_file \<Rightarrow> bool" where
  "views_documented content sys fd f \<longleftrightarrow>
     (\<forall>n prot access hi lo hi' lo' s h e s1 addr e' s2.
          wn_CreateFileMapping sys fd prot hi lo s = ((h, e), s1) \<longrightarrow> h \<noteq> 0 \<longrightarrow>
          wn_MapViewOfFile sys h access hi' lo' (word_of_int n) s1 = ((addr, e'), s2) \<longrightarrow> addr \<noteq> 0 \<longrightarrow>
          join32 hi lo = n \<longrightarrow> join32 hi' lo' = 0 \<longrightarrow> 0 < n \<longrightarrow> n = int (length (content s)) \<longrightarrow>
          (let m = \<lparr>mm_addr = addr, mm_len = n\<rparr>; s3 = wn_CloseHandle sys h s2 in
           content s3 = content s \<and> lf_load f m s3 = content s
           \<and> (prot = PAGE_READWRITE \<and> access = FILE_MAP_WRITE \<longrightarrow>
                (\<forall>b. length b = length (content s) \<longrightarrow> content (lf_store f m b s3) = b))))
     \<and> (\<forall>prot hi lo s e s1. wn_CreateFileMapping sys fd prot hi lo s = ((0, e), s1) \<longrightarrow> e \<noteq> None)
     \<and> (\<forall>addr s s'. wn_UnmapViewOfFile sys addr s = (None, s') \<longrightarrow> content s' = content s)"

lemma unix_file_simps [simp]:
  "lf_Stat (unix_file sys fd f) = lf_Stat f" "lf_Truncate (unix_file sys fd f) = lf_Truncate f"
  "lf_newMMF (unix_file sys fd f) = unix_newMMF sys fd" "lf_unmap (unix_file sys fd f) = unix_unmap sys"
  "lf_load (unix_file sys fd f) = lf_load f" "lf_store (unix_file sys fd f) = lf_store f"
  by (simp_all add: unix_file_def)

lemma windows_file_simps [simp]:
  "lf_Stat (windows_file win h f) = lf_Stat f" "lf_Truncate (windows_file win h f) = lf_Truncate f"
  "lf_newMMF (windows_file win h f) = windows_newMMF win h" "lf_unmap (windows_file win h f) = windows_unmap win"
  "lf_load (windows_file win h f) = lf_load f" "lf_store (windows_file win h f) = lf_store f"
  by (simp_all add: windows_file_def)

lemma maps_whenI:
  assumes "sizes_documented content f"
    and "\<And>s writable n m s'. lf_newMMF f writable 0 n s = ((m, None), s') \<Longrightarrow> ok m \<Longrightarrow>
          0 < n \<Longrightarrow> n < 2 ^ 63 \<Longrightarrow> n = int (length (content s)) \<Longrightarrow>
          content s' = content s \<and> lf_load f m s' = content s
          \<and> (writable \<longrightarrow> (\<forall>b. length b = length (content s) \<longrightarrow> content (lf_store f m b s') = b))"
    and "\<And>m s m' s'. lf_unmap f m s = Return (m', s') \<Longrightarrow> content s' = content s"
  shows "maps_when ok content f"
  unfolding maps_when_def
proof (intro conjI)
  show "sizes_documented content f" by (rule assms(1))
qed (intro allI impI; rule assms(2,3); assumption)+

lemma prot_bits:
  "bit PROT_READ 0" "bit (PROT_READ OR PROT_WRITE) 0" "bit (PROT_READ OR PROT_WRITE) 1"
  by (simp_all add: PROT_READ_def PROT_WRITE_def bit_simps)

lemma unix_maps:
  assumes "mmap_documented content sys fd f" and "sizes_documented content f"
  shows "maps_file content (unix_file sys fd f)"
  unfolding maps_file_def
proof (rule maps_whenI, goal_cases)
  case 1
  from assms(2) show ?case by (simp add: sizes_documented_def)
next
  case (2 s writable n m s')
  define prot where "prot = (if writable then PROT_READ OR PROT_WRITE else PROT_READ)"
  have mm: "ux_Mmap sys fd 0 n prot MAP_SHARED s = ((m, None), s')"
    using 2(1) by (simp add: unix_newMMF_def prot_def split: if_splits)
  have prot: "bit prot 0" "writable \<Longrightarrow> bit prot 1" using prot_bits by (simp_all add: prot_def)
  from assms(1) [unfolded mmap_documented_def, THEN conjunct1, rule_format, OF mm prot(1) 2(3,5)] prot(2)
  show ?case unfolding unix_file_simps by blast
next
  case (3 m s m' s')
  then have "ux_Munmap sys m s = (None, s')"
    by (auto simp: unix_unmap_def split: prod.splits option.splits)
  then show ?case by (rule assms(1) [unfolded mmap_documented_def, THEN conjunct2, rule_format])
qed

lemma windows_maps:
  assumes "views_documented content sys fd f" and "sizes_documented content f"
  shows "maps_when (\<lambda>m. mm_addr m \<noteq> 0) content (windows_file sys fd f)"
proof (rule maps_whenI, goal_cases)
  case 1
  from assms(2) show ?case by (simp add: sizes_documented_def)
next
  case (2 s writable n m s')
  define prot access where "prot = (if writable then PAGE_READWRITE else PAGE_READONLY)"
    and "access = (if writable then FILE_MAP_WRITE else FILE_MAP_READ)"
  obtain h e s1 where c: "wn_CreateFileMapping sys fd prot (high32 (word_of_int n)) (low32 (word_of_int n)) s = ((h, e), s1)"
    by (metis surj_pair)
  obtain addr e' s2 where v: "wn_MapViewOfFile sys h access (high32 0) (low32 0) (word_of_int n) s1 = ((addr, e'), s2)"
    by (metis surj_pair)
  have eq: "windows_newMMF sys fd writable 0 n s =
      (if h = 0 then ((nil_mmf, NewSyscallError ''CreateFileMapping'' e), s1)
       else ((\<lparr>mm_addr = addr, mm_len = n\<rparr>, None), wn_CloseHandle sys h s2))"
    using c v by (cases writable) (simp_all add: windows_newMMF_def prot_def access_def)
  have h: "h \<noteq> 0"
  proof
    assume "h = 0"
    with c have "e \<noteq> None"
      by (intro assms(1) [unfolded views_documented_def, THEN conjunct2, THEN conjunct1, rule_format]) simp
    with eq 2(1) \<open>h = 0\<close> show False by (auto simp: NewSyscallError_def)
  qed
  from 2(1) eq h have m: "m = \<lparr>mm_addr = addr, mm_len = n\<rparr>" "s' = wn_CloseHandle sys h s2" by simp_all
  have a: "addr \<noteq> 0" using 2(2) m(1) by simp
  have j: "join32 (high32 (word_of_int n)) (low32 (word_of_int n)) = n" "join32 (high32 0) (low32 0) = 0"
    using join_int64 [of n 0] join_int64 [of 0 0] 2(3,4) by simp_all
  note view = assms(1) [unfolded views_documented_def Let_def, THEN conjunct1, rule_format, OF c h v a j 2(3,5)]
  have "writable \<Longrightarrow> prot = PAGE_READWRITE \<and> access = FILE_MAP_WRITE" by (simp add: prot_def access_def)
  with view show ?case unfolding m windows_file_simps by blast
next
  case (3 m s m' s')
  then have "wn_UnmapViewOfFile sys (mm_addr m) s = (None, s')"
    by (auto simp: windows_unmap_def split: prod.splits option.splits if_splits)
  then show ?case by (rule assms(1) [unfolded views_documented_def, THEN conjunct2, THEN conjunct2, rule_format])
qed

text \<open>
  C30: The mappings of both systems are the file: what the manuals say of the system calls, for
  the protection, access and size that \<open>newMMF\<close> passes on, gives the contract of the transfers.
  On Unix it holds of every mapping that is returned without an error; on Windows of those whose
  address is not 0, which the code does not check (a view that the system cannot make is returned
  at address 0 and without an error).
\<close>

theorem newMMF_maps_file:
  assumes "sizes_documented content f"
  shows "(mmap_documented content unix fd f \<longrightarrow> maps_file content (unix_file unix fd f))
     \<and> (views_documented content win h f \<longrightarrow>
          maps_when (\<lambda>m. mm_addr m \<noteq> 0) content (windows_file win h f))"
  using unix_maps windows_maps assms by blast

section \<open>Transfers of local files\<close>

lemma maps_fileD:
  assumes "maps_file content f"
  shows "lf_Stat f s = Inr n \<Longrightarrow> n = int (length (content s))"
    and "0 \<le> n \<Longrightarrow> lf_Truncate f n s = (None, s') \<Longrightarrow> content s' = file_Truncate (content s) n"
    and "lf_newMMF f writable 0 n s = ((m, None), s') \<Longrightarrow> 0 < n \<Longrightarrow> n < 2 ^ 63 \<Longrightarrow> n = int (length (content s)) \<Longrightarrow>
          content s' = content s \<and> lf_load f m s' = content s
          \<and> (writable \<longrightarrow> (\<forall>b. length b = length (content s) \<longrightarrow> content (lf_store f m b s') = b))"
    and "lf_unmap f m s = Return (m', s') \<Longrightarrow> content s' = content s"
proof -
  note laws = assms [unfolded maps_file_def maps_when_def]
  show "lf_Stat f s = Inr n \<Longrightarrow> n = int (length (content s))"
    by (rule laws [THEN conjunct1, unfolded sizes_documented_def, THEN conjunct1, rule_format])
  show "0 \<le> n \<Longrightarrow> lf_Truncate f n s = (None, s') \<Longrightarrow> content s' = file_Truncate (content s) n"
    by (rule laws [THEN conjunct1, unfolded sizes_documented_def, THEN conjunct2, rule_format])
  show "lf_newMMF f writable 0 n s = ((m, None), s') \<Longrightarrow> 0 < n \<Longrightarrow> n < 2 ^ 63 \<Longrightarrow> n = int (length (content s)) \<Longrightarrow>
          content s' = content s \<and> lf_load f m s' = content s
          \<and> (writable \<longrightarrow> (\<forall>b. length b = length (content s) \<longrightarrow> content (lf_store f m b s') = b))"
    by (rule laws [THEN conjunct2, THEN conjunct1, rule_format, OF _ TrueI])
  show "lf_unmap f m s = Return (m', s') \<Longrightarrow> content s' = content s"
    by (rule laws [THEN conjunct2, THEN conjunct2, rule_format])
qed

lemma deferred_unmap_returned:
  assumes "deferred_unmap f m s r (Return x) s'" and "maps_file content f"
  shows "r = Return x" and "content s' = content s"
  using assms maps_fileD(4) [OF assms(2), of m s]
  by (auto simp: deferred_unmap_def split: exec.splits prod.splits)

lemma length_file_Truncate [simp]: "length (file_Truncate c n) = nat n"
  by (simp add: file_Truncate_def)

text \<open>
  An upload of a local file that returns nil has stored its content, and has left the local
  file as it was.
\<close>

theorem upload_file_stores:
  assumes "UploadFileToAzureFile create uploadRange f o' (s, w) (Return None) (s', w')"
    and "maps_file content f" and "creates_file create" and "writes_range uploadRange"
    and "int (length (content s)) < 2 ^ 63"
  shows "w' = content s \<and> content s' = content s"
proof -
  from assms(1) obtain sz where st: "lf_Stat f s = Inr sz"
    by (cases "lf_Stat f s") (auto simp: UploadFileToAzureFile_def)
  have sz: "sz = int (length (content s))" by (rule maps_fileD(1) [OF assms(2) st])
  show ?thesis
  proof (cases "sz = 0")
    case True
    with assms(1) st have "UploadBufferToAzureFile create uploadRange [] o' w None w'" "s' = s"
      by (auto simp: UploadFileToAzureFile_def)
    with buffer_stored [OF this(1) assms(3,4)] True sz show ?thesis by simp
  next
    case False
    with assms(1) st obtain m s1 where new: "lf_newMMF f False 0 sz s = ((m, None), s1)"
      by (cases "lf_newMMF f False 0 sz s") (auto simp: UploadFileToAzureFile_def split: option.splits)
    from maps_fileD(3) [OF assms(2) new] sz False assms(5)
    have m: "content s1 = content s" "lf_load f m s1 = content s" by simp_all
    with assms(1) st new False obtain r where
      up: "UploadBufferToAzureFile create uploadRange (content s) o' w r w'"
      and un: "deferred_unmap f m s1 (Return r) (Return None) s'"
      by (auto simp: UploadFileToAzureFile_def)
    from deferred_unmap_returned [OF un assms(2)] have "r = None" "content s' = content s1" by simp_all
    with up buffer_stored [OF _ assms(3,4), of "content s" o' w w'] assms(5) m show ?thesis by simp
  qed
qed

text \<open>
  C10: After a successful download to a local file, the local file has exactly the content of
  the remote one, whatever it held before: a longer file is cut, a shorter one extended. For
  an empty remote file the local file is emptied.
\<close>

theorem download_to_file_exact:
  assumes "DownloadAzureFileToFile (Inr (int (length F))) download (Some f) o' s (Return (Inr sz)) s'"
    and "maps_file content f" and "serves_file F download" and "int (length F) < 2 ^ 63" and "do_RangeSize o' < 2 ^ 63"
  shows "content s' = F"
proof -
  let ?n = "int (length F)"
  from assms(1) obtain n0 where st: "lf_Stat f s = Inr n0"
    by (cases "lf_Stat f s") (auto simp: DownloadAzureFileToFile_def)
  obtain e s1 where tr: "(if n0 \<noteq> ?n then lf_Truncate f ?n s else (None, s)) = (e, s1)" by fastforce
  with assms(1) st have e: "e = None" by (cases e) (auto simp: DownloadAzureFileToFile_def)
  have len: "length (content s1) = length F"
  proof (cases "n0 = ?n")
    case True
    with tr maps_fileD(1) [OF assms(2) st] show ?thesis by simp
  next
    case False
    with tr e maps_fileD(2) [OF assms(2), of ?n s s1] show ?thesis by simp
  qed
  show ?thesis
  proof (cases "length F = 0")
    case True
    then have none: "\<not> 0 < ?n" by simp
    from assms(1) have "s' = s1"
      unfolding DownloadAzureFileToFile_def option.case sum.case st tr e prod.case if_not_P [OF none] by blast
    with len True show ?thesis by simp
  next
    case False
    then have pos: "0 < ?n" by simp
    obtain m e2 s2 where new: "lf_newMMF f True 0 ?n s1 = ((m, e2), s2)" by (metis surj_pair)
    have "e2 = None" using assms(1) st tr e pos new by (cases e2) (auto simp: DownloadAzureFileToFile_def)
    with new have new: "lf_newMMF f True 0 ?n s1 = ((m, None), s2)" by simp
    have m: "lf_load f m s2 = content s1" "\<And>b. length b = length (content s1) \<Longrightarrow> content (lf_store f m b s2) = b"
      using maps_fileD(3) [OF assms(2) new pos assms(4)] len by auto
    from assms(1) st tr e pos new m(1) obtain r b where
      dl: "downloadAzureFileToBuffer (Inr ?n) download (Some ?n) (content s1) o' r b"
      and un: "deferred_unmap f m (lf_store f m b s2) r (Return (Inr sz)) s'"
      by (auto simp: DownloadAzureFileToFile_def)
    note ret = deferred_unmap_returned [OF un assms(2)]
    have "b = F" using dl [unfolded ret(1)] by (rule download_exact [OF _ assms(3-5)]) (simp_all add: len)
    with ret(2) m(2) [of b] len show ?thesis by simp
  qed
qed

section \<open>A system with one file\<close>

text \<open>
  The state is the content of the file; every mapping starts at address 1. The Windows system has
  no room for views of more than 4096 bytes.
\<close>

definition mem_file :: "string local_file" where
  "mem_file = \<lparr>lf_Stat = (\<lambda>s. Inr (int (length s))), lf_Truncate = (\<lambda>n s. (None, file_Truncate s n)),
     lf_newMMF = (\<lambda>_ _ _ s. ((nil_mmf, None), s)), lf_unmap = (\<lambda>m s. Return (m, s)),
     lf_load = (\<lambda>m s. take (nat (mm_len m)) s), lf_store = (\<lambda>m b s. b @ drop (length b) s)\<rparr>"

definition mem_unix :: "string unix" where
  "mem_unix = \<lparr>ux_Mmap = (\<lambda>fd offset n prot flags s. ((\<lparr>mm_addr = 1, mm_len = n\<rparr>, None), s)),
     ux_Munmap = (\<lambda>m s. (None, s))\<rparr>"

definition mem_windows :: "string windows" where
  "mem_windows = \<lparr>wn_CreateFileMapping = (\<lambda>fd prot hi lo s. ((7, None), s)),
     wn_MapViewOfFile = (\<lambda>h access hi lo n s. (if 4096 < n then (0, Some ''no memory'') else (1, None), s)),
     wn_CloseHandle = (\<lambda>h s. s), wn_UnmapViewOfFile = (\<lambda>addr s. (None, s))\<rparr>"

lemma mem_documented:
  "sizes_documented (\<lambda>s. s) mem_file" "mmap_documented (\<lambda>s. s) mem_unix fd mem_file"
  "views_documented (\<lambda>s. s) mem_windows h mem_file"
  by (auto simp: sizes_documented_def mem_file_def mmap_documented_def mem_unix_def views_documented_def
      mem_windows_def Let_def split: if_splits)

theorem newMMF_maps_file_witness:
  "maps_file (\<lambda>s. s) (unix_file mem_unix 3 mem_file)
   \<and> maps_when (\<lambda>m. mm_addr m \<noteq> 0) (\<lambda>s. s) (windows_file mem_windows 3 mem_file)
   \<and> windows_newMMF mem_windows 3 True 0 5 ''abcde'' = ((\<lparr>mm_addr = 1, mm_len = 5\<rparr>, None), ''abcde'')
   \<and> windows_newMMF mem_windows 3 True 0 5000 [] = ((\<lparr>mm_addr = 0, mm_len = 5000\<rparr>, None), [])"
  using newMMF_maps_file [OF mem_documented(1), of mem_unix 3 mem_windows 3] mem_documented(2,3)
  by (simp add: windows_newMMF_def mem_windows_def)

lemma mem_unix_maps: "maps_file (\<lambda>s. s) (unix_file mem_unix 3 mem_file)"
  by (rule unix_maps [OF mem_documented(2,1)])

theorem upload_file_stores_witness:
  "\<exists>w' s'. UploadFileToAzureFile good_create good_upload (unix_file mem_unix 3 mem_file) example_upload
        (''abcde'', []) (Return None) (s', w') \<and> w' = ''abcde'' \<and> s' = ''abcde''"
proof -
  obtain w' where up: "UploadBufferToAzureFile good_create good_upload ''abcde'' example_upload [] None w'"
    using good_upload_run by blast
  have un: "unix_newMMF mem_unix 3 False 0 5 ''abcde'' = ((\<lparr>mm_addr = 1, mm_len = 5\<rparr>, None), ''abcde'')"
    "unix_unmap mem_unix m s = Return (nil_mmf, s)" for m s
    by (simp_all add: unix_newMMF_def mem_unix_def unix_unmap_def)
  have run: "UploadFileToAzureFile good_create good_upload (unix_file mem_unix 3 mem_file) example_upload
      (''abcde'', []) (Return None) (''abcde'', w')"
    using up by (simp add: UploadFileToAzureFile_def mem_file_def un deferred_unmap_def)
  from upload_file_stores [OF run mem_unix_maps good_service] run show ?thesis by auto
qed

theorem download_to_file_exact_witness:
  "\<exists>s'. DownloadAzureFileToFile (Inr 2) (flaky_download ''hi'') (Some (unix_file mem_unix 3 mem_file)) example_download
       ''??tail'' (Return (Inr 2)) s' \<and> s' = ''hi''"
proof -
  have tr: "file_Truncate ''??tail'' 2 = ''??''" by code_simp
  have un: "unix_newMMF mem_unix 3 True 0 2 ''??'' = ((\<lparr>mm_addr = 1, mm_len = 2\<rparr>, None), ''??'')"
    "unix_unmap mem_unix m s = Return (nil_mmf, s)" for m s
    by (simp_all add: unix_newMMF_def mem_unix_def unix_unmap_def)
  have dl: "downloadAzureFileToBuffer (Inr 2) (flaky_download ''hi'') (Some 2) ''??'' example_download (Return (Inr 2)) ''hi''"
    using example_download_run
    by (auto simp: downloadAzureFileToBuffer_def example_download_def intro!: exI [of _ "None :: go_error option"])
  have run: "DownloadAzureFileToFile (Inr (int (length ''hi''))) (flaky_download ''hi'')
      (Some (unix_file mem_unix 3 mem_file)) example_download ''??tail'' (Return (Inr 2)) ''hi''"
    using dl
    by (auto simp: DownloadAzureFileToFile_def mem_file_def tr un deferred_unmap_def
        intro!: exI [of _ "Return (Inr 2)"] exI [of _ "''hi''"])
  from download_to_file_exact [OF run mem_unix_maps flaky_serves] run show ?thesis
    by (auto simp: example_download_def)
qed

end
