(* ===== verification/Layout.thy ===== *)
theory Layout
  imports Prelude
begin

text \<open>
  The \<open>init\<close> of zz\_generated\_models.go and the structures it compares. \<open>AccessPolicy\<close> and
  \<open>ShareProperties\<close> are written as XML through pointers to twin structures, which differ from
  them only in the types of their times; \<open>init\<close> panics when the sizes differ. The sizes are those
  of the Go compiler for a machine with words of \<open>w\<close> bytes.
\<close>

section \<open>Types and their layout\<close>

datatype go_type = Int32 | Int64 | Uint64 | StringT | Pointer go_type | Struct "go_type list"

definition round_up :: "nat \<Rightarrow> nat \<Rightarrow> nat" where
  "round_up n a = n + (a - n mod a) mod a"

fun go_align :: "nat \<Rightarrow> go_type \<Rightarrow> nat" and fields_align :: "nat \<Rightarrow> go_type list \<Rightarrow> nat" where
  "go_align w Int32 = 4"
| "go_align w Int64 = min 8 w"
| "go_align w Uint64 = min 8 w"
| "go_align w StringT = w"
| "go_align w (Pointer t) = w"
| "go_align w (Struct fs) = fields_align w fs"
| "fields_align w [] = 1"
| "fields_align w (f # fs) = max (go_align w f) (fields_align w fs)"

text \<open>\<open>fields_end\<close> is where the last of the fields ends when the first may start at \<open>off\<close>.\<close>

fun go_size :: "nat \<Rightarrow> go_type \<Rightarrow> nat" and fields_end :: "nat \<Rightarrow> nat \<Rightarrow> go_type list \<Rightarrow> nat" where
  "go_size w Int32 = 4"
| "go_size w Int64 = 8"
| "go_size w Uint64 = 8"
| "go_size w StringT = 2 * w"
| "go_size w (Pointer t) = w"
| "go_size w (Struct fs) = round_up (fields_end w 0 fs) (fields_align w fs)"
| "fields_end w off [] = off"
| "fields_end w off (f # fs) = fields_end w (round_up off (go_align w f) + go_size w f) fs"

text \<open>The basic values in a structure with their places; a pointer with what it points to.\<close>

datatype cell = Basic go_type | Target "(nat \<times> cell) list"

fun cells :: "nat \<Rightarrow> nat \<Rightarrow> go_type \<Rightarrow> (nat \<times> cell) list"
  and field_cells :: "nat \<Rightarrow> nat \<Rightarrow> nat \<Rightarrow> go_type list \<Rightarrow> (nat \<times> cell) list" where
  "cells w base (Pointer t) = [(base, Target (cells w 0 t))]"
| "cells w base (Struct fs) = field_cells w base 0 fs"
| "cells w base t = [(base, Basic t)]"
| "field_cells w base off [] = []"
| "field_cells w base off (f # fs) =
     (let at = round_up off (go_align w f) in cells w (base + at) f @ field_cells w base (at + go_size w f) fs)"

section \<open>The twins\<close>

text \<open>\<open>time.Time\<close> holds two words of time and a pointer to a location, which is opaque here.\<close>

definition time_Time :: go_type where
  "time_Time = Struct [Uint64, Int64, Pointer (Struct [])]"

definition timeRFC1123 :: go_type where "timeRFC1123 = Struct [time_Time]"
definition timeRFC3339 :: go_type where "timeRFC3339 = Struct [time_Time]"

definition AccessPolicy_type :: go_type where
  "AccessPolicy_type = Struct [Pointer time_Time, Pointer time_Time, Pointer StringT]"

definition accessPolicy_type :: go_type where
  "accessPolicy_type = Struct [Pointer timeRFC3339, Pointer timeRFC3339, Pointer StringT]"

definition ShareProperties_type :: go_type where
  "ShareProperties_type = Struct [time_Time, StringT, Int32]"

definition shareProperties_type :: go_type where
  "shareProperties_type = Struct [timeRFC1123, StringT, Int32]"

definition validateError :: "string option \<Rightarrow> unit exec" where
  "validateError err = (case err of None \<Rightarrow> Return () | Some e \<Rightarrow> Panic e)"

definition models_init :: "nat \<Rightarrow> unit exec" where
  "models_init w =
     bind_exec
       (if go_size w AccessPolicy_type \<noteq> go_size w accessPolicy_type
        then validateError (Some ''size mismatch between AccessPolicy and accessPolicy'') else Return ())
       (\<lambda>_. if go_size w ShareProperties_type \<noteq> go_size w shareProperties_type
            then validateError (Some ''size mismatch between ShareProperties and shareProperties'') else Return ())"

text \<open>
  Wrapping the only field of a structure changes neither its size nor the places in it, whatever
  the field is; so not only the sizes of the twins agree, which is what \<open>init\<close> compares, but all
  places of their contents, which is what the conversion of the pointers needs.
\<close>

lemma round_up_0 [simp]: "round_up 0 a = 0"
  by (simp add: round_up_def)

lemma round_up_1 [simp]: "round_up n (Suc 0) = n"
  by (simp add: round_up_def)

lemma dvd_round_up:
  assumes "0 < a"
  shows "a dvd round_up n a"
proof (cases "n mod a = 0")
  case True
  then show ?thesis by (simp add: round_up_def mod_eq_0_iff_dvd)
next
  case False
  have lt: "n mod a < a" using assms by simp
  have "n + (a - n mod a) = a * (n div a) + a"
    using mult_div_mod_eq [of a n] lt by linarith
  moreover have "(a - n mod a) mod a = a - n mod a" using False lt by simp
  ultimately show ?thesis by (simp add: round_up_def)
qed

lemma round_up_multiple [simp]: "0 < a \<Longrightarrow> round_up (round_up n a) a = round_up n a"
  using dvd_round_up [of a n] by (simp add: round_up_def [of "round_up n a"])

lemma fields_align_pos: "0 < fields_align w fs"
  by (induction fs) auto

lemma wrap_struct:
  "go_align w (Struct [Struct fs]) = go_align w (Struct fs)"
  "go_size w (Struct [Struct fs]) = go_size w (Struct fs)"
  "cells w base (Struct [Struct fs]) = cells w base (Struct fs)"
proof -
  have "max (fields_align w fs) (Suc 0) = fields_align w fs" using fields_align_pos [of w fs] by simp
  then show "go_align w (Struct [Struct fs]) = go_align w (Struct fs)"
    "go_size w (Struct [Struct fs]) = go_size w (Struct fs)"
    "cells w base (Struct [Struct fs]) = cells w base (Struct fs)"
    using fields_align_pos [of w fs] by simp_all
qed

lemma time_twins:
  "go_align w timeRFC1123 = go_align w time_Time" "go_size w timeRFC1123 = go_size w time_Time"
  "cells w base timeRFC1123 = cells w base time_Time" "cells w base timeRFC3339 = cells w base time_Time"
  unfolding timeRFC1123_def timeRFC3339_def time_Time_def by (rule wrap_struct)+

theorem twin_layouts:
  "cells w base AccessPolicy_type = cells w base accessPolicy_type"
  "cells w base ShareProperties_type = cells w base shareProperties_type"
  "models_init w = Return ()"
  by (simp_all add: AccessPolicy_type_def accessPolicy_type_def ShareProperties_type_def shareProperties_type_def
      models_init_def time_twins Let_def)

end
